(* ===== verification/Js_Prelude.thy ===== *)
theory Js_Prelude
  imports Main "HOL-Library.AList" "HOL-Library.Sublist" "HOL-Library.Multiset"
begin

section \<open>The part of JavaScript the panel uses\<close>

text \<open>
  The panel under \<^verbatim>\<open>src/frontend/src\<close> is TypeScript compiled with \<^verbatim>\<open>@ts-nocheck\<close>, so
  its functions rely on the run-time semantics of JavaScript: truthiness, \<^verbatim>\<open>String(x)\<close>,
  \<^verbatim>\<open>Number(x)\<close>, string methods, objects as ordered property lists, arrays and sets.
  This theory models that part once; every component theory imports it.

  \<^item> Strings are \<open>string\<close>, one \<open>char\<close> for one UTF-16 code unit below 256 (Latin-1).
    Texts of the interface written in Russian never occur as strings of the model: each one is
    a constructor of a datatype of the component that shows it.
  \<^item> Numbers are exact decimals \<open>Dec m e\<close> (the value \<open>m * 10 ^ e\<close>), \<open>NaN\<close> and
    the two infinities; the rounding of doubles beyond 15 digits is not modelled.
  \<^item> Objects are association lists in insertion order, as \<^verbatim>\<open>Object.keys\<close> lists them.
\<close>

named_theorems js_eval \<open>equations that evaluate JavaScript primitives on literals\<close>
named_theorems js_obj \<open>laws of property access, update and deletion\<close>

subsection \<open>Strings\<close>

definition code_of :: "char \<Rightarrow> nat" where
  "code_of c = of_char c"

lemma code_of_lt [simp]: "code_of c < 256"
  by (simp add: code_of_def)

lemma code_of_not_ge [simp]: "\<not> 256 \<le> code_of c"
  by (simp add: not_le)

definition is_space :: "char \<Rightarrow> bool" where
  "is_space c \<longleftrightarrow> code_of c \<in> {9, 10, 11, 12, 13, 32, 160}"

abbreviation LF :: char where "LF \<equiv> CHR 0x0A"
abbreviation CR :: char where "CR \<equiv> CHR 0x0D"

definition is_digit :: "char \<Rightarrow> bool" where
  "is_digit c \<longleftrightarrow> 48 \<le> code_of c \<and> code_of c \<le> 57"

text \<open>\<^verbatim>\<open>s.trim()\<close>\<close>

definition js_trim :: "string \<Rightarrow> string" where
  "js_trim s = rev (dropWhile is_space (rev (dropWhile is_space s)))"

text \<open>\<^verbatim>\<open>s.split(d)\<close> for a separator of one character: never the empty list.\<close>

fun js_split :: "char \<Rightarrow> string \<Rightarrow> string list" where
  "js_split d [] = [[]]"
| "js_split d (c # cs) =
     (if c = d then [] # js_split d cs
      else (case js_split d cs of [] \<Rightarrow> [[c]] | p # ps \<Rightarrow> (c # p) # ps))"

text \<open>\<^verbatim>\<open>xs.join(sep)\<close>\<close>

fun js_join :: "string \<Rightarrow> string list \<Rightarrow> string" where
  "js_join sep [] = []"
| "js_join sep [x] = x"
| "js_join sep (x # y # xs) = x @ sep @ js_join sep (y # xs)"

definition js_starts_with :: "string \<Rightarrow> string \<Rightarrow> bool" where
  "js_starts_with s p \<longleftrightarrow> take (length p) s = p"

text \<open>\<^verbatim>\<open>s.includes(q)\<close>\<close>

fun js_includes :: "string \<Rightarrow> string \<Rightarrow> bool" where
  "js_includes [] q = (q = [])"
| "js_includes (c # cs) q = (js_starts_with (c # cs) q \<or> js_includes cs q)"

definition lower_char :: "char \<Rightarrow> char" where
  "lower_char c = (let n = code_of c in
     if 65 \<le> n \<and> n \<le> 90 \<or> 192 \<le> n \<and> n \<le> 222 \<and> n \<noteq> 215 then char_of (n + 32) else c)"

definition js_lower :: "string \<Rightarrow> string" where
  "js_lower s = map lower_char s"

definition upper_char :: "char \<Rightarrow> string" where
  "upper_char c = (let n = code_of c in
     if n = 223 then ''SS''
     else if 97 \<le> n \<and> n \<le> 122 \<or> 224 \<le> n \<and> n \<le> 254 \<and> n \<noteq> 247 then [char_of (n - 32)]
     else [c])"

text \<open>
  \<^verbatim>\<open>s.toUpperCase()\<close>; the two letters whose capital is not Latin-1 (code units 181 and
  255) stay as they are.
\<close>

definition js_upper :: "string \<Rightarrow> string" where
  "js_upper s = concat (map upper_char s)"

text \<open>\<^verbatim>\<open>xs.filter(Boolean)\<close> on strings.\<close>

abbreviation non_empty :: "string list \<Rightarrow> string list" where
  "non_empty xs \<equiv> filter (\<lambda>x. x \<noteq> []) xs"

text \<open>\<^verbatim>\<open>x || y\<close> on strings.\<close>

definition js_or :: "string \<Rightarrow> string \<Rightarrow> string" where
  "js_or x y = (if x = [] then y else x)"

lemma js_or_simps [simp]: "js_or [] y = y" "x \<noteq> [] \<Longrightarrow> js_or x y = x" "js_or x [] = x"
  by (simp_all add: js_or_def)

lemma js_trim_Nil [simp]: "js_trim [] = []"
  by (simp add: js_trim_def)

lemma dropWhile_rev_dropWhile_fix:
  "dropWhile P (rev (dropWhile P (rev (dropWhile P s)))) = rev (dropWhile P (rev (dropWhile P s)))"
proof -
  let ?t = "dropWhile P s"
  have pre: "\<exists>zs. ?t = rev (dropWhile P (rev ?t)) @ zs"
    by (metis rev_append rev_rev_ident takeWhile_dropWhile_id)
  show ?thesis
  proof (cases "rev (dropWhile P (rev ?t))")
    case (Cons a as)
    with pre have "\<exists>zs. ?t = a # as @ zs" by auto
    then have "\<not> P a" by (metis dropWhile_eq_Cons_conv)
    with Cons show ?thesis by simp
  next
    case Nil
    then show ?thesis by (simp only: Nil dropWhile.simps)
  qed
qed

lemma js_trim_trim [simp]: "js_trim (js_trim s) = js_trim s"
  by (simp add: js_trim_def dropWhile_rev_dropWhile_fix)

lemma js_trim_id: "(s = [] \<or> \<not> is_space (hd s) \<and> \<not> is_space (last s)) \<Longrightarrow> js_trim s = s"
  using dropWhile_eq_self_iff [of is_space s] dropWhile_eq_self_iff [of is_space "rev s"]
  by (auto simp: js_trim_def hd_rev)

lemma js_trim_trimmed: "js_trim s = [] \<or> \<not> is_space (hd (js_trim s)) \<and> \<not> is_space (last (js_trim s))"
proof (cases "js_trim s = []")
  case False
  then have ne: "rev (dropWhile is_space (rev (dropWhile is_space s))) \<noteq> []"
    by (simp add: js_trim_def)
  have "\<not> is_space (last (js_trim s))"
    using ne by (simp add: js_trim_def last_rev hd_dropWhile)
  moreover have "\<not> is_space (hd (js_trim s))"
    using False dropWhile_rev_dropWhile_fix [of is_space s]
    by (metis hd_dropWhile js_trim_def)
  ultimately show ?thesis by simp
qed simp

lemma js_trim_iff: "js_trim s = s \<longleftrightarrow> (s = [] \<or> \<not> is_space (hd s) \<and> \<not> is_space (last s))"
  using js_trim_id js_trim_trimmed by metis

lemma set_js_trim: "set (js_trim s) \<subseteq> set s"
  by (auto simp: js_trim_def dest!: set_dropWhileD)

lemma js_split_not_Nil [simp]: "js_split d s \<noteq> []"
  by (induction d s rule: js_split.induct) (auto split: list.splits)

lemma js_split_no_sep: "d \<notin> set s \<Longrightarrow> js_split d s = [s]"
  by (induction d s rule: js_split.induct) auto

lemma js_split_append: "d \<notin> set p \<Longrightarrow> js_split d (p @ d # s) = p # js_split d s"
  by (induction p) (auto simp: js_split_not_Nil split: list.splits)

lemma js_split_parts: "p \<in> set (js_split d s) \<Longrightarrow> d \<notin> set p"
  by (induction d s arbitrary: p rule: js_split.induct) (auto split: list.splits if_splits)

lemma js_split_join:
  "xs \<noteq> [] \<Longrightarrow> \<forall>x\<in>set xs. d \<notin> set x \<Longrightarrow> js_split d (js_join [d] xs) = xs"
  by (induction "[d]" xs rule: js_join.induct) (auto simp: js_split_no_sep js_split_append)

lemma js_join_split: "js_join [d] (js_split d s) = s"
proof (induction d s rule: js_split.induct)
  case (2 d c cs)
  obtain p ps where sp: "js_split d cs = p # ps" by (meson js_split_not_Nil neq_Nil_conv)
  with 2 show ?case by (cases ps) auto
qed simp

lemma js_join_map_Nil: "js_join sep [] = []"
  by simp

subsection \<open>Decimal numerals\<close>

fun digits_value :: "nat \<Rightarrow> string \<Rightarrow> nat" where
  "digits_value acc [] = acc"
| "digits_value acc (c # cs) = digits_value (10 * acc + (code_of c - 48)) cs"

fun nat_string :: "nat \<Rightarrow> string" where
  "nat_string n = (if n < 10 then [char_of (48 + n)] else nat_string (n div 10) @ [char_of (48 + n mod 10)])"

declare nat_string.simps [simp del]

definition int_string :: "int \<Rightarrow> string" where
  "int_string i = (if i < 0 then CHR ''-'' # nat_string (nat (- i)) else nat_string (nat i))"

lemma code_of_char_of: "n < 256 \<Longrightarrow> code_of (char_of n) = n"
  by (simp add: code_of_def)

lemma digits_value_append: "digits_value a (xs @ ys) = digits_value (digits_value a xs) ys"
  by (induction a xs rule: digits_value.induct) auto

lemma digits_value_nat_string: "digits_value 0 (nat_string n) = n"
proof (induction n rule: nat_string.induct)
  case (1 n)
  show ?case
  proof (cases "n < 10")
    case True
    then show ?thesis by (simp add: nat_string.simps [of n] code_of_char_of)
  next
    case False
    with 1 show ?thesis
      by (simp add: nat_string.simps [of n] digits_value_append code_of_char_of)
  qed
qed

lemma nat_string_digits: "\<forall>c\<in>set (nat_string n). is_digit c"
proof (induction n rule: nat_string.induct)
  case (1 n)
  then show ?case
    by (cases "n < 10") (auto simp: nat_string.simps [of n] is_digit_def code_of_char_of)
qed

lemma nat_string_not_Nil [simp]: "nat_string n \<noteq> []"
  by (subst nat_string.simps) simp

lemma nat_string_inj: "nat_string m = nat_string n \<longleftrightarrow> m = n"
  by (metis digits_value_nat_string)

subsection \<open>Numbers\<close>

datatype jsnum = NaN | Infinity | NegInfinity | Dec int int

text \<open>Decimals are kept with the least mantissa, so equal values are equal terms.\<close>

function mk_dec :: "int \<Rightarrow> int \<Rightarrow> jsnum" where
  "mk_dec m e = (if m = 0 then Dec 0 0 else if m mod 10 = 0 then mk_dec (m div 10) (e + 1) else Dec m e)"
  by pat_completeness auto
termination
  by (relation "measure (\<lambda>(m, e). nat \<bar>m\<bar>)") auto

declare mk_dec.simps [simp del]

abbreviation num_of_int :: "int \<Rightarrow> jsnum" where
  "num_of_int i \<equiv> mk_dec i 0"

lemma mk_dec_value: "m \<noteq> 0 \<Longrightarrow> \<exists>a b. mk_dec m e = Dec a b \<and> e \<le> b \<and> a * 10 ^ nat (b - e) = m"
proof (induction m e rule: mk_dec.induct)
  case (1 m e)
  show ?case
  proof (cases "m mod 10 = 0")
    case True
    then have "m div 10 \<noteq> 0" using 1(2) by auto
    then obtain a b where ab: "mk_dec (m div 10) (e + 1) = Dec a b" "e + 1 \<le> b" "a * 10 ^ nat (b - (e + 1)) = m div 10"
      using 1 True by blast
    have "nat (b - e) = Suc (nat (b - (e + 1)))" using ab(2) by simp
    then have "a * 10 ^ nat (b - e) = 10 * (m div 10)" using ab(3) by simp
    also have "\<dots> = m" using True by auto
    finally show ?thesis using ab True 1(2) by (subst mk_dec.simps) auto
  next
    case False
    then show ?thesis using 1(2) by (subst mk_dec.simps) auto
  qed
qed

fun js_finite :: "jsnum \<Rightarrow> bool" where
  "js_finite (Dec m e) = True"
| "js_finite _ = False"

text \<open>\<^verbatim>\<open>Math.trunc\<close>: towards zero.\<close>

fun js_trunc :: "jsnum \<Rightarrow> jsnum" where
  "js_trunc (Dec m e) =
     (if 0 \<le> e then Dec m e else mk_dec (sgn m * (\<bar>m\<bar> div 10 ^ nat (- e))) 0)"
| "js_trunc x = x"

text \<open>\<^verbatim>\<open>String(n)\<close> for a finite number, as ECMAScript's Number::toString lays digits out.\<close>

definition dec_string :: "int \<Rightarrow> int \<Rightarrow> string" where
  "dec_string m e =
     (let ds = nat_string (nat \<bar>m\<bar>); k = int (length ds); n = k + e;
          body =
            (if k \<le> n \<and> n \<le> 21 then ds @ replicate (nat e) (CHR ''0'')
             else if 0 < n \<and> n \<le> 21 then take (nat n) ds @ ''.'' @ drop (nat n) ds
             else if - 6 < n \<and> n \<le> 0 then ''0.'' @ replicate (nat (- n)) (CHR ''0'') @ ds
             else (let x = n - 1; ex = ''e'' @ (if x < 0 then ''-'' else ''+'') @ nat_string (nat \<bar>x\<bar>)
                   in if length ds = 1 then ds @ ex else take 1 ds @ ''.'' @ drop 1 ds @ ex))
      in if m < 0 then CHR ''-'' # body else body)"

fun num_string :: "jsnum \<Rightarrow> string" where
  "num_string NaN = ''NaN''"
| "num_string Infinity = ''Infinity''"
| "num_string NegInfinity = ''-Infinity''"
| "num_string (Dec m e) = dec_string m e"

text \<open>
  \<^verbatim>\<open>Number(s)\<close>: the text is trimmed; the empty text is 0; otherwise it is a decimal literal
  with an optional sign, fraction and exponent, a signed \<^verbatim>\<open>Infinity\<close>, or an unsigned literal of
  base 2, 8 or 16; anything else is \<open>NaN\<close>.
\<close>

definition exponent_of :: "string \<Rightarrow> int option" where
  "exponent_of r = (case r of [] \<Rightarrow> Some 0
     | c # r1 \<Rightarrow>
         if c = CHR ''e'' \<or> c = CHR ''E'' then
           (let neg = (r1 \<noteq> [] \<and> hd r1 = CHR ''-'');
                ds = (if r1 \<noteq> [] \<and> (hd r1 = CHR ''-'' \<or> hd r1 = CHR ''+'') then tl r1 else r1)
            in if ds \<noteq> [] \<and> list_all is_digit ds
               then Some ((if neg then - 1 else 1) * int (digits_value 0 ds)) else None)
         else None)"

definition unsigned_decimal :: "string \<Rightarrow> (int \<times> int) option" where
  "unsigned_decimal s =
     (let ip = takeWhile is_digit s; r1 = dropWhile is_digit s;
          fp = (case r1 of c # r \<Rightarrow> if c = CHR ''.'' then takeWhile is_digit r else [] | [] \<Rightarrow> []);
          r2 = (case r1 of c # r \<Rightarrow> if c = CHR ''.'' then dropWhile is_digit r else r1 | [] \<Rightarrow> [])
      in if ip = [] \<and> fp = [] then None
         else map_option (\<lambda>ex. (int (digits_value 0 (ip @ fp)), ex - int (length fp))) (exponent_of r2))"

definition radix_digit :: "char \<Rightarrow> nat option" where
  "radix_digit c = (let n = code_of c in
     if is_digit c then Some (n - 48)
     else if 97 \<le> n \<and> n \<le> 102 then Some (n - 87)
     else if 65 \<le> n \<and> n \<le> 70 then Some (n - 55) else None)"

fun radix_value :: "nat \<Rightarrow> nat \<Rightarrow> string \<Rightarrow> nat option" where
  "radix_value b acc [] = Some acc"
| "radix_value b acc (c # cs) =
     (case radix_digit c of None \<Rightarrow> None
      | Some d \<Rightarrow> if d < b then radix_value b (b * acc + d) cs else None)"

definition radix_literal :: "string \<Rightarrow> nat option" where
  "radix_literal s = (case s of a # c # ds \<Rightarrow>
       if a \<noteq> CHR ''0'' \<or> ds = [] then None
       else if c = CHR ''x'' \<or> c = CHR ''X'' then radix_value 16 0 ds
       else if c = CHR ''o'' \<or> c = CHR ''O'' then radix_value 8 0 ds
       else if c = CHR ''b'' \<or> c = CHR ''B'' then radix_value 2 0 ds
       else None
     | _ \<Rightarrow> None)"

definition number_of_string :: "string \<Rightarrow> jsnum" where
  "number_of_string s =
     (let t = js_trim s;
          neg = (t \<noteq> [] \<and> hd t = CHR ''-'');
          u = (if t \<noteq> [] \<and> (hd t = CHR ''-'' \<or> hd t = CHR ''+'') then tl t else t)
      in if t = [] then Dec 0 0
         else if u = ''Infinity'' then (if neg then NegInfinity else Infinity)
         else case unsigned_decimal u of
                Some (m, e) \<Rightarrow> mk_dec (if neg then - m else m) e
              | None \<Rightarrow> (case radix_literal t of Some n \<Rightarrow> mk_dec (int n) 0 | None \<Rightarrow> NaN))"

text \<open>\<^verbatim>\<open>parseInt(s, 10)\<close>: the longest prefix of digits, \<open>None\<close> for \<open>NaN\<close>.\<close>

definition parse_int :: "string \<Rightarrow> int option" where
  "parse_int s =
     (let t = dropWhile is_space s;
          neg = (t \<noteq> [] \<and> hd t = CHR ''-'');
          u = (if t \<noteq> [] \<and> (hd t = CHR ''-'' \<or> hd t = CHR ''+'') then tl t else t);
          ds = takeWhile is_digit u
      in if ds = [] then None else Some ((if neg then - 1 else 1) * int (digits_value 0 ds)))"

subsection \<open>Values\<close>

datatype jsval =
    JUndef
  | JNull
  | JBool bool
  | JNum jsnum
  | JStr string
  | JArr "jsval list"
  | JObj "(string \<times> jsval) list"

type_synonym jsobj = "(string \<times> jsval) list"

fun truthy :: "jsval \<Rightarrow> bool" where
  "truthy JUndef = False"
| "truthy JNull = False"
| "truthy (JBool b) = b"
| "truthy (JNum n) = (n \<noteq> NaN \<and> n \<noteq> Dec 0 0)"
| "truthy (JStr s) = (s \<noteq> [])"
| "truthy (JArr xs) = True"
| "truthy (JObj ps) = True"

text \<open>\<^verbatim>\<open>String(x)\<close>; inside an array \<^verbatim>\<open>null\<close> and \<^verbatim>\<open>undefined\<close> print as nothing.\<close>

fun to_str :: "jsval \<Rightarrow> string" where
  "to_str JUndef = ''undefined''"
| "to_str JNull = ''null''"
| "to_str (JBool b) = (if b then ''true'' else ''false'')"
| "to_str (JNum n) = num_string n"
| "to_str (JStr s) = s"
| "to_str (JArr xs) = js_join '','' (map (\<lambda>x. if x = JUndef \<or> x = JNull then [] else to_str x) xs)"
| "to_str (JObj ps) = ''[object Object]''"

text \<open>\<^verbatim>\<open>Number(x)\<close>\<close>

fun to_num :: "jsval \<Rightarrow> jsnum" where
  "to_num JUndef = NaN"
| "to_num JNull = Dec 0 0"
| "to_num (JBool b) = (if b then Dec 1 0 else Dec 0 0)"
| "to_num (JNum n) = n"
| "to_num (JStr s) = number_of_string s"
| "to_num (JArr xs) = number_of_string (to_str (JArr xs))"
| "to_num (JObj ps) = NaN"

text \<open>\<^verbatim>\<open>String(x || "")\<close> and \<^verbatim>\<open>String(x ?? "")\<close>\<close>

definition str_or :: "jsval \<Rightarrow> string" where
  "str_or v = (if truthy v then to_str v else [])"

definition str_nullish :: "jsval \<Rightarrow> string" where
  "str_nullish v = (if v = JUndef \<or> v = JNull then [] else to_str v)"

lemma str_or_JStr [simp]: "str_or (JStr s) = s" "str_or JUndef = []" "str_or JNull = []"
  by (simp_all add: str_or_def)

lemma str_nullish_JStr [simp]: "str_nullish (JStr s) = s" "str_nullish JUndef = []" "str_nullish JNull = []"
  by (simp_all add: str_nullish_def)

subsection \<open>Objects\<close>

text \<open>
  Property access, as an interface: what reading gives after a write or a deletion, and which
  properties an object owns. The laws are all a client needs; the components use them through
  the interpretation on association lists below.
\<close>

locale js_object =
  fixes get :: "'o \<Rightarrow> 'k \<Rightarrow> 'v"
    and has :: "'o \<Rightarrow> 'k \<Rightarrow> bool"
    and put :: "'o \<Rightarrow> 'k \<Rightarrow> 'v \<Rightarrow> 'o"
    and del :: "'o \<Rightarrow> 'k \<Rightarrow> 'o"
    and undef :: 'v
  assumes get_put: "get (put ob k v) k' = (if k' = k then v else get ob k')"
    and get_del: "get (del ob k) k' = (if k' = k then undef else get ob k')"
    and has_put: "has (put ob k v) k' = (k' = k \<or> has ob k')"
    and has_del: "has (del ob k) k' = (k' \<noteq> k \<and> has ob k')"
    and get_absent: "\<not> has ob k \<Longrightarrow> get ob k = undef"
begin

lemma has_fold_del: "has (fold (\<lambda>k ob. del ob k) ks ob) k \<longleftrightarrow> k \<notin> set ks \<and> has ob k"
  by (induction ks arbitrary: ob) (auto simp: has_del)

lemma get_fold_del: "get (fold (\<lambda>k ob. del ob k) ks ob) k = (if k \<in> set ks then undef else get ob k)"
  by (induction ks arbitrary: ob) (auto simp: get_del)

lemma fold_frame:
  assumes "\<And>x ob. x \<in> set xs \<Longrightarrow> get (f x ob) k = get ob k \<and> has (f x ob) k = has ob k"
  shows "get (fold f xs ob) k = get ob k \<and> has (fold f xs ob) k = has ob k"
  using assms by (induction xs arbitrary: ob) auto

lemma fold_last_writer:
  assumes "x \<in> set xs" and "distinct (map key xs)"
    and frame: "\<And>y ob. y \<in> set xs \<Longrightarrow> key y \<noteq> key x \<Longrightarrow> get (f y ob) (key x) = get ob (key x) \<and> has (f y ob) (key x) = has ob (key x)"
    and local: "\<And>ob ob'. get ob (key x) = get ob' (key x) \<Longrightarrow> has ob (key x) = has ob' (key x) \<Longrightarrow>
        get (f x ob) (key x) = get (f x ob') (key x) \<and> has (f x ob) (key x) = has (f x ob') (key x)"
  shows "get (fold f xs ob) (key x) = get (f x ob) (key x) \<and> has (fold f xs ob) (key x) = has (f x ob) (key x)"
proof -
  from assms(1) obtain ys zs where xs: "xs = ys @ x # zs" by (meson split_list)
  with assms(2) have ne: "key y \<noteq> key x" if "y \<in> set ys \<union> set zs" for y
    using that by (auto simp: image_iff)
  have pre: "get (fold f ys ob) (key x) = get ob (key x) \<and> has (fold f ys ob) (key x) = has ob (key x)"
    by (rule fold_frame) (use xs ne frame in auto)
  have post: "get (fold f zs ob') (key x) = get ob' (key x) \<and> has (fold f zs ob') (key x) = has ob' (key x)" for ob'
    by (rule fold_frame) (use xs ne frame in auto)
  show ?thesis using pre post local [of "fold f ys ob" ob] by (simp add: xs)
qed

end

definition obj_has :: "jsobj \<Rightarrow> string \<Rightarrow> bool" where
  "obj_has ob k \<longleftrightarrow> k \<in> set (map fst ob)"

definition obj_get :: "jsobj \<Rightarrow> string \<Rightarrow> jsval" where
  "obj_get ob k = (case map_of ob k of None \<Rightarrow> JUndef | Some v \<Rightarrow> v)"

definition obj_put :: "jsobj \<Rightarrow> string \<Rightarrow> jsval \<Rightarrow> jsobj" where
  "obj_put ob k v = AList.update k v ob"

definition obj_del :: "jsobj \<Rightarrow> string \<Rightarrow> jsobj" where
  "obj_del ob k = AList.delete k ob"

text \<open>\<^verbatim>\<open>{...a, ...b}\<close>\<close>

definition obj_spread :: "jsobj \<Rightarrow> jsobj \<Rightarrow> jsobj" where
  "obj_spread a b = fold (\<lambda>(k, v) ob. obj_put ob k v) b a"

interpretation alist: js_object obj_get obj_has obj_put obj_del JUndef
proof
  fix ob k k' v
  show "obj_get (obj_put ob k v) k' = (if k' = k then v else obj_get ob k')"
    by (simp add: obj_get_def obj_put_def update_conv')
  show "obj_get (obj_del ob k) k' = (if k' = k then JUndef else obj_get ob k')"
    by (simp add: obj_get_def obj_del_def delete_conv')
  show "obj_has (obj_put ob k v) k' = (k' = k \<or> obj_has ob k')"
    by (simp add: obj_has_def obj_put_def update_conv' flip: dom_map_of_conv_image_fst)
  show "obj_has (obj_del ob k) k' = (k' \<noteq> k \<and> obj_has ob k')"
    by (auto simp add: obj_has_def obj_del_def delete_keys)
  show "\<not> obj_has ob k \<Longrightarrow> obj_get ob k = JUndef"
    by (auto simp: obj_get_def obj_has_def image_iff dest!: map_of_SomeD split: option.splits)
qed

lemmas alist_laws [js_obj] = alist.get_put alist.get_del alist.has_put alist.has_del

lemma obj_put_same: "obj_has ob k \<Longrightarrow> distinct (map fst ob) \<Longrightarrow> obj_put ob k (obj_get ob k) = ob"
  by (induction ob) (auto simp: obj_has_def obj_get_def obj_put_def)

lemma obj_del_absent: "\<not> obj_has ob k \<Longrightarrow> obj_del ob k = ob"
  by (simp add: obj_has_def obj_del_def delete_id)

lemma obj_distinct [simp]:
  "distinct (map fst ob) \<Longrightarrow> distinct (map fst (obj_put ob k v))"
  "distinct (map fst ob) \<Longrightarrow> distinct (map fst (obj_del ob k))"
  by (simp_all add: obj_put_def obj_del_def distinct_update distinct_delete)

lemma obj_empty [simp]: "obj_get [] k = JUndef" "\<not> obj_has [] k"
  by (simp_all add: obj_get_def obj_has_def)

lemma get_spread: "distinct (map fst b) \<Longrightarrow> obj_get (obj_spread a b) k = (if obj_has b k then obj_get b k else obj_get a k)"
proof (induction b arbitrary: a)
  case Nil
  then show ?case by (simp add: obj_spread_def obj_has_def)
next
  case (Cons p b)
  obtain k' v where p: "p = (k', v)" by (cases p)
  from Cons.prems have "distinct (map fst b)" "\<not> obj_has b k'" by (auto simp: p obj_has_def)
  moreover have "obj_has (p # b) k \<longleftrightarrow> k = k' \<or> obj_has b k" "obj_get (p # b) k = (if k = k' then v else obj_get b k)"
    by (auto simp: p obj_has_def obj_get_def)
  moreover have "obj_spread a (p # b) = obj_spread (obj_put a k' v) b" by (simp add: p obj_spread_def)
  ultimately show ?case using Cons.IH [of "obj_put a k' v"] by (simp add: js_obj)
qed

lemma has_spread: "obj_has (obj_spread a b) k \<longleftrightarrow> obj_has a k \<or> obj_has b k"
proof (induction b arbitrary: a)
  case (Cons p b)
  obtain k' v where p: "p = (k', v)" by (cases p)
  have "obj_spread a (p # b) = obj_spread (obj_put a k' v) b" by (simp add: p obj_spread_def)
  moreover have "obj_has (p # b) k \<longleftrightarrow> k = k' \<or> obj_has b k" by (auto simp: p obj_has_def)
  ultimately show ?case using Cons.IH [of "obj_put a k' v"] by (auto simp: alist.has_put)
qed (simp add: obj_spread_def obj_has_def)

lemma distinct_spread: "distinct (map fst a) \<Longrightarrow> distinct (map fst (obj_spread a b))"
  by (induction b arbitrary: a) (auto simp: obj_spread_def)

lemma obj_get_Cons: "obj_get ((k', v) # ob) k = (if k = k' then v else obj_get ob k)"
  by (simp add: obj_get_def)

subsection \<open>Sets and results\<close>

text \<open>
  A computation that may throw is a value of \<open>error + 'a\<close>; \<open>NotLatin1\<close> is no exception
  of the program, it marks an input whose decoded text leaves the strings of the model.
\<close>

datatype js_error = URIError | TypeError | NotLatin1

type_synonym 'a result = "js_error + 'a"

definition res_bind :: "'a result \<Rightarrow> ('a \<Rightarrow> 'b result) \<Rightarrow> 'b result" where
  "res_bind m f = (case m of Inl e \<Rightarrow> Inl e | Inr x \<Rightarrow> f x)"

lemma res_bind_simps [simp]: "res_bind (Inl e) f = Inl e" "res_bind (Inr x) f = f x"
  by (simp_all add: res_bind_def)

lemma res_bind_Inr_iff: "res_bind m f = Inr y \<longleftrightarrow> (\<exists>x. m = Inr x \<and> f x = Inr y)"
  by (cases m) auto

lemma res_bind_Inl_iff: "res_bind m f = Inl e \<longleftrightarrow> m = Inl e \<or> (\<exists>x. m = Inr x \<and> f x = Inl e)"
  by (cases m) auto

text \<open>\<^verbatim>\<open>[...new Set(xs)]\<close>: the first occurrence of each element, in order.\<close>

definition js_unique :: "'a list \<Rightarrow> 'a list" where
  "js_unique xs = rev (remdups (rev xs))"

lemma set_js_unique [simp]: "set (js_unique xs) = set xs"
  by (simp add: js_unique_def)

lemma distinct_js_unique [simp]: "distinct (js_unique xs)"
  by (simp add: js_unique_def)

lemma js_unique_id: "distinct xs \<Longrightarrow> js_unique xs = xs"
  by (simp add: js_unique_def distinct_remdups_id)

lemma js_unique_Nil_iff [simp]: "js_unique xs = [] \<longleftrightarrow> xs = []"
  by (metis set_empty set_js_unique)

text \<open>A property of the value of a computation, where it returns one.\<close>

definition res_all :: "('a \<Rightarrow> bool) \<Rightarrow> 'a result \<Rightarrow> bool" where
  "res_all P m \<longleftrightarrow> (\<forall>x. m = Inr x \<longrightarrow> P x)"

lemma res_all_Inr: "P x \<Longrightarrow> res_all P (Inr x)"
  by (simp add: res_all_def)

lemma res_all_bind: "(\<And>x. m = Inr x \<Longrightarrow> res_all P (f x)) \<Longrightarrow> res_all P (res_bind m f)"
  by (auto simp: res_all_def res_bind_Inr_iff)

lemma res_all_if: "res_all P x \<Longrightarrow> res_all P y \<Longrightarrow> res_all P (if b then x else y)"
  by simp

lemma res_all_cases: "(b \<Longrightarrow> res_all P x) \<Longrightarrow> (\<not> b \<Longrightarrow> res_all P y) \<Longrightarrow> res_all P (if b then x else y)"
  by simp

lemmas res_all_intros = res_all_if res_all_bind res_all_Inr

lemma res_allD: "res_all P m \<Longrightarrow> m = Inr x \<Longrightarrow> P x"
  by (simp add: res_all_def)

text \<open>
  \<^verbatim>\<open>list.find(p) || null\<close> and \<^verbatim>\<open>findIndex\<close>.
\<close>

fun find_index :: "('a \<Rightarrow> bool) \<Rightarrow> 'a list \<Rightarrow> nat option" where
  "find_index P [] = None"
| "find_index P (x # xs) = (if P x then Some 0 else map_option Suc (find_index P xs))"

lemma find_index_Some:
  "find_index P xs = Some i \<longleftrightarrow> i < length xs \<and> P (xs ! i) \<and> (\<forall>j<i. \<not> P (xs ! j))"
proof (induction xs arbitrary: i)
  case (Cons x xs)
  then show ?case by (cases i) (auto simp: less_Suc_eq_0_disj)
qed simp

lemma find_index_None: "find_index P xs = None \<longleftrightarrow> (\<forall>x\<in>set xs. \<not> P x)"
  by (induction xs) auto

subsection \<open>Sorting with a comparator\<close>

text \<open>
  \<^verbatim>\<open>xs.sort(cmp)\<close> is a stable sort; for a comparator that is a total preorder every stable sort gives
  the same list, which insertion sort computes. \<^verbatim>\<open>localeCompare\<close> is such a comparator of the ICU
  library and stays a parameter wherever the code sorts by it.
\<close>

definition total_preorder :: "('a \<Rightarrow> 'a \<Rightarrow> int) \<Rightarrow> bool" where
  "total_preorder cmp \<longleftrightarrow>
     (\<forall>x y. cmp x y \<le> 0 \<or> cmp y x \<le> 0) \<and> (\<forall>x y z. cmp x y \<le> 0 \<longrightarrow> cmp y z \<le> 0 \<longrightarrow> cmp x z \<le> 0)"

fun insert_by :: "('a \<Rightarrow> 'a \<Rightarrow> int) \<Rightarrow> 'a \<Rightarrow> 'a list \<Rightarrow> 'a list" where
  "insert_by cmp x [] = [x]"
| "insert_by cmp x (y # ys) = (if cmp x y \<le> 0 then x # y # ys else y # insert_by cmp x ys)"

definition js_sort :: "('a \<Rightarrow> 'a \<Rightarrow> int) \<Rightarrow> 'a list \<Rightarrow> 'a list" where
  "js_sort cmp xs = foldr (insert_by cmp) xs []"

lemma js_sort_simps [simp]: "js_sort cmp [] = []" "js_sort cmp (x # xs) = insert_by cmp x (js_sort cmp xs)"
  by (simp_all add: js_sort_def)

lemma mset_insert_by: "mset (insert_by cmp x ys) = add_mset x (mset ys)"
  by (induction ys) auto

lemma mset_js_sort [simp]: "mset (js_sort cmp xs) = mset xs"
  by (induction xs) (simp_all add: mset_insert_by)

lemma set_js_sort [simp]: "set (js_sort cmp xs) = set xs"
  by (metis mset_js_sort set_mset_mset)

lemma length_js_sort [simp]: "length (js_sort cmp xs) = length xs"
  by (metis mset_js_sort size_mset)

lemma distinct_js_sort [simp]: "distinct (js_sort cmp xs) = distinct xs"
  by (metis mset_js_sort mset_eq_imp_distinct_iff)

lemma sorted_insert_by:
  assumes "total_preorder cmp" and "sorted_wrt (\<lambda>a b. cmp a b \<le> 0) ys"
  shows "sorted_wrt (\<lambda>a b. cmp a b \<le> 0) (insert_by cmp x ys)"
proof -
  have set: "set (insert_by cmp x zs) = insert x (set zs)" for zs
    by (metis mset_insert_by set_mset_add_mset_insert set_mset_mset)
  from assms(2) show ?thesis
  proof (induction ys)
    case (Cons y ys)
    show ?case
    proof (cases "cmp x y \<le> 0")
      case True
      have "cmp x z \<le> 0" if "z \<in> set ys" for z
        using Cons.prems that True assms(1) unfolding total_preorder_def by (meson sorted_wrt.simps(2))
      with True Cons.prems show ?thesis by simp
    next
      case False
      then have "cmp y x \<le> 0" using assms(1) unfolding total_preorder_def by meson
      with False Cons show ?thesis by (auto simp: set)
    qed
  qed simp
qed

lemma sorted_js_sort: "total_preorder cmp \<Longrightarrow> sorted_wrt (\<lambda>a b. cmp a b \<le> 0) (js_sort cmp xs)"
  by (induction xs) (simp_all add: sorted_insert_by)

lemma insert_by_stable:
  "filter P (insert_by cmp x ys) = (if P x then x # filter P ys else filter P ys)"
  if "\<And>y. P x \<Longrightarrow> P y \<Longrightarrow> cmp x y \<le> 0"
  using that by (induction ys) auto

text \<open>Elements that compare equal keep their order.\<close>

lemma js_sort_stable:
  "(\<And>x y. P x \<Longrightarrow> P y \<Longrightarrow> cmp x y \<le> 0) \<Longrightarrow> filter P (js_sort cmp xs) = filter P xs"
  by (induction xs) (simp_all add: insert_by_stable)

lemma insert_by_cong:
  "(\<And>y. y \<in> set ys \<Longrightarrow> (cmp x y \<le> 0) = (cmp' x y \<le> 0)) \<Longrightarrow> insert_by cmp x ys = insert_by cmp' x ys"
  by (induction ys) simp_all

lemma js_sort_cong:
  "(\<And>x y. x \<in> set xs \<Longrightarrow> y \<in> set xs \<Longrightarrow> (cmp x y \<le> 0) = (cmp' x y \<le> 0)) \<Longrightarrow> js_sort cmp xs = js_sort cmp' xs"
proof (induction xs)
  case (Cons x xs)
  have "insert_by cmp x (js_sort cmp' xs) = insert_by cmp' x (js_sort cmp' xs)"
    by (rule insert_by_cong) (simp add: Cons.prems)
  then show ?case using Cons by simp
qed simp

end
