(* ===== verification/Uri.thy ===== *)
theory Uri
  imports Js_Prelude
begin

section \<open>URI components and query strings\<close>

text \<open>
  \<^verbatim>\<open>encodeURIComponent\<close>, \<^verbatim>\<open>decodeURIComponent\<close> and \<^verbatim>\<open>URLSearchParams\<close>, which
  \<^verbatim>\<open>src/frontend/src/appRoutes.ts\<close> and every request path of \<^verbatim>\<open>App.tsx\<close> rely on. They
  belong to the language and to the URL standard; the lemmas at the end are the round trips the
  routes need.
\<close>

subsection \<open>Bytes and escapes\<close>

definition is_alnum :: "char \<Rightarrow> bool" where
  "is_alnum c \<longleftrightarrow> (let n = code_of c in
     48 \<le> n \<and> n \<le> 57 \<or> 65 \<le> n \<and> n \<le> 90 \<or> 97 \<le> n \<and> n \<le> 122)"

definition uri_unreserved :: "char \<Rightarrow> bool" where
  "uri_unreserved c \<longleftrightarrow> is_alnum c \<or> code_of c \<in> {45, 95, 46, 33, 126, 42, 39, 40, 41}"

definition form_unreserved :: "char \<Rightarrow> bool" where
  "form_unreserved c \<longleftrightarrow> is_alnum c \<or> code_of c \<in> {42, 45, 46, 95}"

definition hex_digit :: "nat \<Rightarrow> char" where
  "hex_digit n = char_of (if n < 10 then 48 + n else 55 + n)"

definition hex_val :: "char \<Rightarrow> nat option" where
  "hex_val c = (let n = code_of c in
     if 48 \<le> n \<and> n \<le> 57 then Some (n - 48)
     else if 65 \<le> n \<and> n \<le> 70 then Some (n - 55)
     else if 97 \<le> n \<and> n \<le> 102 then Some (n - 87) else None)"

definition pct :: "nat \<Rightarrow> string" where
  "pct b = [CHR ''%'', hex_digit (b div 16), hex_digit (b mod 16)]"

definition utf8 :: "char \<Rightarrow> nat list" where
  "utf8 c = (let n = code_of c in if n < 128 then [n] else [192 + n div 64, 128 + n mod 64])"

definition escape :: "(char \<Rightarrow> bool) \<Rightarrow> char \<Rightarrow> string" where
  "escape safe c = (if safe c then [c] else concat (map pct (utf8 c)))"

definition encodeURIComponent :: "string \<Rightarrow> string" where
  "encodeURIComponent s = concat (map (escape uri_unreserved) s)"

definition form_escape :: "char \<Rightarrow> string" where
  "form_escape c = (if c = CHR '' '' then ''+'' else escape form_unreserved c)"

definition form_encode :: "string \<Rightarrow> string" where
  "form_encode s = concat (map form_escape s)"

subsection \<open>decodeURIComponent\<close>

fun take_byte :: "string \<Rightarrow> (nat \<times> string) option" where
  "take_byte (p # a # b # r) =
     (if p = CHR ''%'' then
        (case (hex_val a, hex_val b) of (Some x, Some y) \<Rightarrow> Some (16 * x + y, r) | _ \<Rightarrow> None)
      else None)"
| "take_byte _ = None"

fun take_conts :: "nat \<Rightarrow> string \<Rightarrow> (nat list \<times> string) option" where
  "take_conts 0 s = Some ([], s)"
| "take_conts (Suc n) s =
     (case take_byte s of None \<Rightarrow> None
      | Some (b, r) \<Rightarrow>
          if 128 \<le> b \<and> b < 192
          then map_option (\<lambda>(bs, r'). ((b - 128) # bs, r')) (take_conts n r) else None)"

definition cont_count :: "nat \<Rightarrow> nat option" where
  "cont_count b = (if 192 \<le> b \<and> b < 224 then Some 1
     else if 224 \<le> b \<and> b < 240 then Some 2
     else if 240 \<le> b \<and> b < 248 then Some 3 else None)"

definition code_point :: "nat \<Rightarrow> nat list \<Rightarrow> nat" where
  "code_point b cs = foldl (\<lambda>v c. 64 * v + c) (b mod 2 ^ (6 - length cs)) cs"

text \<open>Overlong forms, surrogates and values above 0x10FFFF are no UTF-8.\<close>

definition valid_point :: "nat \<Rightarrow> nat \<Rightarrow> bool" where
  "valid_point k v \<longleftrightarrow>
     (k = 1 \<and> 128 \<le> v) \<or> (k = 2 \<and> 2048 \<le> v \<and> \<not> (55296 \<le> v \<and> v < 57344)) \<or>
     (k = 3 \<and> 65536 \<le> v \<and> v < 1114112)"

lemma take_byte_shorter: "take_byte s = Some (b, r) \<Longrightarrow> length r < length s"
  by (induction s rule: take_byte.induct) (auto split: option.splits if_splits)

lemma take_conts_shorter: "take_conts n s = Some (bs, r) \<Longrightarrow> length r \<le> length s"
  by (induction n s arbitrary: bs r rule: take_conts.induct)
     (fastforce dest: take_byte_shorter split: option.splits if_splits prod.splits)+

function decodeURIComponent :: "string \<Rightarrow> string result" where
  "decodeURIComponent s =
     (case s of [] \<Rightarrow> Inr []
      | c # cs \<Rightarrow>
          if c \<noteq> CHR ''%'' then res_bind (decodeURIComponent cs) (\<lambda>t. Inr (c # t))
          else (case take_byte s of None \<Rightarrow> Inl URIError
            | Some (b, r) \<Rightarrow>
                if b < 128 then res_bind (decodeURIComponent r) (\<lambda>t. Inr (char_of b # t))
                else (case cont_count b of None \<Rightarrow> Inl URIError
                  | Some k \<Rightarrow>
                      (case take_conts k r of None \<Rightarrow> Inl URIError
                       | Some (bs, r') \<Rightarrow>
                           if \<not> valid_point k (code_point b bs) then Inl URIError
                           else if 256 \<le> code_point b bs then Inl NotLatin1
                           else res_bind (decodeURIComponent r') (\<lambda>t. Inr (char_of (code_point b bs) # t))))))"
  by pat_completeness auto
termination
  by (relation "measure length") (fastforce dest: take_byte_shorter take_conts_shorter)+

declare decodeURIComponent.simps [simp del]

subsection \<open>URLSearchParams\<close>

fun pct_bytes :: "string \<Rightarrow> nat list" where
  "pct_bytes [] = []"
| "pct_bytes (c # cs) =
     (if c = CHR ''%'' then
        (case take_byte (c # cs) of Some (b, r) \<Rightarrow> b # pct_bytes (drop 2 cs) | None \<Rightarrow> 37 # pct_bytes cs)
      else utf8 c @ pct_bytes cs)"

text \<open>
  Lossy UTF-8 decoding: a malformed sequence becomes U+FFFD, which like every code point above
  255 is outside the model, hence \<open>None\<close>.
\<close>

fun utf8_text :: "nat list \<Rightarrow> string option" where
  "utf8_text [] = Some []"
| "utf8_text (b # bs) =
     (if b < 128 then map_option (Cons (char_of b)) (utf8_text bs)
      else (case bs of c # cs \<Rightarrow>
              if (b = 194 \<or> b = 195) \<and> 128 \<le> c \<and> c < 192
              then map_option (Cons (char_of ((b - 192) * 64 + (c - 128)))) (utf8_text cs) else None
            | [] \<Rightarrow> None))"

definition plus_space :: "char \<Rightarrow> char" where
  "plus_space c = (if c = CHR ''+'' then CHR '' '' else c)"

definition form_decode :: "string \<Rightarrow> string option" where
  "form_decode s = utf8_text (pct_bytes (map plus_space s))"

definition split_pair :: "string \<Rightarrow> string \<times> string" where
  "split_pair s = (takeWhile (\<lambda>c. c \<noteq> CHR ''='') s, drop 1 (dropWhile (\<lambda>c. c \<noteq> CHR ''='') s))"

definition search_params :: "string \<Rightarrow> (string option \<times> string option) list" where
  "search_params search =
     (let q = (case search of c # r \<Rightarrow> if c = CHR ''?'' then r else search | [] \<Rightarrow> [])
      in map (\<lambda>p. (form_decode (fst (split_pair p)), form_decode (snd (split_pair p))))
             (non_empty (js_split (CHR ''&'') q)))"

text \<open>\<^verbatim>\<open>sp.get(name)\<close>: the first value under the name, \<open>None\<close> for \<^verbatim>\<open>null\<close>.\<close>

definition sp_get :: "(string option \<times> string option) list \<Rightarrow> string \<Rightarrow> string option result" where
  "sp_get ps name = (case find (\<lambda>p. fst p = Some name) ps of None \<Rightarrow> Inr None
     | Some (_, None) \<Rightarrow> Inl NotLatin1 | Some (_, Some v) \<Rightarrow> Inr (Some v))"

text \<open>\<^verbatim>\<open>new URLSearchParams()\<close> with one pair set, as a string.\<close>

definition one_param :: "string \<Rightarrow> string \<Rightarrow> string" where
  "one_param k v = form_encode k @ ''='' @ form_encode v"

subsection \<open>Round trips\<close>

lemma hex_val_digit: "n < 16 \<Longrightarrow> hex_val (hex_digit n) = Some n"
  by (auto simp: hex_val_def hex_digit_def code_of_char_of Let_def)

lemma take_byte_pct: "b < 256 \<Longrightarrow> take_byte (pct b @ r) = Some (b, r)"
  by (simp add: pct_def hex_val_digit)

lemma utf8_bytes: "b \<in> set (utf8 c) \<Longrightarrow> b < 256"
proof -
  assume b: "b \<in> set (utf8 c)"
  have "code_of c < 4096" by (rule less_trans [OF code_of_lt]) simp
  then have "code_of c div 64 < 64" by (simp add: div_less_iff_less_mult)
  then show ?thesis using b code_of_lt [of c] by (auto simp: utf8_def Let_def split: if_splits)
qed

lemma code_of_inverse [simp]: "char_of (code_of c) = c"
  by (simp add: code_of_def)

lemma code_of_eq_iff: "code_of c = code_of d \<longleftrightarrow> c = d"
  by (metis code_of_inverse)

lemma safe_neq_pct: "uri_unreserved c \<Longrightarrow> c \<noteq> CHR ''%''" "form_unreserved c \<Longrightarrow> c \<noteq> CHR ''%''"
  by (auto simp: uri_unreserved_def form_unreserved_def is_alnum_def code_of_def Let_def)

lemma two_byte_point:
  assumes "128 \<le> n" and "n < 256"
  shows "code_point (192 + n div 64) [n mod 64] = n" and "valid_point 1 n" and "cont_count (192 + n div 64) = Some 1"
    and "192 + n div 64 \<in> {194, 195}"
proof -
  have d: "n div 64 = 2 \<or> n div 64 = 3" using assms by auto
  have "128 + n mod 64 = n" if e: "n div 64 = 2" using div_mult_mod_eq [of n 64, unfolded e] by simp
  moreover have "192 + n mod 64 = n" if e: "n div 64 = 3" using div_mult_mod_eq [of n 64, unfolded e] by simp
  ultimately show "code_point (192 + n div 64) [n mod 64] = n"
    using d by (auto simp: code_point_def)
  show "valid_point 1 n" using assms by (simp add: valid_point_def)
  show "cont_count (192 + n div 64) = Some 1" using d by (auto simp: cont_count_def)
  show "192 + n div 64 \<in> {194, 195}" using d by auto
qed

lemma decode_escape:
  "decodeURIComponent (escape uri_unreserved c @ r) = res_bind (decodeURIComponent r) (\<lambda>t. Inr (c # t))"
proof -
  consider (safe) "uri_unreserved c" | (ascii) "\<not> uri_unreserved c" "code_of c < 128"
    | (high) "\<not> uri_unreserved c" "\<not> code_of c < 128" by blast
  then show ?thesis
  proof cases
    case safe
    then show ?thesis
      by (simp add: escape_def decodeURIComponent.simps [of "c # r"] safe_neq_pct)
  next
    case ascii
    then have e: "escape uri_unreserved c @ r = pct (code_of c) @ r" by (simp add: escape_def utf8_def)
    have "take_byte (pct (code_of c) @ r) = Some (code_of c, r)" by (simp add: take_byte_pct)
    then show ?thesis using ascii
      by (simp add: e decodeURIComponent.simps [of "pct (code_of c) @ r"]) (simp add: pct_def)
  next
    case high
    let ?b = "192 + code_of c div 64" and ?k = "128 + code_of c mod 64"
    have n: "128 \<le> code_of c" "code_of c < 256" using high by auto
    from high have e: "escape uri_unreserved c @ r = pct ?b @ pct ?k @ r" by (simp add: escape_def utf8_def Let_def)
    have b: "?b < 256" "?k < 256" using two_byte_point(4) [OF n] by auto
    have t: "take_byte (pct ?b @ pct ?k @ r) = Some (?b, pct ?k @ r)" "take_byte (pct ?k @ r) = Some (?k, r)"
      using b by (simp_all only: take_byte_pct)
    have k: "take_conts 1 (pct ?k @ r) = Some ([code_of c mod 64], r)"
      using t(2) by (simp add: One_nat_def)
    show ?thesis using two_byte_point [OF n] n t k
      by (simp add: e decodeURIComponent.simps [of "pct ?b @ pct ?k @ r"]) (simp add: pct_def)
  qed
qed

lemma decode_encode: "decodeURIComponent (encodeURIComponent s) = Inr s"
  by (induction s) (simp_all add: encodeURIComponent_def decode_escape decodeURIComponent.simps [of "[]"])

lemma pct_bytes_pct: "b < 256 \<Longrightarrow> pct_bytes (map plus_space (pct b) @ r) = b # pct_bytes r"
proof -
  assume b: "b < 256"
  have h: "plus_space (hex_digit n) = hex_digit n" if "n < 16" for n
    using hex_val_digit [OF that] by (auto simp: plus_space_def hex_val_def code_of_def split: if_splits)
  have "map plus_space (pct b) @ r = pct b @ r"
    using b h [of "b div 16"] h [of "b mod 16"] by (simp add: pct_def plus_space_def)
  then show ?thesis using b take_byte_pct [OF b, of r] by (simp add: pct_def)
qed

lemma pct_bytes_escape:
  assumes "\<And>c. safe c \<Longrightarrow> c \<noteq> CHR ''%'' \<and> c \<noteq> CHR ''+''"
  shows "pct_bytes (map plus_space (escape safe c) @ r) = utf8 c @ pct_bytes r"
proof (cases "safe c")
  case True
  then show ?thesis using assms [OF True] by (simp add: escape_def plus_space_def)
next
  case False
  have "pct_bytes (map plus_space (concat (map pct bs)) @ r) = bs @ pct_bytes r"
    if "\<forall>b\<in>set bs. b < 256" for bs
    using that by (induction bs) (simp_all add: pct_bytes_pct)
  with False utf8_bytes show ?thesis by (simp add: escape_def)
qed

lemma utf8_text_utf8: "utf8_text (utf8 c @ bs) = map_option (Cons c) (utf8_text bs)"
proof (cases "code_of c < 128")
  case True
  then show ?thesis by (simp add: utf8_def)
next
  case False
  then have n: "128 \<le> code_of c" "code_of c < 256" by auto
  then have "64 * (code_of c div 64) + code_of c mod 64 = code_of c" by simp
  with two_byte_point(4) [OF n] show ?thesis
    using False n by (auto simp: utf8_def Let_def mult.commute)
qed

lemma form_decode_concat:
  assumes "\<And>c r. pct_bytes (map plus_space (f c) @ r) = utf8 c @ pct_bytes r"
  shows "form_decode (concat (map f s)) = Some s"
proof -
  have "pct_bytes (map plus_space (concat (map f s))) = concat (map utf8 s)"
    by (induction s) (simp_all add: assms)
  moreover have "utf8_text (concat (map utf8 s)) = Some s"
    by (induction s) (simp_all add: utf8_text_utf8)
  ultimately show ?thesis by (simp add: form_decode_def)
qed

lemma form_decode_encodeURI: "form_decode (encodeURIComponent s) = Some s"
  unfolding encodeURIComponent_def
  by (rule form_decode_concat, rule pct_bytes_escape)
     (auto simp: uri_unreserved_def is_alnum_def code_of_def Let_def)

lemma form_decode_encode: "form_decode (form_encode s) = Some s"
  unfolding form_encode_def
proof (rule form_decode_concat)
  fix c r
  have "pct_bytes (map plus_space (escape form_unreserved c) @ r) = utf8 c @ pct_bytes r"
    by (rule pct_bytes_escape) (auto simp: form_unreserved_def is_alnum_def code_of_def Let_def)
  then show "pct_bytes (map plus_space (form_escape c) @ r) = utf8 c @ pct_bytes r"
    by (auto simp: form_escape_def plus_space_def utf8_def code_of_def)
qed

subsection \<open>Which characters an encoded text holds\<close>

lemma hex_digit_alnum: "n < 16 \<Longrightarrow> is_alnum (hex_digit n)"
proof -
  assume n: "n < 16"
  then have "code_of (hex_digit n) = (if n < 10 then 48 + n else 55 + n)"
    by (simp add: hex_digit_def code_of_char_of)
  with n show ?thesis by (simp add: is_alnum_def)
qed

lemma pct_chars: "b < 256 \<Longrightarrow> c \<in> set (pct b) \<Longrightarrow> c = CHR ''%'' \<or> is_alnum c"
  by (auto simp: pct_def hex_digit_alnum)

lemma escape_chars: "c \<in> set (escape safe d) \<Longrightarrow> safe c \<or> c = CHR ''%'' \<or> is_alnum c"
  using pct_chars utf8_bytes [of _ d] by (fastforce simp: escape_def split: if_splits)

lemma encodeURI_chars:
  "c \<in> set (encodeURIComponent s) \<Longrightarrow> uri_unreserved c \<or> c = CHR ''%''"
  using escape_chars [of c uri_unreserved] by (auto simp: encodeURIComponent_def uri_unreserved_def)

lemma encodeURI_special:
  "CHR ''/'' \<notin> set (encodeURIComponent s)" "CHR ''?'' \<notin> set (encodeURIComponent s)"
  "CHR ''&'' \<notin> set (encodeURIComponent s)" "CHR ''='' \<notin> set (encodeURIComponent s)"
  by (auto dest!: encodeURI_chars simp: uri_unreserved_def is_alnum_def code_of_def Let_def)

lemma form_encode_special:
  "CHR ''&'' \<notin> set (form_encode s)" "CHR ''='' \<notin> set (form_encode s)"
proof -
  have "c \<in> set (form_encode s) \<Longrightarrow> form_unreserved c \<or> c = CHR ''%'' \<or> c = CHR ''+''" for c
    using escape_chars [of c form_unreserved]
    by (auto simp: form_encode_def form_escape_def form_unreserved_def split: if_splits)
  then show "CHR ''&'' \<notin> set (form_encode s)" "CHR ''='' \<notin> set (form_encode s)"
    by (fastforce simp: form_unreserved_def is_alnum_def code_of_def Let_def)+
qed

lemma encodeURI_Nil_iff [simp]: "encodeURIComponent s = [] \<longleftrightarrow> s = []"
  by (metis Inr_inject decode_encode concat.simps(1) encodeURIComponent_def list.map(1))

lemma encodeURI_inj: "encodeURIComponent s = encodeURIComponent t \<longleftrightarrow> s = t"
  by (metis Inr_inject decode_encode)

lemma split_pair_eq: "CHR ''='' \<notin> set k \<Longrightarrow> split_pair (k @ ''='' @ v) = (k, v)"
  by (induction k) (auto simp: split_pair_def)

lemma sp_get_one_param:
  "sp_get (search_params (CHR ''?'' # one_param k v)) k = Inr (Some v)"
proof -
  have amp: "CHR ''&'' \<notin> set (one_param k v)"
    using form_encode_special(1) by (simp add: one_param_def)
  have "split_pair (one_param k v) = (form_encode k, form_encode v)"
    unfolding one_param_def by (rule split_pair_eq) (rule form_encode_special(2))
  moreover have "one_param k v \<noteq> []" by (simp add: one_param_def)
  ultimately show ?thesis using amp
    by (simp add: search_params_def js_split_no_sep sp_get_def form_decode_encode)
qed

lemma sp_get_other_param:
  "k' \<noteq> k \<Longrightarrow> sp_get (search_params (CHR ''?'' # one_param k v)) k' = Inr None"
proof -
  assume ne: "k' \<noteq> k"
  have amp: "CHR ''&'' \<notin> set (one_param k v)"
    using form_encode_special(1) by (simp add: one_param_def)
  have "split_pair (one_param k v) = (form_encode k, form_encode v)"
    unfolding one_param_def by (rule split_pair_eq) (rule form_encode_special(2))
  moreover have "one_param k v \<noteq> []" by (simp add: one_param_def)
  ultimately show ?thesis using amp ne
    by (simp add: search_params_def js_split_no_sep sp_get_def form_decode_encode)
qed

lemma sp_get_Nil [simp]: "sp_get (search_params []) k = Inr None"
  by (simp add: search_params_def sp_get_def)

text \<open>Parameters written by hand, with the value through \<^verbatim>\<open>encodeURIComponent\<close>.\<close>

definition plain_name :: "string \<Rightarrow> bool" where
  "plain_name k \<longleftrightarrow> k \<noteq> [] \<and> list_all is_alnum k"

lemma plain_name_clean:
  "plain_name k \<Longrightarrow> CHR ''='' \<notin> set k \<and> CHR ''&'' \<notin> set k"
  by (auto simp: plain_name_def list_all_iff is_alnum_def code_of_def)

lemma form_decode_plain: "list_all is_alnum k \<Longrightarrow> form_decode k = Some k"
proof -
  assume a: "list_all is_alnum k"
  have "form_encode k = k"
    using a by (induction k)
      (auto simp: form_encode_def form_escape_def escape_def form_unreserved_def is_alnum_def code_of_def)
  then show ?thesis using form_decode_encode [of k] by simp
qed

lemma split_pair_hand: "plain_name k \<Longrightarrow> split_pair (k @ ''='' @ v) = (k, v)"
  using plain_name_clean by (intro split_pair_eq) blast

lemma search_params_hand:
  assumes "plain_name k"
  shows "search_params (CHR ''?'' # k @ ''='' @ encodeURIComponent v) = [(Some k, Some v)]"
proof -
  have "CHR ''&'' \<notin> set (k @ ''='' @ encodeURIComponent v)"
    using plain_name_clean [OF assms] encodeURI_special(3) [of v] by auto
  then have "js_split (CHR ''&'') (k @ ''='' @ encodeURIComponent v) = [k @ ''='' @ encodeURIComponent v]"
    by (rule js_split_no_sep)
  moreover have "form_decode k = Some k" using assms by (simp add: plain_name_def form_decode_plain)
  ultimately show ?thesis using split_pair_hand [OF assms, of "encodeURIComponent v"]
    by (simp add: search_params_def form_decode_encodeURI)
qed

lemma search_params_hand_cons:
  assumes "plain_name k" and "list_all is_alnum w \<or> form_decode w = Some w" and "CHR ''&'' \<notin> set w"
  shows "search_params (CHR ''?'' # k @ ''='' @ w @ ''&'' @ rest) = (Some k, Some w) # search_params (CHR ''?'' # rest)"
proof -
  have sep: "CHR ''&'' \<notin> set (k @ ''='' @ w)"
    using plain_name_clean [OF assms(1)] assms(3) by auto
  have "js_split (CHR ''&'') (k @ ''='' @ w @ ''&'' @ rest) = (k @ ''='' @ w) # js_split (CHR ''&'') rest"
    using js_split_append [OF sep, of rest] by simp
  moreover have "form_decode k = Some k" "form_decode w = Some w"
    using assms by (auto simp: plain_name_def form_decode_plain)
  ultimately show ?thesis using split_pair_hand [OF assms(1), of w]
    by (simp add: search_params_def)
qed

end
