(* ===== verification/Routes.thy ===== *)
theory Routes
  imports Uri
begin

section \<open>Routes of the panel\<close>

text \<open>
  \<^verbatim>\<open>src/frontend/src/appRoutes.ts\<close>: the page state read from the address
  (\<open>parseAppRoute\<close>) and the addresses the panel navigates to (the fields of
  \<^verbatim>\<open>paths\<close>, here \<open>paths_home\<close>, \<open>paths_serverDetail\<close>, \<dots>). The JavaScript sets of
  allowed tabs are lists used through membership only. \<open>parseAppRoute\<close> throws where
  \<^verbatim>\<open>decodeURIComponent\<close> throws, so its result is an \<open>error + route\<close>.
\<close>

subsection \<open>Tabs and sections\<close>

definition SERVER_TABS :: "string list" where
  "SERVER_TABS = [''overview'', ''agent'', ''monitoring'', ''sessions'', ''certificates'', ''ca-center'',
     ''keys'', ''settings'', ''firewall'', ''service'', ''services'', ''dns'', ''journal'']"

definition USER_TABS :: "string list" where
  "USER_TABS = [''overview'', ''sessions'', ''certs'', ''vpn'', ''ccd'', ''firewall'']"

definition ORGANIZATION_TABS :: "string list" where
  "ORGANIZATION_TABS = [''overview'', ''firewall'']"

definition LOGS_VIEWS :: "string list" where
  "LOGS_VIEWS = [''vpn-ip'', ''source-ip'', ''admin'']"

definition DOCUMENTATION_SECTIONS :: "string list" where
  "DOCUMENTATION_SECTIONS = [''intro'', ''concepts'', ''interface'', ''servers'', ''working-with-node'',
     ''dns-firewall'', ''users-organizations'', ''logs-tasks'', ''panel-settings'', ''agent-security'',
     ''troubleshooting'']"

lemmas tab_sets = SERVER_TABS_def USER_TABS_def ORGANIZATION_TABS_def LOGS_VIEWS_def
  DOCUMENTATION_SECTIONS_def

record route =
  primaryNav :: string
  serversView :: string
  selectedServerId :: string
  serverDetailTab :: string
  serverCenterCertId :: string
  organizationsView :: string
  organizationEditId :: string
  organizationEditTab :: string
  usersSub :: string
  selectedUserId :: string
  userProfileTab :: string
  caRootWizard :: "string option"
  selectedRootCaId :: string
  selectedCertId :: string
  rootCaProfileTab :: string
  certProfileTab :: string
  adminsPage :: string
  selectedAdminId :: string
  tasksView :: string
  logsView :: string
  docsSection :: string
  settingsSection :: string
  inviteAdminToken :: string
  resetAdminPasswordToken :: string

definition opt_str :: "string option \<Rightarrow> string" where
  "opt_str v = (case v of None \<Rightarrow> [] | Some s \<Rightarrow> s)"

lemma opt_str_simps [simp]: "opt_str None = []" "opt_str (Some s) = s"
  by (simp_all add: opt_str_def)

definition pickTab :: "string option \<Rightarrow> string list \<Rightarrow> string \<Rightarrow> string" where
  "pickTab value allowed fallback =
     (let v = js_trim (opt_str value) in if v \<in> set allowed then v else fallback)"

definition withQuery :: "string \<Rightarrow> string \<Rightarrow> string \<Rightarrow> string \<Rightarrow> string" where
  "withQuery base tabKey tabVal defaultTab =
     (if tabVal = [] \<or> tabVal = defaultTab then base else base @ ''?'' @ one_param tabKey tabVal)"

subsection \<open>Reading the address\<close>

text \<open>\<^verbatim>\<open>pathname.replace(/\\/+$/, "") || "/"\<close>, then \<^verbatim>\<open>split("/").filter(Boolean)\<close>\<close>

definition strip_slashes :: "string \<Rightarrow> string" where
  "strip_slashes p = rev (dropWhile (\<lambda>c. c = CHR ''/'') (rev p))"

definition path_segments :: "string \<Rightarrow> string list" where
  "path_segments pathname = non_empty (js_split (CHR ''/'') (js_or (strip_slashes pathname) ''/''))"

definition seg_is :: "string list \<Rightarrow> nat \<Rightarrow> string \<Rightarrow> bool" where
  "seg_is seg i s \<longleftrightarrow> i < length seg \<and> seg ! i = s"

definition base_route :: route where
  "base_route = \<lparr>
     primaryNav = ''servers'', serversView = ''list'', selectedServerId = [], serverDetailTab = ''overview'',
     serverCenterCertId = [], organizationsView = ''list'', organizationEditId = [],
     organizationEditTab = ''overview'', usersSub = ''list'', selectedUserId = [], userProfileTab = ''overview'',
     caRootWizard = None, selectedRootCaId = [], selectedCertId = [], rootCaProfileTab = ''overview'',
     certProfileTab = ''overview'', adminsPage = ''list'', selectedAdminId = [], tasksView = ''list'',
     logsView = ''vpn-ip'', docsSection = ''intro'', settingsSection = ''admins'', inviteAdminToken = [],
     resetAdminPasswordToken = []\<rparr>"

definition parseAppRoute :: "string \<Rightarrow> string \<Rightarrow> route result" where
  "parseAppRoute pathname search =
    (let sp = search_params search; seg = path_segments pathname; base = base_route in
     if seg_is seg 0 ''reset-admin-password'' then
       res_bind (sp_get sp ''token'') (\<lambda>t.
         Inr (base\<lparr>primaryNav := ''resetAdminPassword'', resetAdminPasswordToken := opt_str t\<rparr>))
     else if seg_is seg 0 ''invite-admin'' then
       res_bind (sp_get sp ''token'') (\<lambda>t.
         Inr (base\<lparr>primaryNav := ''inviteAdmin'', inviteAdminToken := opt_str t\<rparr>))
     else if length seg = 1 \<and> seg_is seg 0 ''profile'' then Inr (base\<lparr>primaryNav := ''myProfile''\<rparr>)
     else if length seg = 0 \<or> length seg = 1 \<and> seg_is seg 0 ''servers'' then
       Inr (base\<lparr>primaryNav := ''servers'', serversView := ''list''\<rparr>)
     else if seg_is seg 0 ''servers'' \<and> seg_is seg 1 ''new'' then
       Inr (base\<lparr>primaryNav := ''servers'', serversView := ''add''\<rparr>)
     else if seg_is seg 0 ''servers'' \<and> length seg \<ge> 2 then
       res_bind (decodeURIComponent (seg ! 1)) (\<lambda>i.
       res_bind (sp_get sp ''tab'') (\<lambda>t.
       res_bind (sp_get sp ''certId'') (\<lambda>c.
         Inr (base\<lparr>primaryNav := ''servers'', serversView := ''detail'', selectedServerId := i,
           serverDetailTab := pickTab t SERVER_TABS ''overview'', serverCenterCertId := opt_str c\<rparr>))))
     else if seg_is seg 0 ''organizations'' \<and> length seg = 1 then
       Inr (base\<lparr>primaryNav := ''organizations'', organizationsView := ''list''\<rparr>)
     else if seg_is seg 0 ''organizations'' \<and> seg_is seg 1 ''new'' then
       Inr (base\<lparr>primaryNav := ''organizations'', organizationsView := ''add''\<rparr>)
     else if seg_is seg 0 ''organizations'' \<and> length seg \<ge> 3 \<and> seg_is seg 2 ''edit'' then
       res_bind (decodeURIComponent (seg ! 1)) (\<lambda>i.
       res_bind (sp_get sp ''tab'') (\<lambda>t.
         Inr (base\<lparr>primaryNav := ''organizations'', organizationsView := ''edit'', organizationEditId := i,
           organizationEditTab := pickTab t ORGANIZATION_TABS ''overview''\<rparr>)))
     else if seg_is seg 0 ''users'' \<and> length seg = 1 then
       Inr (base\<lparr>primaryNav := ''users'', usersSub := ''list''\<rparr>)
     else if seg_is seg 0 ''users'' \<and> seg_is seg 1 ''new'' then
       Inr (base\<lparr>primaryNav := ''users'', usersSub := ''add''\<rparr>)
     else if seg_is seg 0 ''users'' then
       res_bind (decodeURIComponent (seg ! 1)) (\<lambda>i.
       res_bind (sp_get sp ''tab'') (\<lambda>t.
         Inr (base\<lparr>primaryNav := ''users'', usersSub := ''profile'', selectedUserId := i,
           userProfileTab := pickTab t USER_TABS ''overview''\<rparr>)))
     else if seg_is seg 0 ''ca'' then Inr (base\<lparr>primaryNav := ''servers'', serversView := ''list''\<rparr>)
     else if seg_is seg 0 ''settings'' then
       (if seg_is seg 1 ''profile'' then Inr (base\<lparr>primaryNav := ''myProfile''\<rparr>)
        else if seg_is seg 1 ''backup'' then
          Inr (base\<lparr>primaryNav := ''settings'', settingsSection := ''backup'', adminsPage := ''list'', selectedAdminId := []\<rparr>)
        else if seg_is seg 1 ''restore'' then
          Inr (base\<lparr>primaryNav := ''settings'', settingsSection := ''restore'', adminsPage := ''list'', selectedAdminId := []\<rparr>)
        else if length seg \<ge> 3 \<and> seg_is seg 1 ''admins'' then
          (if seg_is seg 2 ''new'' then
             Inr (base\<lparr>primaryNav := ''settings'', settingsSection := ''admins'', adminsPage := ''list'', selectedAdminId := []\<rparr>)
           else res_bind (decodeURIComponent (seg ! 2)) (\<lambda>i.
             Inr (base\<lparr>primaryNav := ''settings'', settingsSection := ''admins'', adminsPage := ''detail'', selectedAdminId := i\<rparr>)))
        else Inr (base\<lparr>primaryNav := ''settings'', settingsSection := ''admins'', adminsPage := ''list'', selectedAdminId := []\<rparr>))
     else if seg_is seg 0 ''logs'' then
       res_bind (sp_get sp ''tab'') (\<lambda>t.
         Inr (base\<lparr>primaryNav := ''logs'', logsView := pickTab t LOGS_VIEWS ''vpn-ip''\<rparr>))
     else if seg_is seg 0 ''tasks'' then Inr (base\<lparr>primaryNav := ''tasks'', tasksView := ''list''\<rparr>)
     else if seg_is seg 0 ''documentation'' \<or> seg_is seg 0 ''docs'' then
       res_bind (sp_get sp ''section'') (\<lambda>t.
         Inr (base\<lparr>primaryNav := ''documentation'', docsSection := pickTab t DOCUMENTATION_SECTIONS ''intro''\<rparr>))
     else Inr (base\<lparr>primaryNav := ''servers'', serversView := ''list''\<rparr>))"

text \<open>
  An address as the browser hands it to the panel: the pathname up to the first question mark,
  the search string from it on.
\<close>

definition parse_href :: "string \<Rightarrow> route result" where
  "parse_href h = parseAppRoute (takeWhile (\<lambda>c. c \<noteq> CHR ''?'') h) (dropWhile (\<lambda>c. c \<noteq> CHR ''?'') h)"

subsection \<open>Writing addresses\<close>

definition paths_home :: string where "paths_home = ''/servers''"
definition paths_servers :: string where "paths_servers = ''/servers''"
definition paths_serverNew :: string where "paths_serverNew = ''/servers/new''"

definition paths_serverDetail :: "string \<Rightarrow> string \<Rightarrow> string" where
  "paths_serverDetail i tab = withQuery (''/servers/'' @ encodeURIComponent i) ''tab'' tab ''overview''"

definition paths_serverCaCenterCert :: "string \<Rightarrow> string \<Rightarrow> string" where
  "paths_serverCaCenterCert i certId =
     ''/servers/'' @ encodeURIComponent i @ ''?tab=ca-center&certId='' @ encodeURIComponent certId"

definition paths_organizations :: string where "paths_organizations = ''/organizations''"
definition paths_organizationNew :: string where "paths_organizationNew = ''/organizations/new''"

definition paths_organizationEdit :: "string \<Rightarrow> string \<Rightarrow> string" where
  "paths_organizationEdit i tab =
     withQuery (''/organizations/'' @ encodeURIComponent i @ ''/edit'') ''tab'' tab ''overview''"

definition paths_users :: string where "paths_users = ''/users''"
definition paths_userNew :: string where "paths_userNew = ''/users/new''"

definition paths_userProfile :: "string \<Rightarrow> string \<Rightarrow> string" where
  "paths_userProfile i tab = withQuery (''/users/'' @ encodeURIComponent i) ''tab'' tab ''overview''"

definition paths_settings :: string where "paths_settings = ''/settings''"
definition paths_profile :: string where "paths_profile = ''/profile''"
definition paths_settingsBackup :: string where "paths_settingsBackup = ''/settings/backup''"
definition paths_settingsRestore :: string where "paths_settingsRestore = ''/settings/restore''"
definition paths_settingsAdminNew :: string where "paths_settingsAdminNew = ''/settings/admins/new''"

definition paths_settingsAdmin :: "string \<Rightarrow> string" where
  "paths_settingsAdmin i = ''/settings/admins/'' @ encodeURIComponent i"

definition paths_logs :: "string \<Rightarrow> string" where
  "paths_logs tab = withQuery ''/logs'' ''tab'' tab ''vpn-ip''"

definition paths_tasks :: string where "paths_tasks = ''/tasks''"

definition paths_documentation :: "string \<Rightarrow> string" where
  "paths_documentation sec = withQuery ''/documentation'' ''section'' sec ''intro''"

definition paths_inviteAdmin :: "string \<Rightarrow> string" where
  "paths_inviteAdmin token = ''/invite-admin?token='' @ encodeURIComponent token"

definition paths_resetAdminPassword :: "string \<Rightarrow> string" where
  "paths_resetAdminPassword token = ''/reset-admin-password?token='' @ encodeURIComponent token"

subsection \<open>Helper lemmas\<close>

lemma pickTab_allowed: "fallback \<in> set allowed \<Longrightarrow> pickTab v allowed fallback \<in> set allowed"
  by (simp add: pickTab_def Let_def)

lemma tabs_trimmed:
  "t \<in> set SERVER_TABS \<union> set USER_TABS \<union> set ORGANIZATION_TABS \<union> set LOGS_VIEWS \<union> set DOCUMENTATION_SECTIONS
   \<Longrightarrow> js_trim t = t"
  by (auto simp: tab_sets js_trim_def is_space_def code_of_def)

lemma strip_slashes_id: "p \<noteq> [] \<Longrightarrow> last p \<noteq> CHR ''/'' \<Longrightarrow> strip_slashes p = p"
  by (cases p rule: rev_cases) (simp_all add: strip_slashes_def)

lemma js_join_last:
  "xs \<noteq> [] \<Longrightarrow> \<forall>x\<in>set xs. x \<noteq> [] \<Longrightarrow> js_join sep xs \<noteq> [] \<and> last (js_join sep xs) = last (last xs)"
  by (induction sep xs rule: js_join.induct) auto

lemma path_segments_join:
  assumes "xs \<noteq> []" and parts: "\<forall>x\<in>set xs. x \<noteq> [] \<and> CHR ''/'' \<notin> set x"
  shows "path_segments (CHR ''/'' # js_join ''/'' xs) = xs"
proof -
  let ?j = "js_join ''/'' xs"
  have j: "?j \<noteq> []" "last ?j = last (last xs)" using js_join_last [of xs "''/''"] assms by auto
  moreover have "last (last xs) \<noteq> CHR ''/''"
    using assms by (metis last_in_set)
  ultimately have "strip_slashes (CHR ''/'' # ?j) = CHR ''/'' # ?j"
    by (intro strip_slashes_id) auto
  moreover have "js_split (CHR ''/'') (CHR ''/'' # ?j) = [] # xs"
    using js_split_join [of xs "CHR ''/''"] assms by auto
  moreover have "non_empty xs = xs" using parts by (simp add: filter_id_conv)
  ultimately show ?thesis by (simp add: path_segments_def)
qed

lemma href_split:
  "CHR ''?'' \<notin> set p \<Longrightarrow> q = [] \<or> hd q = CHR ''?'' \<Longrightarrow> parse_href (p @ q) = parseAppRoute p q"
proof -
  assume p: "CHR ''?'' \<notin> set p" and q: "q = [] \<or> hd q = CHR ''?''"
  have "takeWhile (\<lambda>c. c \<noteq> CHR ''?'') (p @ q) = p \<and> dropWhile (\<lambda>c. c \<noteq> CHR ''?'') (p @ q) = q"
    using p q by (induction p) (cases q; auto)+
  then show ?thesis by (simp add: parse_href_def)
qed

definition query_part :: "string \<Rightarrow> string \<Rightarrow> string \<Rightarrow> string" where
  "query_part k v d = (if v = [] \<or> v = d then [] else CHR ''?'' # one_param k v)"

lemma withQuery_split: "withQuery base k v d = base @ query_part k v d"
  by (simp add: withQuery_def query_part_def)

lemma href_withQuery:
  "CHR ''?'' \<notin> set base \<Longrightarrow> parse_href (withQuery base k v d) = parseAppRoute base (query_part k v d)"
  by (simp add: withQuery_split href_split query_part_def)

lemma sp_get_query_part:
  "sp_get (search_params (query_part k v d)) k = Inr (if v = [] \<or> v = d then None else Some v)"
  "k' \<noteq> k \<Longrightarrow> sp_get (search_params (query_part k v d)) k' = Inr None"
  by (simp_all add: query_part_def sp_get_one_param sp_get_other_param)

lemma pickTab_query:
  assumes "tab \<in> set allowed" and "js_trim tab = tab" and "[] \<notin> set allowed"
  shows "pickTab (if tab = [] \<or> tab = d then None else Some tab) allowed d = tab"
  using assms by (auto simp: pickTab_def Let_def)

lemma encoded_segment:
  "i \<noteq> [] \<Longrightarrow> encodeURIComponent i \<noteq> [] \<and> CHR ''/'' \<notin> set (encodeURIComponent i)"
  "encodeURIComponent i = ''new'' \<longleftrightarrow> i = ''new''"
proof -
  show "i \<noteq> [] \<Longrightarrow> encodeURIComponent i \<noteq> [] \<and> CHR ''/'' \<notin> set (encodeURIComponent i)"
    by (simp add: encodeURI_special)
  have "encodeURIComponent ''new'' = ''new''"
    by (simp add: encodeURIComponent_def escape_def uri_unreserved_def is_alnum_def code_of_def)
  then show "encodeURIComponent i = ''new'' \<longleftrightarrow> i = ''new''"
    by (metis encodeURI_inj)
qed

lemma segments_two:
  assumes "i \<noteq> []" and "s \<noteq> []" and "CHR ''/'' \<notin> set s"
  shows "path_segments (''/'' @ s @ ''/'' @ encodeURIComponent i) = [s, encodeURIComponent i]"
  using path_segments_join [of "[s, encodeURIComponent i]"] assms encoded_segment(1) [of i] by simp

lemma segments_three:
  assumes "i \<noteq> []" and "s \<noteq> []" and "CHR ''/'' \<notin> set s" and "u \<noteq> []" and "CHR ''/'' \<notin> set u"
  shows "path_segments (''/'' @ s @ ''/'' @ encodeURIComponent i @ ''/'' @ u) = [s, encodeURIComponent i, u]"
    and "path_segments (''/'' @ s @ ''/'' @ u @ ''/'' @ encodeURIComponent i) = [s, u, encodeURIComponent i]"
  using path_segments_join [of "[s, encodeURIComponent i, u]"] path_segments_join [of "[s, u, encodeURIComponent i]"]
    assms encoded_segment(1) [of i] by simp_all

text \<open>The branches of the parser that carry an id, each under the facts that select it.\<close>

lemma parse_server_detail:
  assumes "path_segments p = [''servers'', x]" and "x \<noteq> ''new''" and "decodeURIComponent x = Inr i"
    and "sp_get (search_params q) ''tab'' = Inr t" and "sp_get (search_params q) ''certId'' = Inr c"
  shows "parseAppRoute p q = Inr (base_route\<lparr>primaryNav := ''servers'', serversView := ''detail'', selectedServerId := i,
           serverDetailTab := pickTab t SERVER_TABS ''overview'', serverCenterCertId := opt_str c\<rparr>)"
  unfolding parseAppRoute_def Let_def assms(1) using assms(2-) by (simp add: seg_is_def)

lemma parse_organization_edit:
  assumes "path_segments p = [''organizations'', x, ''edit'']" and "x \<noteq> ''new''" and "decodeURIComponent x = Inr i"
    and "sp_get (search_params q) ''tab'' = Inr t"
  shows "parseAppRoute p q = Inr (base_route\<lparr>primaryNav := ''organizations'', organizationsView := ''edit'',
           organizationEditId := i, organizationEditTab := pickTab t ORGANIZATION_TABS ''overview''\<rparr>)"
  unfolding parseAppRoute_def Let_def assms(1) using assms(2-) by (simp add: seg_is_def)

lemma parse_user_profile:
  assumes "path_segments p = [''users'', x]" and "x \<noteq> ''new''" and "decodeURIComponent x = Inr i"
    and "sp_get (search_params q) ''tab'' = Inr t"
  shows "parseAppRoute p q = Inr (base_route\<lparr>primaryNav := ''users'', usersSub := ''profile'', selectedUserId := i,
           userProfileTab := pickTab t USER_TABS ''overview''\<rparr>)"
  unfolding parseAppRoute_def Let_def assms(1) using assms(2-) by (simp add: seg_is_def)

lemma parse_settings_admin:
  assumes "path_segments p = [''settings'', ''admins'', x]" and "x \<noteq> ''new''" and "decodeURIComponent x = Inr i"
  shows "parseAppRoute p q = Inr (base_route\<lparr>primaryNav := ''settings'', settingsSection := ''admins'',
           adminsPage := ''detail'', selectedAdminId := i\<rparr>)"
  unfolding parseAppRoute_def Let_def assms(1) using assms(2-) by (simp add: seg_is_def)

subsection \<open>The routes that can occur\<close>

definition PRIMARY_NAVS :: "string list" where
  "PRIMARY_NAVS = [''servers'', ''organizations'', ''users'', ''settings'', ''logs'', ''tasks'',
     ''documentation'', ''myProfile'', ''inviteAdmin'', ''resetAdminPassword'']"

definition route_ok :: "route \<Rightarrow> bool" where
  "route_ok r \<longleftrightarrow>
     primaryNav r \<in> set PRIMARY_NAVS \<and> serversView r \<in> {''list'', ''add'', ''detail''} \<and>
     organizationsView r \<in> {''list'', ''add'', ''edit''} \<and> usersSub r \<in> {''list'', ''add'', ''profile''} \<and>
     adminsPage r \<in> {''list'', ''detail''} \<and> settingsSection r \<in> {''admins'', ''backup'', ''restore''} \<and>
     serverDetailTab r \<in> set SERVER_TABS \<and> organizationEditTab r \<in> set ORGANIZATION_TABS \<and>
     userProfileTab r \<in> set USER_TABS \<and> logsView r \<in> set LOGS_VIEWS \<and>
     docsSection r \<in> set DOCUMENTATION_SECTIONS"

lemma base_route_ok: "route_ok base_route"
  by (simp add: route_ok_def base_route_def PRIMARY_NAVS_def tab_sets)

lemmas pickTab_members = pickTab_allowed [of "''overview''" SERVER_TABS] pickTab_allowed [of "''overview''" USER_TABS]
  pickTab_allowed [of "''overview''" ORGANIZATION_TABS] pickTab_allowed [of "''vpn-ip''" LOGS_VIEWS]
  pickTab_allowed [of "''intro''" DOCUMENTATION_SECTIONS]

lemma default_tabs: "''overview'' \<in> set SERVER_TABS" "''overview'' \<in> set USER_TABS"
  "''overview'' \<in> set ORGANIZATION_TABS" "''vpn-ip'' \<in> set LOGS_VIEWS" "''intro'' \<in> set DOCUMENTATION_SECTIONS"
  by (simp_all add: tab_sets)

lemma parsed_route:
  assumes "parseAppRoute p q = Inr r"
  shows "route_ok r \<and> caRootWizard r = None \<and> selectedRootCaId r = [] \<and> selectedCertId r = []"
proof -
  have "res_all (\<lambda>r. route_ok r \<and> caRootWizard r = None \<and> selectedRootCaId r = [] \<and> selectedCertId r = [])
          (parseAppRoute p q)"
    unfolding parseAppRoute_def Let_def
    by (intro res_all_intros)
       (simp_all add: route_ok_def base_route_def PRIMARY_NAVS_def pickTab_members default_tabs)
  from res_allD [OF this assms] show ?thesis .
qed

text \<open>
  The identifier of the page that is shown is a segment of the path, decoded, and no other identifier is set: the second segment after
  \<^verbatim>\<open>servers\<close>, before \<^verbatim>\<open>edit\<close> after \<^verbatim>\<open>organizations\<close> and after \<^verbatim>\<open>users\<close>, the third one after \<^verbatim>\<open>settings/admins\<close>.
\<close>

definition segment_id :: "string list \<Rightarrow> nat \<Rightarrow> string \<Rightarrow> bool" where
  "segment_id seg i v = (i < length seg \<and> seg ! i \<noteq> ''new'' \<and> decodeURIComponent (seg ! i) = Inr v)"

definition ids_from_path :: "string list \<Rightarrow> route \<Rightarrow> bool" where
  "ids_from_path seg r \<longleftrightarrow>
     (if serversView r = ''detail'' then primaryNav r = ''servers'' \<and> seg ! 0 = ''servers'' \<and> segment_id seg 1 (selectedServerId r)
      else selectedServerId r = []) \<and>
     (if organizationsView r = ''edit''
      then primaryNav r = ''organizations'' \<and> seg ! 0 = ''organizations'' \<and> segment_id seg 1 (organizationEditId r) \<and> seg_is seg 2 ''edit''
      else organizationEditId r = []) \<and>
     (if usersSub r = ''profile'' then primaryNav r = ''users'' \<and> seg ! 0 = ''users'' \<and> segment_id seg 1 (selectedUserId r)
      else selectedUserId r = []) \<and>
     (if adminsPage r = ''detail''
      then primaryNav r = ''settings'' \<and> take 2 seg = [''settings'', ''admins''] \<and> segment_id seg 2 (selectedAdminId r)
      else selectedAdminId r = [])"

lemma admins_segments: "seg_is seg 0 ''settings'' \<Longrightarrow> seg_is seg 1 ''admins'' \<Longrightarrow> take 2 seg = [''settings'', ''admins'']"
  by (cases seg; cases "tl seg") (auto simp: seg_is_def)

lemma second_segment: "xs \<noteq> [] \<Longrightarrow> length xs \<noteq> Suc 0 \<Longrightarrow> Suc 0 < length xs"
  by (cases xs; cases "tl xs") auto

lemma parsed_ids: "parseAppRoute p q = Inr r \<Longrightarrow> ids_from_path (path_segments p) r"
proof -
  assume r: "parseAppRoute p q = Inr r"
  have "res_all (ids_from_path (path_segments p)) (parseAppRoute p q)"
    unfolding parseAppRoute_def Let_def
    by (intro res_all_cases res_all_bind res_all_Inr)
       (simp_all add: ids_from_path_def base_route_def segment_id_def seg_is_def admins_segments [unfolded seg_is_def] second_segment)
  from res_allD [OF this r] show ?thesis .
qed

lemma client_not_tab: "''client'' \<notin> set SERVER_TABS"
  by (simp add: SERVER_TABS_def)

text \<open>C3: Every route the address parser returns is well formed: its section is one of the ten the panel knows, each view and tab lies in its
  allowed set whatever the query string says, and every page that shows one entity gets its identifier from the path: it is the decoded
  segment of the address, and the identifiers of all other pages are blank. In particular the tab \<^verbatim>\<open>client\<close> and the fields
  \<^verbatim>\<open>caRootWizard\<close>, \<^verbatim>\<open>selectedRootCaId\<close> and \<^verbatim>\<open>selectedCertId\<close>, on which effects and handlers of
  \<^verbatim>\<open>App.tsx\<close> still depend, are never set by any address.\<close>

theorem parseAppRoute_ok:
  "parseAppRoute p q = Inr r \<Longrightarrow>
     route_ok r \<and> ids_from_path (path_segments p) r
     \<and> serverDetailTab r \<noteq> ''client'' \<and> caRootWizard r = None \<and> selectedRootCaId r = [] \<and> selectedCertId r = []"
  using parsed_route parsed_ids client_not_tab by (fastforce simp: route_ok_def)

theorem parseAppRoute_ok_witness:
  "parseAppRoute ''/servers/s1'' ''?tab=client'' =
     Inr (base_route\<lparr>serversView := ''detail'', selectedServerId := ''s1''\<rparr>)
   \<and> route_ok (base_route\<lparr>serversView := ''detail'', selectedServerId := ''s1''\<rparr>)
   \<and> ids_from_path (path_segments ''/servers/s1'') (base_route\<lparr>serversView := ''detail'', selectedServerId := ''s1''\<rparr>)"
proof -
  have r: "parseAppRoute ''/servers/s1'' ''?tab=client'' =
     Inr (base_route\<lparr>serversView := ''detail'', selectedServerId := ''s1''\<rparr>)" by code_simp
  from parseAppRoute_ok [OF r] r show ?thesis by blast
qed

lemma server_detail_parses:
  assumes "i \<noteq> []" and "i \<noteq> ''new''" and "tab \<in> set SERVER_TABS"
  shows "parse_href (paths_serverDetail i tab) =
    Inr (base_route\<lparr>primaryNav := ''servers'', serversView := ''detail'', selectedServerId := i, serverDetailTab := tab\<rparr>)"
proof -
  have seg: "path_segments (''/servers/'' @ encodeURIComponent i) = [''servers'', encodeURIComponent i]"
    using segments_two [of i "''servers''"] assms(1) by simp
  have pick: "pickTab (if tab = [] \<or> tab = ''overview'' then None else Some tab) SERVER_TABS ''overview'' = tab"
    using assms(3) by (intro pickTab_query tabs_trimmed) (auto simp: SERVER_TABS_def)
  show ?thesis
    using parse_server_detail [OF seg _ decode_encode sp_get_query_part(1) sp_get_query_part(2)] assms(2) pick
    by (simp add: paths_serverDetail_def href_withQuery encodeURI_special encoded_segment(2)) (simp add: base_route_def)
qed

text \<open>C10: Reading back the addresses of a server page: for every server id other than the reserved word
  \<^verbatim>\<open>new\<close> and every allowed tab, the address written by \<^verbatim>\<open>paths.serverDetail\<close> parses to the
  detail view of that id and tab, with every other field at its default; any characters in the id survive.\<close>

theorem serverDetail_roundtrip:
  assumes "i \<noteq> []" and "i \<noteq> ''new''" and "tab \<in> set SERVER_TABS"
  shows "parse_href (paths_serverDetail i tab) =
    Inr (base_route\<lparr>primaryNav := ''servers'', serversView := ''detail'', selectedServerId := i, serverDetailTab := tab\<rparr>)"
  by (rule server_detail_parses [OF assms])

theorem serverDetail_roundtrip_witness:
  "parse_href (paths_serverDetail ''a/b ?'' ''dns'') =
    Inr (base_route\<lparr>primaryNav := ''servers'', serversView := ''detail'', selectedServerId := ''a/b ?'', serverDetailTab := ''dns''\<rparr>)"
  by (rule serverDetail_roundtrip) (simp_all add: SERVER_TABS_def)

lemma organization_edit_parses:
  assumes "i \<noteq> []" and "i \<noteq> ''new''" and "tab \<in> set ORGANIZATION_TABS"
  shows "parse_href (paths_organizationEdit i tab) =
      Inr (base_route\<lparr>primaryNav := ''organizations'', organizationsView := ''edit'', organizationEditId := i, organizationEditTab := tab\<rparr>)"
proof -
  have org: "path_segments (''/organizations/'' @ encodeURIComponent i @ ''/edit'') = [''organizations'', encodeURIComponent i, ''edit'']"
    using segments_three(1) [of i "''organizations''" "''edit''"] assms(1) by simp
  have "pickTab (if tab = [] \<or> tab = ''overview'' then None else Some tab) ORGANIZATION_TABS ''overview'' = tab"
    using assms(3) by (intro pickTab_query tabs_trimmed) (auto simp: ORGANIZATION_TABS_def)
  then show ?thesis
    using parse_organization_edit [OF org _ decode_encode sp_get_query_part(1)] assms(2)
    by (simp add: paths_organizationEdit_def href_withQuery encodeURI_special encoded_segment(2))
qed

lemma user_profile_parses:
  assumes "i \<noteq> []" and "i \<noteq> ''new''" and "tab \<in> set USER_TABS"
  shows "parse_href (paths_userProfile i tab) =
      Inr (base_route\<lparr>primaryNav := ''users'', usersSub := ''profile'', selectedUserId := i, userProfileTab := tab\<rparr>)"
proof -
  have usr: "path_segments (''/users/'' @ encodeURIComponent i) = [''users'', encodeURIComponent i]"
    using segments_two [of i "''users''"] assms(1) by simp
  have "pickTab (if tab = [] \<or> tab = ''overview'' then None else Some tab) USER_TABS ''overview'' = tab"
    using assms(3) by (intro pickTab_query tabs_trimmed) (auto simp: USER_TABS_def)
  then show ?thesis
    using parse_user_profile [OF usr _ decode_encode sp_get_query_part(1)] assms(2)
    by (simp add: paths_userProfile_def href_withQuery encodeURI_special encoded_segment(2))
qed

lemma settings_admin_parses:
  assumes "i \<noteq> []" and "i \<noteq> ''new''"
  shows "parse_href (paths_settingsAdmin i) = Inr (base_route\<lparr>primaryNav := ''settings'', adminsPage := ''detail'', selectedAdminId := i\<rparr>)"
proof -
  have adm: "path_segments (''/settings/admins/'' @ encodeURIComponent i) = [''settings'', ''admins'', encodeURIComponent i]"
    using segments_three(2) [of i "''settings''" "''admins''"] assms(1) by simp
  show ?thesis
    using href_split [of "''/settings/admins/'' @ encodeURIComponent i" "[]"] assms(2) parse_settings_admin [OF adm _ decode_encode]
    by (simp add: paths_settingsAdmin_def encodeURI_special encoded_segment(2)) (simp add: base_route_def)
qed

text \<open>Reading back the addresses of organizations, users and administrators: the id and the tab written
  into the address come back unchanged.\<close>

theorem entity_pages_roundtrip:
  assumes "i \<noteq> []" and "i \<noteq> ''new''" and "tab \<in> set ORGANIZATION_TABS" and "utab \<in> set USER_TABS"
  shows "parse_href (paths_organizationEdit i tab) =
      Inr (base_route\<lparr>primaryNav := ''organizations'', organizationsView := ''edit'', organizationEditId := i, organizationEditTab := tab\<rparr>)
    \<and> parse_href (paths_userProfile i utab) =
      Inr (base_route\<lparr>primaryNav := ''users'', usersSub := ''profile'', selectedUserId := i, userProfileTab := utab\<rparr>)
    \<and> parse_href (paths_settingsAdmin i) =
      Inr (base_route\<lparr>primaryNav := ''settings'', adminsPage := ''detail'', selectedAdminId := i\<rparr>)"
  using organization_edit_parses [OF assms(1,2,3)] user_profile_parses [OF assms(1,2,4)] settings_admin_parses [OF assms(1,2)] by simp

theorem entity_pages_roundtrip_witness:
  "parse_href (paths_organizationEdit ''u%1'' ''firewall'') =
      Inr (base_route\<lparr>primaryNav := ''organizations'', organizationsView := ''edit'', organizationEditId := ''u%1'', organizationEditTab := ''firewall''\<rparr>)
    \<and> parse_href (paths_userProfile ''u%1'' ''ccd'') =
      Inr (base_route\<lparr>primaryNav := ''users'', usersSub := ''profile'', selectedUserId := ''u%1'', userProfileTab := ''ccd''\<rparr>)
    \<and> parse_href (paths_settingsAdmin ''u%1'') =
      Inr (base_route\<lparr>primaryNav := ''settings'', adminsPage := ''detail'', selectedAdminId := ''u%1''\<rparr>)"
  by (rule entity_pages_roundtrip) (simp_all add: tab_sets)

text \<open>Reading back the one-off links: the token of an invitation or of a password reset, and the
  certificate a server page opens in its certification centre, come back unchanged, whatever characters
  they hold.\<close>

theorem links_roundtrip:
  assumes "i \<noteq> []" and "i \<noteq> ''new''"
  shows "parse_href (paths_inviteAdmin tok) = Inr (base_route\<lparr>primaryNav := ''inviteAdmin'', inviteAdminToken := tok\<rparr>)
    \<and> parse_href (paths_resetAdminPassword tok) = Inr (base_route\<lparr>primaryNav := ''resetAdminPassword'', resetAdminPasswordToken := tok\<rparr>)
    \<and> parse_href (paths_serverCaCenterCert i cid) = Inr (base_route\<lparr>serversView := ''detail'', selectedServerId := i,
        serverDetailTab := ''ca-center'', serverCenterCertId := cid\<rparr>)"
proof (intro conjI)
  have tok: "sp_get (search_params (''?token='' @ encodeURIComponent tok)) ''token'' = Inr (Some tok)"
    using search_params_hand [of "''token''" tok]
    by (simp add: plain_name_def is_alnum_def code_of_def sp_get_def)
  have seg: "path_segments ''/invite-admin'' = [''invite-admin'']"
    "path_segments ''/reset-admin-password'' = [''reset-admin-password'']"
    using path_segments_join [of "[''invite-admin'']"] path_segments_join [of "[''reset-admin-password'']"] by simp_all
  show "parse_href (paths_inviteAdmin tok) = Inr (base_route\<lparr>primaryNav := ''inviteAdmin'', inviteAdminToken := tok\<rparr>)"
    using href_split [of "''/invite-admin''" "''?token='' @ encodeURIComponent tok"] tok
    by (simp add: paths_inviteAdmin_def parseAppRoute_def seg seg_is_def)
  show "parse_href (paths_resetAdminPassword tok) = Inr (base_route\<lparr>primaryNav := ''resetAdminPassword'', resetAdminPasswordToken := tok\<rparr>)"
    using href_split [of "''/reset-admin-password''" "''?token='' @ encodeURIComponent tok"] tok
    by (simp add: paths_resetAdminPassword_def parseAppRoute_def seg seg_is_def)
  let ?q = "''?tab=ca-center&certId='' @ encodeURIComponent cid"
  have "form_decode ''ca-center'' = Some ''ca-center''" by code_simp
  then have "search_params ?q = [(Some ''tab'', Some ''ca-center''), (Some ''certId'', Some cid)]"
    using search_params_hand_cons [of "''tab''" "''ca-center''" "''certId='' @ encodeURIComponent cid"]
      search_params_hand [of "''certId''" cid]
    by (simp add: plain_name_def is_alnum_def code_of_def)
  then have q: "sp_get (search_params ?q) ''tab'' = Inr (Some ''ca-center'')"
    "sp_get (search_params ?q) ''certId'' = Inr (Some cid)"
    by (simp_all add: sp_get_def)
  have seg2: "path_segments (''/servers/'' @ encodeURIComponent i) = [''servers'', encodeURIComponent i]"
    using segments_two [of i "''servers''"] assms(1) by simp
  have pick: "pickTab (Some ''ca-center'') SERVER_TABS ''overview'' = ''ca-center''"
    using pickTab_query [of "''ca-center''" SERVER_TABS "''overview''"] tabs_trimmed [of "''ca-center''"]
    by (simp add: SERVER_TABS_def)
  show "parse_href (paths_serverCaCenterCert i cid) = Inr (base_route\<lparr>serversView := ''detail'', selectedServerId := i,
        serverDetailTab := ''ca-center'', serverCenterCertId := cid\<rparr>)"
    using href_split [of "''/servers/'' @ encodeURIComponent i" ?q] parse_server_detail [OF seg2 _ decode_encode q] assms(2) pick
    by (simp add: paths_serverCaCenterCert_def encodeURI_special encoded_segment(2)) (simp add: base_route_def)
qed

theorem links_roundtrip_witness:
  "parse_href (paths_inviteAdmin ''a+b&c'') = Inr (base_route\<lparr>primaryNav := ''inviteAdmin'', inviteAdminToken := ''a+b&c''\<rparr>)
    \<and> parse_href (paths_resetAdminPassword ''a+b&c'') = Inr (base_route\<lparr>primaryNav := ''resetAdminPassword'', resetAdminPasswordToken := ''a+b&c''\<rparr>)
    \<and> parse_href (paths_serverCaCenterCert ''s 1'' ''c=1'') = Inr (base_route\<lparr>serversView := ''detail'', selectedServerId := ''s 1'',
        serverDetailTab := ''ca-center'', serverCenterCertId := ''c=1''\<rparr>)"
  by (rule links_roundtrip) simp_all

text \<open>The parser throws a URIError on every address of a server, user, organization or administrator page
  whose id is not a well-formed percent-encoding. The exception leaves \<^verbatim>\<open>useMemo\<close> during rendering,
  for which \<^verbatim>\<open>App.tsx\<close> and \<^verbatim>\<open>main.tsx\<close> have no handler.\<close>

theorem malformed_id_throws:
  assumes "x \<noteq> []" and "CHR ''/'' \<notin> set x" and "decodeURIComponent x = Inl URIError"
  shows "parseAppRoute (''/servers/'' @ x) q = Inl URIError \<and> parseAppRoute (''/users/'' @ x) q = Inl URIError
    \<and> parseAppRoute (''/organizations/'' @ x @ ''/edit'') q = Inl URIError
    \<and> parseAppRoute (''/settings/admins/'' @ x) q = Inl URIError"
proof (intro conjI)
  have "decodeURIComponent ''new'' = Inr ''new''" by code_simp
  with assms(3) have new: "x \<noteq> ''new''" by auto
  have "path_segments (''/servers/'' @ x) = [''servers'', x]"
    using path_segments_join [of "[''servers'', x]"] assms by simp
  with new assms(3) show "parseAppRoute (''/servers/'' @ x) q = Inl URIError"
    by (simp add: parseAppRoute_def Let_def seg_is_def)
  have "path_segments (''/users/'' @ x) = [''users'', x]"
    using path_segments_join [of "[''users'', x]"] assms by simp
  with new assms(3) show "parseAppRoute (''/users/'' @ x) q = Inl URIError"
    by (simp add: parseAppRoute_def Let_def seg_is_def)
  have "path_segments (''/organizations/'' @ x @ ''/edit'') = [''organizations'', x, ''edit'']"
    using path_segments_join [of "[''organizations'', x, ''edit'']"] assms by simp
  with new assms(3) show "parseAppRoute (''/organizations/'' @ x @ ''/edit'') q = Inl URIError"
    by (simp add: parseAppRoute_def Let_def seg_is_def)
  have "path_segments (''/settings/admins/'' @ x) = [''settings'', ''admins'', x]"
    using path_segments_join [of "[''settings'', ''admins'', x]"] assms by simp
  with new assms(3) show "parseAppRoute (''/settings/admins/'' @ x) q = Inl URIError"
    by (simp add: parseAppRoute_def Let_def seg_is_def)
qed

theorem malformed_id_throws_witness:
  "decodeURIComponent ''50%'' = Inl URIError \<and> parseAppRoute (''/servers/'' @ ''50%'') ''?tab=dns'' = Inl URIError"
proof -
  have d: "decodeURIComponent ''50%'' = Inl URIError" by code_simp
  show ?thesis using malformed_id_throws [OF _ _ d, of "''?tab=dns''"] d by simp
qed

end
