(* ===== verification/Http.thy ===== *)
theory Http
  imports Js_Prelude Complex_Main
begin

section \<open>Requests to the panel's API\<close>

text \<open>
  \<^verbatim>\<open>request\<close>, \<^verbatim>\<open>downloadBackupArchive\<close> and \<^verbatim>\<open>postJsonWithUploadProgress\<close> of
  \<^verbatim>\<open>App.tsx\<close> and the base address of \<^verbatim>\<open>apiConfig.ts\<close>. The network is the environment:
  each function takes what \<^verbatim>\<open>fetch\<close> or the XMLHttpRequest delivered and returns what it
  resolves to or rejects with, together with whether it dispatched the session-invalid event.

  Texts shown to the user are \<open>uitext\<close>: \<open>Raw\<close> for a text of the server, \<open>Ui\<close> for a literal of
  the interface (the tag is an English rendering of the Russian literal), \<open>Cat\<close> for a template.
\<close>

datatype uitext = NoText | Ui string | Raw string | Cat uitext uitext

fun shown :: "uitext \<Rightarrow> bool" where
  "shown NoText = False"
| "shown (Ui s) = True"
| "shown (Raw s) = (s \<noteq> [])"
| "shown (Cat a b) = (shown a \<or> shown b)"

text \<open>\<^verbatim>\<open>x || y\<close> on texts\<close>

definition text_or :: "uitext \<Rightarrow> uitext \<Rightarrow> uitext" where
  "text_or x y = (if shown x then x else y)"

subsection \<open>Base address\<close>

definition FALLBACK_DIRECT_BACKEND :: string where
  "FALLBACK_DIRECT_BACKEND = ''http://localhost:8080''"

definition normalizeApiUrl :: "jsval \<Rightarrow> string" where
  "normalizeApiUrl url = (case url of JStr s \<Rightarrow>
       if s = [] then [] else rev (dropWhile (\<lambda>c. c = CHR ''/'') (rev (js_trim s)))
     | _ \<Rightarrow> [])"

text \<open>
  \<open>window = None\<close> outside a browser; otherwise the data attribute of the page, the legacy
  configuration object's value and the page's origin.
\<close>

definition resolveApiUrl :: "(jsval \<times> jsval \<times> string) option \<Rightarrow> string" where
  "resolveApiUrl window = (case window of None \<Rightarrow> FALLBACK_DIRECT_BACKEND
     | Some (dataset, legacy, origin) \<Rightarrow>
         if normalizeApiUrl dataset \<noteq> [] then normalizeApiUrl dataset
         else if normalizeApiUrl legacy \<noteq> [] then normalizeApiUrl legacy
         else if origin \<noteq> [] then origin else FALLBACK_DIRECT_BACKEND)"

subsection \<open>Requests\<close>

record http_request =
  rq_url :: string
  rq_method :: string
  rq_auth :: "string option"
  rq_body :: jsval

record response =
  status :: nat
  body :: "jsval option"

text \<open>\<^verbatim>\<open>res.ok\<close>\<close>

definition res_ok :: "response \<Rightarrow> bool" where
  "res_ok r \<longleftrightarrow> 200 \<le> status r \<and> status r < 300"

record req_error =
  message :: uitext
  retryAfterSeconds :: "jsnum option"
  hints :: "jsval list"
  err_output :: string
  command :: string
  configPath :: string
  serviceLog :: string
  backupPath :: string
  rolledBack :: "bool option"

definition plain_error :: "uitext \<Rightarrow> req_error" where
  "plain_error m = \<lparr>message = m, retryAfterSeconds = None, hints = [], err_output = [], command = [],
     configPath = [], serviceLog = [], backupPath = [], rolledBack = None\<rparr>"

definition jprop :: "jsval \<Rightarrow> string \<Rightarrow> jsval" where
  "jprop v k = (case v of JObj ob \<Rightarrow> obj_get ob k | _ \<Rightarrow> JUndef)"

definition str_prop :: "jsval \<Rightarrow> string \<Rightarrow> string" where
  "str_prop v k = (case jprop v k of JStr s \<Rightarrow> s | _ \<Rightarrow> [])"

text \<open>\<^verbatim>\<open>new Error(v || d)\<close>: the message is \<^verbatim>\<open>String(v)\<close> when \<^verbatim>\<open>v\<close> is truthy.\<close>

definition error_text :: "jsval \<Rightarrow> uitext \<Rightarrow> uitext" where
  "error_text v d = (if truthy v then Raw (to_str v) else d)"

definition MSG_NETWORK :: uitext where
  "MSG_NETWORK = Ui ''network error: the server is unreachable or blocked by the browser''"

definition MSG_REQUEST :: uitext where
  "MSG_REQUEST = Ui ''request failed''"

definition MSG_NULL :: uitext where
  "MSG_NULL = Ui ''TypeError: cannot read a property of null''"

definition build_request :: "string \<Rightarrow> string \<Rightarrow> string \<Rightarrow> string \<Rightarrow> jsval \<Rightarrow> http_request" where
  "build_request api path method token payload =
     \<lparr>rq_url = api @ path, rq_method = method,
      rq_auth = (if token \<noteq> [] then Some (''Bearer '' @ token) else None),
      rq_body = (if truthy payload then payload else JUndef)\<rparr>"

text \<open>
  The answer of a request: \<open>None\<close> when \<^verbatim>\<open>fetch\<close> rejects. The second component says whether the
  session-invalid event was dispatched. A body that is no JSON makes an error answer the default
  one and a success answer a rejection (a SyntaxError of \<^verbatim>\<open>res.json()\<close>); an error answer whose
  body is \<^verbatim>\<open>null\<close> is a TypeError of \<^verbatim>\<open>err.error\<close>.
\<close>

definition request :: "string \<Rightarrow> response option \<Rightarrow> (req_error + jsval) \<times> bool" where
  "request token answer = (case answer of None \<Rightarrow> (Inl (plain_error MSG_NETWORK), False)
     | Some res \<Rightarrow>
         let invalid = (status res = 401 \<and> token \<noteq> []) in
         if \<not> res_ok res then
           (let err = (case body res of Some v \<Rightarrow> v | None \<Rightarrow> JObj []) in
            if err = JNull then (Inl (plain_error MSG_NULL), invalid) else
            (Inl \<lparr>message = error_text (jprop err ''error'') MSG_REQUEST,
                  retryAfterSeconds = (case jprop err ''retryAfterSeconds'' of JNum n \<Rightarrow> Some n | _ \<Rightarrow> None),
                  hints = (case jprop err ''hints'' of JArr hs \<Rightarrow> hs | _ \<Rightarrow> []),
                  err_output = str_prop err ''output'', command = str_prop err ''command'',
                  configPath = str_prop err ''configPath'', serviceLog = str_prop err ''serviceLog'',
                  backupPath = str_prop err ''backupPath'',
                  rolledBack = (case jprop err ''rolledBack'' of JBool b \<Rightarrow> Some b | _ \<Rightarrow> None)\<rparr>, invalid))
         else if status res = 204 then (Inr JNull, invalid)
         else (case body res of Some v \<Rightarrow> (Inr v, invalid)
               | None \<Rightarrow> (Inl (plain_error (Ui ''invalid JSON in the answer'')), invalid)))"

definition downloadBackupArchive :: "string \<Rightarrow> response option \<Rightarrow> string \<Rightarrow> string \<Rightarrow> (req_error + string) \<times> bool" where
  "downloadBackupArchive token answer backupId fileName = (case answer of
       None \<Rightarrow> (Inl (plain_error (Ui ''network error: the archive could not be downloaded'')), False)
     | Some res \<Rightarrow>
         let invalid = (status res = 401 \<and> token \<noteq> []) in
         if \<not> res_ok res then
           (Inl (plain_error (case body res of
                Some v \<Rightarrow> if v = JNull then MSG_NULL else error_text (jprop v ''error'') (Ui ''download failed'')
              | None \<Rightarrow> Ui ''download failed'')), invalid)
         else (Inr (js_or fileName (''backup-'' @ backupId @ ''.zip'')), invalid))"

subsection \<open>Upload with progress\<close>

text \<open>
  \<^verbatim>\<open>postJsonWithUploadProgress\<close> as its callbacks: each event of the XMLHttpRequest bumps the
  progress (in hundredths) or settles the promise. \<open>Load\<close> carries the answer, its text and the status
  text; an error answer whose body is \<^verbatim>\<open>null\<close> throws inside the callback, so the promise stays open.
\<close>

datatype xhr_event =
    UploadLoadStart
  | UploadProgress bool nat nat
  | UploadLoadEnd bool
  | HeadersReceived
  | Loading
  | Load response string string
  | NetworkError

datatype upload_outcome = Running | Resolved jsval | Rejected uitext string

record upload =
  progress :: "rat list"
  outcome :: upload_outcome
  sessionInvalid :: bool

definition bump :: "rat \<Rightarrow> upload \<Rightarrow> upload" where
  "bump x u = u\<lparr>progress := progress u @ [max 0 (min 1 x)]\<rparr>"

definition settle_upload :: "upload_outcome \<Rightarrow> upload \<Rightarrow> upload" where
  "settle_upload r u = (if outcome u = Running then u\<lparr>outcome := r\<rparr> else u)"

fun xhr_step :: "string \<Rightarrow> upload \<Rightarrow> xhr_event \<Rightarrow> upload" where
  "xhr_step token u UploadLoadStart = bump (4 / 100) u"
| "xhr_step token u (UploadProgress computable loaded tot) =
     (if computable \<and> tot > 0
      then bump (min (68 / 100) (of_nat loaded / of_nat tot * (68 / 100))) u else u)"
| "xhr_step token u (UploadLoadEnd done) = (if \<not> done then bump (76 / 100) u else u)"
| "xhr_step token u HeadersReceived = bump (84 / 100) u"
| "xhr_step token u Loading = bump (91 / 100) u"
| "xhr_step token u (Load res text statusText) =
     (let parsed = (if text = [] then JObj []
                    else case body res of Some v \<Rightarrow> v | None \<Rightarrow> JObj [(''error'', JStr text)]);
          u1 = (if status res = 401 \<and> token \<noteq> [] then u\<lparr>sessionInvalid := True\<rparr> else u)
      in if status res \<ge> 400 \<and> parsed = JNull then u1
         else if status res \<ge> 400
         then settle_upload (Rejected (error_text (jprop parsed ''error'') (text_or (Raw statusText) MSG_REQUEST))
                (str_prop parsed ''output'')) u1
         else settle_upload (Resolved parsed) (bump 1 u1))"
| "xhr_step token u NetworkError = settle_upload (Rejected (Ui ''network: the request was not completed'') []) u"

definition postJsonWithUploadProgress :: "string \<Rightarrow> xhr_event list \<Rightarrow> upload" where
  "postJsonWithUploadProgress token evs =
     foldl (xhr_step token) \<lparr>progress = [], outcome = Running, sessionInvalid = False\<rparr> evs"

subsection \<open>Properties\<close>

lemma request_invalid_iff:
  "snd (request token answer) \<longleftrightarrow> token \<noteq> [] \<and> (\<exists>res. answer = Some res \<and> status res = 401)"
  by (auto simp: request_def Let_def split: option.splits)

lemma request_unauthorized:
  "status res = 401 \<Longrightarrow> \<exists>e. fst (request token (Some res)) = Inl e"
  by (simp add: request_def res_ok_def Let_def)

text \<open>What the panel's backend writes for an error: an object with a text and the details there are.\<close>

definition error_body :: "string \<Rightarrow> req_error \<Rightarrow> jsval" where
  "error_body t e = JObj
     [(''error'', JStr t), (''retryAfterSeconds'', case retryAfterSeconds e of Some n \<Rightarrow> JNum n | None \<Rightarrow> JNull), (''hints'', JArr (hints e)),
      (''output'', JStr (err_output e)), (''command'', JStr (command e)), (''configPath'', JStr (configPath e)),
      (''serviceLog'', JStr (serviceLog e)), (''backupPath'', JStr (backupPath e)),
      (''rolledBack'', case rolledBack e of Some x \<Rightarrow> JBool x | None \<Rightarrow> JNull)]"

lemma error_body_fields [simp]:
  "jprop (error_body t e) ''error'' = JStr t" "jprop (error_body t e) ''hints'' = JArr (hints e)"
  "jprop (error_body t e) ''output'' = JStr (err_output e)" "jprop (error_body t e) ''command'' = JStr (command e)"
  "jprop (error_body t e) ''configPath'' = JStr (configPath e)" "jprop (error_body t e) ''serviceLog'' = JStr (serviceLog e)"
  "jprop (error_body t e) ''backupPath'' = JStr (backupPath e)"
  "jprop (error_body t e) ''retryAfterSeconds'' = (case retryAfterSeconds e of Some n \<Rightarrow> JNum n | None \<Rightarrow> JNull)"
  "jprop (error_body t e) ''rolledBack'' = (case rolledBack e of Some x \<Rightarrow> JBool x | None \<Rightarrow> JNull)" "error_body t e \<noteq> JNull"
  by (simp_all add: error_body_def jprop_def obj_get_def)

lemma request_reads_error:
  assumes "\<not> (200 \<le> n \<and> n < 300)"
  shows "fst (request token (Some \<lparr>status = n, body = Some (error_body t e)\<rparr>)) = Inl (e\<lparr>message := if t = [] then MSG_REQUEST else Raw t\<rparr>)"
  using assms by (cases e) (simp add: request_def res_ok_def error_text_def str_prop_def Let_def split: option.split)

text \<open>C12: A request resolves exactly when the answer is a success with a readable body, with the value of that body, or a 204, with
  \<^verbatim>\<open>null\<close>; it tells the session to end exactly when a request made with a token is answered 401; it is rejected with the network
  message exactly when nothing was answered. An error answer is rejected with every detail the backend wrote into it (its text, hints,
  output, command, paths, waiting time and the note of a rollback), and with the general message when its body cannot be read.\<close>

theorem request_contract:
  "(fst (request token answer) = Inr v \<longleftrightarrow>
      (\<exists>res. answer = Some res \<and> 200 \<le> status res \<and> status res < 300 \<and> (if status res = 204 then v = JNull else body res = Some v)))
   \<and> (snd (request token answer) \<longleftrightarrow> token \<noteq> [] \<and> map_option status answer = Some 401)
   \<and> (fst (request token answer) = Inl (plain_error MSG_NETWORK) \<longleftrightarrow> answer = None)
   \<and> (200 \<le> n \<and> n < 300 \<or>
        fst (request token (Some \<lparr>status = n, body = Some (error_body t e)\<rparr>)) = Inl (e\<lparr>message := if t = [] then MSG_REQUEST else Raw t\<rparr>)
        \<and> fst (request token (Some \<lparr>status = n, body = None\<rparr>)) = Inl (plain_error MSG_REQUEST))"
proof (intro conjI)
  show "fst (request token answer) = Inr v \<longleftrightarrow>
      (\<exists>res. answer = Some res \<and> 200 \<le> status res \<and> status res < 300 \<and> (if status res = 204 then v = JNull else body res = Some v))"
    by (cases answer) (auto simp: request_def res_ok_def Let_def split: option.splits)
  show "snd (request token answer) \<longleftrightarrow> token \<noteq> [] \<and> map_option status answer = Some 401"
    by (cases answer) (auto simp: request_def Let_def split: option.splits)
  show "fst (request token answer) = Inl (plain_error MSG_NETWORK) \<longleftrightarrow> answer = None"
    by (cases answer)
       (auto simp: request_def Let_def plain_error_def MSG_NETWORK_def MSG_REQUEST_def MSG_NULL_def error_text_def split: option.splits)
  have "fst (request token (Some \<lparr>status = n, body = None\<rparr>)) = Inl (plain_error MSG_REQUEST)" if "\<not> (200 \<le> n \<and> n < 300)"
    using that by (simp add: request_def res_ok_def error_text_def str_prop_def plain_error_def jprop_def obj_get_def Let_def)
  then show "200 \<le> n \<and> n < 300 \<or>
        fst (request token (Some \<lparr>status = n, body = Some (error_body t e)\<rparr>)) = Inl (e\<lparr>message := if t = [] then MSG_REQUEST else Raw t\<rparr>)
        \<and> fst (request token (Some \<lparr>status = n, body = None\<rparr>)) = Inl (plain_error MSG_REQUEST)"
    using request_reads_error [of n token t e] by blast
qed

lemma bump_bounds:
  "list_all (\<lambda>x. 0 \<le> x \<and> x \<le> 1) (progress u) \<Longrightarrow> list_all (\<lambda>x. 0 \<le> x \<and> x \<le> 1) (progress (bump x u))"
  by (simp add: bump_def)

lemma settle_upload_fields [simp]: "progress (settle_upload r u) = progress u" "sessionInvalid (settle_upload r u) = sessionInvalid u"
  by (simp_all add: settle_upload_def)

lemma outcome_settle_upload: "outcome u \<noteq> Running \<Longrightarrow> outcome (settle_upload r u) = outcome u"
  by (simp add: settle_upload_def)

lemma xhr_step_bounds:
  "list_all (\<lambda>x. 0 \<le> x \<and> x \<le> 1) (progress u) \<Longrightarrow> list_all (\<lambda>x. 0 \<le> x \<and> x \<le> 1) (progress (xhr_step token u e))"
  by (cases e) (auto simp: Let_def bump_def)

lemma xhr_step_settled: "outcome u \<noteq> Running \<Longrightarrow> outcome (xhr_step token u e) = outcome u"
  by (cases e) (auto simp: Let_def bump_def settle_upload_def)

text \<open>Whatever events the transport delivers, in any order and number, every progress value an upload
  reports lies between 0 and 1, and once the upload has settled no later event changes its outcome.\<close>

theorem upload_progress_bounded:
  "list_all (\<lambda>x. 0 \<le> x \<and> x \<le> 1) (progress (postJsonWithUploadProgress token evs))
   \<and> (outcome (postJsonWithUploadProgress token evs) = Running \<or>
        outcome (postJsonWithUploadProgress token (evs @ later)) = outcome (postJsonWithUploadProgress token evs))"
proof -
  have b: "list_all (\<lambda>x. 0 \<le> x \<and> x \<le> 1) (progress (foldl (xhr_step token) u evs))"
    if "list_all (\<lambda>x. 0 \<le> x \<and> x \<le> 1) (progress u)" for u
    using that by (induction evs arbitrary: u) (simp_all add: xhr_step_bounds)
  have s: "outcome (foldl (xhr_step token) u later) = outcome u" if "outcome u \<noteq> Running" for u
    using that by (induction later arbitrary: u) (simp_all add: xhr_step_settled)
  show ?thesis using b s by (auto simp: postJsonWithUploadProgress_def)
qed

text \<open>The events that settle an upload: the loss of the connection, and an answer unless it is an error answer whose body is \<^verbatim>\<open>null\<close>.\<close>

fun settles :: "xhr_event \<Rightarrow> bool" where
  "settles NetworkError = True"
| "settles (Load res text statusText) = (status res < 400 \<or> text = [] \<or> body res \<noteq> Some JNull)"
| "settles _ = False"

lemma bump_outcome [simp]: "outcome (bump x u) = outcome u"
  by (simp add: bump_def)

lemma load_settles:
  assumes "outcome u = Running"
  shows "outcome (xhr_step token u (Load res text statusText)) \<noteq> Running \<longleftrightarrow> status res < 400 \<or> text = [] \<or> body res \<noteq> Some JNull"
proof (cases "status res < 400")
  case True
  then show ?thesis using assms by (simp add: Let_def settle_upload_def not_le)
next
  case False
  then show ?thesis using assms by (cases "body res") (simp_all add: Let_def settle_upload_def not_less)
qed

lemma xhr_step_settles:
  assumes "outcome u = Running"
  shows "outcome (xhr_step token u e) \<noteq> Running \<longleftrightarrow> settles e"
proof (cases e)
  case (Load res t st)
  then show ?thesis using load_settles [OF assms] by (simp del: xhr_step.simps)
qed (use assms in \<open>simp_all add: settle_upload_def\<close>)

text \<open>C38: An upload settles exactly when the connection is lost or an answer arrives that is no error answer with the body \<^verbatim>\<open>null\<close>. Such an
  answer throws inside the callback: the promise stays open, and whoever waits for it waits for ever.\<close>

theorem upload_settles:
  "outcome (postJsonWithUploadProgress token evs) \<noteq> Running \<longleftrightarrow> list_ex settles evs"
proof -
  have "outcome (foldl (xhr_step token) u evs) \<noteq> Running \<longleftrightarrow> outcome u \<noteq> Running \<or> list_ex settles evs" for u
  proof (induction evs arbitrary: u)
    case (Cons e evs)
    show ?case
      unfolding foldl.simps Cons.IH
      using xhr_step_settles [of u token e] xhr_step_settled [of u token e] by (cases "outcome u = Running") (simp_all del: xhr_step.simps)
  qed simp
  then show ?thesis by (simp add: postJsonWithUploadProgress_def)
qed

end
