(* ===== verification/Panel_Data.thy ===== *)
theory Panel_Data
  imports Routes Http
begin

section \<open>The data the panel keeps and how it refreshes it\<close>

text \<open>
  \<^verbatim>\<open>src/frontend/src/panelData.ts\<close>: which entities a page needs, how often they are polled,
  how they are fetched and stored; and from \<^verbatim>\<open>App.tsx\<close> the two callbacks that drive it,
  \<^verbatim>\<open>refreshPanelData\<close> and \<^verbatim>\<open>loadData\<close>, and the polling effect, as a state machine in which a
  fetch starts in one step and settles in a later one.
\<close>

subsection \<open>Entities and endpoints\<close>

datatype panel_key =
    K_overview | K_admins | K_certificates | K_clients | K_nodes | K_ipHistory | K_sourceIpHistory
  | K_adminActionLogs | K_rootCAs | K_organizations | K_vpnUsers

fun PANEL_DATA_ENDPOINTS :: "panel_key \<Rightarrow> string" where
  "PANEL_DATA_ENDPOINTS K_overview = ''/api/monitoring/overview''"
| "PANEL_DATA_ENDPOINTS K_admins = ''/api/admins''"
| "PANEL_DATA_ENDPOINTS K_certificates = ''/api/certificates''"
| "PANEL_DATA_ENDPOINTS K_clients = ''/api/clients''"
| "PANEL_DATA_ENDPOINTS K_nodes = ''/api/agent/nodes''"
| "PANEL_DATA_ENDPOINTS K_ipHistory = ''/api/clients/history''"
| "PANEL_DATA_ENDPOINTS K_sourceIpHistory = ''/api/clients/source-history''"
| "PANEL_DATA_ENDPOINTS K_adminActionLogs = ''/api/monitoring/admin-actions?limit=300''"
| "PANEL_DATA_ENDPOINTS K_rootCAs = ''/api/certificates/root-ca''"
| "PANEL_DATA_ENDPOINTS K_organizations = ''/api/organizations''"
| "PANEL_DATA_ENDPOINTS K_vpnUsers = ''/api/vpn-users''"

definition uniqueKeys :: "panel_key list \<Rightarrow> panel_key list" where
  "uniqueKeys keys = js_unique keys"

text \<open>The context is the selected server's id, \<open>None\<close> when the object has no such field.\<close>

definition endpointForKey :: "panel_key \<Rightarrow> string option \<Rightarrow> string" where
  "endpointForKey key ctx =
     (if key = K_overview \<and> opt_str ctx \<noteq> []
      then PANEL_DATA_ENDPOINTS K_overview @ ''?agentNodeId='' @ encodeURIComponent (opt_str ctx)
      else PANEL_DATA_ENDPOINTS key)"

definition ALL_PANEL_DATA_KEYS :: "panel_key list" where
  "ALL_PANEL_DATA_KEYS = uniqueKeys [K_overview, K_admins, K_certificates, K_clients, K_nodes, K_ipHistory,
     K_sourceIpHistory, K_adminActionLogs, K_rootCAs, K_organizations, K_vpnUsers]"

datatype refresh_group = RefreshServers | RefreshAdmins | RefreshOrganizations | RefreshVpnUsers
  | RefreshCertificates | RefreshClients

fun PANEL_DATA_REFRESH :: "refresh_group \<Rightarrow> panel_key list" where
  "PANEL_DATA_REFRESH RefreshServers = [K_nodes, K_overview]"
| "PANEL_DATA_REFRESH RefreshAdmins = [K_admins]"
| "PANEL_DATA_REFRESH RefreshOrganizations = [K_organizations]"
| "PANEL_DATA_REFRESH RefreshVpnUsers = [K_vpnUsers, K_certificates, K_clients]"
| "PANEL_DATA_REFRESH RefreshCertificates = [K_certificates, K_rootCAs, K_nodes, K_clients, K_vpnUsers]"
| "PANEL_DATA_REFRESH RefreshClients = [K_clients, K_nodes]"

definition mergePanelDataKeys :: "panel_key list list \<Rightarrow> panel_key list" where
  "mergePanelDataKeys groups = uniqueKeys (concat groups)"

definition panelDataRouteKey :: "route \<Rightarrow> string" where
  "panelDataRouteKey r = js_join ''|'' [primaryNav r, serversView r, selectedServerId r, serverDetailTab r,
     organizationsView r, organizationEditId r, usersSub r, selectedUserId r, userProfileTab r, adminsPage r,
     settingsSection r, logsView r]"

subsection \<open>What a page needs\<close>

definition userProfileKeys :: "string \<Rightarrow> panel_key list" where
  "userProfileKeys tab =
     (if tab = ''certs'' \<or> tab = ''vpn'' then [K_vpnUsers, K_certificates, K_rootCAs]
      else if tab = ''ccd'' \<or> tab = ''firewall'' then [K_vpnUsers, K_organizations]
      else if tab = ''sessions'' then [K_vpnUsers, K_clients, K_certificates]
      else [K_vpnUsers, K_organizations])"

definition serverDetailKeys :: "string \<Rightarrow> panel_key list" where
  "serverDetailKeys tab =
     (if tab = ''monitoring'' then [K_overview]
      else if tab = ''sessions'' then [K_nodes, K_clients, K_vpnUsers, K_certificates]
      else if tab = ''certificates'' \<or> tab = ''ca-center'' then [K_nodes, K_certificates, K_rootCAs]
      else [K_nodes])"

definition panelDataKeysForRoute :: "route \<Rightarrow> panel_key list" where
  "panelDataKeysForRoute r =
     (if primaryNav r = ''inviteAdmin'' \<or> primaryNav r = ''resetAdminPassword'' then []
      else if primaryNav r = ''documentation'' \<or> primaryNav r = ''tasks'' \<or> primaryNav r = ''myProfile'' then []
      else if primaryNav r = ''settings'' then (if settingsSection r = ''admins'' then [K_admins] else [])
      else if primaryNav r = ''logs'' then
        (if logsView r = ''source-ip'' then [K_sourceIpHistory]
         else if logsView r = ''admin'' then [K_adminActionLogs] else [K_ipHistory])
      else if primaryNav r = ''organizations'' then
        (if organizationsView r = ''list'' \<or> organizationsView r = ''edit'' then [K_organizations] else [])
      else if primaryNav r = ''users'' then
        (if usersSub r = ''list'' then [K_vpnUsers, K_clients, K_certificates]
         else if usersSub r = ''add'' then [K_rootCAs]
         else if usersSub r = ''profile'' then userProfileKeys (userProfileTab r)
         else [K_vpnUsers])
      else if primaryNav r = ''servers'' then
        (if serversView r = ''list'' then [K_nodes]
         else if serversView r = ''add'' then []
         else if serversView r = ''detail'' then serverDetailKeys (serverDetailTab r)
         else [K_nodes])
      else [])"

definition panelDataPollIntervalMs :: "route \<Rightarrow> nat" where
  "panelDataPollIntervalMs r =
     (let keys = panelDataKeysForRoute r in
      if keys = [] then 0
      else if primaryNav r = ''servers'' \<and> serversView r = ''detail'' \<and> serverDetailTab r = ''monitoring'' then 2000
      else if primaryNav r = ''servers'' \<and> serversView r = ''list'' then 3000
      else if K_certificates \<in> set keys \<and> length keys \<ge> 3 then 4000
      else if primaryNav r = ''logs'' then 5000
      else 3000)"

definition panelDataFetchContext :: "route \<Rightarrow> string option" where
  "panelDataFetchContext r =
     (if primaryNav r = ''servers'' \<and> serversView r = ''detail'' \<and> serverDetailTab r = ''monitoring'' \<and>
         selectedServerId r \<noteq> []
      then Some (selectedServerId r) else None)"

subsection \<open>Fetching and storing\<close>

record panel_data =
  overview :: jsval
  admins :: jsval
  certificates :: jsval
  clients :: jsval
  nodes :: jsval
  ipHistory :: jsval
  sourceIpHistory :: jsval
  adminActionLogs :: jsval
  rootCAs :: jsval
  organizations :: jsval
  vpnUsers :: jsval

fun panel_get :: "panel_key \<Rightarrow> panel_data \<Rightarrow> jsval" where
  "panel_get K_overview d = overview d"
| "panel_get K_admins d = admins d"
| "panel_get K_certificates d = certificates d"
| "panel_get K_clients d = clients d"
| "panel_get K_nodes d = nodes d"
| "panel_get K_ipHistory d = ipHistory d"
| "panel_get K_sourceIpHistory d = sourceIpHistory d"
| "panel_get K_adminActionLogs d = adminActionLogs d"
| "panel_get K_rootCAs d = rootCAs d"
| "panel_get K_organizations d = organizations d"
| "panel_get K_vpnUsers d = vpnUsers d"

text \<open>
  The requests of one fetch (in list order) and what \<^verbatim>\<open>Promise.all\<close> makes of their answers:
  \<open>arrival\<close> is the order in which they settle, the first rejection wins, and only when all are
  resolved is there a patch.
\<close>

definition fetch_requests :: "string \<Rightarrow> panel_key list \<Rightarrow> string option \<Rightarrow> (string \<times> string \<times> string) list" where
  "fetch_requests token keys ctx = map (\<lambda>k. (endpointForKey k ctx, ''GET'', token)) (uniqueKeys keys)"

definition fetchPanelDataKeys ::
  "(panel_key \<Rightarrow> req_error + jsval) \<Rightarrow> panel_key list \<Rightarrow> panel_key list \<Rightarrow> req_error + (panel_key \<times> jsval) list" where
  "fetchPanelDataKeys answers keys arrival =
     (let unique = uniqueKeys keys in
      if unique = [] then Inr []
      else (case find (\<lambda>k. isl (answers k)) (filter (\<lambda>k. k \<in> set unique) arrival) of
              Some k \<Rightarrow> Inl (projl (answers k))
            | None \<Rightarrow> Inr (map (\<lambda>k. (k, projr (answers k))) unique)))"

definition in_patch :: "panel_key \<Rightarrow> (panel_key \<times> jsval) list \<Rightarrow> bool" where
  "in_patch k patch \<longleftrightarrow> k \<in> set (map fst patch)"

definition patch_val :: "panel_key \<Rightarrow> (panel_key \<times> jsval) list \<Rightarrow> jsval" where
  "patch_val k patch = (case map_of patch k of None \<Rightarrow> JUndef | Some v \<Rightarrow> v)"

definition applyPanelDataPatch :: "(panel_key \<times> jsval) list \<Rightarrow> panel_data \<Rightarrow> panel_data" where
  "applyPanelDataPatch p d0 =
    (let d1 = (if in_patch K_overview p then d0\<lparr>overview := patch_val K_overview p\<rparr> else d0);
         d2 = (if in_patch K_admins p then d1\<lparr>admins := patch_val K_admins p\<rparr> else d1);
         d3 = (if in_patch K_certificates p then d2\<lparr>certificates := patch_val K_certificates p\<rparr> else d2);
         d4 = (if in_patch K_clients p then d3\<lparr>clients := patch_val K_clients p\<rparr> else d3);
         d5 = (if in_patch K_nodes p then d4\<lparr>nodes := patch_val K_nodes p\<rparr> else d4);
         d6 = (if in_patch K_ipHistory p then d5\<lparr>ipHistory := patch_val K_ipHistory p\<rparr> else d5);
         d7 = (if in_patch K_sourceIpHistory p then d6\<lparr>sourceIpHistory := patch_val K_sourceIpHistory p\<rparr> else d6);
         d8 = (if in_patch K_adminActionLogs p then d7\<lparr>adminActionLogs := patch_val K_adminActionLogs p\<rparr> else d7);
         d9 = (if in_patch K_rootCAs p then d8\<lparr>rootCAs := patch_val K_rootCAs p\<rparr> else d8);
         d10 = (if in_patch K_organizations p then d9\<lparr>organizations := patch_val K_organizations p\<rparr> else d9);
         d11 = (if in_patch K_vpnUsers p then d10\<lparr>vpnUsers := patch_val K_vpnUsers p\<rparr> else d10)
     in d11)"

subsection \<open>Refreshing\<close>

text \<open>
  The state the callbacks share: the entities, the in-flight flag
  (\<^verbatim>\<open>panelDataFetchInFlightRef\<close>), the error line, the fetch that is under way (its keys and its
  context) and the requests sent so far.
\<close>

record panel_sys =
  pdata :: panel_data
  inFlight :: bool
  errorLine :: uitext
  pending :: "(panel_key list \<times> string option) option"
  sent :: "(string \<times> string \<times> string) list"

text \<open>\<open>keys = None\<close> stands for calling \<^verbatim>\<open>refreshPanelData()\<close> without an argument.\<close>

definition refreshPanelData_start :: "string \<Rightarrow> route \<Rightarrow> panel_key list option \<Rightarrow> panel_sys \<Rightarrow> panel_sys" where
  "refreshPanelData_start token r keys s =
     (if token = [] \<or> inFlight s then s
      else (let toFetch = (case keys of None \<Rightarrow> panelDataKeysForRoute r | Some ks \<Rightarrow> ks) in
            if toFetch = [] then s
            else s\<lparr>inFlight := True, pending := Some (toFetch, panelDataFetchContext r),
                    sent := sent s @ fetch_requests token toFetch (panelDataFetchContext r)\<rparr>))"

definition refreshPanelData_settle :: "(panel_key \<Rightarrow> req_error + jsval) \<Rightarrow> panel_key list \<Rightarrow> panel_sys \<Rightarrow> panel_sys" where
  "refreshPanelData_settle answers arrival s = (case pending s of None \<Rightarrow> s
     | Some (keys, ctx) \<Rightarrow>
         (case fetchPanelDataKeys answers keys arrival of
            Inr patch \<Rightarrow> s\<lparr>pdata := applyPanelDataPatch patch (pdata s), errorLine := NoText,
                            inFlight := False, pending := None\<rparr>
          | Inl e \<Rightarrow> s\<lparr>errorLine := message e, inFlight := False, pending := None\<rparr>))"

definition loadData_start :: "string \<Rightarrow> route \<Rightarrow> panel_key list \<Rightarrow> panel_sys \<Rightarrow> panel_sys" where
  "loadData_start token r afterMutationKeys s =
     (let routeKeys = panelDataKeysForRoute r;
          keys = (if afterMutationKeys \<noteq> [] then js_unique (routeKeys @ afterMutationKeys) else routeKeys)
      in refreshPanelData_start token r (Some keys) s)"

text \<open>One tick of the polling effect: it runs only where there is something to poll.\<close>

definition poll_tick :: "string \<Rightarrow> route \<Rightarrow> bool \<Rightarrow> panel_sys \<Rightarrow> panel_sys" where
  "poll_tick token r hidden s =
     (if token = [] \<or> panelDataKeysForRoute r = [] \<or> panelDataPollIntervalMs r = 0 then s
      else if hidden then s
      else refreshPanelData_start token r (Some (panelDataKeysForRoute r)) s)"

datatype refresh_event =
    Tick string route bool
  | Mutated string route "panel_key list"
  | Settle "panel_key \<Rightarrow> req_error + jsval" "panel_key list"

fun refresh_step :: "panel_sys \<Rightarrow> refresh_event \<Rightarrow> panel_sys" where
  "refresh_step s (Tick token r hidden) = poll_tick token r hidden s"
| "refresh_step s (Mutated token r ks) = loadData_start token r ks s"
| "refresh_step s (Settle answers arrival) = refreshPanelData_settle answers arrival s"

subsection \<open>Library\<close>

lemma map_of_const_snd: "map_of (map (\<lambda>k. (k, f k)) ks) k = (if k \<in> set ks then Some (f k) else None)"
  by (induction ks) auto

lemma in_patch_map [simp]: "in_patch k (map (\<lambda>k. (k, f k)) ks) \<longleftrightarrow> k \<in> set ks"
  by (simp add: in_patch_def image_iff)

lemma patch_val_map [simp]: "k \<in> set ks \<Longrightarrow> patch_val k (map (\<lambda>k. (k, f k)) ks) = f k"
  by (simp add: patch_val_def map_of_const_snd)

lemma uniqueKeys_simps [simp]: "set (uniqueKeys ks) = set ks" "distinct (uniqueKeys ks)" "uniqueKeys ks = [] \<longleftrightarrow> ks = []"
  by (simp_all add: uniqueKeys_def)

lemma fetch_success:
  assumes "keys \<noteq> []" and "\<forall>k\<in>set keys. \<not> isl (answers k)"
  shows "fetchPanelDataKeys answers keys arrival = Inr (map (\<lambda>k. (k, projr (answers k))) (uniqueKeys keys))"
proof -
  have "find (\<lambda>k. isl (answers k)) (filter (\<lambda>k. k \<in> set (uniqueKeys keys)) arrival) = None"
    using assms(2) by (auto simp: find_None_iff)
  with assms(1) show ?thesis by (simp add: fetchPanelDataKeys_def Let_def)
qed

lemma fetch_failure:
  assumes "set keys \<subseteq> set arrival" and "\<exists>k\<in>set keys. isl (answers k)"
  shows "\<exists>k\<in>set keys. isl (answers k) \<and> fetchPanelDataKeys answers keys arrival = Inl (projl (answers k))"
proof -
  have "find (\<lambda>k. isl (answers k)) (filter (\<lambda>k. k \<in> set (uniqueKeys keys)) arrival) \<noteq> None"
    using assms by (auto simp: find_None_iff)
  then obtain k where k: "find (\<lambda>k. isl (answers k)) (filter (\<lambda>k. k \<in> set (uniqueKeys keys)) arrival) = Some k"
    by blast
  then have "k \<in> set keys \<and> isl (answers k)"
    by (auto simp: find_Some_iff) (metis mem_Collect_eq nth_mem set_filter uniqueKeys_simps(1))
  with k show ?thesis using assms by (auto simp: fetchPanelDataKeys_def Let_def)
qed

lemma panel_get_apply:
  "panel_get k (applyPanelDataPatch p d) = (if in_patch k p then patch_val k p else panel_get k d)"
  by (cases k) (simp_all add: applyPanelDataPatch_def Let_def)

lemma panel_get_apply_map:
  "panel_get k (applyPanelDataPatch (map (\<lambda>k. (k, f k)) ks) d) = (if k \<in> set ks then f k else panel_get k d)"
  by (simp add: panel_get_apply)

definition refresh_inv :: "panel_sys \<Rightarrow> bool" where
  "refresh_inv s \<longleftrightarrow> (inFlight s \<longleftrightarrow> pending s \<noteq> None)"

lemma refresh_start_inv: "refresh_inv s \<Longrightarrow> refresh_inv (refreshPanelData_start token r keys s)"
  by (auto simp: refresh_inv_def refreshPanelData_start_def Let_def)

lemma refresh_step_inv: "refresh_inv s \<Longrightarrow> refresh_inv (refresh_step s e)"
proof (cases e)
  case (Settle answers arrival)
  assume "refresh_inv s"
  with Settle show ?thesis
    by (auto simp: refresh_inv_def refreshPanelData_settle_def split: option.splits sum.splits)
qed (simp_all add: poll_tick_def loadData_start_def refresh_start_inv Let_def)

lemma refresh_run_inv: "refresh_inv s \<Longrightarrow> refresh_inv (foldl refresh_step s es)"
  by (induction es arbitrary: s) (simp_all add: refresh_step_inv)

subsection \<open>Properties\<close>

text \<open>The polling plan of a page: the entities it polls are distinct, it is polled exactly when there is
  something to poll, never more often than every two seconds, and the overview is narrowed to one server
  exactly on that server's monitoring tab, where nothing else is fetched.\<close>

theorem polling_plan:
  "distinct (panelDataKeysForRoute r) \<and>
   (panelDataPollIntervalMs r = 0 \<longleftrightarrow> panelDataKeysForRoute r = []) \<and>
   panelDataPollIntervalMs r \<in> {0, 2000, 3000, 4000, 5000} \<and>
   (panelDataFetchContext r = None \<or>
      panelDataFetchContext r = Some (selectedServerId r) \<and> panelDataKeysForRoute r = [K_overview] \<and>
      panelDataPollIntervalMs r = 2000)"
proof (intro conjI)
  show "distinct (panelDataKeysForRoute r)"
    by (simp add: panelDataKeysForRoute_def userProfileKeys_def serverDetailKeys_def)
  show "panelDataPollIntervalMs r = 0 \<longleftrightarrow> panelDataKeysForRoute r = []"
    by (simp add: panelDataPollIntervalMs_def Let_def)
  show "panelDataPollIntervalMs r \<in> {0, 2000, 3000, 4000, 5000}"
    by (simp add: panelDataPollIntervalMs_def Let_def)
  show "panelDataFetchContext r = None \<or>
      panelDataFetchContext r = Some (selectedServerId r) \<and> panelDataKeysForRoute r = [K_overview] \<and>
      panelDataPollIntervalMs r = 2000"
    by (simp add: panelDataFetchContext_def panelDataPollIntervalMs_def panelDataKeysForRoute_def serverDetailKeys_def)
qed

text \<open>C7: A refresh after a mutation is complete and atomic, or does not take place. While another fetch is under way, when nobody is
  signed in and where neither the page nor the mutation has an entity, it changes nothing and sends nothing. Otherwise, when all answers arrive, every entity of the page and of the mutation holds its fresh answer, no other
  entity has changed and the error line is cleared; when any answer is an error, no entity has changed and the line shows one of the
  errors; and the panel is ready for the next refresh.\<close>

theorem loadData_complete_and_atomic:
  fixes answers :: "panel_key \<Rightarrow> req_error + jsval" and s :: panel_sys and token :: string
  assumes "set (panelDataKeysForRoute r @ ks) \<subseteq> set arrival"
  defines "t \<equiv> refreshPanelData_settle answers arrival (loadData_start token r ks s)"
    and "wanted \<equiv> set (panelDataKeysForRoute r @ ks)"
  shows "if inFlight s \<or> token = [] \<or> wanted = {} then loadData_start token r ks s = s else \<not> inFlight t \<and> pending t = None \<and>
    (if \<forall>k\<in>wanted. \<not> isl (answers k)
     then errorLine t = NoText \<and>
       (\<forall>k. panel_get k (pdata t) = (if k \<in> wanted then projr (answers k) else panel_get k (pdata s)))
     else pdata t = pdata s \<and> (\<exists>k\<in>wanted. isl (answers k) \<and> errorLine t = message (projl (answers k))))"
proof (cases "inFlight s \<or> token = [] \<or> wanted = {}")
  case True
  then show ?thesis by (auto simp: wanted_def loadData_start_def refreshPanelData_start_def Let_def)
next
  case idle: False
  define keys where "keys = (if ks \<noteq> [] then js_unique (panelDataKeysForRoute r @ ks) else panelDataKeysForRoute r)"
  have ne: "keys \<noteq> []" using idle by (auto simp: wanted_def keys_def)
  have w: "set keys = wanted" by (simp add: wanted_def keys_def)
  have start: "loadData_start token r ks s = s\<lparr>inFlight := True, pending := Some (keys, panelDataFetchContext r),
      sent := sent s @ fetch_requests token keys (panelDataFetchContext r)\<rparr>"
    using idle ne by (simp add: loadData_start_def refreshPanelData_start_def Let_def flip: keys_def)
  show ?thesis
  proof (cases "\<forall>k\<in>wanted. \<not> isl (answers k)")
    case True
    with fetch_success [OF ne, of answers arrival] w
    have t: "t = (loadData_start token r ks s)\<lparr>pdata := applyPanelDataPatch (map (\<lambda>k. (k, projr (answers k))) (uniqueKeys keys)) (pdata s),
        errorLine := NoText, inFlight := False, pending := None\<rparr>"
      unfolding t_def start refreshPanelData_settle_def by simp
    have "panel_get k (pdata t) = (if k \<in> wanted then projr (answers k) else panel_get k (pdata s))" for k
      using w by (simp add: t panel_get_apply_map)
    with True t idle show ?thesis by simp
  next
    case False
    then have ex: "\<exists>k\<in>set keys. isl (answers k)" using w by blast
    have sub: "set keys \<subseteq> set arrival" using assms(1) w wanted_def by blast
    obtain k where "k \<in> set keys" "isl (answers k)" and f: "fetchPanelDataKeys answers keys arrival = Inl (projl (answers k))"
      using fetch_failure [OF sub ex] by blast
    moreover have "t = (loadData_start token r ks s)\<lparr>errorLine := message (projl (answers k)), inFlight := False, pending := None\<rparr>"
      unfolding t_def start refreshPanelData_settle_def using f by simp
    ultimately show ?thesis using False w start idle by auto
  qed
qed

definition idle_sys :: "panel_data \<Rightarrow> panel_sys" where
  "idle_sys d = \<lparr>pdata = d, inFlight = False, errorLine = NoText, pending = None, sent = []\<rparr>"

definition empty_data :: panel_data where
  "empty_data = \<lparr>overview = JNull, admins = JArr [], certificates = JArr [], clients = JArr [], nodes = JArr [],
     ipHistory = JArr [], sourceIpHistory = JArr [], adminActionLogs = JArr [], rootCAs = JArr [],
     organizations = JArr [], vpnUsers = JArr []\<rparr>"

theorem loadData_complete_and_atomic_witness:
  "errorLine (refreshPanelData_settle (\<lambda>k. Inr (JBool True)) ALL_PANEL_DATA_KEYS
      (loadData_start ''t'' base_route [K_admins] (idle_sys empty_data))) = NoText
   \<and> panel_get K_admins (pdata (refreshPanelData_settle (\<lambda>k. Inr (JBool True)) ALL_PANEL_DATA_KEYS
      (loadData_start ''t'' base_route [K_admins] (idle_sys empty_data)))) = JBool True"
  using loadData_complete_and_atomic [of base_route "[K_admins]" ALL_PANEL_DATA_KEYS "idle_sys empty_data" "''t''" "\<lambda>k. Inr (JBool True)"]
  by (simp add: idle_sys_def base_route_def panelDataKeysForRoute_def ALL_PANEL_DATA_KEYS_def)

text \<open>C2: At most one fetch is ever under way, in every run of ticks, mutations and answers: the in-flight flag
  says exactly whether a fetch is pending, and while it is set neither a tick nor a mutation sends a request.\<close>

theorem single_flight:
  assumes "refresh_inv s"
  shows "(inFlight (foldl refresh_step s es) \<longleftrightarrow> pending (foldl refresh_step s es) \<noteq> None) \<and>
    (\<not> inFlight (foldl refresh_step s es) \<or>
       sent (refresh_step (foldl refresh_step s es) (Tick token r hidden)) = sent (foldl refresh_step s es) \<and>
       sent (refresh_step (foldl refresh_step s es) (Mutated token r ks)) = sent (foldl refresh_step s es))"
  using refresh_run_inv [OF assms, of es]
  by (auto simp: refresh_inv_def poll_tick_def loadData_start_def refreshPanelData_start_def Let_def)

theorem single_flight_witness:
  "refresh_inv (idle_sys empty_data) \<and>
   inFlight (foldl refresh_step (idle_sys empty_data) [Tick ''t'' base_route False]) \<and>
   sent (refresh_step (foldl refresh_step (idle_sys empty_data) [Tick ''t'' base_route False]) (Tick ''t'' base_route False))
     = sent (foldl refresh_step (idle_sys empty_data) [Tick ''t'' base_route False])"
proof -
  have i: "refresh_inv (idle_sys empty_data)" by (simp add: refresh_inv_def idle_sys_def)
  have f: "inFlight (foldl refresh_step (idle_sys empty_data) [Tick ''t'' base_route False])"
    by (simp add: idle_sys_def poll_tick_def base_route_def panelDataKeysForRoute_def panelDataPollIntervalMs_def
        refreshPanelData_start_def Let_def)
  show ?thesis
    using single_flight [OF i, of "[Tick ''t'' base_route False]" "''t''" base_route False "[]"] i f by blast
qed

text \<open>The refresh a mutation asks for is lost when a poll is under way: whatever it was to fetch, the run ends
  in the same state as if the mutation had never asked, holding the answers of the poll that started before it.\<close>

theorem mutation_refresh_lost:
  assumes "token \<noteq> []" and "panelDataKeysForRoute r \<noteq> []"
  shows "foldl refresh_step s [Tick token r False, Mutated token r' ks, Settle answers arrival] =
         foldl refresh_step s [Tick token r False, Settle answers arrival]"
proof -
  have "panelDataPollIntervalMs r \<noteq> 0" using assms(2) by (simp add: panelDataPollIntervalMs_def Let_def)
  with assms have "inFlight (poll_tick token r False s)"
    by (simp add: poll_tick_def refreshPanelData_start_def Let_def)
  then show ?thesis by (simp add: loadData_start_def refreshPanelData_start_def Let_def)
qed

theorem mutation_refresh_lost_witness:
  "foldl refresh_step (idle_sys empty_data)
      [Tick ''t'' base_route False, Mutated ''t'' base_route [K_admins], Settle (\<lambda>k. Inr (JBool True)) [K_nodes]] =
   foldl refresh_step (idle_sys empty_data) [Tick ''t'' base_route False, Settle (\<lambda>k. Inr (JBool True)) [K_nodes]]"
  by (rule mutation_refresh_lost) (simp_all add: base_route_def panelDataKeysForRoute_def)

end
