(* ===== verification/Line_Diff.thy ===== *)
theory Line_Diff
  imports Js_Prelude "HOL-Library.While_Combinator"
begin

section \<open>The line diff of two configurations\<close>

text \<open>
  \<^verbatim>\<open>lineDiffLcs\<close> and \<^verbatim>\<open>rawConfigFromServerSettingsDiff\<close> of \<^verbatim>\<open>App.tsx\<close>: the table of
  longest common subsequences filled row by row, the walk back through it, and the new file read
  off the diff, which is the text the panel writes to the server. The table is a list of lists
  updated in place; the walk is a recursion on the two indices. The specification side is
  \<open>lcs_len\<close>, the recursion the table tabulates, and \<open>subseq\<close> of the library.
\<close>

subsection \<open>The code\<close>

datatype diff_line = Same string | Add string | Del string

fun replace_crlf :: "string \<Rightarrow> string" where
  "replace_crlf (c # d # r) = (if c = CR \<and> d = LF then LF # replace_crlf r else c # replace_crlf (d # r))"
| "replace_crlf s = s"

definition to_lines :: "string \<Rightarrow> string list" where
  "to_lines v = rev (dropWhile (\<lambda>l. l = []) (rev (js_split LF (replace_crlf v))))"

definition dp_init :: "nat \<Rightarrow> nat \<Rightarrow> nat list list" where
  "dp_init m n = replicate (m + 1) (replicate (n + 1) 0)"

definition dp_cell :: "string list \<Rightarrow> string list \<Rightarrow> nat list list \<Rightarrow> nat \<Rightarrow> nat \<Rightarrow> nat" where
  "dp_cell a b dp i j =
     (if a ! (i - 1) = b ! (j - 1) then dp ! (i - 1) ! (j - 1) + 1
      else max (dp ! (i - 1) ! j) (dp ! i ! (j - 1)))"

definition dp_put :: "nat list list \<Rightarrow> nat \<Rightarrow> nat \<Rightarrow> nat \<Rightarrow> nat list list" where
  "dp_put dp i j v = dp[i := (dp ! i)[j := v]]"

definition dp_row :: "string list \<Rightarrow> string list \<Rightarrow> nat \<Rightarrow> nat \<Rightarrow> nat list list \<Rightarrow> nat list list" where
  "dp_row a b i k dp = fold (\<lambda>j dp. dp_put dp i j (dp_cell a b dp i j)) [1..<Suc k] dp"

definition dp_table :: "string list \<Rightarrow> string list \<Rightarrow> nat \<Rightarrow> nat list list" where
  "dp_table a b k = fold (\<lambda>i dp. dp_row a b i (length b) dp) [1..<Suc k] (dp_init (length a) (length b))"

function walk :: "string list \<Rightarrow> string list \<Rightarrow> nat list list \<Rightarrow> nat \<Rightarrow> nat \<Rightarrow> diff_line list" where
  "walk a b dp i j =
     (if i = 0 \<and> j = 0 then []
      else if 0 < i \<and> 0 < j \<and> a ! (i - 1) = b ! (j - 1) then Same (a ! (i - 1)) # walk a b dp (i - 1) (j - 1)
      else if 0 < j \<and> (i = 0 \<or> dp ! (i - 1) ! j \<le> dp ! i ! (j - 1)) then Add (b ! (j - 1)) # walk a b dp i (j - 1)
      else Del (a ! (i - 1)) # walk a b dp (i - 1) j)"
  by pat_completeness auto
termination
  by (relation "measure (\<lambda>(a, b, dp, i, j). i + j)") auto

declare walk.simps [simp del]

definition lineDiffLcs :: "string \<Rightarrow> string \<Rightarrow> diff_line list" where
  "lineDiffLcs oldStr newStr =
     (let a = to_lines oldStr; b = to_lines newStr
      in rev (walk a b (dp_table a b (length a)) (length a) (length b)))"

text \<open>
  The same walk and the removal of blank lines at the end as the loops of the code, over the variables they change. A loop that does not
  end is \<open>None\<close>.
\<close>

definition walk_step :: "string list \<Rightarrow> string list \<Rightarrow> nat list list \<Rightarrow> nat \<times> nat \<times> diff_line list \<Rightarrow> nat \<times> nat \<times> diff_line list" where
  "walk_step a b dp v = (case v of (i, j, out) \<Rightarrow>
     if 0 < i \<and> 0 < j \<and> a ! (i - 1) = b ! (j - 1) then (i - 1, j - 1, out @ [Same (a ! (i - 1))])
     else if 0 < j \<and> (i = 0 \<or> dp ! (i - 1) ! j \<le> dp ! i ! (j - 1)) then (i, j - 1, out @ [Add (b ! (j - 1))])
     else (i - 1, j, out @ [Del (a ! (i - 1))]))"

definition walk_loop :: "string list \<Rightarrow> string list \<Rightarrow> nat list list \<Rightarrow> nat \<times> nat \<times> diff_line list \<Rightarrow> (nat \<times> nat \<times> diff_line list) option" where
  "walk_loop a b dp = while_option (\<lambda>(i, j, out). 0 < i \<or> 0 < j) (walk_step a b dp)"

definition pop_loop :: "string list \<Rightarrow> string list option" where
  "pop_loop = while_option (\<lambda>ls. 0 < length ls \<and> last ls = []) butlast"

fun diff_text :: "diff_line \<Rightarrow> string" where
  "diff_text (Same l) = l"
| "diff_text (Add l) = l"
| "diff_text (Del l) = l"

fun is_del :: "diff_line \<Rightarrow> bool" where
  "is_del (Del l) = True"
| "is_del _ = False"

fun is_add :: "diff_line \<Rightarrow> bool" where
  "is_add (Add l) = True"
| "is_add _ = False"

fun is_same :: "diff_line \<Rightarrow> bool" where
  "is_same (Same l) = True"
| "is_same _ = False"

definition rawConfigFromServerSettingsDiff :: "diff_line list \<Rightarrow> string" where
  "rawConfigFromServerSettingsDiff diff =
     (if diff = [] then [] else js_join [LF] (map diff_text (filter (\<lambda>d. \<not> is_del d) diff)))"

subsection \<open>The table\<close>

fun lcs_len :: "'a list \<Rightarrow> 'a list \<Rightarrow> nat \<Rightarrow> nat \<Rightarrow> nat" where
  "lcs_len a b 0 j = 0"
| "lcs_len a b (Suc i) 0 = 0"
| "lcs_len a b (Suc i) (Suc j) =
     (if a ! i = b ! j then Suc (lcs_len a b i j)
      else max (lcs_len a b i (Suc j)) (lcs_len a b (Suc i) j))"

lemma lcs_len_0 [simp]: "lcs_len a b i 0 = 0"
  by (cases i) simp_all

text \<open>The table is right up to the cell \<open>(i, k)\<close>: earlier rows and the first \<open>k\<close> columns of row \<open>i\<close>.\<close>

definition dp_ok :: "string list \<Rightarrow> string list \<Rightarrow> nat \<Rightarrow> nat \<Rightarrow> nat list list \<Rightarrow> bool" where
  "dp_ok a b i k dp \<longleftrightarrow>
     length dp = Suc (length a) \<and> (\<forall>r \<in> set dp. length r = Suc (length b)) \<and>
     (\<forall>p q. p \<le> length a \<longrightarrow> q \<le> length b \<longrightarrow>
        dp ! p ! q = (if p < i \<or> p = i \<and> q \<le> k then lcs_len a b p q else 0))"

lemma dp_put_nth:
  "p < length dp \<Longrightarrow> i < length dp \<Longrightarrow> j < length (dp ! i) \<Longrightarrow>
   dp_put dp i j v ! p ! q = (if p = i \<and> q = j then v else dp ! p ! q)"
  by (auto simp: dp_put_def nth_list_update)

lemma dp_put_shape:
  "length (dp_put dp i j v) = length dp"
  "i < length dp \<Longrightarrow> \<forall>r \<in> set dp. length r = n \<Longrightarrow> \<forall>r \<in> set (dp_put dp i j v). length r = n"
  by (auto simp: dp_put_def dest!: set_update_subset_insert [THEN subsetD])

lemma dp_ok_step:
  assumes "dp_ok a b i k dp" and "1 \<le> i" and "i \<le> length a" and "k < length b"
  shows "dp_ok a b i (Suc k) (dp_put dp i (Suc k) (dp_cell a b dp i (Suc k)))"
proof -
  obtain i' where i: "i = Suc i'" using assms(2) by (cases i) auto
  have len: "length dp = Suc (length a)" "\<forall>r \<in> set dp. length r = Suc (length b)"
    and nth: "\<And>p q. p \<le> length a \<Longrightarrow> q \<le> length b \<Longrightarrow>
        dp ! p ! q = (if p < i \<or> p = i \<and> q \<le> k then lcs_len a b p q else 0)"
    using assms(1) by (auto simp: dp_ok_def)
  have row: "length (dp ! i) = Suc (length b)" using len assms(3) by simp
  have cell: "dp_cell a b dp i (Suc k) = lcs_len a b i (Suc k)"
    using nth [of i' k] nth [of i' "Suc k"] nth [of i k] assms(3,4) i by (simp add: dp_cell_def)
  show ?thesis
    unfolding dp_ok_def
  proof (intro conjI allI impI)
    show "length (dp_put dp i (Suc k) (dp_cell a b dp i (Suc k))) = Suc (length a)"
      by (simp add: dp_put_shape len)
    show "\<forall>r \<in> set (dp_put dp i (Suc k) (dp_cell a b dp i (Suc k))). length r = Suc (length b)"
      using len assms(3) by (intro dp_put_shape(2)) auto
    fix p q assume pq: "p \<le> length a" "q \<le> length b"
    have "dp_put dp i (Suc k) (dp_cell a b dp i (Suc k)) ! p ! q =
        (if p = i \<and> q = Suc k then lcs_len a b i (Suc k) else dp ! p ! q)"
      using pq len row assms(3,4) cell by (simp add: dp_put_nth)
    then show "dp_put dp i (Suc k) (dp_cell a b dp i (Suc k)) ! p ! q =
        (if p < i \<or> p = i \<and> q \<le> Suc k then lcs_len a b p q else 0)"
      using nth [OF pq] by auto
  qed
qed

lemma dp_row_ok:
  assumes "dp_ok a b i 0 dp" and "1 \<le> i" and "i \<le> length a" and "k \<le> length b"
  shows "dp_ok a b i k (dp_row a b i k dp)"
  using assms(4)
proof (induction k)
  case 0
  with assms(1) show ?case by (simp add: dp_row_def)
next
  case (Suc k)
  then have "dp_ok a b i k (dp_row a b i k dp)" by simp
  from dp_ok_step [OF this assms(2,3)] Suc.prems show ?case by (simp add: dp_row_def)
qed

lemma dp_ok_next_row: "dp_ok a b i (length b) dp \<Longrightarrow> dp_ok a b (Suc i) 0 dp"
  by (auto simp: dp_ok_def le_Suc_eq less_Suc_eq)

lemma dp_table_ok: "k \<le> length a \<Longrightarrow> dp_ok a b k (length b) (dp_table a b k)"
proof (induction k)
  case 0
  then show ?case by (auto simp: dp_table_def dp_ok_def dp_init_def nth_Cons' simp del: replicate_Suc)
next
  case (Suc k)
  then have "dp_ok a b (Suc k) 0 (dp_table a b k)" by (intro dp_ok_next_row) simp
  from dp_row_ok [OF this _ Suc.prems order_refl] show ?case by (simp add: dp_table_def)
qed

lemma dp_table_nth:
  "p \<le> length a \<Longrightarrow> q \<le> length b \<Longrightarrow> dp_table a b (length a) ! p ! q = lcs_len a b p q"
  using dp_table_ok [of "length a" a b] by (auto simp: dp_ok_def)

subsection \<open>The walk\<close>

lemma take_snoc: "0 < i \<Longrightarrow> i \<le> length a \<Longrightarrow> take i a = take (i - 1) a @ [a ! (i - 1)]"
  by (cases i) (simp_all add: take_Suc_conv_app_nth)

text \<open>The four turns of the loop.\<close>

lemma walk_done: "i = 0 \<and> j = 0 \<Longrightarrow> walk a b dp i j = []"
  by (subst walk.simps) simp

lemma walk_same: "0 < i \<and> 0 < j \<and> a ! (i - 1) = b ! (j - 1) \<Longrightarrow>
    walk a b dp i j = Same (a ! (i - 1)) # walk a b dp (i - 1) (j - 1)"
  by (subst walk.simps) simp

lemma walk_add: "\<not> (0 < i \<and> 0 < j \<and> a ! (i - 1) = b ! (j - 1)) \<Longrightarrow>
    0 < j \<and> (i = 0 \<or> dp ! (i - 1) ! j \<le> dp ! i ! (j - 1)) \<Longrightarrow>
    walk a b dp i j = Add (b ! (j - 1)) # walk a b dp i (j - 1)"
  by (subst walk.simps) auto

lemma walk_del: "\<not> (i = 0 \<and> j = 0) \<Longrightarrow> \<not> (0 < i \<and> 0 < j \<and> a ! (i - 1) = b ! (j - 1)) \<Longrightarrow>
    \<not> (0 < j \<and> (i = 0 \<or> dp ! (i - 1) ! j \<le> dp ! i ! (j - 1))) \<Longrightarrow>
    walk a b dp i j = Del (a ! (i - 1)) # walk a b dp (i - 1) j"
  by (subst walk.simps) auto

lemma walk_projections:
  "i \<le> length a \<Longrightarrow> j \<le> length b \<Longrightarrow>
     map diff_text (filter (\<lambda>d. \<not> is_del d) (rev (walk a b dp i j))) = take j b \<and>
     map diff_text (filter (\<lambda>d. \<not> is_add d) (rev (walk a b dp i j))) = take i a"
proof (induction a b dp i j rule: walk.induct)
  case (1 a b dp i j)
  consider (stop) "i = 0 \<and> j = 0"
    | (same) "\<not> (i = 0 \<and> j = 0)" "0 < i \<and> 0 < j \<and> a ! (i - 1) = b ! (j - 1)"
    | (add) "\<not> (i = 0 \<and> j = 0)" "\<not> (0 < i \<and> 0 < j \<and> a ! (i - 1) = b ! (j - 1))"
        "0 < j \<and> (i = 0 \<or> dp ! (i - 1) ! j \<le> dp ! i ! (j - 1))"
    | (del) "\<not> (i = 0 \<and> j = 0)" "\<not> (0 < i \<and> 0 < j \<and> a ! (i - 1) = b ! (j - 1))"
        "\<not> (0 < j \<and> (i = 0 \<or> dp ! (i - 1) ! j \<le> dp ! i ! (j - 1)))"
    by blast
  then show ?case
  proof cases
    case stop
    then show ?thesis by (simp add: walk_done)
  next
    case same
    from "1.IH"(1) [OF same] "1.prems" same show ?thesis
      unfolding walk_same [OF same(2)] by (simp add: take_snoc [of i a] take_snoc [of j b])
  next
    case add
    from "1.IH"(2) [OF add] "1.prems" add(3) show ?thesis
      unfolding walk_add [OF add(2,3)] by (simp add: take_snoc [of j b])
  next
    case del
    have "0 < i" using del by auto
    with "1.IH"(3) [OF del] "1.prems" show ?thesis
      unfolding walk_del [OF del] by (simp add: take_snoc [of i a])
  qed
qed

lemma walk_same_count:
  "(\<And>p q. p \<le> length a \<Longrightarrow> q \<le> length b \<Longrightarrow> dp ! p ! q = lcs_len a b p q) \<Longrightarrow>
   i \<le> length a \<Longrightarrow> j \<le> length b \<Longrightarrow> length (filter is_same (walk a b dp i j)) = lcs_len a b i j"
proof (induction a b dp i j rule: walk.induct)
  case (1 a b dp i j)
  note dp = "1.prems"(1)
  consider (stop) "i = 0 \<and> j = 0"
    | (same) "\<not> (i = 0 \<and> j = 0)" "0 < i \<and> 0 < j \<and> a ! (i - 1) = b ! (j - 1)"
    | (add) "\<not> (i = 0 \<and> j = 0)" "\<not> (0 < i \<and> 0 < j \<and> a ! (i - 1) = b ! (j - 1))"
        "0 < j \<and> (i = 0 \<or> dp ! (i - 1) ! j \<le> dp ! i ! (j - 1))"
    | (del) "\<not> (i = 0 \<and> j = 0)" "\<not> (0 < i \<and> 0 < j \<and> a ! (i - 1) = b ! (j - 1))"
        "\<not> (0 < j \<and> (i = 0 \<or> dp ! (i - 1) ! j \<le> dp ! i ! (j - 1)))"
    by blast
  then show ?case
  proof cases
    case stop
    then show ?thesis by (simp add: walk_done)
  next
    case same
    then obtain i' j' where ij: "i = Suc i'" "j = Suc j'" by (metis gr0_implies_Suc)
    from "1.IH"(1) [OF same dp] "1.prems" same(2) show ?thesis
      unfolding walk_same [OF same(2)] by (simp add: ij)
  next
    case add
    then obtain j' where j: "j = Suc j'" by (metis gr0_implies_Suc)
    from "1.IH"(2) [OF add dp] "1.prems" have ih: "length (filter is_same (walk a b dp i j')) = lcs_len a b i j'"
      by (simp add: j)
    have "lcs_len a b i j = lcs_len a b i j'"
    proof (cases i)
      case (Suc i')
      with add j "1.prems" dp [of i' j] dp [of i j'] show ?thesis by (auto simp: max_def)
    qed simp
    with ih show ?thesis unfolding walk_add [OF add(2,3)] by (simp add: j)
  next
    case del
    then obtain i' where i: "i = Suc i'" by (metis gr0_implies_Suc neq0_conv)
    from "1.IH"(3) [OF del dp] "1.prems" have ih: "length (filter is_same (walk a b dp i' j)) = lcs_len a b i' j"
      by (simp add: i)
    have "lcs_len a b i j = lcs_len a b i' j"
    proof (cases j)
      case (Suc j')
      with del i "1.prems" dp [of i' j] dp [of i j'] show ?thesis by (auto simp: max_def)
    qed simp
    with ih show ?thesis unfolding walk_del [OF del] by (simp add: i)
  qed
qed

subsection \<open>Common subsequences\<close>

lemma subseq_snoc_cases:
  "subseq xs (ys @ [y]) \<longleftrightarrow> subseq xs ys \<or> (\<exists>zs. xs = zs @ [y] \<and> subseq zs ys)"
proof
  assume "subseq xs (ys @ [y])"
  then obtain us vs where x: "xs = us @ vs" "subseq us ys" "subseq vs [y]"
    by (auto elim: subseq_appendE)
  then have "vs = [] \<or> vs = [y]"
    by (cases vs) (auto elim: list_emb_Nil2 simp: subseq_Cons2_iff split: if_splits)
  with x show "subseq xs ys \<or> (\<exists>zs. xs = zs @ [y] \<and> subseq zs ys)" by auto
next
  assume "subseq xs ys \<or> (\<exists>zs. xs = zs @ [y] \<and> subseq zs ys)"
  then show "subseq xs (ys @ [y])" by (auto intro: list_emb_append_mono)
qed

lemma lcs_len_upper:
  "i \<le> length a \<Longrightarrow> j \<le> length b \<Longrightarrow> subseq xs (take i a) \<Longrightarrow> subseq xs (take j b) \<Longrightarrow>
     length xs \<le> lcs_len a b i j"
proof (induction a b i j arbitrary: xs rule: lcs_len.induct)
  case (3 a b i j)
  have ti: "take (Suc i) a = take i a @ [a ! i]" and tj: "take (Suc j) b = take j b @ [b ! j]"
    using "3.prems" by (simp_all add: take_Suc_conv_app_nth)
  have sa: "subseq xs (take i a) \<or> (\<exists>zs. xs = zs @ [a ! i] \<and> subseq zs (take i a))"
    and sb: "subseq xs (take j b) \<or> (\<exists>zs. xs = zs @ [b ! j] \<and> subseq zs (take j b))"
    using "3.prems"(3,4) unfolding ti tj subseq_snoc_cases by blast+
  show ?case
  proof (cases "a ! i = b ! j")
    case True
    have "length (butlast xs) \<le> lcs_len a b i j"
    proof (rule "3.IH"(1) [OF True])
      have "subseq (butlast xs) xs" by (metis prefixeq_butlast prefix_imp_subseq)
      with sa show "subseq (butlast xs) (take i a)" using subseq_order.trans by auto
      from \<open>subseq (butlast xs) xs\<close> sb show "subseq (butlast xs) (take j b)" using subseq_order.trans by auto
    qed (use "3.prems" in auto)
    then show ?thesis using True by simp
  next
    case False
    then have "subseq xs (take i a) \<or> subseq xs (take j b)" using sa sb by auto
    then show ?thesis
    proof
      assume "subseq xs (take i a)"
      with "3.IH"(2) [OF False] "3.prems" have "length xs \<le> lcs_len a b i (Suc j)" by auto
      with False show ?thesis by simp
    next
      assume "subseq xs (take j b)"
      with "3.IH"(3) [OF False] "3.prems" have "length xs \<le> lcs_len a b (Suc i) j" by auto
      with False show ?thesis by simp
    qed
  qed
qed (auto simp: list_emb_Nil2)

lemma subseq_filter_map: "(\<And>x. P x \<Longrightarrow> Q x) \<Longrightarrow> subseq (map f (filter P xs)) (map f (filter Q xs))"
  by (induction xs) auto

lemma lineDiff_lines:
  "map diff_text (filter (\<lambda>d. \<not> is_del d) (lineDiffLcs old new)) = to_lines new"
  "map diff_text (filter (\<lambda>d. \<not> is_add d) (lineDiffLcs old new)) = to_lines old"
  using walk_projections [of "length (to_lines old)" "to_lines old" "length (to_lines new)" "to_lines new"]
  by (simp_all add: lineDiffLcs_def Let_def)

lemma lineDiff_same_count:
  "length (filter is_same (lineDiffLcs old new)) =
     lcs_len (to_lines old) (to_lines new) (length (to_lines old)) (length (to_lines new))"
  using walk_same_count [of "to_lines old" "to_lines new"] dp_table_nth
  by (simp add: lineDiffLcs_def Let_def rev_filter [symmetric])

lemma same_not_change: "is_same d \<Longrightarrow> \<not> is_add d" "is_same d \<Longrightarrow> \<not> is_del d"
  by (cases d; simp)+

lemma common_subseq_shorter:
  "subseq xs (to_lines old) \<Longrightarrow> subseq xs (to_lines new) \<Longrightarrow>
     length xs \<le> length (filter is_same (lineDiffLcs old new))"
  unfolding lineDiff_same_count by (intro lcs_len_upper) auto

lemma same_lines_common:
  "subseq (map diff_text (filter is_same (lineDiffLcs old new))) (to_lines old)"
  "subseq (map diff_text (filter is_same (lineDiffLcs old new))) (to_lines new)"
  using subseq_filter_map [of is_same "\<lambda>d. \<not> is_add d" diff_text "lineDiffLcs old new"]
    subseq_filter_map [of is_same "\<lambda>d. \<not> is_del d" diff_text "lineDiffLcs old new"] same_not_change
  by (simp_all add: lineDiff_lines)

lemma filter_length_mono: "(\<And>x. P x \<Longrightarrow> Q x) \<Longrightarrow> length (filter P xs) \<le> length (filter Q xs)"
  by (induction xs) auto

lemma diff_all_same:
  "length (filter (\<lambda>d. \<not> is_add d) ds) \<le> length (filter is_same ds) \<Longrightarrow>
   length (filter (\<lambda>d. \<not> is_del d) ds) \<le> length (filter is_same ds) \<Longrightarrow> filter is_same ds = ds"
proof (induction ds)
  case (Cons d ds)
  have a: "length (filter is_same ds) \<le> length (filter (\<lambda>d. \<not> is_add d) ds)"
    by (rule filter_length_mono) (simp add: same_not_change)
  have b: "length (filter is_same ds) \<le> length (filter (\<lambda>d. \<not> is_del d) ds)"
    by (rule filter_length_mono) (simp add: same_not_change)
  show ?case
  proof (cases d)
    case (Same l)
    with Cons show ?thesis by simp
  next
    case (Add l)
    with Cons.prems b show ?thesis by simp
  next
    case (Del l)
    with Cons.prems a show ?thesis by simp
  qed
qed simp

lemma replace_crlf_id: "CR \<notin> set s \<Longrightarrow> replace_crlf s = s"
  by (induction s rule: replace_crlf.induct) auto

lemma raw_config_lines: "rawConfigFromServerSettingsDiff (lineDiffLcs old new) = js_join [LF] (to_lines new)"
proof (cases "lineDiffLcs old new = []")
  case True
  then have "to_lines new = []" using lineDiff_lines(1) [of old new] by simp
  with True show ?thesis by (simp add: rawConfigFromServerSettingsDiff_def)
next
  case False
  then show ?thesis by (simp add: rawConfigFromServerSettingsDiff_def lineDiff_lines)
qed

subsection \<open>Properties\<close>

text \<open>C1: The diff loses nothing and invents nothing: leaving out the removed lines gives exactly the lines of the
  new text, leaving out the added ones exactly the lines of the old one, in order.\<close>

theorem lineDiffLcs_projections:
  "map diff_text (filter (\<lambda>d. \<not> is_del d) (lineDiffLcs old new)) = to_lines new \<and>
   map diff_text (filter (\<lambda>d. \<not> is_add d) (lineDiffLcs old new)) = to_lines old"
  by (simp add: lineDiff_lines)

text \<open>C5: The diff is as small as a line diff can be: the lines it keeps form a common subsequence of the two texts,
  and their number is the greatest length any common subsequence has.\<close>

theorem lineDiffLcs_optimal:
  "subseq (map diff_text (filter is_same (lineDiffLcs old new))) (to_lines old) \<and>
   subseq (map diff_text (filter is_same (lineDiffLcs old new))) (to_lines new) \<and>
   length (filter is_same (lineDiffLcs old new)) =
     Max {length xs | xs. subseq xs (to_lines old) \<and> subseq xs (to_lines new)}"
proof (intro conjI same_lines_common)
  let ?S = "{length xs | xs. subseq xs (to_lines old) \<and> subseq xs (to_lines new)}"
  have "?S \<subseteq> {..length (to_lines old)}" by (auto dest: list_emb_length)
  then have "finite ?S" by (rule finite_subset) simp
  moreover have "length (filter is_same (lineDiffLcs old new)) \<in> ?S"
    using same_lines_common by (metis (mono_tags, lifting) length_map mem_Collect_eq)
  ultimately show "length (filter is_same (lineDiffLcs old new)) = Max ?S"
    using common_subseq_shorter by (intro Max_eqI [symmetric]) auto
qed

text \<open>The panel reports a change exactly when there is one: the diff has an added or a removed line if and only if
  the two texts differ as lists of lines (line ends and trailing empty lines apart).\<close>

theorem lineDiffLcs_detects_change:
  "(\<exists>d \<in> set (lineDiffLcs old new). \<not> is_same d) \<longleftrightarrow> to_lines old \<noteq> to_lines new"
proof -
  let ?D = "lineDiffLcs old new"
  have keep: "filter is_same ?D = ?D" if "to_lines old = to_lines new"
  proof -
    have "length (to_lines old) \<le> length (filter is_same ?D)" "length (to_lines new) \<le> length (filter is_same ?D)"
      using common_subseq_shorter [of "to_lines old" old new] that by simp_all
    then have "length (filter (\<lambda>d. \<not> is_add d) ?D) \<le> length (filter is_same ?D)"
      "length (filter (\<lambda>d. \<not> is_del d) ?D) \<le> length (filter is_same ?D)"
      using arg_cong [OF lineDiff_lines(2) [of old new], of length] arg_cong [OF lineDiff_lines(1) [of old new], of length]
      by (simp_all del: lineDiff_lines)
    then show ?thesis by (rule diff_all_same)
  qed
  have "to_lines old = to_lines new" if "\<forall>d \<in> set ?D. is_same d"
  proof -
    have "filter (\<lambda>d. \<not> is_del d) ?D = ?D" "filter (\<lambda>d. \<not> is_add d) ?D = ?D"
      using that same_not_change by (simp_all add: filter_id_conv)
    then show ?thesis using lineDiff_lines [of old new] by simp
  qed
  with keep show ?thesis by (auto simp: filter_id_conv)
qed

text \<open>The configuration the panel sends to the server when a diff is applied is the new text itself, line by line:
  nothing of the old file survives in it, and a text without carriage returns and without an empty last line
  is sent unchanged.\<close>

theorem applied_config_is_new_text:
  "rawConfigFromServerSettingsDiff (lineDiffLcs old new) = js_join [LF] (to_lines new) \<and>
   (CR \<in> set new \<or> last (js_split LF new) = [] \<or>
      rawConfigFromServerSettingsDiff (lineDiffLcs old new) = new)"
proof -
  have "js_join [LF] (to_lines new) = new" if "CR \<notin> set new" "last (js_split LF new) \<noteq> []"
  proof -
    have "replace_crlf new = new" using that(1) by (rule replace_crlf_id)
    moreover have "dropWhile (\<lambda>l. l = []) (rev (js_split LF new)) = rev (js_split LF new)"
      using that(2) by (simp add: dropWhile_eq_self_iff hd_rev)
    ultimately have "to_lines new = js_split LF new" by (simp add: to_lines_def)
    then show ?thesis by (simp add: js_join_split)
  qed
  then show ?thesis by (auto simp: raw_config_lines)
qed

subsection \<open>The loops end\<close>

lemma walk_loop_end: "walk_loop a b dp (0, 0, out) = Some (0, 0, out)"
  by (simp add: walk_loop_def while_option_unfold)

lemma walk_loop_step: "0 < i \<or> 0 < j \<Longrightarrow> walk_loop a b dp (i, j, out) = walk_loop a b dp (walk_step a b dp (i, j, out))"
  unfolding walk_loop_def by (subst while_option_unfold) simp

lemma walk_loop_walk: "walk_loop a b dp (i, j, out) = Some (0, 0, out @ walk a b dp i j)"
proof (induction a b dp i j arbitrary: out rule: walk.induct)
  case (1 a b dp i j)
  consider (stop) "i = 0 \<and> j = 0"
    | (same) "0 < i \<and> 0 < j \<and> a ! (i - 1) = b ! (j - 1)"
    | (add) "\<not> (i = 0 \<and> j = 0)" "\<not> (0 < i \<and> 0 < j \<and> a ! (i - 1) = b ! (j - 1))" "0 < j \<and> (i = 0 \<or> dp ! (i - 1) ! j \<le> dp ! i ! (j - 1))"
    | (del) "\<not> (i = 0 \<and> j = 0)" "\<not> (0 < i \<and> 0 < j \<and> a ! (i - 1) = b ! (j - 1))" "\<not> (0 < j \<and> (i = 0 \<or> dp ! (i - 1) ! j \<le> dp ! i ! (j - 1)))"
    by blast
  then show ?case
  proof cases
    case stop
    then show ?thesis by (simp add: walk_loop_end walk_done)
  next
    case same
    then show ?thesis using 1(1) [of "out @ [Same (a ! (i - 1))]"]
      by (simp add: walk_loop_step walk_same) (simp add: walk_step_def)
  next
    case add
    have "walk_step a b dp (i, j, out) = (i, j - 1, out @ [Add (b ! (j - 1))])"
      unfolding walk_step_def prod.case if_not_P [OF add(2)] if_P [OF add(3)] ..
    then show ?thesis using 1(2) [OF add, of "out @ [Add (b ! (j - 1))]"] walk_add [OF add(2,3)] walk_loop_step [of i j a b dp out] add(3) by simp
  next
    case del
    have "walk_step a b dp (i, j, out) = (i - 1, j, out @ [Del (a ! (i - 1))])"
      unfolding walk_step_def prod.case if_not_P [OF del(2)] if_not_P [OF del(3)] ..
    then show ?thesis using 1(3) [OF del, of "out @ [Del (a ! (i - 1))]"] walk_del [OF del] walk_loop_step [of i j a b dp out] del(1) by simp
  qed
qed

lemma pop_loop_lines: "pop_loop ls = Some (rev (dropWhile (\<lambda>l. l = []) (rev ls)))"
proof (induction ls rule: rev_induct)
  case (snoc l ls)
  then show ?case unfolding pop_loop_def by (subst while_option_unfold) simp
qed (simp add: pop_loop_def while_option_unfold)

text \<open>C39: Both loops of the diff end on every input, and with the results the model gives: the blank lines at the end are popped until the
  last line is not blank, and the walk back from the last cell stops in the corner of the table with the whole diff, reversed.\<close>

theorem diff_loops_terminate:
  "pop_loop (js_split LF (replace_crlf v)) = Some (to_lines v)
   \<and> walk_loop (to_lines old) (to_lines new) (dp_table (to_lines old) (to_lines new) (length (to_lines old)))
       (length (to_lines old), length (to_lines new), []) = Some (0, 0, rev (lineDiffLcs old new))"
  by (simp add: pop_loop_lines to_lines_def [symmetric] walk_loop_walk lineDiffLcs_def Let_def)

end
