(* ===== verification/Settings_Meta.thy ===== *)
theory Settings_Meta
  imports Js_Prelude
begin

section \<open>The fields of the OpenVPN settings forms\<close>

text \<open>
  \<^verbatim>\<open>types/settingsMeta.ts\<close>, \<^verbatim>\<open>openvpnServerSettingsMeta.ts\<close> and
  \<^verbatim>\<open>openvpnClientSettingsMeta.ts\<close>: every field with its directive, its type, its placeholder and the
  values of its options. Labels and descriptions, which no code reads but the page, are left out.
  The list of the server's fields is written in parts, in the order of the source.
\<close>

datatype field_type = FNumber | FSelect | FText | FTextarea | FCheckbox

record settings_field =
  fkey :: string
  ftype :: field_type
  fplaceholder :: "string option"
  foptions :: "string list"

definition field :: "string \<Rightarrow> field_type \<Rightarrow> string option \<Rightarrow> string list \<Rightarrow> settings_field" where
  "field k t p os = \<lparr>fkey = k, ftype = t, fplaceholder = p, foptions = os\<rparr>"

lemma field_sel [simp]: "fkey (field k t p os) = k" "ftype (field k t p os) = t"
  "fplaceholder (field k t p os) = p" "foptions (field k t p os) = os"
  by (simp_all add: field_def)

definition server_fields_1 :: "settings_field list" where
  "server_fields_1 = [
     field ''port'' FNumber (Some ''1194'') [],
     field ''proto'' FSelect None [''udp'', ''tcp'', ''udp6'', ''tcp6''],
     field ''dev'' FText (Some ''tun0'') [],
     field ''remote'' FText (Some ''{{host}} {{port}}'') [],
     field ''resolv-retry'' FText (Some ''infinite'') [],
     field ''nobind'' FCheckbox None [],
     field ''key-direction'' FText (Some ''1'') [],
     field ''remote-cert-tls'' FText (Some ''server'') [],
     field ''topology'' FSelect None [''subnet'', ''net30'', ''p2p''],
     field ''local'' FText (Some ''10.0.2.3'') [],
     field ''daemon'' FCheckbox None [],
     field ''mode'' FSelect None [[], ''server'', ''p2p''],
     field ''server'' FText (Some ''10.8.0.0 255.255.255.0'') [],
     field ''server-bridge'' FText (Some []) [],
     field ''max-clients'' FNumber (Some ''100'') [],
     field ''keepalive'' FText (Some ''10 120'') [],
     field ''ca'' FText (Some ''/etc/openvpn/ca.crt'') []]"

definition server_fields_2 :: "settings_field list" where
  "server_fields_2 = [
     field ''cert'' FText (Some ''/etc/openvpn/server.crt'') [],
     field ''key'' FText (Some ''/etc/openvpn/server.key'') [],
     field ''dh'' FText (Some ''/etc/openvpn/dh.pem'') [],
     field ''ecdh-curve'' FText (Some ''secp384r1'') [],
     field ''tls-auth'' FText (Some ''/etc/openvpn/ta.key 0'') [],
     field ''tls-crypt'' FText (Some []) [],
     field ''tls-crypt-v2'' FText (Some []) [],
     field ''crl-verify'' FText (Some ''/etc/openvpn/crl.pem'') [],
     field ''verify-x509-name'' FText (Some []) [],
     field ''management'' FText (Some ''127.0.0.1 7505'') [],
     field ''status'' FText (Some ''/var/log/openvpn/status.log'') [],
     field ''log'' FText (Some ''/var/log/openvpn/openvpn.log'') [],
     field ''log-append'' FText (Some []) [],
     field ''plugin'' FTextarea (Some ''/usr/lib/openvpn/openvpn-plugin-auth-pam.so login'') [],
     field ''up'' FText (Some []) [],
     field ''down'' FText (Some []) [],
     field ''persist-key'' FCheckbox None []]"

definition server_fields_3 :: "settings_field list" where
  "server_fields_3 = [
     field ''persist-tun'' FCheckbox None [],
     field ''duplicate-cn'' FCheckbox None [],
     field ''client-to-client'' FCheckbox None [],
     field ''float'' FCheckbox None [],
     field ''data-ciphers'' FText (Some ''AES-256-GCM:AES-128-GCM'') [],
     field ''data-ciphers-fallback'' FText (Some ''AES-256-CBC:AES-128-CBC'') [],
     field ''tls-ciphersuites'' FText (Some []) [],
     field ''cipher'' FText (Some []) [],
     field ''auth'' FText (Some ''SHA256'') [],
     field ''tls-version-min'' FText (Some ''1.2'') [],
     field ''verb'' FNumber (Some ''3'') [],
     field ''client-verb'' FNumber (Some ''3'') [],
     field ''mute'' FNumber (Some ''20'') [],
     field ''mute-replay-warnings'' FCheckbox None [],
     field ''script-security'' FNumber (Some ''2'') [],
     field ''reneg-sec'' FNumber (Some ''0'') [],
     field ''hand-window'' FNumber (Some []) []]"

definition server_fields_4 :: "settings_field list" where
  "server_fields_4 = [
     field ''tun-mtu'' FNumber (Some ''1500'') [],
     field ''mssfix'' FNumber (Some ''1450'') [],
     field ''fragment'' FNumber (Some []) [],
     field ''user'' FText (Some ''nobody'') [],
     field ''group'' FText (Some ''nobody'') [],
     field ''ifconfig-pool-persist'' FText (Some ''/var/log/openvpn/ipp.txt'') [],
     field ''comp-lzo'' FSelect None [[], ''no'', ''adaptive'', ''yes''],
     field ''allow-compression'' FSelect None [[], ''no'', ''asym'', ''yes''],
     field ''push'' FTextarea (Some (''redirect-gateway def1'' @ [LF] @ ''route 192.168.1.0 255.255.255.0'')) [],
     field ''route'' FTextarea (Some ''10.10.0.0 255.255.0.0'') []]"

definition OPENVPN_SERVER_SETTINGS_FIELDS :: "settings_field list" where
  "OPENVPN_SERVER_SETTINGS_FIELDS = server_fields_1 @ server_fields_2 @ server_fields_3 @ server_fields_4"

definition OPENVPN_CLIENT_SETTINGS_FIELDS :: "settings_field list" where
  "OPENVPN_CLIENT_SETTINGS_FIELDS = [
     field ''client'' FCheckbox None [],
     field ''proto'' FText (Some ''{{proto}}'') [],
     field ''data-ciphers-fallback'' FText (Some ''AES-256-CBC:AES-128-CBC'') [],
     field ''persist-key'' FCheckbox None [],
     field ''persist-tun'' FCheckbox None [],
     field ''remote-cert-tls'' FText (Some ''server'') [],
     field ''comp-lzo'' FSelect None [[], ''no'', ''adaptive'', ''yes''],
     field ''mute'' FNumber (Some ''20'') [],
     field ''verb'' FNumber (Some ''3'') []]"

lemmas server_fields = OPENVPN_SERVER_SETTINGS_FIELDS_def server_fields_1_def server_fields_2_def server_fields_3_def server_fields_4_def

lemma server_fields_distinct: "distinct (map fkey OPENVPN_SERVER_SETTINGS_FIELDS)"
  by code_simp

lemma client_fields_distinct: "distinct (map fkey OPENVPN_CLIENT_SETTINGS_FIELDS)"
  by code_simp

text \<open>The two forms are consistent: no directive has two fields, exactly the select fields offer options,
  and their options are distinct.\<close>

theorem settings_fields_consistent:
  "distinct (map fkey OPENVPN_SERVER_SETTINGS_FIELDS) \<and> distinct (map fkey OPENVPN_CLIENT_SETTINGS_FIELDS) \<and>
   list_all (\<lambda>f. (ftype f = FSelect) = (foptions f \<noteq> []) \<and> distinct (foptions f))
     (OPENVPN_SERVER_SETTINGS_FIELDS @ OPENVPN_CLIENT_SETTINGS_FIELDS)"
  by code_simp

end
