(* ===== verification/Settings.thy ===== *)
theory Settings
  imports Settings_Meta Http
begin

section \<open>OpenVPN settings: what is sent, saved and written\<close>

text \<open>
  Lines 21 to 328 of \<^verbatim>\<open>App.tsx\<close>: the settings object of a server (a JavaScript object from
  directives to values) becomes the payload for the agent, the object saved on the panel, the text
  of \<^verbatim>\<open>server.conf\<close> and the text of a client profile. Objects are those of \<^verbatim>\<open>Js_Prelude\<close>,
  and every proof about them goes through the laws of its \<open>js_object\<close> interface.
\<close>

subsection \<open>Key sets\<close>

definition PANEL_ONLY_OPENVPN_KEYS :: "string list" where
  "PANEL_ONLY_OPENVPN_KEYS = [''panelRootCaId'', ''panelServerCertId'', ''panelDhMaterialId'',
     ''panelTlsAuthMaterialId'', ''remote'', ''resolv-retry'', ''nobind'', ''key-direction'', ''client-verb'',
     ''remote-cert-tls'']"

definition PANEL_SAVE_EXTRA_KEYS :: "string list" where
  "PANEL_SAVE_EXTRA_KEYS = [''panelRootCaId'', ''panelServerCertId'', ''panelDhMaterialId'', ''panelTlsAuthMaterialId'']"

definition OPENVPN_SERVER_FORM_CLIENT_DIRECTIVES :: "string list" where
  "OPENVPN_SERVER_FORM_CLIENT_DIRECTIVES = [''remote'', ''resolv-retry'', ''nobind'', ''key-direction'',
     ''remote-cert-tls'', ''client-verb'']"

definition OPENVPN_SERVER_FORM_SHARED_DIRECTIVES :: "string list" where
  "OPENVPN_SERVER_FORM_SHARED_DIRECTIVES = [''proto'', ''persist-key'', ''persist-tun'', ''data-ciphers-fallback'',
     ''comp-lzo'', ''mute'']"

definition PANEL_CLIENT_PROFILE_KEYS :: "string list" where
  "PANEL_CLIENT_PROFILE_KEYS = [''remote'', ''resolv-retry'', ''nobind'', ''key-direction'', ''client-verb'',
     ''remote-cert-tls'']"

subsection \<open>Default paths\<close>

text \<open>The two optional arguments: \<open>None\<close> is \<^verbatim>\<open>undefined\<close>.\<close>

definition put_if_blank :: "jsobj \<Rightarrow> string \<Rightarrow> string \<Rightarrow> jsobj \<Rightarrow> jsobj" where
  "put_if_blank settings k path partial =
     (if js_trim (str_nullish (obj_get settings k)) = [] then obj_put partial k (JStr path) else partial)"

definition openvpnCertPathsPartial :: "jsobj \<Rightarrow> string option \<Rightarrow> string option \<Rightarrow> jsobj" where
  "openvpnCertPathsPartial settings rootCaId serverCertId =
     (let p1 = (case rootCaId of None \<Rightarrow> []
            | Some r \<Rightarrow>
                (let p = obj_put [] ''panelRootCaId'' (JStr r) in
                 if r = [] then p
                 else put_if_blank settings ''crl-verify'' ''/etc/openvpn/crl.pem''
                        (put_if_blank settings ''ca'' ''/etc/openvpn/ca.crt'' p)))
      in case serverCertId of None \<Rightarrow> p1
         | Some c \<Rightarrow>
             (let p = obj_put p1 ''panelServerCertId'' (JStr c) in
              if c = [] then p
              else put_if_blank settings ''key'' ''/etc/openvpn/server.key''
                     (put_if_blank settings ''cert'' ''/etc/openvpn/server.crt'' p)))"

subsection \<open>The payload for the agent\<close>

definition blank_value :: "jsval \<Rightarrow> bool" where
  "blank_value v \<longleftrightarrow> v = JStr [] \<or> v = JUndef \<or> v = JNull"

text \<open>A textarea as lines: an array is trimmed item by item, a text is split first.\<close>

definition textarea_lines :: "jsval \<Rightarrow> string list" where
  "textarea_lines raw = (case raw of
       JArr xs \<Rightarrow> non_empty (map (\<lambda>x. js_trim (to_str x)) xs)
     | _ \<Rightarrow> non_empty (map js_trim (js_split LF (str_or raw))))"

definition field_for_agent :: "settings_field \<Rightarrow> jsobj \<Rightarrow> jsobj" where
  "field_for_agent f out =
     (let k = fkey f; raw = obj_get out k in
      case ftype f of
        FNumber \<Rightarrow>
          if blank_value raw then obj_del out k
          else if js_finite (to_num raw) then obj_put out k (JNum (to_num raw)) else obj_del out k
      | FTextarea \<Rightarrow> obj_put out k (JArr (map JStr (textarea_lines raw)))
      | FSelect \<Rightarrow> if raw = JStr [] \<or> raw = JUndef then obj_del out k else out
      | _ \<Rightarrow> out)"

definition buildOpenVpnPayloadForAgent :: "jsobj \<Rightarrow> jsobj" where
  "buildOpenVpnPayloadForAgent stateObj =
     fold (\<lambda>k out. obj_del out k) PANEL_ONLY_OPENVPN_KEYS
       (fold field_for_agent OPENVPN_SERVER_SETTINGS_FIELDS stateObj)"

subsection \<open>The object saved on the panel\<close>

definition saved_text :: "jsval \<Rightarrow> jsval" where
  "saved_text v = (if v = JUndef \<or> v = JNull then JStr [] else JStr (to_str v))"

definition save_field :: "jsobj \<Rightarrow> settings_field \<Rightarrow> jsobj \<Rightarrow> jsobj" where
  "save_field stateObj f base =
     (let k = fkey f; raw = obj_get stateObj k in
      if \<not> obj_has stateObj k then base
      else case ftype f of
        FNumber \<Rightarrow>
          obj_put base k (if blank_value raw then JStr []
            else if js_finite (to_num raw) then JNum (to_num raw) else JStr [])
      | FSelect \<Rightarrow> obj_put base k (if blank_value raw then JStr [] else JStr (js_trim (to_str raw)))
      | FText \<Rightarrow> obj_put base k (if raw = JUndef \<or> raw = JNull then JStr [] else JStr (js_trim (to_str raw)))
      | _ \<Rightarrow> base)"

definition save_extra :: "jsobj \<Rightarrow> string \<Rightarrow> jsobj \<Rightarrow> jsobj" where
  "save_extra stateObj k base =
     (if obj_has stateObj k then obj_put base k (saved_text (obj_get stateObj k)) else base)"

definition save_profile :: "jsobj \<Rightarrow> string \<Rightarrow> jsobj \<Rightarrow> jsobj" where
  "save_profile stateObj k base =
     (if \<not> obj_has stateObj k then base
      else (case obj_get stateObj k of JBool b \<Rightarrow> obj_put base k (JBool b)
            | v \<Rightarrow> obj_put base k (saved_text v)))"

definition buildOpenVpnSettingsForPanelSave :: "jsobj \<Rightarrow> jsobj" where
  "buildOpenVpnSettingsForPanelSave stateObj =
     fold (save_profile stateObj) PANEL_CLIENT_PROFILE_KEYS
       (fold (save_extra stateObj) PANEL_SAVE_EXTRA_KEYS
         (fold (save_field stateObj) OPENVPN_SERVER_SETTINGS_FIELDS (buildOpenVpnPayloadForAgent stateObj)))"

text \<open>
  Loading the settings of a node: every textarea field becomes an array. The same loop stands in the
  loading effect, after applying and after removing a root certificate.
\<close>

definition load_field :: "settings_field \<Rightarrow> jsobj \<Rightarrow> jsobj" where
  "load_field f s = (if ftype f = FTextarea then
     (case obj_get s (fkey f) of
        JArr xs \<Rightarrow> obj_put s (fkey f) (JArr xs)
      | JStr v \<Rightarrow> obj_put s (fkey f) (if v \<noteq> [] then JArr [JStr v] else JArr [])
      | _ \<Rightarrow> obj_put s (fkey f) (JArr [])) else s)"

definition load_settings :: "jsobj \<Rightarrow> jsobj" where
  "load_settings s = fold load_field OPENVPN_SERVER_SETTINGS_FIELDS s"

subsection \<open>The text of server.conf\<close>

definition item_line :: "string \<Rightarrow> string \<Rightarrow> string" where
  "item_line key s = (if key = ''push'' \<or> key = ''route'' then key @ '' '' @ [CHR 0x22] @ s @ [CHR 0x22] else key @ '' '' @ s)"

definition directive_lines :: "string \<Rightarrow> jsval \<Rightarrow> string list" where
  "directive_lines key v = (case v of
       JUndef \<Rightarrow> []
     | JNull \<Rightarrow> []
     | JBool b \<Rightarrow> if b then [key] else []
     | JArr items \<Rightarrow> map (item_line key) (non_empty (map (\<lambda>x. js_trim (str_or x)) items))
     | _ \<Rightarrow> if v = JStr [] then [] else [key @ '' '' @ js_trim (to_str v)])"

definition config_payload :: "jsobj \<Rightarrow> jsobj" where
  "config_payload settings =
     (let stripped = buildOpenVpnPayloadForAgent settings
      in fold (\<lambda>k p. if js_starts_with k ''panel'' then obj_del p k else p) (map fst stripped) stripped)"

definition config_keys :: "(string \<Rightarrow> string \<Rightarrow> int) \<Rightarrow> jsobj \<Rightarrow> string list" where
  "config_keys localeCompare payload =
     (let preferredKeys = map fkey OPENVPN_SERVER_SETTINGS_FIELDS; payloadKeys = map fst payload;
          restKeys = js_sort localeCompare (filter (\<lambda>k. k \<notin> set preferredKeys) payloadKeys)
      in filter (\<lambda>k. k \<in> set payloadKeys) preferredKeys @ restKeys)"

definition fallbackRawFromSettings :: "(string \<Rightarrow> string \<Rightarrow> int) \<Rightarrow> jsobj \<Rightarrow> string" where
  "fallbackRawFromSettings localeCompare settings =
     (let payload = config_payload settings
      in js_join [LF] (concat (map (\<lambda>k. directive_lines k (obj_get payload k)) (config_keys localeCompare payload))))"

subsection \<open>The client profile\<close>

definition client_field :: "settings_field \<Rightarrow> jsobj \<Rightarrow> jsobj" where
  "client_field f out =
     (let k = fkey f; raw = obj_get out k in
      case ftype f of
        FNumber \<Rightarrow>
          if blank_value raw then obj_del out k
          else if js_finite (to_num raw) then obj_put out k (JStr (num_string (js_trunc (to_num raw)))) else obj_del out k
      | FCheckbox \<Rightarrow> obj_put out k (JBool (truthy raw))
      | _ \<Rightarrow> (let text = js_trim (str_nullish raw) in if text = [] then obj_del out k else obj_put out k (JStr text)))"

definition buildOpenVpnClientConfigPayload :: "jsobj \<Rightarrow> jsobj" where
  "buildOpenVpnClientConfigPayload stateObj = fold client_field OPENVPN_CLIENT_SETTINGS_FIELDS stateObj"

definition normalizeClientDevFromServer :: "jsval \<Rightarrow> string" where
  "normalizeClientDevFromServer devRaw =
     (let v = js_lower (js_trim (str_or devRaw)) in
      if v = [] then ''tun'' else if js_starts_with v ''tap'' then ''tap'' else ''tun'')"

text \<open>\<^verbatim>\<open>x && typeof x === "object" && !Array.isArray(x) ? x : {}\<close>\<close>

definition object_or_empty :: "jsval \<Rightarrow> jsobj" where
  "object_or_empty v = (case v of JObj ob \<Rightarrow> ob | _ \<Rightarrow> [])"

definition text_or_default :: "jsval \<Rightarrow> string \<Rightarrow> string" where
  "text_or_default v d = js_or (js_trim (str_or v)) d"

definition fallbackServerDerivedClientLines :: "jsval \<Rightarrow> string list" where
  "fallbackServerDerivedClientLines serverSettings =
     (let s = object_or_empty serverSettings;
          nobind = obj_get s ''nobind''
      in [''dev '' @ normalizeClientDevFromServer (obj_get s ''dev''),
          ''proto '' @ text_or_default (obj_get s ''proto'') ''{{proto}}'',
          ''remote '' @ text_or_default (obj_get s ''remote'') ''{{host}} {{port}}'',
          ''resolv-retry '' @ text_or_default (obj_get s ''resolv-retry'') ''infinite'']
         @ (if nobind = JUndef \<or> nobind = JNull \<or> truthy nobind then [''nobind''] else [])
         @ [''key-direction '' @ text_or_default (obj_get s ''key-direction'') ''{{key_direction}}''])"

definition SERVER_DERIVED_KEYS :: "string list" where
  "SERVER_DERIVED_KEYS = [''dev'', ''proto'', ''remote'', ''resolv-retry'', ''nobind'', ''key-direction'']"

definition client_field_lines :: "jsobj \<Rightarrow> settings_field \<Rightarrow> string list" where
  "client_field_lines payload f =
     (let key = fkey f in
      if key \<in> set SERVER_DERIVED_KEYS \<or> \<not> obj_has payload key then []
      else (case obj_get payload key of JBool b \<Rightarrow> if b then [key] else []
            | v \<Rightarrow> [key @ '' '' @ to_str v]))"

definition inherited_lines :: "jsobj \<Rightarrow> jsobj \<Rightarrow> string \<Rightarrow> string list" where
  "inherited_lines payload s key =
     (if key \<in> set SERVER_DERIVED_KEYS \<or> obj_has payload key then []
      else (let v = js_trim (str_nullish (obj_get s key)) in
        if v = [] then []
        else if key = ''remote-cert-tls'' then
          [key @ '' '' @ (if v = ''client'' then ''server'' else if v = ''server'' then ''client'' else js_or v ''server'')]
        else [key @ '' '' @ v]))"

definition INLINE_BLOCKS :: "string list" where
  "INLINE_BLOCKS = [[], ''<ca>'', ''{{ca}}'', ''</ca>'', [], ''<cert>'', ''{{cert}}'', ''</cert>'', [],
     ''<key>'', ''{{key}}'', ''</key>'', [], ''<tls-auth>'', ''{{tls_auth}}'', ''</tls-auth>'', []]"

definition client_profile_lines :: "jsobj \<Rightarrow> jsval \<Rightarrow> string list" where
  "client_profile_lines settings serverSettings =
     (let payload = buildOpenVpnClientConfigPayload settings; s = object_or_empty serverSettings
      in fallbackServerDerivedClientLines serverSettings
         @ concat (map (client_field_lines payload) OPENVPN_CLIENT_SETTINGS_FIELDS)
         @ concat (map (inherited_lines payload s) [''data-ciphers'', ''data-ciphers-fallback'', ''auth'', ''remote-cert-tls''])
         @ INLINE_BLOCKS)"

definition fallbackRawFromClientSettings :: "jsobj \<Rightarrow> jsval \<Rightarrow> string" where
  "fallbackRawFromClientSettings settings serverSettings = js_join [LF] (client_profile_lines settings serverSettings)"

subsection \<open>One field at a time\<close>

text \<open>
  Every loop over the fields touches one key per iteration, and what it does to a key depends only on
  that key: with distinct keys the loop is described field by field.
\<close>

definition same_at :: "string \<Rightarrow> jsobj \<Rightarrow> jsobj \<Rightarrow> bool" where
  "same_at k a b \<longleftrightarrow> obj_get a k = obj_get b k \<and> obj_has a k = obj_has b k"

definition keyed_step :: "(settings_field \<Rightarrow> jsobj \<Rightarrow> jsobj) \<Rightarrow> bool" where
  "keyed_step g \<longleftrightarrow> (\<forall>f ob k. k \<noteq> fkey f \<longrightarrow> same_at k (g f ob) ob) \<and>
     (\<forall>f a b. same_at (fkey f) a b \<longrightarrow> same_at (fkey f) (g f a) (g f b))"

lemma same_at_refl [simp]: "same_at k a a"
  by (simp add: same_at_def)

lemma same_at_trans: "same_at k a b \<Longrightarrow> same_at k b c \<Longrightarrow> same_at k a c"
  by (simp add: same_at_def)

lemma keyed_stepI:
  assumes "\<And>f ob k. k \<noteq> fkey f \<Longrightarrow> same_at k (g f ob) ob"
    and "\<And>f a b. same_at (fkey f) a b \<Longrightarrow> same_at (fkey f) (g f a) (g f b)"
  shows "keyed_step g"
  using assms by (simp add: keyed_step_def)

lemma keyed_fold_field:
  assumes "keyed_step g" and "distinct (map fkey fs)" and "f \<in> set fs"
  shows "same_at (fkey f) (fold g fs ob) (g f ob)"
  unfolding same_at_def
proof (rule alist.fold_last_writer)
  show "f \<in> set fs" "distinct (map fkey fs)" by fact+
next
  fix f' :: settings_field and ob' assume "fkey f' \<noteq> fkey f"
  with assms(1) have "same_at (fkey f) (g f' ob') ob'" by (simp add: keyed_step_def)
  then show "obj_get (g f' ob') (fkey f) = obj_get ob' (fkey f) \<and> obj_has (g f' ob') (fkey f) = obj_has ob' (fkey f)"
    by (simp add: same_at_def)
next
  fix a b assume "obj_get a (fkey f) = obj_get b (fkey f)" "obj_has a (fkey f) = obj_has b (fkey f)"
  then have "same_at (fkey f) a b" by (simp add: same_at_def)
  with assms(1) have "same_at (fkey f) (g f a) (g f b)" by (simp add: keyed_step_def)
  then show "obj_get (g f a) (fkey f) = obj_get (g f b) (fkey f) \<and> obj_has (g f a) (fkey f) = obj_has (g f b) (fkey f)"
    by (simp add: same_at_def)
qed

lemma keyed_fold_other:
  assumes "keyed_step g" and "k \<notin> fkey ` set fs"
  shows "same_at k (fold g fs ob) ob"
  unfolding same_at_def by (rule alist.fold_frame) (use assms in \<open>auto simp: keyed_step_def same_at_def\<close>)

lemma keyed_field_for_agent: "keyed_step field_for_agent"
proof (rule keyed_stepI)
  fix f :: settings_field and ob k assume "k \<noteq> fkey f"
  then show "same_at k (field_for_agent f ob) ob"
    by (cases "ftype f") (simp_all add: same_at_def field_for_agent_def Let_def js_obj)
next
  fix f :: settings_field and a b assume "same_at (fkey f) a b"
  then show "same_at (fkey f) (field_for_agent f a) (field_for_agent f b)"
    by (cases "ftype f") (simp_all add: same_at_def field_for_agent_def Let_def js_obj)
qed

lemma keyed_save_field: "keyed_step (save_field s)"
proof (rule keyed_stepI)
  fix f :: settings_field and ob k assume "k \<noteq> fkey f"
  then show "same_at k (save_field s f ob) ob"
    by (cases "ftype f") (simp_all add: same_at_def save_field_def Let_def js_obj)
next
  fix f :: settings_field and a b assume "same_at (fkey f) a b"
  then show "same_at (fkey f) (save_field s f a) (save_field s f b)"
    by (cases "ftype f") (simp_all add: same_at_def save_field_def Let_def js_obj)
qed

lemma keyed_load_field: "keyed_step load_field"
  by (rule keyed_stepI) (simp_all add: same_at_def load_field_def Let_def js_obj split: jsval.splits)

lemma keyed_client_field: "keyed_step client_field"
proof (rule keyed_stepI)
  fix f :: settings_field and ob k assume "k \<noteq> fkey f"
  then show "same_at k (client_field f ob) ob"
    by (cases "ftype f") (simp_all add: same_at_def client_field_def Let_def js_obj)
next
  fix f :: settings_field and a b assume "same_at (fkey f) a b"
  then show "same_at (fkey f) (client_field f a) (client_field f b)"
    by (cases "ftype f") (simp_all add: same_at_def client_field_def Let_def js_obj)
qed

lemmas keyed_steps = keyed_field_for_agent keyed_save_field keyed_load_field keyed_client_field

subsection \<open>The payload for the agent, key by key\<close>

lemma payload_panel_only:
  assumes "k \<in> set PANEL_ONLY_OPENVPN_KEYS"
  shows "\<not> obj_has (buildOpenVpnPayloadForAgent s) k" "obj_get (buildOpenVpnPayloadForAgent s) k = JUndef"
  using assms by (simp_all add: buildOpenVpnPayloadForAgent_def alist.has_fold_del alist.get_fold_del)

lemma payload_kept:
  assumes "k \<notin> set PANEL_ONLY_OPENVPN_KEYS"
  shows "same_at k (buildOpenVpnPayloadForAgent s) (fold field_for_agent OPENVPN_SERVER_SETTINGS_FIELDS s)"
  using assms by (simp add: buildOpenVpnPayloadForAgent_def alist.has_fold_del alist.get_fold_del same_at_def)

lemma payload_field:
  assumes "f \<in> set OPENVPN_SERVER_SETTINGS_FIELDS" and "fkey f \<notin> set PANEL_ONLY_OPENVPN_KEYS"
  shows "same_at (fkey f) (buildOpenVpnPayloadForAgent s) (field_for_agent f s)"
  using payload_kept [OF assms(2)] keyed_fold_field [OF keyed_field_for_agent server_fields_distinct assms(1)]
  by (rule same_at_trans)

lemma payload_other:
  assumes "k \<notin> fkey ` set OPENVPN_SERVER_SETTINGS_FIELDS" and "k \<notin> set PANEL_ONLY_OPENVPN_KEYS"
  shows "same_at k (buildOpenVpnPayloadForAgent s) s"
  using payload_kept [OF assms(2)] keyed_fold_other [OF keyed_field_for_agent assms(1)] by (rule same_at_trans)

lemma non_empty_trimmed: "list_all (\<lambda>l. l \<noteq> [] \<and> js_trim l = l) (non_empty (map (\<lambda>x. js_trim (g x)) xs))"
  by (induction xs) simp_all

lemma textarea_lines_ok: "list_all (\<lambda>l. l \<noteq> [] \<and> js_trim l = l) (textarea_lines raw)"
  using non_empty_trimmed [of to_str] non_empty_trimmed [of id] by (cases raw) (simp_all add: textarea_lines_def)

lemma textarea_lines_again: "list_all (\<lambda>l. l \<noteq> [] \<and> js_trim l = l) ls \<Longrightarrow> textarea_lines (JArr (map JStr ls)) = ls"
  by (induction ls) (simp_all add: textarea_lines_def)

lemma field_for_agent_again: "same_at (fkey f) (field_for_agent f (field_for_agent f s)) (field_for_agent f s)"
  by (cases "ftype f")
     (simp_all add: same_at_def field_for_agent_def Let_def js_obj textarea_lines_again [OF textarea_lines_ok] blank_value_def)

definition agent_field_ok :: "jsobj \<Rightarrow> settings_field \<Rightarrow> bool" where
  "agent_field_ok out f = (let v = obj_get out (fkey f); present = obj_has out (fkey f) in
     fkey f \<in> set PANEL_ONLY_OPENVPN_KEYS \<or>
     (case ftype f of
        FNumber \<Rightarrow> (case v of JNum n \<Rightarrow> js_finite n | _ \<Rightarrow> \<not> present)
      | FTextarea \<Rightarrow> (\<exists>ls. v = JArr (map JStr ls) \<and> list_all (\<lambda>l. l \<noteq> [] \<and> js_trim l = l) ls)
      | FSelect \<Rightarrow> v \<noteq> JStr [] \<and> (v = JUndef \<longrightarrow> \<not> present)
      | _ \<Rightarrow> True))"

lemma field_for_agent_ok:
  "same_at (fkey f) out (field_for_agent f s) \<Longrightarrow> agent_field_ok out f"
  using textarea_lines_ok [of "obj_get s (fkey f)"]
  by (cases "ftype f") (auto simp: agent_field_ok_def same_at_def field_for_agent_def Let_def js_obj split: if_splits)

text \<open>C9: What is sent to the agent is well typed whatever the form holds: none of the panel's own keys and none of
  the directives of the client profile is in it, a number field is a finite number or absent, a
  textarea is an array of trimmed non-empty lines, a select is never the empty choice, and keys the
  form does not know are passed on unchanged.\<close>

theorem payload_for_agent_well_typed:
  "list_all (\<lambda>k. \<not> obj_has (buildOpenVpnPayloadForAgent s) k) PANEL_ONLY_OPENVPN_KEYS
   \<and> list_all (agent_field_ok (buildOpenVpnPayloadForAgent s)) OPENVPN_SERVER_SETTINGS_FIELDS
   \<and> (k \<in> fkey ` set OPENVPN_SERVER_SETTINGS_FIELDS \<or> k \<in> set PANEL_ONLY_OPENVPN_KEYS
        \<or> obj_get (buildOpenVpnPayloadForAgent s) k = obj_get s k
          \<and> obj_has (buildOpenVpnPayloadForAgent s) k = obj_has s k)"
proof (intro conjI)
  show "list_all (\<lambda>k. \<not> obj_has (buildOpenVpnPayloadForAgent s) k) PANEL_ONLY_OPENVPN_KEYS"
    by (simp add: list_all_iff payload_panel_only)
  have "agent_field_ok (buildOpenVpnPayloadForAgent s) f" if "f \<in> set OPENVPN_SERVER_SETTINGS_FIELDS" for f
  proof (cases "fkey f \<in> set PANEL_ONLY_OPENVPN_KEYS")
    case False
    show ?thesis by (rule field_for_agent_ok [OF payload_field [OF that False]])
  qed (simp add: agent_field_ok_def)
  then show "list_all (agent_field_ok (buildOpenVpnPayloadForAgent s)) OPENVPN_SERVER_SETTINGS_FIELDS"
    by (simp add: list_all_iff)
  show "k \<in> fkey ` set OPENVPN_SERVER_SETTINGS_FIELDS \<or> k \<in> set PANEL_ONLY_OPENVPN_KEYS
        \<or> obj_get (buildOpenVpnPayloadForAgent s) k = obj_get s k
          \<and> obj_has (buildOpenVpnPayloadForAgent s) k = obj_has s k"
    using payload_other [of k s] by (auto simp: same_at_def)
qed

lemma field_key_mem: "f \<in> set OPENVPN_SERVER_SETTINGS_FIELDS \<Longrightarrow> fkey f \<in> fkey ` set OPENVPN_SERVER_SETTINGS_FIELDS"
  by blast

lemma payload_same_at:
  assumes "same_at k a b"
  shows "same_at k (buildOpenVpnPayloadForAgent a) (buildOpenVpnPayloadForAgent b)"
proof (cases "k \<in> set PANEL_ONLY_OPENVPN_KEYS")
  case True
  then show ?thesis by (simp add: same_at_def payload_panel_only)
next
  case False
  show ?thesis
  proof (cases "k \<in> fkey ` set OPENVPN_SERVER_SETTINGS_FIELDS")
    case True
    then obtain f where f: "f \<in> set OPENVPN_SERVER_SETTINGS_FIELDS" "k = fkey f" by blast
    have "same_at k (field_for_agent f a) (field_for_agent f b)"
      using keyed_field_for_agent assms f(2) by (simp add: keyed_step_def)
    with payload_field [OF f(1), of a] payload_field [OF f(1), of b] False f(2) show ?thesis by (simp add: same_at_def)
  next
    case other: False
    with payload_other [OF other False, of a] payload_other [OF other False, of b] assms show ?thesis
      by (simp add: same_at_def)
  qed
qed

text \<open>Preparing the payload twice changes nothing: what the agent reports back can be sent again.\<close>

theorem payload_for_agent_idempotent:
  "obj_get (buildOpenVpnPayloadForAgent (buildOpenVpnPayloadForAgent s)) k = obj_get (buildOpenVpnPayloadForAgent s) k
   \<and> obj_has (buildOpenVpnPayloadForAgent (buildOpenVpnPayloadForAgent s)) k = obj_has (buildOpenVpnPayloadForAgent s) k"
proof (cases "k \<in> set PANEL_ONLY_OPENVPN_KEYS")
  case True
  then show ?thesis by (simp add: payload_panel_only)
next
  case False
  show ?thesis
  proof (cases "k \<in> fkey ` set OPENVPN_SERVER_SETTINGS_FIELDS")
    case True
    then obtain f where f: "f \<in> set OPENVPN_SERVER_SETTINGS_FIELDS" "k = fkey f" by blast
    have *: "same_at k (buildOpenVpnPayloadForAgent x) (field_for_agent f x)" for x
      using payload_field [OF f(1)] False f(2) by simp
    have "same_at k (field_for_agent f (buildOpenVpnPayloadForAgent s)) (field_for_agent f (field_for_agent f s))"
      using keyed_field_for_agent * [of s] f(2) by (simp add: keyed_step_def)
    with * [of s] * [of "buildOpenVpnPayloadForAgent s"] field_for_agent_again [of f s] f(2) show ?thesis
      by (simp add: same_at_def)
  next
    case other: False
    from payload_other [OF other False, of "buildOpenVpnPayloadForAgent s"] show ?thesis by (simp add: same_at_def)
  qed
qed

subsection \<open>Saving on the panel\<close>

lemma fold_key_frame:
  assumes "\<And>x ob. x \<noteq> k \<Longrightarrow> same_at k (g x ob) ob" and "k \<notin> set ks"
  shows "same_at k (fold g ks ob) ob"
  unfolding same_at_def by (rule alist.fold_frame) (metis assms same_at_def)

lemma fold_key_writer:
  assumes "\<And>x ob. x \<noteq> k \<Longrightarrow> same_at k (g x ob) ob"
    and "\<And>a b. same_at k a b \<Longrightarrow> same_at k (g k a) (g k b)" and "distinct ks" and "k \<in> set ks"
  shows "same_at k (fold g ks ob) (g k ob)"
  unfolding same_at_def
proof (rule alist.fold_last_writer [where key = "\<lambda>x. x", of k ks g ob])
  show "k \<in> set ks" "distinct (map (\<lambda>x. x) ks)" using assms(3,4) by simp_all
next
  fix y ob' assume "y \<noteq> k"
  then show "obj_get (g y ob') k = obj_get ob' k \<and> obj_has (g y ob') k = obj_has ob' k"
    using assms(1) by (simp add: same_at_def)
next
  fix a b assume "obj_get a k = obj_get b k" "obj_has a k = obj_has b k"
  then have "same_at k a b" by (simp add: same_at_def)
  from assms(2) [OF this] show "obj_get (g k a) k = obj_get (g k b) k \<and> obj_has (g k a) k = obj_has (g k b) k"
    by (simp add: same_at_def)
qed

lemma save_extra_keyed:
  "x \<noteq> k \<Longrightarrow> same_at k (save_extra s x ob) ob" "same_at k a b \<Longrightarrow> same_at k (save_extra s k a) (save_extra s k b)"
  by (simp_all add: same_at_def save_extra_def js_obj)

lemma save_profile_keyed:
  "x \<noteq> k \<Longrightarrow> same_at k (save_profile s x ob) ob" "same_at k a b \<Longrightarrow> same_at k (save_profile s k a) (save_profile s k b)"
  by (cases "obj_get s x"; simp add: same_at_def save_profile_def js_obj)
     (cases "obj_get s k"; simp add: same_at_def save_profile_def js_obj)

lemma panel_key_sets:
  "set PANEL_ONLY_OPENVPN_KEYS = set PANEL_SAVE_EXTRA_KEYS \<union> set PANEL_CLIENT_PROFILE_KEYS"
  "distinct PANEL_SAVE_EXTRA_KEYS" "distinct PANEL_CLIENT_PROFILE_KEYS"
  "set PANEL_SAVE_EXTRA_KEYS \<inter> set PANEL_CLIENT_PROFILE_KEYS = {}"
  "set PANEL_SAVE_EXTRA_KEYS \<inter> fkey ` set OPENVPN_SERVER_SETTINGS_FIELDS = {}"
  by code_simp+

lemma save_profile_key:
  assumes "k \<in> set PANEL_CLIENT_PROFILE_KEYS"
  shows "same_at k (buildOpenVpnSettingsForPanelSave s) (save_profile s k
    (fold (save_extra s) PANEL_SAVE_EXTRA_KEYS
         (fold (save_field s) OPENVPN_SERVER_SETTINGS_FIELDS (buildOpenVpnPayloadForAgent s))))"
  unfolding buildOpenVpnSettingsForPanelSave_def
  by (rule fold_key_writer) (use save_profile_keyed panel_key_sets(3) assms in auto)

lemma save_no_profile_key:
  assumes "k \<notin> set PANEL_CLIENT_PROFILE_KEYS"
  shows "same_at k (buildOpenVpnSettingsForPanelSave s) (fold (save_extra s) PANEL_SAVE_EXTRA_KEYS
         (fold (save_field s) OPENVPN_SERVER_SETTINGS_FIELDS (buildOpenVpnPayloadForAgent s)))"
  unfolding buildOpenVpnSettingsForPanelSave_def
  by (rule fold_key_frame) (use save_profile_keyed assms in auto)

lemma save_extra_key:
  assumes "k \<in> set PANEL_SAVE_EXTRA_KEYS"
  shows "same_at k (buildOpenVpnSettingsForPanelSave s) (save_extra s k
         (fold (save_field s) OPENVPN_SERVER_SETTINGS_FIELDS (buildOpenVpnPayloadForAgent s)))"
proof -
  have "k \<notin> set PANEL_CLIENT_PROFILE_KEYS" using assms panel_key_sets(4) by blast
  moreover have "same_at k (fold (save_extra s) PANEL_SAVE_EXTRA_KEYS ob) (save_extra s k ob)" for ob
    by (rule fold_key_writer) (use save_extra_keyed panel_key_sets(2) assms in auto)
  ultimately show ?thesis using save_no_profile_key same_at_trans by blast
qed

lemma save_plain_key:
  assumes "k \<notin> set PANEL_ONLY_OPENVPN_KEYS"
  shows "same_at k (buildOpenVpnSettingsForPanelSave s)
         (fold (save_field s) OPENVPN_SERVER_SETTINGS_FIELDS (buildOpenVpnPayloadForAgent s))"
proof -
  have k: "k \<notin> set PANEL_CLIENT_PROFILE_KEYS" "k \<notin> set PANEL_SAVE_EXTRA_KEYS" using assms panel_key_sets(1) by blast+
  have "same_at k (fold (save_extra s) PANEL_SAVE_EXTRA_KEYS ob) ob" for ob
    by (rule fold_key_frame) (use save_extra_keyed k in auto)
  then show ?thesis using save_no_profile_key [OF k(1)] same_at_trans by blast
qed

definition profile_text :: "jsval \<Rightarrow> jsval" where
  "profile_text v = (case v of JBool b \<Rightarrow> JBool b | _ \<Rightarrow> saved_text v)"

lemma save_profile_text: "save_profile s k base = (if obj_has s k then obj_put base k (profile_text (obj_get s k)) else base)"
  by (simp add: save_profile_def profile_text_def split: jsval.split)

lemma saved_text_again [simp]: "saved_text (saved_text v) = saved_text v"
  by (cases v) (simp_all add: saved_text_def)

lemma profile_text_again [simp]: "profile_text (profile_text v) = profile_text v"
  by (cases v) (simp_all add: profile_text_def saved_text_def)

lemma saved_extra_at:
  assumes "k \<in> set PANEL_SAVE_EXTRA_KEYS"
  shows "obj_has (buildOpenVpnSettingsForPanelSave s) k = obj_has s k \<and>
    obj_get (buildOpenVpnSettingsForPanelSave s) k = (if obj_has s k then saved_text (obj_get s k) else JUndef)"
proof -
  have k: "k \<notin> fkey ` set OPENVPN_SERVER_SETTINGS_FIELDS" "k \<in> set PANEL_ONLY_OPENVPN_KEYS"
    using assms panel_key_sets(1,5) by blast+
  have "same_at k (fold (save_field s) OPENVPN_SERVER_SETTINGS_FIELDS (buildOpenVpnPayloadForAgent s)) (buildOpenVpnPayloadForAgent s)"
    by (rule keyed_fold_other [OF keyed_save_field k(1)])
  with save_extra_key [OF assms, of s] payload_panel_only [OF k(2), of s] show ?thesis
    by (simp add: same_at_def save_extra_def js_obj)
qed

lemma saved_profile_at:
  assumes "k \<in> set PANEL_CLIENT_PROFILE_KEYS"
  shows "obj_has (buildOpenVpnSettingsForPanelSave s) k = obj_has s k \<and>
    obj_get (buildOpenVpnSettingsForPanelSave s) k = (if obj_has s k then profile_text (obj_get s k) else JUndef)"
proof (cases "obj_has s k")
  case True
  then show ?thesis using save_profile_key [OF assms, of s] by (simp add: same_at_def save_profile_text js_obj)
next
  case False
  have k: "k \<notin> set PANEL_SAVE_EXTRA_KEYS" "k \<in> set PANEL_ONLY_OPENVPN_KEYS" using assms panel_key_sets(1,4) by blast+
  have "same_at k (fold (save_field s) fs ob) ob" for fs ob
    unfolding same_at_def by (rule alist.fold_frame) (use False in \<open>auto simp: save_field_def Let_def js_obj split: field_type.splits\<close>)
  moreover have "same_at k (fold (save_extra s) PANEL_SAVE_EXTRA_KEYS ob) ob" for ob
    by (rule fold_key_frame) (use save_extra_keyed k in auto)
  ultimately show ?thesis using save_profile_key [OF assms, of s] payload_panel_only [OF k(2), of s] False
    by (simp add: same_at_def save_profile_text)
qed

lemma saved_field_at:
  assumes "f \<in> set OPENVPN_SERVER_SETTINGS_FIELDS" and "fkey f \<notin> set PANEL_ONLY_OPENVPN_KEYS"
  shows "same_at (fkey f) (buildOpenVpnSettingsForPanelSave s) (save_field s f (field_for_agent f s))"
proof -
  have "same_at (fkey f) (fold (save_field s) OPENVPN_SERVER_SETTINGS_FIELDS (buildOpenVpnPayloadForAgent s))
      (save_field s f (buildOpenVpnPayloadForAgent s))"
    by (rule keyed_fold_field [OF keyed_save_field server_fields_distinct assms(1)])
  moreover have "same_at (fkey f) (save_field s f (buildOpenVpnPayloadForAgent s)) (save_field s f (field_for_agent f s))"
    using keyed_save_field [of s] payload_field [OF assms, of s] unfolding keyed_step_def by blast
  ultimately show ?thesis by (rule same_at_trans [OF same_at_trans [OF save_plain_key [OF assms(2)]]])
qed

lemma saved_other_at:
  assumes "k \<notin> fkey ` set OPENVPN_SERVER_SETTINGS_FIELDS" and "k \<notin> set PANEL_ONLY_OPENVPN_KEYS"
  shows "same_at k (buildOpenVpnSettingsForPanelSave s) s"
  by (rule same_at_trans [OF same_at_trans [OF save_plain_key [OF assms(2)] keyed_fold_other [OF keyed_save_field assms(1)]] payload_other [OF assms]])

lemma save_field_again:
  assumes "same_at (fkey f) t (save_field s f (field_for_agent f s))"
  shows "same_at (fkey f) (save_field t f (field_for_agent f t)) t"
  using assms
  by (cases "ftype f")
     (auto simp: same_at_def save_field_def field_for_agent_def Let_def js_obj blank_value_def
        textarea_lines_again [OF textarea_lines_ok] alist.get_absent)

lemma save_field_has:
  "obj_has (save_field s f (field_for_agent f s)) (fkey f) \<longleftrightarrow> obj_has s (fkey f) \<or> ftype f = FTextarea"
  by (cases "obj_has s (fkey f)"; cases "ftype f")
     (simp_all add: save_field_def field_for_agent_def Let_def js_obj blank_value_def alist.get_absent)

text \<open>The four kinds of keys of a settings object.\<close>

lemma settings_key_cases [case_names extra profile field other]:
  assumes "k \<in> set PANEL_SAVE_EXTRA_KEYS \<Longrightarrow> P" and "k \<in> set PANEL_CLIENT_PROFILE_KEYS \<Longrightarrow> P"
    and "\<And>f. f \<in> set OPENVPN_SERVER_SETTINGS_FIELDS \<Longrightarrow> k = fkey f \<Longrightarrow> fkey f \<notin> set PANEL_ONLY_OPENVPN_KEYS \<Longrightarrow> P"
    and "k \<notin> fkey ` set OPENVPN_SERVER_SETTINGS_FIELDS \<Longrightarrow> k \<notin> set PANEL_ONLY_OPENVPN_KEYS \<Longrightarrow> P"
  shows P
  using assms panel_key_sets(1) by blast

text \<open>Saving the form on the panel loses no key: a key is in the saved object exactly when it was in the form or
  is a textarea (saved as a possibly empty list), so a cleared number, select or text is stored as
  cleared and not forgotten. And saving what was saved gives the same object again.\<close>

theorem panel_save_keeps_keys:
  "(obj_has (buildOpenVpnSettingsForPanelSave s) k \<longleftrightarrow>
      obj_has s k \<or> k \<in> fkey ` set (filter (\<lambda>f. ftype f = FTextarea) OPENVPN_SERVER_SETTINGS_FIELDS))
   \<and> obj_get (buildOpenVpnSettingsForPanelSave (buildOpenVpnSettingsForPanelSave s)) k = obj_get (buildOpenVpnSettingsForPanelSave s) k
   \<and> obj_has (buildOpenVpnSettingsForPanelSave (buildOpenVpnSettingsForPanelSave s)) k = obj_has (buildOpenVpnSettingsForPanelSave s) k"
proof -
  have tx: "g = f" if "f \<in> set OPENVPN_SERVER_SETTINGS_FIELDS" "g \<in> set OPENVPN_SERVER_SETTINGS_FIELDS" "fkey f = fkey g" for f g
    using server_fields_distinct that by (auto simp: distinct_map inj_on_def)
  have np: "set PANEL_ONLY_OPENVPN_KEYS \<inter> fkey ` set (filter (\<lambda>f. ftype f = FTextarea) OPENVPN_SERVER_SETTINGS_FIELDS) = {}"
    by code_simp
  show ?thesis
  proof (cases k rule: settings_key_cases)
    case extra
    with np panel_key_sets(1) show ?thesis by (auto simp: saved_extra_at [OF extra])
  next
    case profile
    with np panel_key_sets(1) show ?thesis by (auto simp: saved_profile_at [OF profile])
  next
    case (field f)
    have "obj_has (buildOpenVpnSettingsForPanelSave s) k \<longleftrightarrow> obj_has s k \<or> ftype f = FTextarea"
      using saved_field_at [OF field(1,3), of s] save_field_has [of s f] field(2) by (simp add: same_at_def)
    moreover have "same_at (fkey f) (save_field t f (field_for_agent f t)) t" if "t = buildOpenVpnSettingsForPanelSave s" for t
      using save_field_again saved_field_at [OF field(1,3), of s] that by blast
    ultimately show ?thesis using saved_field_at [OF field(1,3), of "buildOpenVpnSettingsForPanelSave s"] field tx
      by (fastforce simp: same_at_def)
  next
    case other
    with saved_other_at [OF other, of s] saved_other_at [OF other, of "buildOpenVpnSettingsForPanelSave s"] show ?thesis
      by (auto simp: same_at_def)
  qed
qed

subsection \<open>Loading\<close>

lemma load_field_at: "obj_get (load_field f s) (fkey f) =
  (if ftype f = FTextarea then (case obj_get s (fkey f) of JArr xs \<Rightarrow> JArr xs
     | JStr v \<Rightarrow> if v \<noteq> [] then JArr [JStr v] else JArr [] | _ \<Rightarrow> JArr []) else obj_get s (fkey f))"
  by (simp add: load_field_def js_obj split: jsval.split)

definition single_line_textareas :: "jsobj \<Rightarrow> bool" where
  "single_line_textareas s = list_all (\<lambda>f. ftype f = FTextarea \<longrightarrow>
     (case obj_get s (fkey f) of JArr xs \<Rightarrow> True | JStr v \<Rightarrow> LF \<notin> set v | v \<Rightarrow> \<not> truthy v)) OPENVPN_SERVER_SETTINGS_FIELDS"

lemma textarea_lines_load:
  assumes "case obj_get s (fkey f) of JArr xs \<Rightarrow> True | JStr v \<Rightarrow> LF \<notin> set v | v \<Rightarrow> \<not> truthy v" "ftype f = FTextarea"
  shows "textarea_lines (obj_get (load_field f s) (fkey f)) = textarea_lines (obj_get s (fkey f))"
  using assms by (cases "obj_get s (fkey f)") (auto simp: load_field_at textarea_lines_def js_split_no_sep str_or_def)

lemma load_field_payload:
  assumes "ftype f = FTextarea \<longrightarrow> (case obj_get s (fkey f) of JArr xs \<Rightarrow> True | JStr v \<Rightarrow> LF \<notin> set v | v \<Rightarrow> \<not> truthy v)"
  shows "same_at (fkey f) (field_for_agent f (load_field f s)) (field_for_agent f s)"
proof (cases "ftype f = FTextarea")
  case True
  with textarea_lines_load assms show ?thesis by (simp add: same_at_def field_for_agent_def Let_def js_obj)
next
  case False
  then show ?thesis by (simp add: load_field_def)
qed

text \<open>Loading the settings of a node into the form does not change what will be sent: when the stored textareas
  are lists or single lines, the payload of the loaded object is the payload of the stored one, on
  every key. (A stored text of several lines becomes one item, see \<open>load_field\<close>.)\<close>

theorem load_then_send:
  assumes "single_line_textareas s"
  shows "obj_get (buildOpenVpnPayloadForAgent (load_settings s)) k = obj_get (buildOpenVpnPayloadForAgent s) k
    \<and> obj_has (buildOpenVpnPayloadForAgent (load_settings s)) k = obj_has (buildOpenVpnPayloadForAgent s) k"
proof (cases "k \<in> set PANEL_ONLY_OPENVPN_KEYS")
  case True
  then show ?thesis by (simp add: payload_panel_only)
next
  case False
  show ?thesis
  proof (cases "k \<in> fkey ` set OPENVPN_SERVER_SETTINGS_FIELDS")
    case True
    then obtain f where f: "f \<in> set OPENVPN_SERVER_SETTINGS_FIELDS" "k = fkey f" by blast
    have *: "same_at k (buildOpenVpnPayloadForAgent x) (field_for_agent f x)" for x
      using payload_field [OF f(1)] False f(2) by simp
    have l: "same_at k (load_settings s) (load_field f s)"
      unfolding load_settings_def f(2) by (rule keyed_fold_field [OF keyed_load_field server_fields_distinct f(1)])
    have "same_at k (field_for_agent f (load_settings s)) (field_for_agent f (load_field f s))"
      using keyed_field_for_agent l f(2) unfolding keyed_step_def by blast
    moreover have "same_at k (field_for_agent f (load_field f s)) (field_for_agent f s)"
      using load_field_payload [of f s] assms f by (simp add: single_line_textareas_def list_all_iff)
    ultimately show ?thesis using * [of s] * [of "load_settings s"] by (simp add: same_at_def)
  next
    case other: False
    have "same_at k (load_settings s) s"
      unfolding load_settings_def by (rule keyed_fold_other [OF keyed_load_field other])
    with payload_same_at [of k "load_settings s" s] show ?thesis by (simp add: same_at_def)
  qed
qed

theorem load_then_send_witness:
  "obj_get (buildOpenVpnPayloadForAgent (load_settings [(''push'', JStr ''dhcp-option DNS 10.8.0.1''), (''port'', JStr ''1194'')])) ''push''
   = obj_get (buildOpenVpnPayloadForAgent [(''push'', JStr ''dhcp-option DNS 10.8.0.1''), (''port'', JStr ''1194'')]) ''push''"
  by (rule load_then_send [THEN conjunct1]) code_simp

subsection \<open>The directives of server.conf\<close>

lemma fold_obj_distinct:
  assumes "\<And>x ob. distinct (map fst ob) \<Longrightarrow> distinct (map fst (g x ob))" and "distinct (map fst ob)"
  shows "distinct (map fst (fold g xs ob))"
  using assms(2) by (induction xs arbitrary: ob) (simp_all add: assms(1))

lemma field_for_agent_distinct: "distinct (map fst ob) \<Longrightarrow> distinct (map fst (field_for_agent f ob))"
  by (simp add: field_for_agent_def Let_def split: field_type.split)

lemma config_payload_distinct: "distinct (map fst s) \<Longrightarrow> distinct (map fst (config_payload s))"
  unfolding config_payload_def buildOpenVpnPayloadForAgent_def Let_def
  by (intro fold_obj_distinct) (simp_all add: field_for_agent_distinct split: if_split)

lemma has_fold_panel:
  "obj_has (fold (\<lambda>k p. if js_starts_with k ''panel'' then obj_del p k else p) ks ob) k \<longleftrightarrow>
     obj_has ob k \<and> \<not> (js_starts_with k ''panel'' \<and> k \<in> set ks)"
  by (induction ks arbitrary: ob) (auto simp: js_obj)

lemma config_payload_has:
  "obj_has (config_payload s) k \<longleftrightarrow> obj_has (buildOpenVpnPayloadForAgent s) k \<and> \<not> js_starts_with k ''panel''"
  unfolding config_payload_def Let_def has_fold_panel by (auto simp: obj_has_def)

lemma get_fold_panel:
  "\<not> js_starts_with k ''panel'' \<Longrightarrow> obj_get (fold (\<lambda>k p. if js_starts_with k ''panel'' then obj_del p k else p) ks ob) k = obj_get ob k"
  by (induction ks arbitrary: ob) (auto simp: js_obj)

lemma config_payload_get: "\<not> js_starts_with k ''panel'' \<Longrightarrow> obj_get (config_payload s) k = obj_get (buildOpenVpnPayloadForAgent s) k"
  by (simp add: config_payload_def Let_def get_fold_panel)

lemma directive_lines_cases:
  "directive_lines k v =
     (if v \<in> {JUndef, JNull, JStr [], JBool False} then []
      else if v = JBool True then [k]
      else case v of
        JArr items \<Rightarrow> map (\<lambda>i. if k \<in> {''push'', ''route''} then k @ '' \"'' @ i @ ''\"'' else k @ '' '' @ i) (non_empty (map (\<lambda>x. js_trim (str_or x)) items))
      | _ \<Rightarrow> [k @ '' '' @ js_trim (to_str v)])"
  by (cases v) (auto simp: directive_lines_def item_line_def)

text \<open>C21: The text of server.conf is the lines of a list of directives, one block for each. Every directive has its block exactly once, and
  there is a block for those the payload has and for no other: never for a key of the panel or of the client profile. The directives
  of the form come first, in the order of the form, the others follow. A block is nothing for a directive without a value or switched
  off, its name alone for one switched on, one line for each non-blank item of a list, in quotes for \<^verbatim>\<open>push\<close> and
  \<^verbatim>\<open>route\<close>, and otherwise its name and its value.\<close>

theorem server_conf_directives:
  assumes "distinct (map fst s)"
  shows "\<exists>ks. fallbackRawFromSettings lc s = js_join [LF] (concat (map (\<lambda>k. let v = obj_get (buildOpenVpnPayloadForAgent s) k in
          if v \<in> {JUndef, JNull, JStr [], JBool False} then []
          else if v = JBool True then [k]
          else case v of
            JArr items \<Rightarrow> map (\<lambda>i. if k \<in> {''push'', ''route''} then k @ '' \"'' @ i @ ''\"'' else k @ '' '' @ i)
              (filter (\<lambda>i. i \<noteq> []) (map (\<lambda>x. js_trim (str_or x)) items))
          | _ \<Rightarrow> [k @ '' '' @ js_trim (to_str v)]) ks))
    \<and> distinct ks
    \<and> set ks = {k. obj_has (buildOpenVpnPayloadForAgent s) k \<and> \<not> js_starts_with k ''panel''}
    \<and> set ks \<inter> set PANEL_ONLY_OPENVPN_KEYS = {}
    \<and> (\<exists>rest. ks = filter (\<lambda>k. obj_has (buildOpenVpnPayloadForAgent s) k \<and> \<not> js_starts_with k ''panel'') (map fkey OPENVPN_SERVER_SETTINGS_FIELDS)
          @ rest)"
proof (rule exI [of _ "config_keys lc (config_payload s)"], intro conjI)
  show keys: "set (config_keys lc (config_payload s)) = {k. obj_has (buildOpenVpnPayloadForAgent s) k \<and> \<not> js_starts_with k ''panel''}"
    unfolding config_payload_has [symmetric] by (auto simp: config_keys_def Let_def obj_has_def)
  have "map (\<lambda>k. directive_lines k (obj_get (config_payload s) k)) (config_keys lc (config_payload s))
      = map (\<lambda>k. directive_lines k (obj_get (buildOpenVpnPayloadForAgent s) k)) (config_keys lc (config_payload s))"
    by (rule map_cong) (use keys config_payload_get in auto)
  then show "fallbackRawFromSettings lc s = js_join [LF] (concat (map (\<lambda>k. let v = obj_get (buildOpenVpnPayloadForAgent s) k in
          if v \<in> {JUndef, JNull, JStr [], JBool False} then []
          else if v = JBool True then [k]
          else case v of
            JArr items \<Rightarrow> map (\<lambda>i. if k \<in> {''push'', ''route''} then k @ '' \"'' @ i @ ''\"'' else k @ '' '' @ i)
              (filter (\<lambda>i. i \<noteq> []) (map (\<lambda>x. js_trim (str_or x)) items))
          | _ \<Rightarrow> [k @ '' '' @ js_trim (to_str v)]) (config_keys lc (config_payload s))))"
    unfolding fallbackRawFromSettings_def Let_def directive_lines_cases [symmetric] by (simp only:)
  show "distinct (config_keys lc (config_payload s))"
    using config_payload_distinct [OF assms] server_fields_distinct by (auto simp: config_keys_def Let_def)
  show "set (config_keys lc (config_payload s)) \<inter> set PANEL_ONLY_OPENVPN_KEYS = {}"
    unfolding keys using payload_panel_only(1) by blast
  show "\<exists>rest. config_keys lc (config_payload s)
      = filter (\<lambda>k. obj_has (buildOpenVpnPayloadForAgent s) k \<and> \<not> js_starts_with k ''panel'') (map fkey OPENVPN_SERVER_SETTINGS_FIELDS) @ rest"
    unfolding config_payload_has [symmetric] by (simp add: config_keys_def Let_def obj_has_def)
qed

theorem server_conf_directives_witness:
  "\<exists>ks. distinct ks \<and> set ks = {k. obj_has (buildOpenVpnPayloadForAgent [(''panelRootCaId'', JStr ''r1''), (''port'', JStr ''1194''), (''x-own'', JBool True)]) k
     \<and> \<not> js_starts_with k ''panel''}"
proof -
  have "distinct (map fst [(''panelRootCaId'', JStr ''r1''), (''port'', JStr ''1194''), (''x-own'', JBool True)])" by simp
  from server_conf_directives [OF this, of "\<lambda>a b. 0"] show ?thesis by blast
qed

subsection \<open>Default certificate paths\<close>

lemma put_if_blank_laws:
  "obj_get (put_if_blank s k path p) k' = (if k' = k \<and> js_trim (str_nullish (obj_get s k)) = [] then JStr path else obj_get p k')"
  "obj_has (put_if_blank s k path p) k' \<longleftrightarrow> k' = k \<and> js_trim (str_nullish (obj_get s k)) = [] \<or> obj_has p k'"
  "distinct (map fst p) \<Longrightarrow> distinct (map fst (put_if_blank s k path p))"
  by (auto simp: put_if_blank_def js_obj)

lemma paths_partial_distinct: "distinct (map fst (openvpnCertPathsPartial s r c))"
  by (simp add: openvpnCertPathsPartial_def Let_def put_if_blank_laws split: option.split)

definition default_path :: "jsobj \<Rightarrow> string \<Rightarrow> string \<Rightarrow> jsval" where
  "default_path s k path = (if js_trim (str_nullish (obj_get s k)) = [] then JStr path else obj_get s k)"

text \<open>Linking a root CA and a server certificate fills in the four file paths of server.conf that are blank and
  leaves those the administrator has set: after merging the partial settings every path is the old
  non-blank one or the default, the two references are the new ones, and nothing else changes.\<close>

theorem cert_paths_linked:
  assumes "rootCa \<noteq> []" and "serverCert \<noteq> []"
    and "merged = obj_spread s (openvpnCertPathsPartial s (Some rootCa) (Some serverCert))"
  shows "obj_get merged ''panelRootCaId'' = JStr rootCa \<and> obj_get merged ''panelServerCertId'' = JStr serverCert
    \<and> obj_get merged ''ca'' = default_path s ''ca'' ''/etc/openvpn/ca.crt''
    \<and> obj_get merged ''crl-verify'' = default_path s ''crl-verify'' ''/etc/openvpn/crl.pem''
    \<and> obj_get merged ''cert'' = default_path s ''cert'' ''/etc/openvpn/server.crt''
    \<and> obj_get merged ''key'' = default_path s ''key'' ''/etc/openvpn/server.key''
    \<and> (k \<in> {''panelRootCaId'', ''panelServerCertId'', ''ca'', ''crl-verify'', ''cert'', ''key''} \<or> obj_get merged k = obj_get s k)"
  unfolding assms(3) get_spread [OF paths_partial_distinct] default_path_def
  using assms(1,2) by (simp add: openvpnCertPathsPartial_def Let_def put_if_blank_laws js_obj)

theorem cert_paths_linked_witness:
  "obj_get (obj_spread [(''ca'', JStr ''/srv/ca.pem'')]
      (openvpnCertPathsPartial [(''ca'', JStr ''/srv/ca.pem'')] (Some ''r1'') (Some ''c1''))) ''ca'' = JStr ''/srv/ca.pem''"
  using cert_paths_linked [of "''r1''" "''c1''" _ "[(''ca'', JStr ''/srv/ca.pem'')]", OF _ _ refl]
  by (simp add: default_path_def obj_get_def js_trim_def is_space_def code_of_def)

subsection \<open>The client profile\<close>

definition directive_of :: "string \<Rightarrow> string" where
  "directive_of l = takeWhile (\<lambda>c. c \<noteq> CHR '' '') l"

lemma directive_of_append: "CHR '' '' \<notin> set k \<Longrightarrow> directive_of (k @ '' '' @ v) = k" "CHR '' '' \<notin> set k \<Longrightarrow> directive_of k = k"
  by (induction k) (auto simp: directive_of_def)

definition profile_directives :: "jsobj \<Rightarrow> jsval \<Rightarrow> string list" where
  "profile_directives settings serverSettings =
     map directive_of (take (length (client_profile_lines settings serverSettings) - length INLINE_BLOCKS)
       (client_profile_lines settings serverSettings))"

lemma derived_directives:
  "map directive_of (fallbackServerDerivedClientLines v) = filter (\<lambda>k. k = ''nobind'' \<longrightarrow>
     (let n = obj_get (object_or_empty v) ''nobind'' in n = JUndef \<or> n = JNull \<or> truthy n)) SERVER_DERIVED_KEYS"
  by (simp add: fallbackServerDerivedClientLines_def Let_def SERVER_DERIVED_KEYS_def directive_of_def)

lemma client_keys_no_space: "list_all (\<lambda>k. CHR '' '' \<notin> set k) (map fkey OPENVPN_CLIENT_SETTINGS_FIELDS)"
  by code_simp

lemma client_field_directives:
  assumes "f \<in> set OPENVPN_CLIENT_SETTINGS_FIELDS"
  shows "map directive_of (client_field_lines p f) = [] \<or>
    map directive_of (client_field_lines p f) = [fkey f] \<and> fkey f \<notin> set SERVER_DERIVED_KEYS \<and> obj_has p (fkey f)"
proof -
  have "CHR '' '' \<notin> set (fkey f)" using client_keys_no_space assms by (auto simp: list_all_iff)
  then show ?thesis by (auto simp: client_field_lines_def Let_def directive_of_append simp del: append.simps split: jsval.split)
qed

lemma inherited_line_shape:
  "inherited_lines p s k = [] \<or> (\<exists>v. inherited_lines p s k = [k @ '' '' @ v]) \<and> k \<notin> set SERVER_DERIVED_KEYS \<and> \<not> obj_has p k"
  by (auto simp: inherited_lines_def Let_def)

lemma inherited_directives:
  assumes "CHR '' '' \<notin> set k"
  shows "map directive_of (inherited_lines p s k) = [] \<or>
    map directive_of (inherited_lines p s k) = [k] \<and> k \<notin> set SERVER_DERIVED_KEYS \<and> \<not> obj_has p k"
  using inherited_line_shape [of p s k] directive_of_append(1) [OF assms] by auto

text \<open>Concatenated pieces that each name at most their own key name distinct keys.\<close>

lemma distinct_concat_keys:
  assumes "distinct (map key xs)" and "\<And>x. x \<in> set xs \<Longrightarrow> g x = [] \<or> g x = [key x] \<and> P (key x)"
  shows "distinct (concat (map g xs)) \<and> (\<forall>k\<in>set (concat (map g xs)). P k \<and> k \<in> key ` set xs)"
  using assms
proof (induction xs)
  case (Cons x xs)
  then have "distinct (concat (map g xs)) \<and> (\<forall>k\<in>set (concat (map g xs)). P k \<and> k \<in> key ` set xs)" by simp
  moreover have "key x \<notin> key ` set xs" using Cons.prems(1) by simp
  ultimately show ?case using Cons.prems(2) [of x] by auto
qed simp

lemma distinct_three:
  assumes "distinct A" "set A \<subseteq> D" "distinct B \<and> (\<forall>k\<in>set B. (k \<notin> D \<and> H k) \<and> Q k)"
    and "distinct C \<and> (\<forall>k\<in>set C. (k \<notin> D \<and> \<not> H k) \<and> R k)"
  shows "distinct (A @ B @ C)"
  using assms by auto

lemma profile_directives_eq:
  "profile_directives settings serverSettings =
     map directive_of (fallbackServerDerivedClientLines serverSettings)
     @ concat (map (\<lambda>f. map directive_of (client_field_lines (buildOpenVpnClientConfigPayload settings) f)) OPENVPN_CLIENT_SETTINGS_FIELDS)
     @ concat (map (\<lambda>k. map directive_of (inherited_lines (buildOpenVpnClientConfigPayload settings) (object_or_empty serverSettings) k))
         [''data-ciphers'', ''data-ciphers-fallback'', ''auth'', ''remote-cert-tls''])"
  by (simp add: profile_directives_def client_profile_lines_def Let_def map_concat comp_def)

text \<open>C22: A generated client profile never has a directive twice, whatever the client and server settings hold: the
  lines derived from the server, those of the client form and those inherited from the server name
  different directives. It always has \<open>dev\<close>, \<open>proto\<close> and \<open>remote\<close>, and it ends with the inline blocks.\<close>

theorem client_profile_directives:
  "distinct (profile_directives settings serverSettings)
   \<and> {''dev'', ''proto'', ''remote'', ''resolv-retry'', ''key-direction''} \<subseteq> set (profile_directives settings serverSettings)
   \<and> (\<exists>ls. client_profile_lines settings serverSettings = ls @ INLINE_BLOCKS
          \<and> map directive_of ls = profile_directives settings serverSettings)"
proof -
  let ?p = "buildOpenVpnClientConfigPayload settings"
  let ?A = "map directive_of (fallbackServerDerivedClientLines serverSettings)"
  let ?B = "concat (map (\<lambda>f. map directive_of (client_field_lines ?p f)) OPENVPN_CLIENT_SETTINGS_FIELDS)"
  let ?C = "concat (map (\<lambda>k. map directive_of (inherited_lines ?p (object_or_empty serverSettings) k))
         [''data-ciphers'', ''data-ciphers-fallback'', ''auth'', ''remote-cert-tls''])"
  have A: "distinct ?A" "set ?A \<subseteq> set SERVER_DERIVED_KEYS"
    "{''dev'', ''proto'', ''remote'', ''resolv-retry'', ''key-direction''} \<subseteq> set ?A"
    unfolding derived_directives by (simp_all add: SERVER_DERIVED_KEYS_def)
  have B: "distinct ?B \<and> (\<forall>k\<in>set ?B. (k \<notin> set SERVER_DERIVED_KEYS \<and> obj_has ?p k) \<and> k \<in> fkey ` set OPENVPN_CLIENT_SETTINGS_FIELDS)"
    by (rule distinct_concat_keys [OF client_fields_distinct]) (use client_field_directives in blast)
  have C: "distinct ?C \<and> (\<forall>k\<in>set ?C. (k \<notin> set SERVER_DERIVED_KEYS \<and> \<not> obj_has ?p k) \<and>
      k \<in> (\<lambda>k. k) ` set [''data-ciphers'', ''data-ciphers-fallback'', ''auth'', ''remote-cert-tls''])"
    by (rule distinct_concat_keys) (simp, rule inherited_directives, auto)
  have eq: "profile_directives settings serverSettings = ?A @ ?B @ ?C" by (rule profile_directives_eq)
  have "distinct (?A @ ?B @ ?C)" by (rule distinct_three [OF A(1,2) B C])
  moreover have "\<exists>ls. client_profile_lines settings serverSettings = ls @ INLINE_BLOCKS
          \<and> map directive_of ls = profile_directives settings serverSettings"
    by (simp add: profile_directives_def client_profile_lines_def Let_def)
  moreover have "{''dev'', ''proto'', ''remote'', ''resolv-retry'', ''key-direction''} \<subseteq> set (?A @ ?B @ ?C)"
    using A(3) unfolding set_append by (rule order_trans) (rule Un_upper1)
  ultimately show ?thesis unfolding eq by (intro conjI)
qed

end
