(* ===== verification/Tables.thy ===== *)
theory Tables
  imports Http
begin

section \<open>Tables: reordering rows, pages and sorting\<close>

text \<open>
  The table helpers of \<^verbatim>\<open>App.tsx\<close>: \<^verbatim>\<open>reorderRowInList\<close> and the drag-and-drop handlers shared by the seven
  tables with a significant order (firewall and NAT rules of a server, an organization and a user, and
  the DNS rules), \<^verbatim>\<open>sliceTablePage\<close> with its pagination bar, and the sorting of the log pages.
  Rows are JavaScript objects identified by their \<^verbatim>\<open>id\<close>.
\<close>

subsection \<open>Reordering rows\<close>

text \<open>\<^verbatim>\<open>Array.isArray(list) ? [...list] : []\<close>\<close>

definition as_array :: "jsval \<Rightarrow> jsval list" where
  "as_array v = (case v of JArr xs \<Rightarrow> xs | _ \<Rightarrow> [])"

text \<open>\<^verbatim>\<open>String(x?.id ?? "")\<close>\<close>

definition row_id :: "jsval \<Rightarrow> string" where
  "row_id x = str_nullish (jprop x ''id'')"

text \<open>\<^verbatim>\<open>arr.splice(i, 0, x)\<close> and \<^verbatim>\<open>arr.splice(i, 1)\<close>\<close>

definition splice_in :: "nat \<Rightarrow> 'a \<Rightarrow> 'a list \<Rightarrow> 'a list" where
  "splice_in i x xs = take i xs @ x # drop i xs"

definition splice_out :: "nat \<Rightarrow> 'a list \<Rightarrow> 'a list" where
  "splice_out i xs = take i xs @ drop (Suc i) xs"

definition reorderRowInList :: "jsval \<Rightarrow> jsval \<Rightarrow> jsval \<Rightarrow> bool \<Rightarrow> jsval list" where
  "reorderRowInList list dragId targetId placeAfter =
     (let dragIdStr = str_nullish dragId; targetIdStr = str_nullish targetId; arr = as_array list in
      if dragIdStr = [] \<or> targetIdStr = [] then arr
      else if dragIdStr = targetIdStr then
        if \<not> placeAfter then arr
        else (case find_index (\<lambda>x. row_id x = dragIdStr) arr of
            None \<Rightarrow> arr
          | Some origIdx \<Rightarrow>
              let item = arr ! origIdx; rest = filter (\<lambda>x. row_id x \<noteq> dragIdStr) arr
              in splice_in (min (origIdx + 1) (length rest)) item rest)
      else (case (find_index (\<lambda>x. row_id x = dragIdStr) arr, find_index (\<lambda>x. row_id x = targetIdStr) arr) of
            (Some from, Some targetIdx) \<Rightarrow>
              let item = arr ! from; rest = splice_out from arr;
                  insertAt = targetIdx + (if placeAfter then 1 else 0);
                  insertAt' = (if from < insertAt then insertAt - 1 else insertAt)
              in splice_in insertAt' item rest
          | _ \<Rightarrow> arr))"

subsection \<open>The drag gesture\<close>

record table_drag =
  scope :: string
  dragId :: jsval
  overId :: jsval
  placeAfter :: bool

definition emptyTableDrag :: table_drag where
  "emptyTableDrag = \<lparr>scope = [], dragId = JStr [], overId = JStr [], placeAfter = False\<rparr>"

text \<open>
  \<^verbatim>\<open>tableRowDragOverHandler\<close>: \<open>half\<close> is \<^verbatim>\<open>None\<close> when no row element is found, otherwise whether the pointer is
  in the lower half of the row.
\<close>

definition tableRowDragOverHandler :: "bool option \<Rightarrow> string \<Rightarrow> jsval \<Rightarrow> table_drag \<Rightarrow> table_drag" where
  "tableRowDragOverHandler half sc rid prev = (case half of
       None \<Rightarrow> prev
     | Some after \<Rightarrow>
         if scope prev \<noteq> sc \<or> \<not> truthy (dragId prev) then prev
         else if to_str (overId prev) = to_str rid \<and> placeAfter prev = after then prev
         else prev\<lparr>overId := rid, placeAfter := after\<rparr>)"

definition rowReorderClass :: "string \<Rightarrow> jsval \<Rightarrow> table_drag \<Rightarrow> string" where
  "rowReorderClass sc ruleId td =
     (if scope td \<noteq> sc \<or> \<not> truthy (dragId td) then []
      else js_join '' ''
        ((if to_str (dragId td) = str_nullish ruleId then [''app-table-row--drag-source''] else [])
         @ (if to_str (overId td) = str_nullish ruleId
            then [if placeAfter td then ''app-table-row--drop-after'' else ''app-table-row--drop-before''] else [])))"

text \<open>The tables (by scope) together with the gesture under way.\<close>

record drag_sys =
  rowsOf :: "string \<Rightarrow> jsval list"
  gesture :: table_drag

datatype drag_event =
    DragStart string jsval
  | DragOver "bool option" string jsval
  | DragEnd
  | Drop string jsval

definition drop_row :: "string \<Rightarrow> jsval \<Rightarrow> drag_sys \<Rightarrow> drag_sys" where
  "drop_row sc rid s =
     (let td = gesture s in
      if scope td \<noteq> sc \<or> \<not> truthy (dragId td) then s\<lparr>gesture := emptyTableDrag\<rparr>
      else s\<lparr>rowsOf := (rowsOf s)(sc := reorderRowInList (JArr (rowsOf s sc)) (dragId td) rid (placeAfter td)),
             gesture := emptyTableDrag\<rparr>)"

fun drag_step :: "drag_sys \<Rightarrow> drag_event \<Rightarrow> drag_sys" where
  "drag_step s (DragStart sc rid) =
     s\<lparr>gesture := \<lparr>scope = sc, dragId = rid, overId = JStr [], placeAfter = False\<rparr>\<rparr>"
| "drag_step s (DragOver half sc rid) = s\<lparr>gesture := tableRowDragOverHandler half sc rid (gesture s)\<rparr>"
| "drag_step s DragEnd = s\<lparr>gesture := emptyTableDrag\<rparr>"
| "drag_step s (Drop sc rid) = drop_row sc rid s"

subsection \<open>Pages\<close>

definition TABLE_PAGE_SIZE :: nat where
  "TABLE_PAGE_SIZE = 25"

record 'a table_page =
  slice :: "'a list"
  ptotal :: nat
  totalPages :: nat
  pageNo :: nat

text \<open>\<^verbatim>\<open>Math.ceil(total / TABLE_PAGE_SIZE)\<close>\<close>

definition ceil_div :: "nat \<Rightarrow> nat \<Rightarrow> nat" where
  "ceil_div a b = (a + b - 1) div b"

definition sliceTablePage :: "'a list \<Rightarrow> int \<Rightarrow> 'a table_page" where
  "sliceTablePage items pg =
     (let n = length items; pages = max 1 (ceil_div n TABLE_PAGE_SIZE);
          p = nat (min (max 1 pg) (int pages)); start = (p - 1) * TABLE_PAGE_SIZE
      in \<lparr>slice = take TABLE_PAGE_SIZE (drop start items), ptotal = n, totalPages = pages, pageNo = p\<rparr>)"

text \<open>The pagination bar: the range shown and whether the two buttons are disabled.\<close>

record pagination_bar =
  rangeFrom :: nat
  rangeTo :: nat
  backDisabled :: bool
  nextDisabled :: bool

definition TablePagination :: "'a table_page \<Rightarrow> pagination_bar option" where
  "TablePagination r =
     (if ptotal r = 0 then None
      else Some \<lparr>rangeFrom = (pageNo r - 1) * TABLE_PAGE_SIZE + 1, rangeTo = min (pageNo r * TABLE_PAGE_SIZE) (ptotal r),
                 backDisabled = (pageNo r \<le> 1), nextDisabled = (pageNo r \<ge> totalPages r)\<rparr>)"

subsection \<open>Sorting\<close>

text \<open>
  \<^verbatim>\<open>new Date(value).getTime()\<close> is a parameter \<open>time_of\<close> (\<open>None\<close> is \<^verbatim>\<open>NaN\<close>), \<^verbatim>\<open>localeCompare\<close> another.
\<close>

definition dateMsOrZero :: "(jsval \<Rightarrow> int option) \<Rightarrow> jsval \<Rightarrow> int" where
  "dateMsOrZero time_of v = (if \<not> truthy v then 0 else case time_of v of None \<Rightarrow> 0 | Some t \<Rightarrow> t)"

definition cmp_last_seen :: "(jsval \<Rightarrow> int option) \<Rightarrow> (string \<Rightarrow> string \<Rightarrow> int) \<Rightarrow> jsval \<Rightarrow> jsval \<Rightarrow> int" where
  "cmp_last_seen time_of localeCompare a b =
     (let d = dateMsOrZero time_of (jprop b ''lastSeenAt'') - dateMsOrZero time_of (jprop a ''lastSeenAt'') in
      if d \<noteq> 0 then d
      else let d2 = dateMsOrZero time_of (jprop b ''firstSeenAt'') - dateMsOrZero time_of (jprop a ''firstSeenAt'') in
        if d2 \<noteq> 0 then d2
        else localeCompare (str_or (jprop a ''id'')) (str_or (jprop b ''id'')))"

definition sortRowsByLastSeenDesc :: "(jsval \<Rightarrow> int option) \<Rightarrow> (string \<Rightarrow> string \<Rightarrow> int) \<Rightarrow> jsval list \<Rightarrow> jsval list" where
  "sortRowsByLastSeenDesc time_of localeCompare rows = js_sort (cmp_last_seen time_of localeCompare) rows"

definition cmp_created :: "(jsval \<Rightarrow> int option) \<Rightarrow> (string \<Rightarrow> string \<Rightarrow> int) \<Rightarrow> jsval \<Rightarrow> jsval \<Rightarrow> int" where
  "cmp_created time_of localeCompare a b =
     (let d = dateMsOrZero time_of (jprop b ''createdAt'') - dateMsOrZero time_of (jprop a ''createdAt'') in
      if d \<noteq> 0 then d else localeCompare (str_or (jprop a ''id'')) (str_or (jprop b ''id'')))"

definition sortRowsByCreatedDesc :: "(jsval \<Rightarrow> int option) \<Rightarrow> (string \<Rightarrow> string \<Rightarrow> int) \<Rightarrow> jsval list \<Rightarrow> jsval list" where
  "sortRowsByCreatedDesc time_of localeCompare rows = js_sort (cmp_created time_of localeCompare) rows"

subsection \<open>Library: splicing\<close>

lemma splice_in_append: "splice_in (length a) x (a @ b) = a @ x # b"
  by (simp add: splice_in_def)

lemma splice_out_append: "splice_out (length a) (a @ x # b) = a @ b"
  by (simp add: splice_out_def)

lemma mset_splice_in: "mset (splice_in i x xs) = add_mset x (mset xs)"
proof -
  have "mset xs = mset (take i xs) + mset (drop i xs)" by (metis append_take_drop_id mset_append)
  then show ?thesis by (simp add: splice_in_def)
qed

lemma filter_splice_in: "\<not> P x \<Longrightarrow> filter P (splice_in i x xs) = filter P xs"
  by (metis append_take_drop_id filter.simps(2) filter_append splice_in_def)

text \<open>With distinct identifiers a row that is found splits the list.\<close>

lemma find_row_split:
  assumes "find_index (\<lambda>x. row_id x = i) xs = Some n"
  obtains a x b where "xs = a @ x # b" "length a = n" "row_id x = i"
  using assms id_take_nth_drop [of n xs] that [of "take n xs" "xs ! n" "drop (Suc n) xs"]
  by (auto simp: find_index_Some)

lemma find_index_split:
  assumes "distinct (map f (a @ x # b))"
  shows "find_index (\<lambda>y. f y = f x) (a @ x # b) = Some (length a)"
proof -
  have "f (a ! j) \<noteq> f x" if "j < length a" for j
    using assms nth_mem [OF that] by (auto simp: image_iff)
  then show ?thesis by (auto simp: find_index_Some nth_append)
qed

text \<open>Where the dragged row lands.\<close>

definition lands :: "bool \<Rightarrow> 'a \<Rightarrow> 'a \<Rightarrow> 'a list \<Rightarrow> bool" where
  "lands after x y xs \<longleftrightarrow> (\<exists>a b. xs = a @ (if after then [y, x] else [x, y]) @ b)"

lemma reorder_down:
  assumes "distinct (map row_id (a @ x # b @ y # c))" and "str_nullish d = row_id x" "str_nullish t = row_id y"
    and "row_id x \<noteq> []" "row_id y \<noteq> []"
  shows "reorderRowInList (JArr (a @ x # b @ y # c)) d t after
    = a @ b @ (if after then [y, x] else [x, y]) @ c"
proof -
  have fx: "find_index (\<lambda>z. row_id z = row_id x) (a @ x # b @ y # c) = Some (length a)"
    using assms(1) by (rule find_index_split)
  have fy: "find_index (\<lambda>z. row_id z = row_id y) (a @ x # b @ y # c) = Some (length a + 1 + length b)"
    using find_index_split [of row_id "a @ x # b" y c] assms(1) by simp
  have ne: "row_id x \<noteq> row_id y" using assms(1) by auto
  have out: "splice_out (length a) (a @ x # b @ y # c) = a @ b @ y # c" by (rule splice_out_append)
  have i1: "splice_in (length a + length b) x (a @ b @ y # c) = a @ b @ x # y # c"
    using splice_in_append [of "a @ b" x "y # c"] by simp
  have i2: "splice_in (length a + length b + 1) x (a @ b @ y # c) = a @ b @ y # x # c"
    using splice_in_append [of "a @ b @ [y]" x c] by simp
  show ?thesis using assms(2-5) ne i1 i2 by (simp add: reorderRowInList_def Let_def as_array_def fx fy out)
qed

lemma reorder_up:
  assumes "distinct (map row_id (a @ y # b @ x # c))" and "str_nullish d = row_id x" "str_nullish t = row_id y"
    and "row_id x \<noteq> []" "row_id y \<noteq> []"
  shows "reorderRowInList (JArr (a @ y # b @ x # c)) d t after
    = a @ (if after then [y, x] else [x, y]) @ b @ c"
proof -
  have fy: "find_index (\<lambda>z. row_id z = row_id y) (a @ y # b @ x # c) = Some (length a)"
    using assms(1) by (rule find_index_split)
  have fx: "find_index (\<lambda>z. row_id z = row_id x) (a @ y # b @ x # c) = Some (length a + 1 + length b)"
    using find_index_split [of row_id "a @ y # b" x c] assms(1) by simp
  have ne: "row_id x \<noteq> row_id y" using assms(1) by auto
  have out: "splice_out (length a + 1 + length b) (a @ y # b @ x # c) = a @ y # b @ c"
    using splice_out_append [of "a @ y # b" x c] by simp
  have i1: "splice_in (length a) x (a @ y # b @ c) = a @ x # y # b @ c" by (rule splice_in_append)
  have i2: "splice_in (length a + 1) x (a @ y # b @ c) = a @ y # x # b @ c"
    using splice_in_append [of "a @ [y]" x "b @ c"] by simp
  have nth: "(a @ y # b @ x # c) ! (length a + 1 + length b) = x"
    using nth_append_length [of "a @ y # b" x c] by simp
  show ?thesis using assms(2-5) ne i1 i2 nth out by (simp add: reorderRowInList_def Let_def as_array_def fx fy)
qed

lemma find_row_None: "i \<notin> row_id ` set xs \<Longrightarrow> find_index (\<lambda>x. row_id x = i) xs = None"
  unfolding find_index_None by blast

lemma reorder_missing:
  assumes "str_nullish d \<noteq> str_nullish t" and "str_nullish d \<notin> row_id ` set xs \<or> str_nullish t \<notin> row_id ` set xs"
  shows "reorderRowInList (JArr xs) d t after = xs"
proof -
  have "find_index (\<lambda>x. row_id x = str_nullish d) xs = None \<or> find_index (\<lambda>x. row_id x = str_nullish t) xs = None"
    using assms(2) find_row_None [of "str_nullish d" xs] find_row_None [of "str_nullish t" xs] by argo
  then show ?thesis using assms(1) by (auto simp: reorderRowInList_def Let_def as_array_def split: option.split)
qed

lemma two_rows_split:
  assumes "x \<in> set xs" "y \<in> set xs" "x \<noteq> y"
  obtains a b c where "xs = a @ x # b @ y # c" | a b c where "xs = a @ y # b @ x # c"
proof -
  from assms(1) obtain a b where ab: "xs = a @ x # b" by (meson split_list)
  with assms(2,3) consider "y \<in> set a" | "y \<in> set b" by auto
  then show ?thesis
  proof cases
    case 1
    then obtain a1 a2 where "a = a1 @ y # a2" by (meson split_list)
    with ab that(2) show ?thesis by simp
  next
    case 2
    then obtain b1 b2 where "b = b1 @ y # b2" by (meson split_list)
    with ab that(1) show ?thesis by simp
  qed
qed

lemma reorder_other:
  assumes "distinct (map row_id xs)" "x \<in> set xs" "y \<in> set xs" "row_id x \<noteq> row_id y" "row_id x \<noteq> []" "row_id y \<noteq> []"
    and "str_nullish d = row_id x" "str_nullish t = row_id y"
  shows "lands after x y (reorderRowInList (JArr xs) d t after)
    \<and> mset (reorderRowInList (JArr xs) d t after) = mset xs
    \<and> filter (\<lambda>z. row_id z \<noteq> row_id x) (reorderRowInList (JArr xs) d t after) = filter (\<lambda>z. row_id z \<noteq> row_id x) xs"
proof -
  from assms(4) have "x \<noteq> y" by auto
  from assms(2,3) this show ?thesis
  proof (cases rule: two_rows_split)
    case (1 a b c)
    show ?thesis unfolding 1 reorder_down [OF assms(1) [unfolded 1] assms(7,8,5,6)] lands_def
      using assms(4) by (auto intro: exI [of _ "a @ b"])
  next
    case (2 a b c)
    show ?thesis unfolding 2 reorder_up [OF assms(1) [unfolded 2] assms(7,8,5,6)] lands_def
      using assms(4) by (auto intro: exI [of _ a])
  qed
qed

lemma filter_not_row:
  assumes "distinct (map row_id (a @ x # b))"
  shows "filter (\<lambda>z. row_id z \<noteq> row_id x) (a @ x # b) = a @ b"
proof -
  have "filter (\<lambda>z. row_id z \<noteq> row_id x) ys = ys" if "row_id x \<notin> row_id ` set ys" for ys
    unfolding filter_id_conv using that by (metis image_eqI)
  with assms show ?thesis by simp
qed

lemma reorder_self:
  assumes "distinct (map row_id xs)" "str_nullish d = str_nullish t"
  shows "mset (reorderRowInList (JArr xs) d t after) = mset xs
    \<and> filter (\<lambda>z. row_id z \<noteq> str_nullish d) (reorderRowInList (JArr xs) d t after) = filter (\<lambda>z. row_id z \<noteq> str_nullish d) xs"
proof (cases "find_index (\<lambda>x. row_id x = str_nullish t) xs")
  case None
  then show ?thesis using assms(2) by (simp add: reorderRowInList_def Let_def as_array_def)
next
  case (Some n)
  then obtain a x b where x: "xs = a @ x # b" "length a = n" "row_id x = str_nullish t" by (rule find_row_split)
  have f: "filter (\<lambda>z. row_id z \<noteq> str_nullish t) xs = a @ b"
    using filter_not_row assms(1) x by metis
  have nth: "xs ! n = x" "mset xs = add_mset x (mset (a @ b))" using x by (auto simp: nth_append)
  have ff: "filter (\<lambda>z. row_id z \<noteq> str_nullish t) (a @ b) = a @ b" unfolding f [symmetric] by simp
  have r: "reorderRowInList (JArr xs) d t after =
      (if str_nullish t = [] \<or> \<not> after then xs else splice_in (min (n + 1) (length (a @ b))) x (a @ b))"
    using assms(2) Some f nth by (simp add: reorderRowInList_def Let_def as_array_def)
  have "filter (\<lambda>z. row_id z \<noteq> str_nullish t) (splice_in i x (a @ b)) = filter (\<lambda>z. row_id z \<noteq> str_nullish t) xs" for i
    using filter_splice_in [of "\<lambda>z. row_id z \<noteq> str_nullish t" x i "a @ b"] x(3) f ff by simp
  then show ?thesis unfolding r assms(2) using nth(2) by (simp add: mset_splice_in)
qed

text \<open>Dropping a row on another one moves exactly that row: for a table whose rows have distinct non-empty
  identifiers the result has the same rows, the others keep their relative order, and when two
  different rows are involved the dragged one ends up directly before or directly after the target.\<close>

theorem reorder_moves_one_row:
  assumes "distinct (map row_id xs)" and "x \<in> set xs" and "y \<in> set xs"
    and "row_id x \<noteq> []" and "row_id y \<noteq> []" and "d = JStr (row_id x)" and "t = JStr (row_id y)"
  shows "mset (reorderRowInList (JArr xs) d t after) = mset xs
    \<and> filter (\<lambda>z. row_id z \<noteq> row_id x) (reorderRowInList (JArr xs) d t after) = filter (\<lambda>z. row_id z \<noteq> row_id x) xs
    \<and> (row_id x = row_id y \<or> lands after x y (reorderRowInList (JArr xs) d t after))"
proof (cases "row_id x = row_id y")
  case True
  with reorder_self [OF assms(1), of d t after] assms(6,7) show ?thesis by simp
next
  case False
  with reorder_other [OF assms(1-3) False assms(4,5), of d t after] assms(6,7) show ?thesis by simp
qed

definition row :: "string \<Rightarrow> jsval" where
  "row i = JObj [(''id'', JStr i)]"

lemma row_id_row [simp]: "row_id (row i) = i"
  by (simp add: row_def row_id_def jprop_def obj_get_def)

theorem reorder_moves_one_row_witness:
  "mset (reorderRowInList (JArr [row ''a'', row ''b'', row ''c'']) (JStr (row_id (row ''a''))) (JStr (row_id (row ''c''))) True)
    = mset [row ''a'', row ''b'', row ''c'']"
  by (rule reorder_moves_one_row [where x = "row ''a''" and y = "row ''c''", THEN conjunct1]) simp_all

lemma reorder_mset:
  assumes "distinct (map row_id xs)"
  shows "mset (reorderRowInList (JArr xs) d t after) = mset xs"
proof (cases "str_nullish d = str_nullish t")
  case True
  with reorder_self [OF assms] show ?thesis by blast
next
  case ne: False
  show ?thesis
  proof (cases "str_nullish d \<in> row_id ` set xs \<and> str_nullish t \<in> row_id ` set xs")
    case True
    then obtain x y where "x \<in> set xs" "y \<in> set xs" "str_nullish d = row_id x" "str_nullish t = row_id y" by blast
    with reorder_other [OF assms] ne show ?thesis
      by (cases "str_nullish d = [] \<or> str_nullish t = []") (auto simp: reorderRowInList_def Let_def as_array_def)
  next
    case False
    with reorder_missing [OF ne] show ?thesis by auto
  qed
qed

text \<open>C25: No sequence of drag events, whatever their order and wherever the rows are dropped, loses or duplicates a row
  of any table: rows only change places, and a row dragged in one table is never dropped into another.\<close>

theorem drag_keeps_rows:
  assumes "\<And>sc. distinct (map row_id (rowsOf s sc))"
  shows "mset (rowsOf (foldl drag_step s evs) sc) = mset (rowsOf s sc)"
  using assms
proof (induction evs arbitrary: s)
  case (Cons e evs)
  have "mset (rowsOf (drag_step s e) c) = mset (rowsOf s c)" for c
    using reorder_mset [OF Cons.prems] by (cases e) (auto simp: drop_row_def Let_def)
  moreover from this have "distinct (map row_id (rowsOf (drag_step s e) c))" for c
    by (metis Cons.prems mset_eq_imp_distinct_iff mset_map)
  ultimately show ?case using Cons.IH [of "drag_step s e"] by simp
qed simp

theorem drag_keeps_rows_witness:
  "mset (rowsOf (foldl drag_step \<lparr>rowsOf = (\<lambda>sc. if sc = ''dns'' then [row ''a'', row ''b''] else []), gesture = emptyTableDrag\<rparr>
      [DragStart ''dns'' (JStr ''a''), DragOver (Some True) ''dns'' (JStr ''b''), Drop ''dns'' (JStr ''b'')]) ''dns'')
   = mset [row ''a'', row ''b'']"
  by (subst drag_keeps_rows) simp_all

subsection \<open>Pages partition the rows\<close>

lemma concat_chunks: "concat (map (\<lambda>i. take m (drop (i * m) xs)) [0..<k]) = take (k * m) xs"
proof (induction k)
  case (Suc k)
  have "take (Suc k * m) xs = take (k * m + m) xs" by (simp add: add.commute)
  then show ?case using Suc by (simp only: take_add) simp
qed simp

lemma ceil_div_bounds:
  assumes "0 < b"
  shows "a \<le> ceil_div a b * b" "0 < a \<Longrightarrow> (ceil_div a b - 1) * b < a"
proof -
  define q where "q = (a + b - 1) div b"
  have 1: "q * b + (a + b - 1) mod b = a + b - 1" by (simp add: q_def)
  have 2: "(a + b - 1) mod b < b" using assms by simp
  show "a \<le> ceil_div a b * b" using 1 2 unfolding ceil_div_def q_def [symmetric] by linarith
  show "(ceil_div a b - 1) * b < a" if "0 < a"
    using 1 2 that unfolding ceil_div_def q_def [symmetric] diff_mult_distrib by linarith
qed

lemma page_in_range:
  "1 \<le> pageNo (sliceTablePage xs p)" "pageNo (sliceTablePage xs p) \<le> totalPages (sliceTablePage xs p)"
  by (auto simp: sliceTablePage_def Let_def)

lemma page_slice:
  "slice (sliceTablePage xs p) = take TABLE_PAGE_SIZE (drop ((pageNo (sliceTablePage xs p) - 1) * TABLE_PAGE_SIZE) xs)"
  by (simp add: sliceTablePage_def Let_def)

lemma pages_cover:
  "length xs \<le> totalPages (sliceTablePage xs p) * TABLE_PAGE_SIZE"
  "xs \<noteq> [] \<Longrightarrow> (totalPages (sliceTablePage xs p) - 1) * TABLE_PAGE_SIZE < length xs"
  using ceil_div_bounds [of TABLE_PAGE_SIZE "length xs"]
  by (auto simp: sliceTablePage_def Let_def TABLE_PAGE_SIZE_def max_def)

text \<open>The pages of a table, read in order, are exactly the table: no row is missing, shown twice or out of order.
  Every page number that is asked for, also one outside the table, selects an existing page of at
  most 25 rows, and no page but that of an empty table is empty.\<close>

theorem pages_partition_rows:
  "concat (map (\<lambda>p. slice (sliceTablePage xs (int p))) [1..<Suc (totalPages (sliceTablePage xs q))]) = xs
   \<and> pageNo (sliceTablePage xs q) \<in> {1..totalPages (sliceTablePage xs q)}
   \<and> length (slice (sliceTablePage xs q)) \<le> 25
   \<and> (slice (sliceTablePage xs q) = [] \<longleftrightarrow> xs = [])"
proof (intro conjI)
  let ?n = "totalPages (sliceTablePage xs q)"
  have n: "totalPages (sliceTablePage xs r) = ?n" for r by (simp add: sliceTablePage_def Let_def)
  have "slice (sliceTablePage xs (int (Suc i))) = take TABLE_PAGE_SIZE (drop (i * TABLE_PAGE_SIZE) xs)" if "i < ?n" for i
    using that by (simp add: sliceTablePage_def Let_def nat_add_distrib)
  then have "map (\<lambda>p. slice (sliceTablePage xs (int p))) (map Suc [0..<?n])
      = map (\<lambda>i. take TABLE_PAGE_SIZE (drop (i * TABLE_PAGE_SIZE) xs)) [0..<?n]"
    by simp
  then show "concat (map (\<lambda>p. slice (sliceTablePage xs (int p))) [1..<Suc ?n]) = xs"
    using pages_cover(1) [of xs q] by (simp only: map_Suc_upt One_nat_def concat_chunks) simp
  show "pageNo (sliceTablePage xs q) \<in> {1..?n}" using page_in_range [of xs q] by simp
  show "length (slice (sliceTablePage xs q)) \<le> 25" by (simp add: page_slice TABLE_PAGE_SIZE_def)
  have "(pageNo (sliceTablePage xs q) - 1) * TABLE_PAGE_SIZE \<le> (?n - 1) * TABLE_PAGE_SIZE"
    using page_in_range [of xs q] by (intro mult_le_mono1) simp
  then have "(pageNo (sliceTablePage xs q) - 1) * TABLE_PAGE_SIZE < length xs" if "xs \<noteq> []"
    using pages_cover(2) [OF that, of q] by (rule order.strict_trans1)
  then show "slice (sliceTablePage xs q) = [] \<longleftrightarrow> xs = []"
    by (cases "xs = []") (auto simp: page_slice TABLE_PAGE_SIZE_def)
qed

text \<open>The pagination bar tells the truth: it is shown exactly for a non-empty table, its range has as many numbers
  as the page has rows and begins with the position of its first row, and an enabled button leads to
  an existing other page.\<close>

theorem pagination_bar_correct:
  "case TablePagination (sliceTablePage xs q) of
     None \<Rightarrow> xs = []
   | Some bar \<Rightarrow> xs \<noteq> []
       \<and> rangeTo bar + 1 - rangeFrom bar = length (slice (sliceTablePage xs q))
       \<and> xs ! (rangeFrom bar - 1) = hd (slice (sliceTablePage xs q))
       \<and> rangeTo bar \<le> length xs
       \<and> (backDisabled bar \<or> pageNo (sliceTablePage xs (int (pageNo (sliceTablePage xs q)) - 1)) = pageNo (sliceTablePage xs q) - 1)
       \<and> (nextDisabled bar \<or> pageNo (sliceTablePage xs (int (pageNo (sliceTablePage xs q)) + 1)) = pageNo (sliceTablePage xs q) + 1)"
proof (cases "xs = []")
  case True
  then show ?thesis by (simp add: TablePagination_def sliceTablePage_def Let_def)
next
  case False
  define P where "P = pageNo (sliceTablePage xs q)"
  define N where "N = totalPages (sliceTablePage xs q)"
  have P: "1 \<le> P" "P \<le> N" using page_in_range [of xs q] by (simp_all add: P_def N_def)
  have tot: "ptotal (sliceTablePage xs q) = length xs" by (simp add: sliceTablePage_def Let_def)
  have sl: "slice (sliceTablePage xs q) = take 25 (drop ((P - 1) * 25) xs)"
    by (simp add: page_slice TABLE_PAGE_SIZE_def P_def)
  have "(N - 1) * 25 < length xs" using pages_cover(2) [OF False, of q] by (simp add: N_def TABLE_PAGE_SIZE_def)
  with P have s: "(P - 1) * 25 < length xs" by (meson diff_le_mono le_less_trans mult_le_mono1)
  have go: "pageNo (sliceTablePage xs (int r)) = r" if "1 \<le> r" "r \<le> N" for r
    using that by (simp add: sliceTablePage_def Let_def N_def)
  have h: "xs ! ((P - 1) * 25) = hd (take 25 (drop ((P - 1) * 25) xs))" using s by (simp add: hd_drop_conv_nth)
  have l: "min (P * 25) (length xs) + 1 - ((P - 1) * 25 + 1) = min 25 (length xs - (P - 1) * 25)"
    using P(1) s by (cases P) (auto simp: min_def)
  have bk: "P \<le> 1 \<or> pageNo (sliceTablePage xs (int P - 1)) = P - 1"
    using go [of "P - 1"] P by (cases "P \<le> 1") (auto simp: of_nat_diff)
  have nx: "N \<le> P \<or> pageNo (sliceTablePage xs (int P + 1)) = P + 1"
    using go [of "P + 1"] P by (cases "N \<le> P") (auto simp: add.commute)
  show ?thesis unfolding TablePagination_def tot P_def [symmetric] N_def [symmetric] sl TABLE_PAGE_SIZE_def
    using False l h bk nx by (simp add: min.commute)
qed

subsection \<open>Sorted logs\<close>

lemma total_preorder_lex:
  assumes "total_preorder c"
  shows "total_preorder (\<lambda>a b. if f b - f a \<noteq> 0 then f b - f a else (c a b :: int))" (is "total_preorder ?d")
  unfolding total_preorder_def
proof (intro conjI allI impI)
  fix x y z
  have tot: "c x y \<le> 0 \<or> c y x \<le> 0" and trans: "c x y \<le> 0 \<Longrightarrow> c y z \<le> 0 \<Longrightarrow> c x z \<le> 0" for x y z
    using assms unfolding total_preorder_def by blast+
  show "?d x y \<le> 0 \<or> ?d y x \<le> 0" using tot [of x y] by auto
  assume "?d x y \<le> 0" "?d y z \<le> 0"
  then show "?d x z \<le> 0" using trans [of x y z] by (auto split: if_splits)
qed

lemma total_preorder_vimage: "total_preorder c \<Longrightarrow> total_preorder (\<lambda>a b. c (g a) (g b))"
  unfolding total_preorder_def by blast

lemma cmp_last_seen_preorder: "total_preorder localeCompare \<Longrightarrow> total_preorder (cmp_last_seen time_of localeCompare)"
  using total_preorder_lex [OF total_preorder_lex [OF total_preorder_vimage [of localeCompare "\<lambda>a. str_or (jprop a ''id'')"],
      of "\<lambda>a. dateMsOrZero time_of (jprop a ''firstSeenAt'')"], of "\<lambda>a. dateMsOrZero time_of (jprop a ''lastSeenAt'')"]
  unfolding cmp_last_seen_def [abs_def] Let_def .

lemma cmp_created_preorder: "total_preorder localeCompare \<Longrightarrow> total_preorder (cmp_created time_of localeCompare)"
  using total_preorder_lex [OF total_preorder_vimage [of localeCompare "\<lambda>a. str_or (jprop a ''id'')"],
      of "\<lambda>a. dateMsOrZero time_of (jprop a ''createdAt'')"]
  unfolding cmp_created_def [abs_def] Let_def .

text \<open>The connection logs are shown newest first: sorting keeps every row, \<open>lastSeenAt\<close> never increases down the
  table, among rows last seen at the same time \<open>firstSeenAt\<close> never increases, and the administrator
  log is ordered by \<open>createdAt\<close> in the same way. The comparison of identifiers has to be a total
  preorder, which \<open>localeCompare\<close> is.\<close>

theorem logs_newest_first:
  assumes "total_preorder localeCompare"
  shows "mset (sortRowsByLastSeenDesc time_of localeCompare rows) = mset rows
    \<and> sorted_wrt (\<lambda>a b. dateMsOrZero time_of (jprop b ''lastSeenAt'') < dateMsOrZero time_of (jprop a ''lastSeenAt'')
         \<or> dateMsOrZero time_of (jprop b ''lastSeenAt'') = dateMsOrZero time_of (jprop a ''lastSeenAt'')
           \<and> dateMsOrZero time_of (jprop b ''firstSeenAt'') \<le> dateMsOrZero time_of (jprop a ''firstSeenAt''))
        (sortRowsByLastSeenDesc time_of localeCompare rows)
    \<and> mset (sortRowsByCreatedDesc time_of localeCompare rows) = mset rows
    \<and> sorted_wrt (\<lambda>a b. dateMsOrZero time_of (jprop b ''createdAt'') \<le> dateMsOrZero time_of (jprop a ''createdAt''))
        (sortRowsByCreatedDesc time_of localeCompare rows)"
proof (intro conjI)
  show "sorted_wrt (\<lambda>a b. dateMsOrZero time_of (jprop b ''lastSeenAt'') < dateMsOrZero time_of (jprop a ''lastSeenAt'')
         \<or> dateMsOrZero time_of (jprop b ''lastSeenAt'') = dateMsOrZero time_of (jprop a ''lastSeenAt'')
           \<and> dateMsOrZero time_of (jprop b ''firstSeenAt'') \<le> dateMsOrZero time_of (jprop a ''firstSeenAt''))
        (sortRowsByLastSeenDesc time_of localeCompare rows)"
    unfolding sortRowsByLastSeenDesc_def
    by (rule sorted_wrt_mono_rel [OF _ sorted_js_sort [OF cmp_last_seen_preorder [OF assms]]])
       (auto simp: cmp_last_seen_def Let_def split: if_splits)
  show "sorted_wrt (\<lambda>a b. dateMsOrZero time_of (jprop b ''createdAt'') \<le> dateMsOrZero time_of (jprop a ''createdAt''))
        (sortRowsByCreatedDesc time_of localeCompare rows)"
    unfolding sortRowsByCreatedDesc_def
    by (rule sorted_wrt_mono_rel [OF _ sorted_js_sort [OF cmp_created_preorder [OF assms]]])
       (auto simp: cmp_created_def Let_def split: if_splits)
qed (simp_all add: sortRowsByLastSeenDesc_def sortRowsByCreatedDesc_def)

theorem logs_newest_first_witness:
  "mset (sortRowsByLastSeenDesc (\<lambda>v. parse_int (to_str v)) (\<lambda>a b. int (length a) - int (length b))
      [JObj [(''id'', JStr ''x''), (''lastSeenAt'', JStr ''5'')], JObj [(''id'', JStr ''yy''), (''lastSeenAt'', JStr ''9'')]])
   = mset [JObj [(''id'', JStr ''x''), (''lastSeenAt'', JStr ''5'')], JObj [(''id'', JStr ''yy''), (''lastSeenAt'', JStr ''9'')]]"
  by (rule logs_newest_first [THEN conjunct1]) (auto simp: total_preorder_def)

subsection \<open>Editing one row of a table\<close>

text \<open>
  \<^verbatim>\<open>prev.map((x) => (x.id === k ? ... : x))\<close>: the edit of the rule dialogs. The interface says what the
  change of a row has to keep, its key; what the tables rely on is proved from that.
\<close>

definition row_key :: "jsval \<Rightarrow> jsval" where
  "row_key r = jprop r ''id''"

text \<open>The properties an object spread copies.\<close>

definition own_props :: "jsval \<Rightarrow> jsobj" where
  "own_props v = (case v of JObj ob \<Rightarrow> ob | _ \<Rightarrow> [])"

lemma own_props_get: "obj_get (own_props r) k = jprop r k"
  by (simp add: own_props_def jprop_def obj_get_def split: jsval.split)

definition edit_rows :: "('r \<Rightarrow> 'k) \<Rightarrow> ('r \<Rightarrow> 'r) \<Rightarrow> 'k \<Rightarrow> 'r list \<Rightarrow> 'r list" where
  "edit_rows key f k xs = map (\<lambda>x. if key x = k then f x else x) xs"

locale keyed_rows =
  fixes key :: "'r \<Rightarrow> 'k"
    and change :: "'d \<Rightarrow> 'r \<Rightarrow> 'r"
    and adm :: "'k \<Rightarrow> 'd \<Rightarrow> bool"
  assumes change_key: "adm k d \<Longrightarrow> key r = k \<Longrightarrow> key (change d r) = k"
begin

lemma edit_keys: "adm k d \<Longrightarrow> map key (edit_rows key (change d) k xs) = map key xs"
  by (simp add: edit_rows_def change_key)

lemma edit_frame: "adm k d \<Longrightarrow> filter (\<lambda>r. key r \<noteq> k) (edit_rows key (change d) k xs) = filter (\<lambda>r. key r \<noteq> k) xs"
  by (induction xs) (auto simp: edit_rows_def change_key)

lemma edit_hit: "r \<in> set xs \<Longrightarrow> key r = k \<Longrightarrow> change d r \<in> set (edit_rows key (change d) k xs)"
  by (force simp: edit_rows_def)

lemma edit_miss: "k \<notin> key ` set xs \<Longrightarrow> edit_rows key (change d) k xs = xs"
  unfolding edit_rows_def by (rule map_idI) auto

end

end
