(* ===== verification/Actions.thy ===== *)
theory Actions
  imports Http Uri
begin

section \<open>Actions that wait for the panel's API\<close>

text \<open>
  Almost every handler of \<^verbatim>\<open>App.tsx\<close> has the same form: guards that return early, a part that runs before the
  first \<^verbatim>\<open>await\<close> (it marks the action busy, clears messages and sends requests) and a part that runs when
  the answer has come (it stores the answer or shows the error, and ends the busy state, often in a
  \<^verbatim>\<open>finally\<close>). A handler is modelled by these two functions, \<open>start\<close> and \<open>settle\<close>, on the state it works on.
  In between any other handler may run, so \<open>settle\<close> is a function of whatever state it finds.
  The answer of \<^verbatim>\<open>request\<close> is a value \<open>Inr\<close> or the error \<open>Inl\<close>.
\<close>

text \<open>A call of \<^verbatim>\<open>request\<close>: method, path and body (\<open>JUndef\<close> where there is none).\<close>

type_synonym call = "string \<times> string \<times> jsval"

type_synonym answer = "req_error + jsval"

definition node_path :: "string \<Rightarrow> string \<Rightarrow> string" where
  "node_path nodeId rest = ''/api/panel/nodes/'' @ encodeURIComponent nodeId @ rest"

text \<open>\<^verbatim>\<open>err.message || d\<close>\<close>

definition message_or :: "req_error \<Rightarrow> uitext \<Rightarrow> uitext" where
  "message_or e d = text_or (message e) d"

text \<open>The text shown for a blank value, and \<^verbatim>\<open>v?.k\<close> with it.\<close>

definition dash :: uitext where
  "dash = Ui ''dash''"

definition cell :: "jsval \<Rightarrow> string \<Rightarrow> uitext" where
  "cell v k = error_text (jprop v k) dash"

text \<open>\<^verbatim>\<open>Array.isArray(v) ? v : []\<close>\<close>

definition array_or_empty :: "jsval \<Rightarrow> jsval list" where
  "array_or_empty v = (case v of JArr xs \<Rightarrow> xs | _ \<Rightarrow> [])"

definition run_action ::
  "('s \<Rightarrow> ('s \<times> call list) option) \<Rightarrow> (req_error + 'r \<Rightarrow> 's \<Rightarrow> 's) \<Rightarrow> req_error + 'r \<Rightarrow> 's \<Rightarrow> 's" where
  "run_action start settle a s = (case start s of None \<Rightarrow> s | Some (s', calls) \<Rightarrow> settle a s')"

text \<open>
  The contract: a start that passes its guards marks the action busy and leaves the data alone; settling,
  on every answer, ends the busy state, and on an error leaves the data alone. \<open>edit\<close> stands for what the user
  does to the state while the request is under way.
\<close>

locale async_action =
  fixes start :: "'s \<Rightarrow> ('s \<times> call list) option"
    and settle :: "req_error + 'r \<Rightarrow> 's \<Rightarrow> 's"
    and busy :: "'s \<Rightarrow> bool"
    and data :: "'s \<Rightarrow> 'd"
  assumes start_busy: "start s = Some (s', calls) \<Longrightarrow> busy s'"
    and start_data: "start s = Some (s', calls) \<Longrightarrow> data s' = data s"
    and settle_idle: "\<not> busy (settle a s)"
    and settle_error: "data (settle (Inl e) s) = data s"
begin

lemma run_idle: "run_action start settle a s = s \<or> \<not> busy (run_action start settle a s)"
  by (simp add: run_action_def settle_idle split: option.split prod.split)

lemma run_failed: "data (run_action start settle (Inl e) s) = data s"
  by (auto simp: run_action_def settle_error start_data split: option.split)

lemma failed_keeps_edits:
  assumes "start s = Some (s', calls)" and "\<And>t. data (edit t) = f (data t)"
  shows "data (settle (Inl e) (edit s')) = f (data s)"
  using assms by (simp add: settle_error start_data [OF assms(1)])

end

end
