(* ===== verification/Dnsmasq.thy ===== *)
theory Dnsmasq
  imports Actions Tables Line_Diff
begin

section \<open>The dnsmasq editor\<close>

text \<open>
  The DNS page of a node: \<^verbatim>\<open>parseDnsmasqConfigToDraft\<close> turns the configuration text into rows,
  the dialog (\<^verbatim>\<open>openDnsRuleModal\<close>, \<^verbatim>\<open>submitDnsRuleModal\<close>) edits them, \<^verbatim>\<open>buildDnsmasqTextFromDraft\<close> writes
  the text that \<^verbatim>\<open>submitEnqueueDnsmasqApply\<close> sends.
\<close>

subsection \<open>Parsing\<close>

definition after_prefix :: "string \<Rightarrow> string \<Rightarrow> string option" where
  "after_prefix p l = (if js_starts_with l p then Some (drop (length p) l) else None)"

text \<open>What \<^verbatim>\<open>(.+)$\<close> matches\<close>

definition dot_all :: "string \<Rightarrow> bool" where
  "dot_all r \<longleftrightarrow> r \<noteq> [] \<and> LF \<notin> set r \<and> CR \<notin> set r"

text \<open>\<^verbatim>\<open>/^p([^/]+)\/(.+)$/\<close> and \<^verbatim>\<open>/^p(.+)$/\<close>\<close>

definition match_slash :: "string \<Rightarrow> string \<Rightarrow> (string \<times> string) option" where
  "match_slash p l = (case after_prefix p l of None \<Rightarrow> None
     | Some r \<Rightarrow>
         let m1 = takeWhile (\<lambda>c. c \<noteq> CHR ''/'') r; m2 = drop (Suc (length m1)) r
         in if m1 \<noteq> [] \<and> length m1 < length r \<and> dot_all m2 then Some (m1, m2) else None)"

definition match_value :: "string \<Rightarrow> string \<Rightarrow> string option" where
  "match_value p l = (case after_prefix p l of None \<Rightarrow> None | Some r \<Rightarrow> if dot_all r then Some r else None)"

definition dns_fields :: "string \<Rightarrow> jsobj option" where
  "dns_fields line =
     (case match_slash ''server=/'' line of
        Some (d, t) \<Rightarrow> Some [(''type'', JStr ''domain-resolver''), (''domain'', JStr d), (''targetDns'', JStr t)]
      | None \<Rightarrow> (case match_value ''cache-size='' line of
        Some v \<Rightarrow> Some [(''type'', JStr ''cache''), (''cacheSize'', JStr v)]
      | None \<Rightarrow> (case match_slash ''address=/'' line of
        Some (d, i) \<Rightarrow>
          if d = ''#'' then Some [(''type'', JStr ''arbitrary-address''), (''ip'', JStr i)]
          else Some [(''type'', JStr ''ip-override''), (''domain'', JStr d), (''ip'', JStr i)]
      | None \<Rightarrow> (case match_value ''server='' line of
        Some v \<Rightarrow> Some [(''type'', JStr ''forward''), (''targetDns'', JStr v)]
      | None \<Rightarrow> (case match_value ''addn-hosts='' line of
        Some v \<Rightarrow> Some [(''type'', JStr ''hosts-file''), (''path'', JStr v)]
      | None \<Rightarrow> (case match_value ''hosts-file='' line of
        Some v \<Rightarrow> Some [(''type'', JStr ''hosts-file''), (''path'', JStr v)]
      | None \<Rightarrow> (case match_value ''interface='' line of
        Some v \<Rightarrow> Some [(''type'', JStr ''listen-interface''), (''iface'', JStr v)]
      | None \<Rightarrow> None)))))))"

fun dns_rows :: "nat \<Rightarrow> string list \<Rightarrow> jsval list" where
  "dns_rows i [] = []"
| "dns_rows i (l # ls) = (case dns_fields l of None \<Rightarrow> dns_rows i ls
     | Some fs \<Rightarrow> JObj ((''id'', JStr (''dns-'' @ nat_string i)) # fs) # dns_rows (Suc i) ls)"

text \<open>\<^verbatim>\<open>split(/\r?\n/)\<close> is splitting at line feeds once carriage returns before them are dropped.\<close>

definition config_lines :: "string \<Rightarrow> string list" where
  "config_lines raw = non_empty (map js_trim (js_split LF (replace_crlf raw)))"

definition parseDnsmasqConfigToDraft :: "jsval \<Rightarrow> jsval list" where
  "parseDnsmasqConfigToDraft raw = dns_rows 1 (config_lines (str_or raw))"

subsection \<open>Writing\<close>

definition dfield :: "jsval \<Rightarrow> string \<Rightarrow> string" where
  "dfield r k = js_trim (str_or (jprop r k))"

definition dtype :: "jsval \<Rightarrow> string" where
  "dtype r = str_or (jprop r ''type'')"

definition dns_line :: "jsval \<Rightarrow> string list" where
  "dns_line r =
     (let t = dtype r; v = dfield r in
      if t = ''domain-resolver'' then
        (if v ''domain'' \<noteq> [] \<and> v ''targetDns'' \<noteq> [] then [''server=/'' @ v ''domain'' @ ''/'' @ v ''targetDns''] else [])
      else if t = ''cache'' then (if v ''cacheSize'' \<noteq> [] then [''cache-size='' @ v ''cacheSize''] else [])
      else if t = ''ip-override'' then
        (if v ''domain'' \<noteq> [] \<and> v ''ip'' \<noteq> [] then [''address=/'' @ v ''domain'' @ ''/'' @ v ''ip''] else [])
      else if t = ''arbitrary-address'' then (if v ''ip'' \<noteq> [] then [''address=/#/'' @ v ''ip''] else [])
      else if t = ''forward'' then (if v ''targetDns'' \<noteq> [] then [''server='' @ v ''targetDns''] else [])
      else if t = ''hosts-file'' then (if v ''path'' \<noteq> [] then [''addn-hosts='' @ v ''path''] else [])
      else if t = ''listen-interface'' then (if v ''iface'' \<noteq> [] then [''interface='' @ v ''iface''] else [])
      else [])"

definition buildDnsmasqTextFromDraft :: "jsval list \<Rightarrow> string" where
  "buildDnsmasqTextFromDraft draft = js_join [LF] (concat (map dns_line draft))"

definition dnsTypeLabel :: "jsval \<Rightarrow> uitext" where
  "dnsTypeLabel type =
     (let t = str_or type in
      if t = ''domain-resolver'' then Ui ''domain -> DNS''
      else if t = ''cache'' then Ui ''caching''
      else if t = ''ip-override'' then Ui ''IP override''
      else if t = ''arbitrary-address'' then Ui ''any address''
      else if t = ''forward'' then Ui ''forward''
      else if t = ''hosts-file'' then Ui ''hosts file''
      else if t = ''listen-interface'' then Ui ''interface''
      else Raw t)"

subsection \<open>The dialog\<close>

record dns_modal =
  dopen :: bool
  editId :: string
  mtype :: string
  mdraft :: jsobj
  merror :: uitext

record dns_page =
  rows :: "jsval list"
  modal :: dns_modal

definition closed_dns_modal :: dns_modal where
  "closed_dns_modal = \<lparr>dopen = False, editId = [], mtype = ''domain-resolver'', mdraft = [], merror = NoText\<rparr>"

definition newDnsRuleDraftByType :: "string \<Rightarrow> jsobj" where
  "newDnsRuleDraftByType type =
     (let t = js_or type ''domain-resolver'' in
      if t = ''domain-resolver'' then [(''domain'', JStr []), (''targetDns'', JStr [])]
      else if t = ''cache'' then [(''cacheSize'', JStr [])]
      else if t = ''ip-override'' then [(''domain'', JStr []), (''ip'', JStr [])]
      else if t = ''arbitrary-address'' then [(''ip'', JStr [])]
      else if t = ''forward'' then [(''targetDns'', JStr [])]
      else if t = ''hosts-file'' then [(''path'', JStr [])]
      else if t = ''listen-interface'' then [(''iface'', JStr [])]
      else [])"

text \<open>The argument \<open>None\<close> is the button for a new rule.\<close>

definition openDnsRuleModal :: "jsval option \<Rightarrow> dns_modal" where
  "openDnsRuleModal rule = (case rule of
       None \<Rightarrow> \<lparr>dopen = True, editId = [], mtype = ''domain-resolver'',
               mdraft = newDnsRuleDraftByType ''domain-resolver'', merror = NoText\<rparr>
     | Some r \<Rightarrow> \<lparr>dopen = True, editId = str_or (jprop r ''id''),
                 mtype = js_or (str_or (jprop r ''type'')) ''domain-resolver'', mdraft = own_props r, merror = NoText\<rparr>)"

definition draft_text :: "jsobj \<Rightarrow> string \<Rightarrow> string" where
  "draft_text d k = js_trim (str_or (obj_get d k))"

definition requiredOk :: "string \<Rightarrow> jsobj \<Rightarrow> bool" where
  "requiredOk t d \<longleftrightarrow>
     t = ''domain-resolver'' \<and> draft_text d ''domain'' \<noteq> [] \<and> draft_text d ''targetDns'' \<noteq> [] \<or>
     t = ''cache'' \<and> draft_text d ''cacheSize'' \<noteq> [] \<or>
     t = ''ip-override'' \<and> draft_text d ''domain'' \<noteq> [] \<and> draft_text d ''ip'' \<noteq> [] \<or>
     t = ''arbitrary-address'' \<and> draft_text d ''ip'' \<noteq> [] \<or>
     t = ''forward'' \<and> draft_text d ''targetDns'' \<noteq> [] \<or>
     t = ''hosts-file'' \<and> draft_text d ''path'' \<noteq> [] \<or>
     t = ''listen-interface'' \<and> draft_text d ''iface'' \<noteq> []"

text \<open>\<^verbatim>\<open>{ ...r, ...d, type: t }\<close> and \<^verbatim>\<open>{ id, type: t, ...newDnsRuleDraftByType(t), ...d }\<close>\<close>

definition changed_row :: "string \<times> jsobj \<Rightarrow> jsval \<Rightarrow> jsval" where
  "changed_row td r = JObj (obj_put (obj_spread (own_props r) (snd td)) ''type'' (JStr (fst td)))"

definition new_row :: "int \<Rightarrow> string \<Rightarrow> jsobj \<Rightarrow> jsval" where
  "new_row now t d = JObj (obj_spread (obj_spread [(''id'', JStr (''dns-'' @ int_string now)), (''type'', JStr t)]
     (newDnsRuleDraftByType t)) d)"

definition submitDnsRuleModal :: "int \<Rightarrow> dns_page \<Rightarrow> dns_page" where
  "submitDnsRuleModal now s =
     (let m = modal s; t = mtype m; d = mdraft m in
      if \<not> requiredOk t d then s\<lparr>modal := m\<lparr>merror := Ui ''fill in the required fields of the chosen type''\<rparr>\<rparr>
      else if editId m \<noteq> []
      then s\<lparr>rows := edit_rows row_key (changed_row (t, d)) (JStr (editId m)) (rows s), modal := closed_dns_modal\<rparr>
      else s\<lparr>rows := rows s @ [new_row now t d], modal := closed_dns_modal\<rparr>)"

subsection \<open>Loading and applying\<close>

record dns_sys =
  servicesRows :: "jsval list"
  servicesLoading :: bool
  servicesError :: uitext
  dnsLoading :: bool
  dnsError :: uitext
  dnsApplyBusy :: bool
  queueMessage :: uitext
  dnsDraft :: "jsval list"

text \<open>The two parallel requests of \<^verbatim>\<open>loadServerServicesAndDns\<close> are answered by a pair or by the first error.\<close>

definition loadServerServicesAndDns_start :: "string \<Rightarrow> string \<Rightarrow> dns_sys \<Rightarrow> (dns_sys \<times> call list) option" where
  "loadServerServicesAndDns_start token nodeId s =
     (if nodeId = [] \<or> token = [] then None
      else Some (s\<lparr>servicesLoading := True, servicesError := NoText, dnsLoading := True, dnsError := NoText,
                   queueMessage := NoText\<rparr>,
        [(''GET'', node_path nodeId ''/system-services'', JUndef), (''GET'', node_path nodeId ''/dnsmasq'', JUndef)]))"

definition loadServerServicesAndDns_settle :: "req_error + jsval \<times> jsval \<Rightarrow> dns_sys \<Rightarrow> dns_sys" where
  "loadServerServicesAndDns_settle a s = (case a of
       Inr (services, dns) \<Rightarrow>
         s\<lparr>servicesRows := array_or_empty (jprop services ''services''), dnsLoading := False,
           dnsDraft := parseDnsmasqConfigToDraft (jprop dns ''config''), servicesLoading := False\<rparr>
     | Inl e \<Rightarrow>
         s\<lparr>servicesError := message_or e (Ui ''the list of services could not be loaded''), dnsLoading := False,
           dnsError := message_or e (Ui ''dnsmasq could not be loaded''), servicesLoading := False\<rparr>)"

definition submitEnqueueDnsmasqApply_start :: "string \<Rightarrow> string \<Rightarrow> dns_sys \<Rightarrow> (dns_sys \<times> call list) option" where
  "submitEnqueueDnsmasqApply_start token nodeId s =
     (if nodeId = [] \<or> token = [] then None
      else Some (s\<lparr>dnsApplyBusy := True, dnsError := NoText, queueMessage := NoText\<rparr>,
        [(''POST'', node_path nodeId ''/dnsmasq/apply-task'',
          JObj [(''config'', JStr (buildDnsmasqTextFromDraft (dnsDraft s)))])]))"

definition submitEnqueueDnsmasqApply_settle :: "answer \<Rightarrow> dns_sys \<Rightarrow> dns_sys" where
  "submitEnqueueDnsmasqApply_settle a s = (case a of
       Inr v \<Rightarrow> s\<lparr>dnsApplyBusy := False,
                  queueMessage := (let m = js_trim (str_prop v ''message'') in
                     if m \<noteq> [] then Raw m else Ui ''the dnsmasq task was queued'')\<rparr>
     | Inl e \<Rightarrow> s\<lparr>dnsApplyBusy := False, dnsError := message_or e (Ui ''the task could not be queued'')\<rparr>)"

interpretation dns_load: async_action "loadServerServicesAndDns_start token nodeId" loadServerServicesAndDns_settle
    servicesLoading "\<lambda>s. (dnsDraft s, servicesRows s)" for token nodeId
  by unfold_locales (auto simp: loadServerServicesAndDns_start_def loadServerServicesAndDns_settle_def
    split: if_splits sum.splits)

interpretation dns_apply: async_action "submitEnqueueDnsmasqApply_start token nodeId" submitEnqueueDnsmasqApply_settle
    dnsApplyBusy "\<lambda>s. (dnsDraft s, servicesRows s)" for token nodeId
  by unfold_locales (auto simp: submitEnqueueDnsmasqApply_start_def submitEnqueueDnsmasqApply_settle_def
    split: if_splits sum.splits)

subsection \<open>Round trip\<close>

text \<open>What a row means: its type and the texts its type uses.\<close>

definition dns_view :: "jsval \<Rightarrow> string \<times> string list" where
  "dns_view r = (let t = dtype r in (t,
     if t = ''domain-resolver'' then [dfield r ''domain'', dfield r ''targetDns'']
     else if t = ''cache'' then [dfield r ''cacheSize'']
     else if t = ''ip-override'' then [dfield r ''domain'', dfield r ''ip'']
     else if t = ''arbitrary-address'' then [dfield r ''ip'']
     else if t = ''forward'' then [dfield r ''targetDns'']
     else if t = ''hosts-file'' then [dfield r ''path'']
     else if t = ''listen-interface'' then [dfield r ''iface''] else []))"

text \<open>Rows that dnsmasq itself could read back: no line breaks, no slash in a domain.\<close>

definition dns_row_ok :: "jsval \<Rightarrow> bool" where
  "dns_row_ok r \<longleftrightarrow> dtype r \<in> {''domain-resolver'', ''cache'', ''ip-override'', ''arbitrary-address'', ''forward'',
       ''hosts-file'', ''listen-interface''}
     \<and> list_all dot_all (snd (dns_view r))
     \<and> (dtype r = ''domain-resolver'' \<or> dtype r = ''ip-override'' \<longrightarrow> CHR ''/'' \<notin> set (dfield r ''domain''))
     \<and> (dtype r = ''ip-override'' \<longrightarrow> dfield r ''domain'' \<noteq> ''#'')
     \<and> (dtype r = ''forward'' \<longrightarrow> hd (dfield r ''targetDns'') \<noteq> CHR ''/'')"

lemma dfield_trimmed [simp]: "js_trim (dfield r k) = dfield r k"
  by (simp add: dfield_def)

lemma after_prefix_append: "after_prefix p (p @ s) = Some s"
  by (simp add: after_prefix_def js_starts_with_def)

lemma match_slash_append:
  assumes "CHR ''/'' \<notin> set d" "d \<noteq> []" "dot_all t"
  shows "match_slash p (p @ d @ ''/'' @ t) = Some (d, t)"
proof -
  have "takeWhile (\<lambda>c. c \<noteq> CHR ''/'') (d @ ''/'' @ t) = d" using assms(1) by (induction d) auto
  then show ?thesis using assms(2,3) by (simp add: match_slash_def after_prefix_append)
qed

lemma match_value_append: "dot_all t \<Longrightarrow> match_value p (p @ t) = Some t"
  by (simp add: match_value_def after_prefix_append)

lemma match_slash_no_prefix: "\<not> js_starts_with l p \<Longrightarrow> match_slash p l = None"
  by (simp add: match_slash_def after_prefix_def)

lemma match_value_no_prefix: "\<not> js_starts_with l p \<Longrightarrow> match_value p l = None"
  by (simp add: match_value_def after_prefix_def)

lemmas match_rules = match_slash_no_prefix match_value_no_prefix

lemma trim_prefixed:
  assumes "p \<noteq> []" "\<not> is_space (hd p)" "v \<noteq> []" "js_trim v = v"
  shows "js_trim (p @ v) = p @ v"
  using assms js_trim_trimmed [of v] by (simp add: js_trim_iff)

lemma dns_fields_of_lines:
  "CHR ''/'' \<notin> set d \<Longrightarrow> d \<noteq> [] \<Longrightarrow> dot_all t \<Longrightarrow> dns_fields (''server=/'' @ d @ ''/'' @ t) =
     Some [(''type'', JStr ''domain-resolver''), (''domain'', JStr d), (''targetDns'', JStr t)]"
  "dot_all t \<Longrightarrow> dns_fields (''cache-size='' @ t) = Some [(''type'', JStr ''cache''), (''cacheSize'', JStr t)]"
  "CHR ''/'' \<notin> set d \<Longrightarrow> d \<noteq> [] \<Longrightarrow> d \<noteq> ''#'' \<Longrightarrow> dot_all t \<Longrightarrow> dns_fields (''address=/'' @ d @ ''/'' @ t) =
     Some [(''type'', JStr ''ip-override''), (''domain'', JStr d), (''ip'', JStr t)]"
  "dot_all t \<Longrightarrow> dns_fields (''address=/#/'' @ t) = Some [(''type'', JStr ''arbitrary-address''), (''ip'', JStr t)]"
  "dot_all t \<Longrightarrow> hd t \<noteq> CHR ''/'' \<Longrightarrow> dns_fields (''server='' @ t) = Some [(''type'', JStr ''forward''), (''targetDns'', JStr t)]"
  "dot_all t \<Longrightarrow> dns_fields (''addn-hosts='' @ t) = Some [(''type'', JStr ''hosts-file''), (''path'', JStr t)]"
  "dot_all t \<Longrightarrow> dns_fields (''interface='' @ t) = Some [(''type'', JStr ''listen-interface''), (''iface'', JStr t)]"
  subgoal using match_slash_append [of d t "''server=/''"] by (simp add: dns_fields_def)
  subgoal using match_value_append [of t "''cache-size=''"] by (simp add: dns_fields_def match_rules js_starts_with_def)
  subgoal using match_slash_append [of d t "''address=/''"] by (simp add: dns_fields_def match_rules js_starts_with_def)
  subgoal using match_slash_append [of "''#''" t "''address=/''"] by (simp add: dns_fields_def match_rules js_starts_with_def)
  subgoal
    using match_value_append [of t "''server=''"] by (cases t) (simp_all add: dns_fields_def match_rules js_starts_with_def dot_all_def)
  subgoal using match_value_append [of t "''addn-hosts=''"] by (simp add: dns_fields_def match_rules js_starts_with_def)
  subgoal using match_value_append [of t "''interface=''"] by (simp add: dns_fields_def match_rules js_starts_with_def)
  done

definition line_for :: "jsval \<Rightarrow> string \<Rightarrow> bool" where
  "line_for r l \<longleftrightarrow> js_trim l = l \<and> dot_all l \<and>
     (\<exists>fs. dns_fields l = Some fs \<and> (\<forall>i. dns_view (JObj ((''id'', JStr i) # fs)) = dns_view r))"

lemma line_forI:
  assumes "l = p @ v" "p \<noteq> []" "\<not> is_space (hd p)" "dot_all v" "js_trim v = v" "LF \<notin> set p" "CR \<notin> set p"
    and "dns_fields l = Some fs" "\<And>i. dns_view (JObj ((''id'', JStr i) # fs)) = dns_view r"
  shows "line_for r l"
  using assms trim_prefixed [of p v] by (simp add: line_for_def dot_all_def)

lemmas view_eval = dns_view_def dtype_def dfield_def jprop_def obj_get_def Let_def

lemma view_trims: "dfield (JObj ob) k = js_trim (str_or (obj_get ob k))" "dtype (JObj ob) = str_or (obj_get ob ''type'')"
  by (simp_all add: dfield_def dtype_def jprop_def)

lemma dns_line_pair:
  assumes "dns_row_ok r" and "dtype r \<in> {''domain-resolver'', ''ip-override''}"
  shows "\<exists>l. dns_line r = [l] \<and> line_for r l"
proof -
  let ?v = "dfield r"
  note ok = assms(1) [unfolded dns_row_ok_def]
  note eval = dns_view_def view_trims obj_get_Cons Let_def
  from assms(2) consider "dtype r = ''domain-resolver''" | "dtype r = ''ip-override''" by auto
  then show ?thesis
  proof cases
    case 1
    with ok have v: "dot_all (?v ''domain'')" "dot_all (?v ''targetDns'')" "CHR ''/'' \<notin> set (?v ''domain'')"
      by (auto simp: dns_view_def Let_def)
    have "line_for r (''server=/'' @ ?v ''domain'' @ ''/'' @ ?v ''targetDns'')"
      by (rule line_forI [of _ "''server=/'' @ ?v ''domain'' @ ''/''" "?v ''targetDns''", OF _ _ _ _ _ _ _ dns_fields_of_lines(1)])
         (use 1 v in \<open>auto simp: eval dot_all_def is_space_def code_of_def\<close>)
    then show ?thesis using 1 v by (auto simp: dns_line_def Let_def dot_all_def)
  next
    case 2
    with ok have v: "dot_all (?v ''domain'')" "dot_all (?v ''ip'')" "CHR ''/'' \<notin> set (?v ''domain'')" "?v ''domain'' \<noteq> ''#''"
      by (auto simp: dns_view_def Let_def)
    have "line_for r (''address=/'' @ ?v ''domain'' @ ''/'' @ ?v ''ip'')"
      by (rule line_forI [of _ "''address=/'' @ ?v ''domain'' @ ''/''" "?v ''ip''", OF _ _ _ _ _ _ _ dns_fields_of_lines(3)])
         (use 2 v in \<open>auto simp: eval dot_all_def is_space_def code_of_def\<close>)
    then show ?thesis using 2 v by (auto simp: dns_line_def Let_def dot_all_def)
  qed
qed

lemma dns_line_value:
  assumes "dns_row_ok r" and "dtype r \<in> {''cache'', ''arbitrary-address'', ''forward''}"
  shows "\<exists>l. dns_line r = [l] \<and> line_for r l"
proof -
  let ?v = "dfield r"
  note ok = assms(1) [unfolded dns_row_ok_def]
  note eval = dns_view_def view_trims obj_get_Cons Let_def
  from assms(2) consider "dtype r = ''cache''" | "dtype r = ''arbitrary-address''" | "dtype r = ''forward''" by auto
  then show ?thesis
  proof cases
    case 1
    with ok have v: "dot_all (?v ''cacheSize'')" by (auto simp: dns_view_def Let_def)
    have "line_for r (''cache-size='' @ ?v ''cacheSize'')"
      by (rule line_forI [of _ "''cache-size=''" "?v ''cacheSize''", OF _ _ _ _ _ _ _ dns_fields_of_lines(2)])
         (use 1 v in \<open>auto simp: eval is_space_def code_of_def\<close>)
    then show ?thesis using 1 v by (auto simp: dns_line_def Let_def dot_all_def)
  next
    case 2
    with ok have v: "dot_all (?v ''ip'')" by (auto simp: dns_view_def Let_def)
    have "line_for r (''address=/#/'' @ ?v ''ip'')"
      by (rule line_forI [of _ "''address=/#/''" "?v ''ip''", OF _ _ _ _ _ _ _ dns_fields_of_lines(4)])
         (use 2 v in \<open>auto simp: eval is_space_def code_of_def\<close>)
    then show ?thesis using 2 v by (auto simp: dns_line_def Let_def dot_all_def)
  next
    case 3
    with ok have v: "dot_all (?v ''targetDns'')" "hd (?v ''targetDns'') \<noteq> CHR ''/''" by (auto simp: dns_view_def Let_def)
    have "line_for r (''server='' @ ?v ''targetDns'')"
      by (rule line_forI [of _ "''server=''" "?v ''targetDns''", OF _ _ _ _ _ _ _ dns_fields_of_lines(5)])
         (use 3 v in \<open>auto simp: eval is_space_def code_of_def\<close>)
    then show ?thesis using 3 v by (auto simp: dns_line_def Let_def dot_all_def)
  qed
qed

lemma dns_line_path:
  assumes "dns_row_ok r" and "dtype r \<in> {''hosts-file'', ''listen-interface''}"
  shows "\<exists>l. dns_line r = [l] \<and> line_for r l"
proof -
  let ?v = "dfield r"
  note ok = assms(1) [unfolded dns_row_ok_def]
  note eval = dns_view_def view_trims obj_get_Cons Let_def
  from assms(2) consider "dtype r = ''hosts-file''" | "dtype r = ''listen-interface''" by auto
  then show ?thesis
  proof cases
    case 1
    with ok have v: "dot_all (?v ''path'')" by (auto simp: dns_view_def Let_def)
    have "line_for r (''addn-hosts='' @ ?v ''path'')"
      by (rule line_forI [of _ "''addn-hosts=''" "?v ''path''", OF _ _ _ _ _ _ _ dns_fields_of_lines(6)])
         (use 1 v in \<open>auto simp: eval is_space_def code_of_def\<close>)
    then show ?thesis using 1 v by (auto simp: dns_line_def Let_def dot_all_def)
  next
    case 2
    with ok have v: "dot_all (?v ''iface'')" by (auto simp: dns_view_def Let_def)
    have "line_for r (''interface='' @ ?v ''iface'')"
      by (rule line_forI [of _ "''interface=''" "?v ''iface''", OF _ _ _ _ _ _ _ dns_fields_of_lines(7)])
         (use 2 v in \<open>auto simp: eval is_space_def code_of_def\<close>)
    then show ?thesis using 2 v by (auto simp: dns_line_def Let_def dot_all_def)
  qed
qed

lemma dns_line_ok:
  assumes "dns_row_ok r"
  shows "\<exists>l. dns_line r = [l] \<and> line_for r l"
  using dns_line_pair [OF assms] dns_line_value [OF assms] dns_line_path [OF assms] assms
  unfolding dns_row_ok_def by auto

definition the_line :: "jsval \<Rightarrow> string" where
  "the_line r = hd (dns_line r)"

lemma the_line_ok: "dns_row_ok r \<Longrightarrow> dns_line r = [the_line r] \<and> line_for r (the_line r)"
  using dns_line_ok [of r] by (auto simp: the_line_def)

lemma lines_of_rows: "list_all dns_row_ok rs \<Longrightarrow> concat (map dns_line rs) = map the_line rs"
  by (induction rs) (simp_all add: the_line_ok)

lemma rows_of_lines: "list_all dns_row_ok rs \<Longrightarrow> map dns_view (dns_rows i (map the_line rs)) = map dns_view rs"
proof (induction rs arbitrary: i)
  case (Cons r rs)
  then obtain fs where "dns_fields (the_line r) = Some fs" "\<forall>i. dns_view (JObj ((''id'', JStr i) # fs)) = dns_view r"
    using the_line_ok [of r] by (auto simp: line_for_def)
  with Cons show ?case by simp
qed simp

lemma config_lines_join:
  assumes "list_all (\<lambda>l. js_trim l = l \<and> dot_all l) ls"
  shows "config_lines (js_join [LF] ls) = ls"
proof (cases "ls = []")
  case True
  then show ?thesis by (simp add: config_lines_def)
next
  case False
  have "CR \<notin> set (js_join [LF] ls)" using assms
    by (induction "[LF]" ls rule: js_join.induct) (auto simp: dot_all_def)
  then have "replace_crlf (js_join [LF] ls) = js_join [LF] ls" by (rule replace_crlf_id)
  moreover have "js_split LF (js_join [LF] ls) = ls"
    using assms False by (intro js_split_join) (auto simp: list_all_iff dot_all_def)
  moreover have "map js_trim ls = ls" using assms by (induction ls) simp_all
  moreover have "non_empty ls = ls" using assms by (induction ls) (simp_all add: dot_all_def)
  ultimately show ?thesis by (simp add: config_lines_def)
qed

text \<open>C26: The DNS rules survive the way through the configuration text: parsing what is written for a list of complete
  rows gives rows of the same types with the same (trimmed) texts in the same order. Complete means
  that every text the type needs is there and has no line break, that a domain has no slash, and that
  the row is not one that dnsmasq would read as another kind.\<close>

theorem dnsmasq_roundtrip:
  assumes "list_all dns_row_ok rs"
  shows "map dns_view (parseDnsmasqConfigToDraft (JStr (buildDnsmasqTextFromDraft rs))) = map dns_view rs"
proof -
  have "list_all (\<lambda>l. js_trim l = l \<and> dot_all l) (map the_line rs)"
    using assms the_line_ok by (auto simp: list_all_iff line_for_def)
  then show ?thesis
    using assms by (simp add: parseDnsmasqConfigToDraft_def buildDnsmasqTextFromDraft_def lines_of_rows config_lines_join rows_of_lines)
qed

theorem dnsmasq_roundtrip_witness:
  "map dns_view (parseDnsmasqConfigToDraft (JStr (buildDnsmasqTextFromDraft
      [JObj [(''id'', JStr ''dns-7''), (''type'', JStr ''forward''), (''targetDns'', JStr '' 9.9.9.9 '')],
       JObj [(''id'', JStr ''dns-9''), (''type'', JStr ''ip-override''), (''domain'', JStr ''a.b''), (''ip'', JStr ''10.0.0.1'')]])))
   = [(''forward'', [''9.9.9.9'']), (''ip-override'', [''a.b'', ''10.0.0.1''])]"
  by (subst dnsmasq_roundtrip) code_simp+

text \<open>A line that is none of the seven kinds of rules leaves no trace in the editor, so the text built from the
  draft no longer has it: applying a loaded configuration removes every directive the editor does not know.\<close>

theorem unknown_directive_dropped:
  assumes "LF \<notin> set l" and "CR \<notin> set l" and "dns_fields (js_trim l) = None"
  shows "buildDnsmasqTextFromDraft (parseDnsmasqConfigToDraft (JStr (l @ LF # rest)))
    = buildDnsmasqTextFromDraft (parseDnsmasqConfigToDraft (JStr rest))"
proof -
  have "replace_crlf (l @ LF # rest) = l @ LF # replace_crlf rest"
    using assms(2)
  proof (induction l)
    case Nil
    show ?case by (cases rest) simp_all
  next
    case (Cons c l)
    then show ?case by (cases l) auto
  qed
  then show ?thesis using assms(1,3)
    by (simp add: parseDnsmasqConfigToDraft_def config_lines_def js_split_append)
qed

theorem unknown_directive_dropped_witness:
  "buildDnsmasqTextFromDraft (parseDnsmasqConfigToDraft (JStr (''conf-dir=/etc/dnsmasq.d'' @ LF # ''server=9.9.9.9'')))
   = ''server=9.9.9.9''"
  by (subst unknown_directive_dropped) code_simp+

subsection \<open>The editor as a state machine\<close>

text \<open>
  What can happen on the page: loading a configuration, opening the dialog for a new or an existing
  row, choosing a type, typing into a field, closing, submitting (the clock gives an identifier that is
  not in use), deleting and dragging rows.
\<close>

definition DNS_INPUTS :: "string list" where
  "DNS_INPUTS = [''domain'', ''targetDns'', ''cacheSize'', ''ip'', ''path'', ''iface'']"

inductive dns_step :: "dns_page \<Rightarrow> dns_page \<Rightarrow> bool" where
  reload: "dns_step s (s\<lparr>rows := parseDnsmasqConfigToDraft raw\<rparr>)"
| open_new: "dns_step s (s\<lparr>modal := openDnsRuleModal None\<rparr>)"
| open_row: "r \<in> set (rows s) \<Longrightarrow> dns_step s (s\<lparr>modal := openDnsRuleModal (Some r)\<rparr>)"
| choose_type: "dns_step s (s\<lparr>modal := (modal s)\<lparr>mtype := t, mdraft := newDnsRuleDraftByType t, merror := NoText\<rparr>\<rparr>)"
| type_text: "k \<in> set DNS_INPUTS \<Longrightarrow> dns_step s (s\<lparr>modal := (modal s)\<lparr>mdraft := obj_put (mdraft (modal s)) k (JStr v)\<rparr>\<rparr>)"
| close: "dns_step s (s\<lparr>modal := closed_dns_modal\<rparr>)"
| submit: "JStr (''dns-'' @ int_string now) \<notin> row_key ` set (rows s) \<Longrightarrow> dns_step s (submitDnsRuleModal now s)"
| delete: "dns_step s (s\<lparr>rows := filter (\<lambda>r. row_key r \<noteq> k) (rows s)\<rparr>)"
| drag: "dns_step s (s\<lparr>rows := reorderRowInList (JArr (rows s)) d t after\<rparr>)"

definition empty_dns_page :: dns_page where
  "empty_dns_page = \<lparr>rows = [], modal = closed_dns_modal\<rparr>"

definition good_row :: "jsval \<Rightarrow> bool" where
  "good_row r \<longleftrightarrow> (\<exists>ob i. r = JObj ob \<and> distinct (map fst ob) \<and> obj_get ob ''id'' = JStr i \<and> i \<noteq> [])"

definition rows_ok :: "jsval list \<Rightarrow> bool" where
  "rows_ok rs \<longleftrightarrow> distinct (map row_key rs) \<and> (\<forall>r\<in>set rs. good_row r)"

text \<open>The draft of the dialog never carries the identifier of another row.\<close>

definition modal_ok :: "dns_modal \<Rightarrow> bool" where
  "modal_ok m \<longleftrightarrow> distinct (map fst (mdraft m)) \<and>
     (if editId m = [] then \<not> obj_has (mdraft m) ''id'' \<and> \<not> obj_has (mdraft m) ''type''
      else obj_has (mdraft m) ''id'' \<longrightarrow> obj_get (mdraft m) ''id'' = JStr (editId m))"

definition page_ok :: "dns_page \<Rightarrow> bool" where
  "page_ok s \<longleftrightarrow> rows_ok (rows s) \<and> modal_ok (modal s)"

definition dns_adm :: "jsval \<Rightarrow> string \<times> jsobj \<Rightarrow> bool" where
  "dns_adm k td \<longleftrightarrow> distinct (map fst (snd td)) \<and> (obj_has (snd td) ''id'' \<longrightarrow> obj_get (snd td) ''id'' = k)"

interpretation dns_table: keyed_rows row_key changed_row dns_adm
  by unfold_locales (auto simp: row_key_def changed_row_def dns_adm_def jprop_def alist_laws get_spread own_props_get [unfolded jprop_def])

lemma draft_by_type_keys:
  "distinct (map fst (newDnsRuleDraftByType t))" "\<not> obj_has (newDnsRuleDraftByType t) ''id''"
  "\<not> obj_has (newDnsRuleDraftByType t) ''type''"
  by (auto simp: newDnsRuleDraftByType_def Let_def obj_has_def)

lemma good_changed_row:
  assumes "good_row r" "dns_adm (row_key r) td"
  shows "good_row (changed_row td r)"
proof -
  obtain ob i where r: "r = JObj ob" "distinct (map fst ob)" "obj_get ob ''id'' = JStr i" "i \<noteq> []"
    using assms(1) by (auto simp: good_row_def)
  with assms(2) show ?thesis
    by (auto simp: good_row_def changed_row_def own_props_def distinct_spread alist_laws get_spread dns_adm_def row_key_def jprop_def)
qed

lemma good_new_row:
  assumes "distinct (map fst d)" "\<not> obj_has d ''id''"
  shows "good_row (new_row now t d)" "row_key (new_row now t d) = JStr (''dns-'' @ int_string now)"
  using assms draft_by_type_keys [of t]
  by (auto simp: good_row_def new_row_def distinct_spread get_spread row_key_def jprop_def obj_get_Cons)

lemma dns_fields_keys: "dns_fields l = Some fs \<Longrightarrow> distinct (map fst fs) \<and> \<not> obj_has fs ''id''"
  by (auto simp: dns_fields_def obj_has_def split: option.splits if_splits)

lemma dns_rows_keys:
  "rows_ok (dns_rows i ls) \<and> (\<forall>r\<in>set (dns_rows i ls). \<exists>n\<ge>i. row_key r = JStr (''dns-'' @ nat_string n))"
proof (induction ls arbitrary: i)
  case (Cons l ls)
  show ?case
  proof (cases "dns_fields l")
    case (Some fs)
    let ?r = "JObj ((''id'', JStr (''dns-'' @ nat_string i)) # fs)"
    have key: "row_key ?r = JStr (''dns-'' @ nat_string i)" by (simp add: row_key_def jprop_def obj_get_Cons)
    have "good_row ?r" using dns_fields_keys [OF Some] by (auto simp: good_row_def obj_get_Cons obj_has_def)
    moreover have "row_key ?r \<notin> row_key ` set (dns_rows (Suc i) ls)"
    proof
      assume "row_key ?r \<in> row_key ` set (dns_rows (Suc i) ls)"
      then obtain r where r: "r \<in> set (dns_rows (Suc i) ls)" "row_key ?r = row_key r" by blast
      then obtain n where "Suc i \<le> n" "row_key r = JStr (''dns-'' @ nat_string n)"
        using Cons.IH [of "Suc i"] by blast
      with r key show False by (simp add: nat_string_inj)
    qed
    moreover have "\<forall>r\<in>set (dns_rows (Suc i) ls). \<exists>n\<ge>i. row_key r = JStr (''dns-'' @ nat_string n)"
      using Cons.IH [of "Suc i"] Suc_leD by blast
    ultimately show ?thesis using Cons.IH [of "Suc i"] Some key by (auto simp: rows_ok_def)
  qed (use Cons in simp)
qed (simp add: rows_ok_def)

lemma good_row_key: "good_row r \<Longrightarrow> row_key r = JStr (row_id r)"
  by (auto simp: good_row_def row_key_def row_id_def jprop_def)

lemma rows_ok_reorder:
  assumes "rows_ok rs"
  shows "rows_ok (reorderRowInList (JArr rs) d t after)"
proof -
  have "inj_on row_id (set rs)"
  proof (rule inj_onI)
    fix x y assume xy: "x \<in> set rs" "y \<in> set rs" "row_id x = row_id y"
    then have "row_key x = row_key y"
      using assms good_row_key by (simp add: rows_ok_def)
    with assms xy show "x = y" by (auto simp: rows_ok_def distinct_map inj_on_def)
  qed
  with assms have "distinct (map row_id rs)" by (auto simp: rows_ok_def distinct_map)
  then have "mset (reorderRowInList (JArr rs) d t after) = mset rs" by (rule reorder_mset)
  then have "mset (map row_key (reorderRowInList (JArr rs) d t after)) = mset (map row_key rs)"
    "set (reorderRowInList (JArr rs) d t after) = set rs"
    by (simp, metis set_mset_mset)
  then show ?thesis using assms by (metis mset_eq_imp_distinct_iff rows_ok_def)
qed

lemma submit_ok:
  assumes "page_ok s" "JStr (''dns-'' @ int_string now) \<notin> row_key ` set (rows s)"
  shows "page_ok (submitDnsRuleModal now s)"
proof -
  let ?m = "modal s" and ?td = "(mtype (modal s), mdraft (modal s))"
  have closed: "modal_ok closed_dns_modal" by (simp add: modal_ok_def closed_dns_modal_def)
  have m: "modal_ok ?m" and r: "rows_ok (rows s)" using assms(1) by (auto simp: page_ok_def)
  have "rows_ok (edit_rows row_key (changed_row ?td) (JStr (editId ?m)) (rows s))" if "editId ?m \<noteq> []"
  proof -
    have adm: "dns_adm (JStr (editId ?m)) ?td" using m that by (auto simp: modal_ok_def dns_adm_def)
    have "good_row (if row_key x = JStr (editId ?m) then changed_row ?td x else x)" if "x \<in> set (rows s)" for x
      using r that adm good_changed_row [of x ?td] by (auto simp: rows_ok_def)
    then have "\<forall>y\<in>set (edit_rows row_key (changed_row ?td) (JStr (editId ?m)) (rows s)). good_row y"
      unfolding edit_rows_def set_map by blast
    then show ?thesis using r dns_table.edit_keys [OF adm, of "rows s"] by (simp add: rows_ok_def)
  qed
  moreover have "rows_ok (rows s @ [new_row now (mtype ?m) (mdraft ?m)])" if "editId ?m = []"
    using m r that good_new_row [of "mdraft ?m" now "mtype ?m"] assms(2) by (auto simp: rows_ok_def modal_ok_def)
  moreover have "modal_ok (?m\<lparr>merror := x\<rparr>)" for x using m by (simp add: modal_ok_def)
  ultimately show ?thesis using r closed by (simp add: submitDnsRuleModal_def Let_def page_ok_def)
qed

lemma dns_step_ok:
  assumes "dns_step s s'" "page_ok s"
  shows "page_ok s'"
  using assms
proof cases
  case (reload raw)
  then show ?thesis using assms(2) dns_rows_keys by (simp add: page_ok_def parseDnsmasqConfigToDraft_def)
next
  case open_new
  then show ?thesis using assms(2) draft_by_type_keys
    by (simp add: page_ok_def modal_ok_def openDnsRuleModal_def)
next
  case (open_row r)
  then have "good_row r" using assms(2) by (simp add: page_ok_def rows_ok_def)
  then show ?thesis using open_row assms(2)
    by (auto simp: page_ok_def modal_ok_def openDnsRuleModal_def own_props_def good_row_def jprop_def)
next
  case (choose_type t)
  then show ?thesis using assms(2) draft_by_type_keys by (simp add: page_ok_def modal_ok_def)
next
  case (type_text k v)
  then show ?thesis using assms(2) by (auto simp: page_ok_def modal_ok_def DNS_INPUTS_def alist_laws)
next
  case close
  then show ?thesis using assms(2) by (simp add: page_ok_def modal_ok_def closed_dns_modal_def)
next
  case (submit now)
  then show ?thesis using assms(2) submit_ok by simp
next
  case (delete k)
  then show ?thesis using assms(2) by (auto simp: page_ok_def rows_ok_def distinct_map inj_on_def)
next
  case (drag d t after)
  then show ?thesis using assms(2) rows_ok_reorder by (simp add: page_ok_def)
qed

lemma dns_reachable_ok: "dns_step\<^sup>*\<^sup>* s s' \<Longrightarrow> page_ok s \<Longrightarrow> page_ok s'"
  by (induction rule: rtranclp_induct) (auto intro: dns_step_ok)

lemma required_line:
  assumes "requiredOk t d" and "distinct (map fst d)" "\<not> obj_has d ''type''"
  shows "\<exists>l. dns_line (new_row now t d) = [l]"
proof -
  define r where "r = new_row now t d"
  have ty: "dtype r = t"
    using assms draft_by_type_keys [of t] by (simp add: r_def dtype_def new_row_def jprop_def get_spread distinct_spread obj_get_Cons)
  have "obj_get d k \<noteq> JUndef \<Longrightarrow> dfield r k = draft_text d k" for k
    using assms(2) alist.get_absent [of d k] by (auto simp: r_def dfield_def draft_text_def new_row_def jprop_def get_spread)
  then have v: "draft_text d k \<noteq> [] \<Longrightarrow> dfield r k = draft_text d k" for k
    by (cases "obj_get d k = JUndef") (auto simp: draft_text_def)
  have "\<exists>l. dns_line r = [l]"
    using assms(1) ty v [of "''domain''"] v [of "''targetDns''"] v [of "''cacheSize''"] v [of "''ip''"] v [of "''path''"]
      v [of "''iface''"]
    unfolding requiredOk_def by (elim disjE) (simp_all add: dns_line_def Let_def)
  then show ?thesis by (simp add: r_def)
qed

text \<open>C27: Whatever the user does on the DNS page, its rows keep distinct identifiers, so every row can be edited, deleted
  and dragged on its own; and a new rule that the dialog accepts adds exactly one line at the end of
  the configuration.\<close>

theorem dns_editor_invariant:
  assumes "dns_step\<^sup>*\<^sup>* empty_dns_page s"
  shows "distinct (map row_key (rows s))
    \<and> (\<not> requiredOk (mtype (modal s)) (mdraft (modal s)) \<and> rows (submitDnsRuleModal now s) = rows s
       \<or> editId (modal s) \<noteq> [] \<and> map row_key (rows (submitDnsRuleModal now s)) = map row_key (rows s)
       \<or> (\<exists>l. concat (map dns_line (rows (submitDnsRuleModal now s))) = concat (map dns_line (rows s)) @ [l]))"
proof -
  have "page_ok s" using dns_reachable_ok [OF assms]
    by (simp add: page_ok_def rows_ok_def modal_ok_def empty_dns_page_def closed_dns_modal_def)
  then have m: "modal_ok (modal s)" and r: "rows_ok (rows s)" by (simp_all add: page_ok_def)
  have "dns_adm (JStr (editId (modal s))) (mtype (modal s), mdraft (modal s))" if "editId (modal s) \<noteq> []"
    using m that by (auto simp: modal_ok_def dns_adm_def)
  then have "map row_key (rows (submitDnsRuleModal now s)) = map row_key (rows s)" if "editId (modal s) \<noteq> []"
    using that dns_table.edit_keys by (simp add: submitDnsRuleModal_def Let_def)
  moreover have "\<exists>l. concat (map dns_line (rows (submitDnsRuleModal now s))) = concat (map dns_line (rows s)) @ [l]"
    if "requiredOk (mtype (modal s)) (mdraft (modal s))" "editId (modal s) = []"
    using required_line [OF that(1)] m that by (auto simp: modal_ok_def submitDnsRuleModal_def Let_def)
  moreover have "rows (submitDnsRuleModal now s) = rows s" if "\<not> requiredOk (mtype (modal s)) (mdraft (modal s))"
    using that by (simp add: submitDnsRuleModal_def Let_def)
  ultimately show ?thesis using r by (auto simp: rows_ok_def)
qed

theorem dns_editor_invariant_witness:
  "distinct (map row_key (rows (empty_dns_page\<lparr>rows := parseDnsmasqConfigToDraft (JStr ''server=9.9.9.9'')\<rparr>)))"
  by (rule dns_editor_invariant [THEN conjunct1]) (rule r_into_rtranclp, rule reload)

end
