(* ===== verification/Drafts.thy ===== *)
theory Drafts
  imports Actions Tables
begin

section \<open>Drafts beside polled data\<close>

text \<open>
  The panel polls its entities every few seconds while the user edits drafts made from them. This theory
  models the effects that fill the drafts of the user page (firewall rules and mode, CCD, profile) and of the
  organization page (card, firewall rules and mode) from the polled lists, and the interface that the
  guarded ones of them implement: hydrate once, then leave the draft to the user.
\<close>

subsection \<open>The interface\<close>

datatype ('d, 'c) draft_event = Poll 'd | Edit "'c \<Rightarrow> 'c"

text \<open>
  \<open>hydrate sel d s\<close> is the effect for the selected entity and freshly polled data; \<open>hydrated\<close> says for
  which entity the draft was filled; \<open>upd f\<close> is an edit of the draft.
\<close>

fun draft_step :: "(string \<Rightarrow> 'd \<Rightarrow> 's \<Rightarrow> 's) \<Rightarrow> (('c \<Rightarrow> 'c) \<Rightarrow> 's \<Rightarrow> 's) \<Rightarrow> string \<Rightarrow> 's \<Rightarrow> ('d, 'c) draft_event \<Rightarrow> 's" where
  "draft_step hydrate upd sel s (Poll d) = hydrate sel d s"
| "draft_step hydrate upd sel s (Edit f) = upd f s"

fun edit_only :: "'c \<Rightarrow> ('d, 'c) draft_event \<Rightarrow> 'c" where
  "edit_only c (Poll d) = c"
| "edit_only c (Edit f) = f c"

locale hydrate_once =
  fixes hydrate :: "string \<Rightarrow> 'd \<Rightarrow> 's \<Rightarrow> 's"
    and hydrated :: "'s \<Rightarrow> string option"
    and draft :: "'s \<Rightarrow> 'c"
    and upd :: "('c \<Rightarrow> 'c) \<Rightarrow> 's \<Rightarrow> 's"
  assumes keep: "sel \<noteq> [] \<Longrightarrow> hydrated s = Some sel \<Longrightarrow>
      draft (hydrate sel d s) = draft s \<and> hydrated (hydrate sel d s) = hydrated s"
    and upd_draft: "draft (upd f s) = f (draft s)"
    and upd_hydrated: "hydrated (upd f s) = hydrated s"
begin

lemma polls_invisible:
  assumes "sel \<noteq> []" and "hydrated s = Some sel"
  shows "draft (foldl (draft_step hydrate upd sel) s evs) = foldl edit_only (draft s) evs"
  using assms(2)
proof (induction evs arbitrary: s)
  case (Cons e evs)
  then show ?case
    by (cases e) (simp_all add: keep [OF assms(1)] upd_draft upd_hydrated)
qed simp

end

subsection \<open>The user page\<close>

definition find_entity :: "jsval list \<Rightarrow> string \<Rightarrow> jsval option" where
  "find_entity xs i = find (\<lambda>u. jprop u ''id'' = JStr i) xs"

definition firewall_mode :: "jsval \<Rightarrow> string" where
  "firewall_mode v = (if js_lower (str_or v) = ''replace'' then ''replace'' else ''merge'')"

record ccd_draft =
  ifconfigPushLocal :: string
  ifconfigPushRemote :: string
  pushRoutes :: string
  iroutes :: string
  dnsServers :: string
  customDirectives :: string

record profile_draft =
  fullName :: string
  position :: string
  email :: string
  phone :: string
  organizationId :: string
  pnotes :: string

record fw_draft =
  mode :: string
  rules :: "jsval list"
  natRules :: "jsval list"

record user_page =
  firewallFor :: "string option"
  firewall :: fw_draft
  ccdFor :: "string option"
  ccd :: ccd_draft
  ccdResult :: uitext
  profile :: profile_draft

definition empty_fw :: fw_draft where
  "empty_fw = \<lparr>mode = ''merge'', rules = [], natRules = []\<rparr>"

text \<open>The three shapes in which rules are stored: nothing, a bare list, an object with a mode.\<close>

definition stored_firewall :: "jsval \<Rightarrow> fw_draft" where
  "stored_firewall raw = (case raw of
       JArr xs \<Rightarrow> \<lparr>mode = ''merge'', rules = xs, natRules = []\<rparr>
     | JObj ob \<Rightarrow> \<lparr>mode = firewall_mode (jprop raw ''mode''), rules = array_or_empty (jprop raw ''rules''),
                  natRules = array_or_empty (jprop raw ''natRules'')\<rparr>
     | _ \<Rightarrow> empty_fw)"

definition hydrate_user_firewall :: "string \<Rightarrow> jsval list \<Rightarrow> user_page \<Rightarrow> user_page" where
  "hydrate_user_firewall sel users s =
     (if sel = [] then s\<lparr>firewallFor := None, firewall := empty_fw\<rparr>
      else (case find_entity users sel of None \<Rightarrow> s
        | Some u \<Rightarrow> if firewallFor s = Some sel then s
            else s\<lparr>firewallFor := Some sel, firewall := stored_firewall (jprop u ''firewallRules'')\<rparr>))"

definition empty_ccd :: ccd_draft where
  "empty_ccd = \<lparr>ifconfigPushLocal = [], ifconfigPushRemote = [], pushRoutes = [], iroutes = [], dnsServers = [],
     customDirectives = []\<rparr>"

definition stored_ccd :: "jsval \<Rightarrow> ccd_draft" where
  "stored_ccd v = (let c = (case v of JObj ob \<Rightarrow> v | _ \<Rightarrow> JObj []); t = (\<lambda>k. str_or (jprop c k)) in
     \<lparr>ifconfigPushLocal = t ''ifconfigPushLocal'', ifconfigPushRemote = t ''ifconfigPushRemote'', pushRoutes = t ''pushRoutes'',
      iroutes = t ''iroutes'', dnsServers = t ''dnsServers'', customDirectives = t ''customDirectives''\<rparr>)"

definition hydrate_user_ccd :: "string \<Rightarrow> jsval list \<Rightarrow> user_page \<Rightarrow> user_page" where
  "hydrate_user_ccd sel users s =
     (if sel = [] then s\<lparr>ccdFor := None, ccd := empty_ccd, ccdResult := NoText\<rparr>
      else (case find_entity users sel of None \<Rightarrow> s
        | Some u \<Rightarrow> if ccdFor s = Some sel then s
            else s\<lparr>ccdFor := Some sel, ccd := stored_ccd (jprop u ''ccdSettings''), ccdResult := NoText\<rparr>))"

text \<open>\<^verbatim>\<open>u.fullName || ""\<close> and so on: the interface fields are texts.\<close>

definition stored_profile :: "jsval \<Rightarrow> profile_draft" where
  "stored_profile u = (let t = (\<lambda>k. str_or (jprop u k)) in
     \<lparr>fullName = t ''fullName'', position = t ''position'', email = t ''email'', phone = t ''phone'',
      organizationId = t ''organizationId'', pnotes = t ''notes''\<rparr>)"

definition hydrate_user_profile :: "string \<Rightarrow> jsval list \<Rightarrow> user_page \<Rightarrow> user_page" where
  "hydrate_user_profile sel users s =
     (if sel = [] then s
      else (case find_entity users sel of None \<Rightarrow> s | Some u \<Rightarrow> s\<lparr>profile := stored_profile u\<rparr>))"

text \<open>All three effects depend on the selected user and the list of users and run in the order of the source.\<close>

definition user_effects :: "string \<Rightarrow> jsval list \<Rightarrow> user_page \<Rightarrow> user_page" where
  "user_effects sel users s =
     hydrate_user_profile sel users (hydrate_user_ccd sel users (hydrate_user_firewall sel users s))"

subsection \<open>The organization page\<close>

record org_card =
  ocId :: jsval
  ocName :: string
  ocInn :: string
  ocLegalAddress :: string
  ocGeneralDirector :: string
  ocPhone :: string
  ocEmail :: string

record org_page =
  orgFirewallFor :: "string option"
  orgFirewall :: fw_draft
  orgCard :: org_card

definition stored_card :: "jsval \<Rightarrow> org_card" where
  "stored_card org = (let t = (\<lambda>k. str_or (jprop org k)) in
     \<lparr>ocId = jprop org ''id'', ocName = t ''name'', ocInn = t ''inn'', ocLegalAddress = t ''legalAddress'',
      ocGeneralDirector = t ''generalDirector'', ocPhone = t ''phone'', ocEmail = t ''email''\<rparr>)"

text \<open>A stored value that is neither a list nor an object leaves the rules as they are.\<close>

definition org_firewall_from :: "jsval \<Rightarrow> fw_draft \<Rightarrow> fw_draft" where
  "org_firewall_from raw old = (case raw of
       JUndef \<Rightarrow> empty_fw
     | JNull \<Rightarrow> empty_fw
     | JArr xs \<Rightarrow> stored_firewall raw
     | JObj ob \<Rightarrow> stored_firewall raw
     | _ \<Rightarrow> old)"

text \<open>\<open>sel\<close> is the edited organization, or empty when the page shown is not the edit page.\<close>

definition org_effect :: "string \<Rightarrow> jsval list \<Rightarrow> org_page \<Rightarrow> org_page" where
  "org_effect sel orgs s =
     (if sel = [] then s\<lparr>orgFirewallFor := None\<rparr>
      else (case find_entity orgs sel of None \<Rightarrow> s
        | Some org \<Rightarrow>
            let s1 = s\<lparr>orgCard := stored_card org\<rparr> in
            if orgFirewallFor s = Some sel then s1
            else s1\<lparr>orgFirewallFor := Some sel, orgFirewall := org_firewall_from (jprop org ''firewallRules'') (orgFirewall s)\<rparr>))"

subsection \<open>Edits survive polling\<close>

lemmas user_effect_defs = user_effects_def hydrate_user_profile_def hydrate_user_ccd_def hydrate_user_firewall_def

interpretation user_fw: hydrate_once user_effects firewallFor firewall "\<lambda>f s. s\<lparr>firewall := f (firewall s)\<rparr>"
  by unfold_locales (simp_all add: user_effect_defs split: option.split)

interpretation user_ccd: hydrate_once user_effects ccdFor ccd "\<lambda>f s. s\<lparr>ccd := f (ccd s)\<rparr>"
  by unfold_locales (simp_all add: user_effect_defs split: option.split)

interpretation org_fw: hydrate_once org_effect orgFirewallFor orgFirewall "\<lambda>f s. s\<lparr>orgFirewall := f (orgFirewall s)\<rparr>"
  by unfold_locales (simp_all add: org_effect_def Let_def split: option.split)

text \<open>Polling never disturbs the rules being edited: once the drafts of a user or an organization were filled, any
  interleaving of polls (with whatever data) and edits leaves the firewall draft, the CCD draft and the
  organization's firewall draft exactly as the edits alone would have.\<close>

theorem polling_keeps_rule_edits:
  assumes "sel \<noteq> []" and "firewallFor s = Some sel" and "ccdFor s = Some sel" and "orgFirewallFor g = Some sel"
  shows "firewall (foldl (draft_step user_effects (\<lambda>f s. s\<lparr>firewall := f (firewall s)\<rparr>) sel) s fw_evs)
      = foldl edit_only (firewall s) fw_evs
    \<and> ccd (foldl (draft_step user_effects (\<lambda>f s. s\<lparr>ccd := f (ccd s)\<rparr>) sel) s ccd_evs) = foldl edit_only (ccd s) ccd_evs
    \<and> orgFirewall (foldl (draft_step org_effect (\<lambda>f s. s\<lparr>orgFirewall := f (orgFirewall s)\<rparr>) sel) g org_evs)
      = foldl edit_only (orgFirewall g) org_evs"
  using user_fw.polls_invisible [OF assms(1,2)] user_ccd.polls_invisible [OF assms(1,3)] org_fw.polls_invisible [OF assms(1,4)]
  by simp

definition blank_user_page :: user_page where
  "blank_user_page = \<lparr>firewallFor = None, firewall = empty_fw, ccdFor = None, ccd = empty_ccd, ccdResult = NoText,
     profile = stored_profile JUndef\<rparr>"

definition blank_org_page :: org_page where
  "blank_org_page = \<lparr>orgFirewallFor = None, orgFirewall = empty_fw, orgCard = stored_card JUndef\<rparr>"

definition ann :: jsval where
  "ann = JObj [(''id'', JStr ''u1''), (''fullName'', JStr ''Ann''), (''firewallRules'', JArr [JStr ''r''])]"

theorem polling_keeps_rule_edits_witness:
  "firewall (foldl (draft_step user_effects (\<lambda>f s. s\<lparr>firewall := f (firewall s)\<rparr>) ''u1'') (user_effects ''u1'' [ann] blank_user_page)
      [Edit (\<lambda>c. c\<lparr>rules := []\<rparr>), Poll [ann]])
   = foldl edit_only (firewall (user_effects ''u1'' [ann] blank_user_page)) [Edit (\<lambda>c. c\<lparr>rules := []\<rparr>), Poll [ann]]"
  by (rule polling_keeps_rule_edits [of "''u1''" _ "org_effect ''u1'' [ann] blank_org_page", THEN conjunct1])
     (simp_all add: user_effect_defs org_effect_def Let_def find_entity_def ann_def jprop_def obj_get_def blank_user_page_def blank_org_page_def)

text \<open>Selecting another known user fills the firewall and CCD drafts from that user alone: nothing of the previous
  user's drafts remains, and the same holds for the rules of an organization stored as a list or an object.\<close>

theorem selection_replaces_drafts:
  assumes "sel \<noteq> []" and "find_entity users sel = Some u" and "firewallFor s \<noteq> Some sel" and "ccdFor s \<noteq> Some sel"
  shows "firewall (user_effects sel users s) = stored_firewall (jprop u ''firewallRules'')
    \<and> ccd (user_effects sel users s) = stored_ccd (jprop u ''ccdSettings'')
    \<and> firewallFor (user_effects sel users s) = Some sel \<and> ccdFor (user_effects sel users s) = Some sel
    \<and> mode (firewall (user_effects sel users s)) \<in> {''merge'', ''replace''}"
  using assms by (simp add: user_effect_defs stored_firewall_def firewall_mode_def empty_fw_def split: jsval.split)

theorem selection_replaces_drafts_witness:
  "firewall (user_effects ''u1'' [ann] blank_user_page) = stored_firewall (jprop ann ''firewallRules'')"
  by (rule selection_replaces_drafts [of "''u1''" "[ann]" ann blank_user_page, THEN conjunct1])
     (simp_all add: find_entity_def ann_def jprop_def obj_get_def blank_user_page_def)

text \<open>The profile form and the organization card have no such guard: whatever was typed into them, the next poll
  that has the user or the organization puts the stored values back.\<close>

theorem profile_edits_overwritten:
  assumes "sel \<noteq> []" and "find_entity users sel = Some u" and "find_entity orgs sel = Some g"
  shows "profile (user_effects sel users (s\<lparr>profile := typed\<rparr>)) = stored_profile u
    \<and> orgCard (org_effect sel orgs (p\<lparr>orgCard := typedCard\<rparr>)) = stored_card g"
  using assms by (simp add: user_effect_defs org_effect_def Let_def split: option.split)

theorem profile_edits_overwritten_witness:
  "fullName (profile (user_effects ''u1'' [ann] (blank_user_page\<lparr>profile := (stored_profile ann)\<lparr>fullName := ''Anna''\<rparr>\<rparr>))) = ''Ann''"
  using profile_edits_overwritten [where sel = "''u1''" and users = "[ann]" and u = ann and orgs = "[ann]" and g = ann and s = blank_user_page
      and typed = "(stored_profile ann)\<lparr>fullName := ''Anna''\<rparr>" and p = blank_org_page and typedCard = "stored_card ann"]
  by (simp add: find_entity_def ann_def jprop_def obj_get_def stored_profile_def Let_def)

end
