(* ===== verification/Effects.thy ===== *)
theory Effects
  imports Actions Routes
begin

section \<open>Effects that load data\<close>

text \<open>
  The loading effects of \<^verbatim>\<open>App.tsx\<close> have one form: \<^verbatim>\<open>useEffect(() => { guards; let cancelled = false; request;
  if (cancelled) return; store; return () => { cancelled = true } }, [deps])\<close>. React runs such an effect after a
  render whose dependencies differ from those of its last run, and calls the cleanup of that last run first. An effect
  is modelled by three functions on the environment \<open>'e\<close> it reads (the route, the token, \<dots>) and the state \<open>'s\<close> it writes:

  \<^item> \<open>deps e\<close>, its dependency array;
  \<^item> \<open>start e s\<close>, the part before the first \<^verbatim>\<open>await\<close>: the new state, the calls sent at once and the calls its timer sends
    at every tick (both empty where a guard returns, the latter where there is no timer);
  \<^item> \<open>settle e cancelled a s\<close>, the part after the answer \<open>a\<close>.
\<close>

subsection \<open>What the effects of the pages read\<close>

text \<open>The route and the token; \<^verbatim>\<open>tokenRef.current\<close> is the token when effects run.\<close>

type_synonym page_env = "route \<times> string"

definition on_server_tab :: "string list \<Rightarrow> page_env \<Rightarrow> bool" where
  "on_server_tab tabs e = (primaryNav (fst e) = ''servers'' \<and> serversView (fst e) = ''detail'' \<and> serverDetailTab (fst e) \<in> set tabs
     \<and> selectedServerId (fst e) \<noteq> [])"

definition server_deps :: "page_env \<Rightarrow> string \<times> string \<times> string \<times> string \<times> bool" where
  "server_deps e = (primaryNav (fst e), serversView (fst e), serverDetailTab (fst e), selectedServerId (fst e), snd e \<noteq> [])"

subsection \<open>Runs of an effect\<close>

text \<open>
  A request under way is its number, the number of the run that sent it and the environment that run has captured.
  \<open>srv n\<close> is the answer the panel gives to request \<open>n\<close>; it arrives at any time, in any order.
\<close>

record ('e, 'd, 's) effect_sys =
  last_deps :: "'d option"
  run :: nat
  timer :: "('e \<times> call list) option"
  req_count :: nat
  awaited :: "(nat \<times> nat \<times> 'e) list"
  sent :: "call list"
  view :: 's

datatype 'e effect_event = Render 'e | Timer | Arrive nat

definition send :: "'e \<Rightarrow> call list \<Rightarrow> ('e, 'd, 's) effect_sys \<Rightarrow> ('e, 'd, 's) effect_sys" where
  "send e calls y =
     (if calls = [] then y
      else y\<lparr>awaited := awaited y @ [(req_count y, run y, e)], req_count := Suc (req_count y), sent := sent y @ calls\<rparr>)"

fun effect_step ::
  "('e \<Rightarrow> 'd) \<Rightarrow> ('e \<Rightarrow> 's \<Rightarrow> 's \<times> call list \<times> call list) \<Rightarrow> ('e \<Rightarrow> bool \<Rightarrow> req_error + 'r \<Rightarrow> 's \<Rightarrow> 's)
   \<Rightarrow> (nat \<Rightarrow> req_error + 'r) \<Rightarrow> ('e, 'd, 's) effect_sys \<Rightarrow> 'e effect_event \<Rightarrow> ('e, 'd, 's) effect_sys" where
  "effect_step deps start settle srv y (Render e) =
     (if last_deps y = Some (deps e) then y
      else case start e (view y) of (s, now, later) \<Rightarrow>
        send e now (y\<lparr>last_deps := Some (deps e), run := Suc (run y),
                     timer := (if later = [] then None else Some (e, later)), view := s\<rparr>))"
| "effect_step deps start settle srv y Timer =
     (case timer y of None \<Rightarrow> y | Some (e, later) \<Rightarrow> send e later y)"
| "effect_step deps start settle srv y (Arrive i) =
     (if length (awaited y) \<le> i then y
      else case awaited y ! i of (n, g, e) \<Rightarrow>
        y\<lparr>awaited := take i (awaited y) @ drop (Suc i) (awaited y), view := settle e (g \<noteq> run y) (srv n) (view y)\<rparr>)"

definition fresh_effect :: "'s \<Rightarrow> ('e, 'd, 's) effect_sys" where
  "fresh_effect s = \<lparr>last_deps = None, run = 0, timer = None, req_count = 0, awaited = [], sent = [], view = s\<rparr>"

text \<open>The requests of the run that is not cancelled.\<close>

definition live :: "('e, 'd, 's) effect_sys \<Rightarrow> (nat \<times> nat \<times> 'e) list" where
  "live y = filter (\<lambda>(n, g, e). g = run y) (awaited y)"

definition runs_ok :: "('e, 'd, 's) effect_sys \<Rightarrow> bool" where
  "runs_ok y = list_all (\<lambda>(n, g, e). g \<le> run y) (awaited y)"

fun arrives :: "'e effect_event \<Rightarrow> bool" where
  "arrives (Arrive i) = True"
| "arrives _ = False"

lemma runs_ok_step: "runs_ok y \<Longrightarrow> runs_ok (effect_step deps start settle srv y v)"
  by (cases v) (auto simp: runs_ok_def send_def list_all_iff split: option.split prod.split dest!: in_set_takeD in_set_dropD)

lemma runs_ok_steps: "runs_ok y \<Longrightarrow> runs_ok (foldl (effect_step deps start settle srv) y evs)"
  by (induction evs arbitrary: y) (simp_all add: runs_ok_step)

text \<open>A new run starts with no request of its own but the one it sends.\<close>

lemma live_render:
  assumes "runs_ok y" and "last_deps y \<noteq> Some (deps e)" and "start e (view y) = (s, now, later)"
  shows "live (effect_step deps start settle srv y (Render e)) = (if now = [] then [] else [(req_count y, Suc (run y), e)])
    \<and> run (effect_step deps start settle srv y (Render e)) = Suc (run y) \<and> view (effect_step deps start settle srv y (Render e)) = s"
proof -
  have "filter (\<lambda>(n, g, e). g = Suc (run y)) (awaited y) = []"
    using assms(1) by (fastforce simp: filter_empty_conv runs_ok_def list_all_iff)
  then show ?thesis using assms by (simp add: live_def send_def)
qed

subsection \<open>The interface\<close>

text \<open>
  What a loading effect promises: a cancelled run writes nothing, and what a successful answer shows depends on the
  environment of its run and on the answer alone.
\<close>

locale loading_effect =
  fixes deps :: "'e \<Rightarrow> 'd"
    and start :: "'e \<Rightarrow> 's \<Rightarrow> 's \<times> call list \<times> call list"
    and settle :: "'e \<Rightarrow> bool \<Rightarrow> req_error + 'r \<Rightarrow> 's \<Rightarrow> 's"
    and data :: "'s \<Rightarrow> 'v"
    and present :: "'e \<Rightarrow> 'r \<Rightarrow> 'v"
  assumes cancelled: "settle e True a s = s"
    and arrived: "data (settle e False (Inr r) s) = present e r"
begin

lemma arrive_split:
  assumes "i < length (awaited y)" and "awaited y ! i = (n, g, e)"
  shows "live y = filter (\<lambda>(n, g, e). g = run y) (take i (awaited y)) @ (if g = run y then [(n, g, e)] else [])
           @ filter (\<lambda>(n, g, e). g = run y) (drop (Suc i) (awaited y))"
    and "live (effect_step deps start settle srv y (Arrive i))
       = filter (\<lambda>(n, g, e). g = run y) (take i (awaited y)) @ filter (\<lambda>(n, g, e). g = run y) (drop (Suc i) (awaited y))"
    and "run (effect_step deps start settle srv y (Arrive i)) = run y"
    and "view (effect_step deps start settle srv y (Arrive i)) = settle e (g \<noteq> run y) (srv n) (view y)"
proof -
  have "awaited y = take i (awaited y) @ (n, g, e) # drop (Suc i) (awaited y)"
    using id_take_nth_drop [OF assms(1)] assms(2) by simp
  then have "live y = filter (\<lambda>(n, g, e). g = run y) (take i (awaited y) @ (n, g, e) # drop (Suc i) (awaited y))"
    by (simp add: live_def)
  then show "live y = filter (\<lambda>(n, g, e). g = run y) (take i (awaited y)) @ (if g = run y then [(n, g, e)] else [])
           @ filter (\<lambda>(n, g, e). g = run y) (drop (Suc i) (awaited y))" by simp
qed (use assms in \<open>simp_all add: live_def\<close>)

text \<open>One answer for a page that waits for one request or for none.\<close>

lemma arrive_none:
  assumes "live y = []"
  shows "live (effect_step deps start settle srv y (Arrive i)) = [] \<and> run (effect_step deps start settle srv y (Arrive i)) = run y
    \<and> view (effect_step deps start settle srv y (Arrive i)) = view y"
proof (cases "i < length (awaited y)")
  case True
  obtain n g e where p: "awaited y ! i = (n, g, e)" by (cases "awaited y ! i") auto
  show ?thesis using arrive_split [OF True p] assms by (auto simp: cancelled split: if_splits)
qed (simp add: assms not_less)

lemma arrive_one:
  assumes "live y = [(n, run y, e)]"
  shows "live (effect_step deps start settle srv y (Arrive i)) = live y \<and> run (effect_step deps start settle srv y (Arrive i)) = run y
      \<and> view (effect_step deps start settle srv y (Arrive i)) = view y
    \<or> live (effect_step deps start settle srv y (Arrive i)) = [] \<and> run (effect_step deps start settle srv y (Arrive i)) = run y
      \<and> view (effect_step deps start settle srv y (Arrive i)) = settle e False (srv n) (view y)"
proof (cases "i < length (awaited y)")
  case True
  obtain n' g e' where p: "awaited y ! i = (n', g, e')" by (cases "awaited y ! i") auto
  show ?thesis
  proof (cases "g = run y")
    case True
    then show ?thesis using arrive_split [OF \<open>i < length (awaited y)\<close> p] assms
      by (auto simp: append_eq_Cons_conv Cons_eq_append_conv)
  next
    case False
    then show ?thesis using arrive_split [OF \<open>i < length (awaited y)\<close> p] by (simp add: cancelled)
  qed
qed (simp add: not_less)

lemma answers_none:
  assumes "live y = []" and "list_all arrives evs"
  shows "live (foldl (effect_step deps start settle srv) y evs) = [] \<and> view (foldl (effect_step deps start settle srv) y evs) = view y"
  using assms
proof (induction evs arbitrary: y)
  case (Cons v evs)
  then obtain i where "v = Arrive i" by (cases v) auto
  then show ?case using arrive_none [OF Cons.prems(1), of srv i] Cons by simp
qed simp

lemma answers_one:
  assumes "live y = [(n, run y, e)]" and "list_all arrives evs"
  shows "live (foldl (effect_step deps start settle srv) y evs) \<noteq> [] \<and> view (foldl (effect_step deps start settle srv) y evs) = view y
    \<or> live (foldl (effect_step deps start settle srv) y evs) = []
      \<and> view (foldl (effect_step deps start settle srv) y evs) = settle e False (srv n) (view y)"
  using assms
proof (induction evs arbitrary: y)
  case (Cons v evs)
  then obtain i where v: "v = Arrive i" and evs: "list_all arrives evs" by (cases v) auto
  show ?case
    using arrive_one [OF Cons.prems(1), of srv i]
  proof
    assume a: "live (effect_step deps start settle srv y (Arrive i)) = live y \<and> run (effect_step deps start settle srv y (Arrive i)) = run y
      \<and> view (effect_step deps start settle srv y (Arrive i)) = view y"
    then show ?thesis using Cons.IH [of "effect_step deps start settle srv y (Arrive i)"] Cons.prems by (simp add: v)
  next
    assume a: "live (effect_step deps start settle srv y (Arrive i)) = [] \<and> run (effect_step deps start settle srv y (Arrive i)) = run y
      \<and> view (effect_step deps start settle srv y (Arrive i)) = settle e False (srv n) (view y)"
    then show ?thesis using answers_none [OF _ evs, of "effect_step deps start settle srv y (Arrive i)" srv] by (simp add: v)
  qed
qed simp

text \<open>
  The race: requests of earlier runs may be under way when the page turns to the environment \<open>e\<close>. Whichever answers
  arrive and in whatever order, as soon as no request of this run is open, the page shows the answer to its request.
\<close>

lemma race:
  assumes "runs_ok y" and "last_deps y \<noteq> Some (deps e)" and "start e (view y) = (s, c # cs, later)" and "srv (req_count y) = Inr r"
    and "list_all arrives evs"
  defines "z \<equiv> foldl (effect_step deps start settle srv) y (Render e # evs)"
  shows "(live z \<noteq> [] \<and> view z = s) \<or> (live z = [] \<and> data (view z) = present e r)"
proof -
  note r = live_render [of y deps e start s "c # cs" later settle srv, OF assms(1-3)]
  have "live (effect_step deps start settle srv y (Render e)) = [(req_count y, run (effect_step deps start settle srv y (Render e)), e)]"
    using r by simp
  from answers_one [OF this assms(5), of srv] show ?thesis
    using r assms(4) by (auto simp: z_def arrived)
qed

text \<open>A page that was left for one that loads nothing is not written any more.\<close>

lemma left_page:
  assumes "runs_ok y" and "last_deps y \<noteq> Some (deps e)" and "start e (view y) = (s, [], later)" and "list_all arrives evs"
  shows "view (foldl (effect_step deps start settle srv) y (Render e # evs)) = s"
  using answers_none [OF _ assms(4), of "effect_step deps start settle srv y (Render e)" srv] live_render [of y deps e start s "[]" later settle srv, OF assms(1-3)] by simp

end

end
