(* ===== verification/Firewall.thy ===== *)
theory Firewall
  imports Drafts Effects
begin

section \<open>Firewall rules of servers, organizations and users\<close>

text \<open>
  The six rule tables of the panel (filter and NAT rules of a server's tunnel, of an organization and
  of a user), the dialog that edits a rule, loading and applying them, and the effective policy
  that is shown.
\<close>

subsection \<open>State\<close>

record rule_draft =
  raction :: string
  rproto :: string
  rdestination :: string
  rports :: string
  rnote :: string
  rtype :: string
  rsrc :: string
  rdst :: string
  routInterface :: string
  rtoAddress :: string

record rule_modal =
  mopen :: bool
  mscope :: string
  msection :: string
  mkind :: string
  meditId :: jsval
  mrule :: rule_draft
  merr :: uitext

record fw_sys =
  defaultPolicy :: string
  tunnelRules :: "jsval list"
  tunnelNatRules :: "jsval list"
  org :: fw_draft
  user :: fw_draft
  ruleModal :: rule_modal
  natOutMode :: string
  natToMode :: string
  fwLoading :: bool
  fwBusy :: bool
  userFwBusy :: bool
  orgFwBusy :: bool
  fwError :: uitext

subsection \<open>The rule dialog\<close>

definition blank_rule_draft :: rule_draft where
  "blank_rule_draft = \<lparr>raction = ''allow'', rproto = ''tcp'', rdestination = [], rports = [], rnote = [], rtype = ''masquerade'',
     rsrc = [], rdst = [], routInterface = [], rtoAddress = []\<rparr>"

definition closed_rule_modal :: rule_modal where
  "closed_rule_modal = \<lparr>mopen = False, mscope = ''server'', msection = ''tunnel'', mkind = ''filter'', meditId = JStr [],
     mrule = blank_rule_draft, merr = NoText\<rparr>"

text \<open>The rule is \<^verbatim>\<open>null\<close> (here \<open>JNull\<close>) for a new one.\<close>

definition openFirewallRuleModal :: "string \<Rightarrow> jsval \<Rightarrow> string \<Rightarrow> string \<Rightarrow> fw_sys \<Rightarrow> fw_sys" where
  "openFirewallRuleModal sc rule section kind s =
     (let t = (\<lambda>k. str_or (jprop rule k)); i = jprop rule ''id'' in
      s\<lparr>natOutMode := (if js_trim (t ''outInterface'') \<noteq> [] then ''preset'' else ''manual''),
        natToMode := (if js_trim (t ''toAddress'') \<noteq> [] then ''preset'' else ''manual''),
        ruleModal := \<lparr>mopen = True, mscope = sc, msection = section, mkind = kind,
          meditId = (if truthy i then i else JStr []),
          mrule = \<lparr>raction = js_or (t ''action'') ''allow'', rproto = js_or (t ''proto'') ''tcp'', rdestination = t ''destination'',
                   rports = t ''ports'', rnote = t ''note'', rtype = js_or (t ''type'') ''masquerade'', rsrc = t ''src'',
                   rdst = t ''dst'', routInterface = t ''outInterface'', rtoAddress = t ''toAddress''\<rparr>,
          merr = NoText\<rparr>\<rparr>)"

text \<open>The effect that switches an input to the preset list when the typed value is one of its entries.\<close>

definition nat_preset_effect :: "string list \<Rightarrow> string list \<Rightarrow> fw_sys \<Rightarrow> fw_sys" where
  "nat_preset_effect outOptions toOptions s =
     (let m = ruleModal s; outVal = js_trim (routInterface (mrule m)); toVal = js_trim (rtoAddress (mrule m)) in
      if \<not> mopen m \<or> mkind m \<noteq> ''nat'' then s
      else s\<lparr>natOutMode := (if outVal \<noteq> [] \<and> outVal \<in> set outOptions \<and> natOutMode s = ''manual'' then ''preset'' else natOutMode s),
             natToMode := (if toVal \<noteq> [] \<and> toVal \<in> set toOptions \<and> natToMode s = ''manual'' then ''preset'' else natToMode s)\<rparr>)"

definition next_rule :: "int \<Rightarrow> rule_modal \<Rightarrow> jsval" where
  "next_rule now m =
     (let d = mrule m; isNat = (mkind m = ''nat'');
          i = (if truthy (meditId m) then meditId m
               else JStr ((if isNat then ''nat-'' else ''rule-'') @ int_string now))
      in if isNat
         then JObj [(''id'', i), (''type'', JStr (js_or (rtype d) ''masquerade'')), (''src'', JStr (js_trim (rsrc d))),
                    (''dst'', JStr (js_trim (rdst d))), (''outInterface'', JStr (js_trim (routInterface d))),
                    (''toAddress'', JStr (js_trim (rtoAddress d))), (''note'', JStr (js_trim (rnote d)))]
         else JObj [(''id'', i), (''action'', JStr (js_or (raction d) ''allow'')), (''proto'', JStr (js_or (rproto d) ''tcp'')),
                    (''destination'', JStr (js_trim (rdestination d))), (''ports'', JStr (js_trim (rports d))),
                    (''note'', JStr (js_trim (rnote d)))])"

text \<open>\<^verbatim>\<open>exists ? prev.map(...) : [...prev, nextRule]\<close>\<close>

definition upsert_rule :: "jsval \<Rightarrow> jsval list \<Rightarrow> jsval list" where
  "upsert_rule n prev =
     (if list_ex (\<lambda>x. row_key x = row_key n) prev then edit_rows row_key (\<lambda>x. n) (row_key n) prev else prev @ [n])"

definition submitFirewallRuleModal :: "int \<Rightarrow> fw_sys \<Rightarrow> fw_sys" where
  "submitFirewallRuleModal now s =
     (let m = ruleModal s in
      if mkind m \<noteq> ''nat'' \<and> js_trim (rdestination (mrule m)) = []
      then s\<lparr>ruleModal := m\<lparr>merr := Ui ''give a destination (IP/CIDR)''\<rparr>\<rparr>
      else
        (let n = next_rule now m;
             s1 = (if mscope m = ''server'' then
                     (if mkind m = ''nat'' then s\<lparr>tunnelNatRules := upsert_rule n (tunnelNatRules s)\<rparr>
                      else s\<lparr>tunnelRules := upsert_rule n (tunnelRules s)\<rparr>)
                   else if mscope m = ''organization'' \<and> mkind m = ''nat'' then
                     s\<lparr>org := (org s)\<lparr>natRules := upsert_rule n (natRules (org s))\<rparr>\<rparr>
                   else if mscope m = ''organization'' then
                     s\<lparr>org := (org s)\<lparr>rules := upsert_rule n (rules (org s))\<rparr>\<rparr>
                   else if mkind m = ''nat'' then
                     s\<lparr>user := (user s)\<lparr>natRules := upsert_rule n (natRules (user s))\<rparr>\<rparr>
                   else s\<lparr>user := (user s)\<lparr>rules := upsert_rule n (rules (user s))\<rparr>\<rparr>)
         in s1\<lparr>ruleModal := closed_rule_modal\<rparr>))"

subsection \<open>Effective policy\<close>

definition tagged_rule :: "string \<Rightarrow> nat \<Rightarrow> string \<Rightarrow> jsval \<Rightarrow> jsval" where
  "tagged_rule sc order src r =
     JObj (obj_put (obj_put (obj_put (own_props r) ''scope'' (JStr sc)) ''order'' (JNum (num_of_int (int order)))) ''source'' (JStr src))"

definition tag_rules :: "string \<Rightarrow> nat \<Rightarrow> string \<Rightarrow> jsval list \<Rightarrow> jsval list" where
  "tag_rules sc first src rs = map (\<lambda>(i, r). tagged_rule sc (first + i) src r) (enumerate 0 rs)"

text \<open>The Russian default text is represented by an ASCII tag.\<close>

definition userFirewallSourceIp :: "ccd_draft \<Rightarrow> string" where
  "userFirewallSourceIp c = js_or (js_trim (ifconfigPushLocal c)) ''dynamic client IP''"

definition userFirewallEffectiveRules :: "jsval list \<Rightarrow> fw_draft \<Rightarrow> string \<Rightarrow> jsval list" where
  "userFirewallEffectiveRules base u src =
     (if mode u = ''replace'' then tag_rules ''override'' 0 src (rules u)
      else tag_rules ''base'' 0 ''VPN clients'' base @ tag_rules ''override'' (length base) src (rules u))"

definition policy_line :: "string \<Rightarrow> jsval \<Rightarrow> string" where
  "policy_line tag r = tag @ '' '' @ to_str (jprop r ''action'') @ '' '' @ to_str (jprop r ''proto'') @ '' '' @
     (if truthy (jprop r ''destination'') then to_str (jprop r ''destination'') else ''any'') @ '' '' @
     (if truthy (jprop r ''ports'') then to_str (jprop r ''ports'') else ''*'')"

definition policy_text :: "uitext \<Rightarrow> string list \<Rightarrow> uitext" where
  "policy_text hint lines = (if lines \<noteq> [] then Raw (js_join [LF] lines) else hint)"

definition openServerEffectivePolicyModal :: "fw_sys \<Rightarrow> uitext" where
  "openServerEffectivePolicyModal s =
     policy_text (Ui ''# no personal rules'') (map (policy_line ''[base]'') (tunnelRules s))"

definition openUserEffectivePolicyModal :: "string \<Rightarrow> fw_sys \<Rightarrow> uitext" where
  "openUserEffectivePolicyModal src s =
     policy_text (if mode (user s) = ''replace'' then Ui ''# replace: only the default policy of the tunnel'' else Ui ''# no personal rules'')
       (map (\<lambda>r. policy_line (if jprop r ''scope'' = JStr ''override'' then ''[override]'' else ''[base]'') r)
         (userFirewallEffectiveRules (tunnelRules s) (user s) src))"

definition openOrganizationEffectivePolicyModal :: "fw_sys \<Rightarrow> uitext" where
  "openOrganizationEffectivePolicyModal s =
     policy_text (Ui ''# no rules of the organization'') (map (policy_line ''[org]'') (rules (org s)))"

subsection \<open>Loading and applying\<close>

definition loadServerFirewall_start :: "string \<Rightarrow> string \<Rightarrow> fw_sys \<Rightarrow> (fw_sys \<times> call list) option" where
  "loadServerFirewall_start token nodeId s =
     (if nodeId = [] \<or> token = [] then None
      else Some (s\<lparr>fwLoading := True\<rparr>, [(''GET'', node_path nodeId ''/firewall'', JUndef)]))"

definition loadServerFirewall_settle :: "answer \<Rightarrow> fw_sys \<Rightarrow> fw_sys" where
  "loadServerFirewall_settle a s = (case a of
       Inr data \<Rightarrow>
         (let t = jprop data ''tunnel'' in
          s\<lparr>defaultPolicy := js_or (str_or (jprop t ''defaultPolicy'')) ''deny'', tunnelRules := array_or_empty (jprop t ''rules''),
            tunnelNatRules := array_or_empty (jprop t ''natRules''), fwLoading := False\<rparr>)
     | Inl e \<Rightarrow> s\<lparr>fwError := message_or e (Ui ''the firewall could not be loaded''), fwLoading := False\<rparr>)"

text \<open>
  The effect that loads the rules when the firewall tab of a server is opened. It has no cleanup: an answer is stored
  whether or not its page is still the one shown.
\<close>

definition firewall_effect_start :: "page_env \<Rightarrow> fw_sys \<Rightarrow> fw_sys \<times> call list \<times> call list" where
  "firewall_effect_start e s =
     (if on_server_tab [''firewall''] e
      then (case loadServerFirewall_start (snd e) (selectedServerId (fst e)) s of
              None \<Rightarrow> (s, [], []) | Some (s', calls) \<Rightarrow> (s', calls, []))
      else (s, [], []))"

definition firewall_effect_settle :: "page_env \<Rightarrow> bool \<Rightarrow> answer \<Rightarrow> fw_sys \<Rightarrow> fw_sys" where
  "firewall_effect_settle e cancelled a s = loadServerFirewall_settle a s"

definition firewall_effect_deps :: "page_env \<Rightarrow> string \<times> string \<times> string \<times> string" where
  "firewall_effect_deps e = (primaryNav (fst e), serversView (fst e), serverDetailTab (fst e), selectedServerId (fst e))"

definition applyServerFirewall_start :: "string \<Rightarrow> string \<Rightarrow> fw_sys \<Rightarrow> (fw_sys \<times> call list) option" where
  "applyServerFirewall_start token nodeId s =
     (if nodeId = [] \<or> token = [] then None
      else Some (s\<lparr>fwBusy := True\<rparr>, [(''POST'', node_path nodeId ''/firewall-apply'',
        JObj [(''tunnel'', JObj [(''defaultPolicy'', JStr (defaultPolicy s)), (''rules'', JArr (tunnelRules s)),
          (''natRules'', JArr (tunnelNatRules s))])])]))"

text \<open>The answer is merged with the values the handler was started with (its closure): \<open>s0\<close>.\<close>

definition applyServerFirewall_settle :: "fw_sys \<Rightarrow> answer \<Rightarrow> fw_sys \<Rightarrow> fw_sys" where
  "applyServerFirewall_settle s0 a s = (case a of
       Inr data \<Rightarrow>
         (let t = jprop data ''tunnel'' in
          s\<lparr>defaultPolicy := js_or (str_or (jprop t ''defaultPolicy'')) (defaultPolicy s0),
            tunnelRules := (case jprop t ''rules'' of JArr xs \<Rightarrow> xs | _ \<Rightarrow> tunnelRules s0),
            tunnelNatRules := (case jprop t ''natRules'' of JArr xs \<Rightarrow> xs | _ \<Rightarrow> tunnelNatRules s0), fwBusy := False\<rparr>)
     | Inl e \<Rightarrow> s\<lparr>fwError := message_or e (Ui ''the firewall could not be applied''), fwBusy := False\<rparr>)"

definition fw_body :: "fw_draft \<Rightarrow> jsval" where
  "fw_body d = JObj [(''mode'', JStr (mode d)), (''rules'', JArr (rules d)), (''natRules'', JArr (natRules d))]"

definition applyUserFirewall_start :: "string \<Rightarrow> string \<Rightarrow> fw_sys \<Rightarrow> (fw_sys \<times> call list) option" where
  "applyUserFirewall_start token userId s =
     (if userId = [] \<or> token = [] then None
      else Some (s\<lparr>userFwBusy := True\<rparr>,
        [(''POST'', ''/api/vpn-users/'' @ encodeURIComponent userId @ ''/firewall'', fw_body (user s))]))"

definition applyUserFirewall_settle :: "answer \<Rightarrow> fw_sys \<Rightarrow> fw_sys" where
  "applyUserFirewall_settle a s = (case a of
       Inr data \<Rightarrow> s\<lparr>user := (user s)\<lparr>rules := array_or_empty (jprop data ''rules''), natRules := array_or_empty (jprop data ''natRules'')\<rparr>,
                     userFwBusy := False\<rparr>
     | Inl e \<Rightarrow> s\<lparr>fwError := message_or e (Ui ''the rules of the user could not be saved''), userFwBusy := False\<rparr>)"

definition applyOrganizationFirewall_start :: "string \<Rightarrow> string \<Rightarrow> fw_sys \<Rightarrow> (fw_sys \<times> call list) option" where
  "applyOrganizationFirewall_start token orgId s =
     (if orgId = [] \<or> token = [] then None
      else Some (s\<lparr>orgFwBusy := True\<rparr>,
        [(''POST'', ''/api/organizations/'' @ encodeURIComponent orgId @ ''/firewall'', fw_body (org s))]))"

definition applyOrganizationFirewall_settle :: "answer \<Rightarrow> fw_sys \<Rightarrow> fw_sys" where
  "applyOrganizationFirewall_settle a s = (case a of
       Inr data \<Rightarrow> s\<lparr>org := \<lparr>mode = firewall_mode (jprop data ''mode''), rules = array_or_empty (jprop data ''rules''),
                            natRules = array_or_empty (jprop data ''natRules'')\<rparr>, orgFwBusy := False\<rparr>
     | Inl e \<Rightarrow> s\<lparr>fwError := message_or e (Ui ''the rules of the organization could not be saved''), orgFwBusy := False\<rparr>)"

text \<open>What the user edits in the six tables.\<close>

definition fw_data :: "fw_sys \<Rightarrow> string \<times> jsval list \<times> jsval list \<times> fw_draft \<times> fw_draft" where
  "fw_data s = (defaultPolicy s, tunnelRules s, tunnelNatRules s, org s, user s)"

interpretation fw_load: async_action "loadServerFirewall_start token nodeId" loadServerFirewall_settle fwLoading fw_data for token nodeId
  by unfold_locales (auto simp: loadServerFirewall_start_def loadServerFirewall_settle_def fw_data_def Let_def split: if_splits sum.splits)

interpretation fw_apply: async_action "applyServerFirewall_start token nodeId" "applyServerFirewall_settle s0" fwBusy fw_data
  for token nodeId s0
  by unfold_locales (auto simp: applyServerFirewall_start_def applyServerFirewall_settle_def fw_data_def Let_def split: if_splits sum.splits)

interpretation fw_user: async_action "applyUserFirewall_start token userId" applyUserFirewall_settle userFwBusy fw_data for token userId
  by unfold_locales (auto simp: applyUserFirewall_start_def applyUserFirewall_settle_def fw_data_def split: if_splits sum.splits)

interpretation fw_org: async_action "applyOrganizationFirewall_start token orgId" applyOrganizationFirewall_settle orgFwBusy fw_data for token orgId
  by unfold_locales (auto simp: applyOrganizationFirewall_start_def applyOrganizationFirewall_settle_def fw_data_def split: if_splits sum.splits)

interpretation fw_table: keyed_rows row_key "\<lambda>n x. n" "\<lambda>k n. row_key n = k"
  by unfold_locales simp

subsection \<open>Properties\<close>

lemma upsert_exists: "list_ex (\<lambda>x. row_key x = row_key n) (upsert_rule n xs)"
  by (auto simp: upsert_rule_def edit_rows_def list_ex_iff)

lemma edit_same: "edit_rows key (\<lambda>x. n) (key n) (edit_rows key (\<lambda>x. n) (key n) xs) = edit_rows key (\<lambda>x. n) (key n) xs"
  by (simp add: edit_rows_def)

lemma find_edit: "list_ex (\<lambda>x. key x = key n) xs \<Longrightarrow> find (\<lambda>x. key x = key n) (edit_rows key (\<lambda>x. n) (key n) xs) = Some n"
  by (induction xs) (auto simp: edit_rows_def)

lemma find_append_miss: "\<not> list_ex P xs \<Longrightarrow> find P (xs @ ys) = find P ys"
  by (induction xs) auto

text \<open>Saving a rule is an insert-or-replace by identifier, for every table: afterwards the table has the rule under its
  identifier, all rules with other identifiers in their old order, distinct identifiers exactly if it
  had them before, and saving the same rule again changes nothing.\<close>

theorem upsert_rule_laws:
  "find (\<lambda>x. row_key x = row_key n) (upsert_rule n xs) = Some n
   \<and> filter (\<lambda>x. row_key x \<noteq> row_key n) (upsert_rule n xs) = filter (\<lambda>x. row_key x \<noteq> row_key n) xs
   \<and> distinct (map row_key (upsert_rule n xs)) = distinct (map row_key xs)
   \<and> upsert_rule n (upsert_rule n xs) = upsert_rule n xs"
proof (intro conjI)
  show "find (\<lambda>x. row_key x = row_key n) (upsert_rule n xs) = Some n"
    by (simp add: upsert_rule_def find_edit find_append_miss)
  show "filter (\<lambda>x. row_key x \<noteq> row_key n) (upsert_rule n xs) = filter (\<lambda>x. row_key x \<noteq> row_key n) xs"
    using fw_table.edit_frame [of n "row_key n" xs] by (simp add: upsert_rule_def)
  show "distinct (map row_key (upsert_rule n xs)) = distinct (map row_key xs)"
  proof (cases "list_ex (\<lambda>x. row_key x = row_key n) xs")
    case True
    then show ?thesis using fw_table.edit_keys [of n "row_key n" xs] by (simp add: upsert_rule_def)
  next
    case False
    then have "row_key n \<notin> row_key ` set xs" by (auto simp: list_ex_iff)
    then show ?thesis using False by (simp add: upsert_rule_def)
  qed
  have "upsert_rule n (upsert_rule n xs) = edit_rows row_key (\<lambda>x. n) (row_key n) (upsert_rule n xs)"
    using upsert_exists [of n xs] by (simp add: upsert_rule_def [of n "upsert_rule n xs"])
  also have "\<dots> = upsert_rule n xs"
  proof (cases "list_ex (\<lambda>x. row_key x = row_key n) xs")
    case True
    then show ?thesis by (simp add: upsert_rule_def edit_same)
  next
    case False
    have "edit_rows row_key (\<lambda>x. n) (row_key n) xs = xs"
      by (rule fw_table.edit_miss) (use False in \<open>auto simp: list_ex_iff\<close>)
    then show ?thesis using False by (simp add: upsert_rule_def edit_rows_def)
  qed
  finally show "upsert_rule n (upsert_rule n xs) = upsert_rule n xs" .
qed

text \<open>The six tables as one abstract map.\<close>

datatype owner = ServerRules | OrganizationRules | UserRules

fun rule_table :: "fw_sys \<Rightarrow> owner \<times> bool \<Rightarrow> jsval list" where
  "rule_table s (ServerRules, isNat) = (if isNat then tunnelNatRules s else tunnelRules s)"
| "rule_table s (OrganizationRules, isNat) = (if isNat then natRules (org s) else rules (org s))"
| "rule_table s (UserRules, isNat) = (if isNat then natRules (user s) else rules (user s))"

definition modal_target :: "rule_modal \<Rightarrow> owner \<times> bool" where
  "modal_target m = ((if mscope m = ''server'' then ServerRules else if mscope m = ''organization'' then OrganizationRules
     else UserRules), mkind m = ''nat'')"

definition modal_rejected :: "rule_modal \<Rightarrow> bool" where
  "modal_rejected m \<longleftrightarrow> mkind m \<noteq> ''nat'' \<and> js_trim (rdestination (mrule m)) = []"

text \<open>C31: The dialog saves into exactly the table it was opened for: it refuses a filter rule without destination, with a
  message and no change to any table; otherwise it inserts or replaces the rule in the table of its
  scope and kind, leaves the five others alone, and closes.\<close>

theorem submit_rule_refines_upsert:
  "modal_rejected (ruleModal s) \<and> fw_data (submitFirewallRuleModal now s) = fw_data s
      \<and> mopen (ruleModal (submitFirewallRuleModal now s)) = mopen (ruleModal s)
      \<and> shown (merr (ruleModal (submitFirewallRuleModal now s)))
   \<or> modal_rejected (ruleModal s) = False
      \<and> rule_table (submitFirewallRuleModal now s)
        = (rule_table s)(modal_target (ruleModal s) :=
            upsert_rule (next_rule now (ruleModal s)) (rule_table s (modal_target (ruleModal s))))
      \<and> ruleModal (submitFirewallRuleModal now s) = closed_rule_modal"
proof (cases "modal_rejected (ruleModal s)")
  case True
  then show ?thesis by (simp add: submitFirewallRuleModal_def Let_def modal_rejected_def fw_data_def)
next
  case False
  have "rule_table (submitFirewallRuleModal now s) (ow, isNat)
      = ((rule_table s)(modal_target (ruleModal s) :=
            upsert_rule (next_rule now (ruleModal s)) (rule_table s (modal_target (ruleModal s))))) (ow, isNat)" for ow isNat
    using False by (cases ow) (auto simp: submitFirewallRuleModal_def Let_def modal_rejected_def modal_target_def)
  then have "rule_table (submitFirewallRuleModal now s) = (rule_table s)(modal_target (ruleModal s) :=
            upsert_rule (next_rule now (ruleModal s)) (rule_table s (modal_target (ruleModal s))))"
    by (intro ext) (metis prod.exhaust)
  then show ?thesis using False by (auto simp: submitFirewallRuleModal_def Let_def modal_rejected_def)
qed

lemma next_rule_key: "row_key (next_rule now m) =
  (if truthy (meditId m) then meditId m else JStr ((if mkind m = ''nat'' then ''nat-'' else ''rule-'') @ int_string now))"
  by (simp add: next_rule_def Let_def row_key_def jprop_def obj_get_Cons)

text \<open>Editing an existing rule never makes a second one: opening the dialog on a rule of the table and saving, whatever
  was changed in the dialog, leaves the sequence of identifiers as it was.\<close>

theorem edit_rule_keeps_identifiers:
  assumes "r \<in> set (tunnelRules s)" and "truthy (row_key r)"
    and "s' = openFirewallRuleModal ''server'' r ''tunnel'' ''filter'' s"
  shows "map row_key (tunnelRules (submitFirewallRuleModal now (s'\<lparr>ruleModal := (ruleModal s')\<lparr>mrule := typed\<rparr>\<rparr>)))
    = map row_key (tunnelRules s)"
proof -
  let ?m = "(ruleModal s')\<lparr>mrule := typed\<rparr>"
  have "meditId ?m = row_key r"
    using assms(2,3) by (simp add: openFirewallRuleModal_def Let_def row_key_def)
  then have key: "row_key (next_rule now ?m) = row_key r" using assms(2) by (simp add: next_rule_key)
  moreover have "list_ex (\<lambda>x. row_key x = row_key r) (tunnelRules s)" using assms(1) by (auto simp: list_ex_iff)
  ultimately have "map row_key (upsert_rule (next_rule now ?m) (tunnelRules s)) = map row_key (tunnelRules s)"
    using fw_table.edit_keys [of "next_rule now ?m" "row_key (next_rule now ?m)"] by (simp add: upsert_rule_def)
  then show ?thesis using assms(3) by (simp add: submitFirewallRuleModal_def Let_def openFirewallRuleModal_def)
qed

definition blank_fw :: fw_sys where
  "blank_fw = \<lparr>defaultPolicy = ''deny'', tunnelRules = [], tunnelNatRules = [], org = empty_fw, user = empty_fw,
     ruleModal = closed_rule_modal, natOutMode = ''manual'', natToMode = ''manual'', fwLoading = False, fwBusy = False,
     userFwBusy = False, orgFwBusy = False, fwError = NoText\<rparr>"

theorem edit_rule_keeps_identifiers_witness:
  "map row_key (tunnelRules (submitFirewallRuleModal 7 ((openFirewallRuleModal ''server'' (row ''r1'') ''tunnel'' ''filter''
      (blank_fw\<lparr>tunnelRules := [row ''r1'', row ''r2'']\<rparr>))\<lparr>ruleModal := (ruleModal (openFirewallRuleModal ''server'' (row ''r1'') ''tunnel'' ''filter''
      (blank_fw\<lparr>tunnelRules := [row ''r1'', row ''r2'']\<rparr>)))\<lparr>mrule := blank_rule_draft\<lparr>rdestination := ''10.0.0.0/8''\<rparr>\<rparr>\<rparr>)))
   = [JStr ''r1'', JStr ''r2'']"
  by (subst edit_rule_keeps_identifiers [OF _ _ refl]) (simp_all add: row_key_def row_def jprop_def obj_get_def)

lemma tag_rules_length [simp]: "length (tag_rules sc n src rs) = length rs"
  by (simp add: tag_rules_def)

lemma tagged_props:
  "jprop (tagged_rule sc n src r) ''scope'' = JStr sc" "jprop (tagged_rule sc n src r) ''order'' = JNum (num_of_int (int n))"
  "jprop (tagged_rule sc n src r) ''action'' = jprop r ''action''"
  by (simp_all add: tagged_rule_def jprop_def alist_laws own_props_get [unfolded jprop_def])

lemma tag_rules_props:
  "map (\<lambda>r. jprop r ''order'') (tag_rules sc n src rs) = map (\<lambda>i. JNum (num_of_int (int i))) [n..<n + length rs]"
  "map (\<lambda>r. jprop r ''scope'') (tag_rules sc n src rs) = replicate (length rs) (JStr sc)"
  "map (\<lambda>r. jprop r ''action'') (tag_rules sc n src rs) = map (\<lambda>r. jprop r ''action'') rs"
  by (rule nth_equalityI; simp add: tag_rules_def nth_enumerate_eq tagged_props)+

text \<open>The effective policy of a user lists, in the order in which the rules are tried, first the rules of the tunnel and
  then the personal ones, or in replace mode the personal ones alone; the order numbers are the
  positions, and no rule is dropped or changes its action.\<close>

theorem effective_rules_in_order:
  "map (\<lambda>r. jprop r ''order'') (userFirewallEffectiveRules base u src)
     = map (\<lambda>i. JNum (num_of_int (int i))) [0..<length (userFirewallEffectiveRules base u src)]
   \<and> map (\<lambda>r. (jprop r ''scope'', jprop r ''action'')) (userFirewallEffectiveRules base u src)
     = (if mode u = ''replace'' then [] else map (\<lambda>r. (JStr ''base'', jprop r ''action'')) base)
       @ map (\<lambda>r. (JStr ''override'', jprop r ''action'')) (rules u)"
proof -
  have z: "map (\<lambda>r. (jprop r ''scope'', jprop r ''action'')) (tag_rules sc n s' rs) = map (\<lambda>r. (JStr sc, jprop r ''action'')) rs" for sc n s' rs
    by (rule nth_equalityI) (simp_all add: tag_rules_def nth_enumerate_eq tagged_props)
  show ?thesis by (simp add: userFirewallEffectiveRules_def z tag_rules_props upt_add_eq_append [of 0 "length base" "length (rules u)"])
qed

text \<open>A request that fails loses nothing: whichever of the four firewall actions fails, and whatever the user did while it
  ran, the rules, modes and default policy are those the user sees, the error is shown, and the
  action is no longer busy. What is applied is exactly what is shown.\<close>

theorem failed_firewall_action_keeps_rules:
  "fw_data (loadServerFirewall_settle (Inl e) s) = fw_data s \<and> \<not> fwLoading (loadServerFirewall_settle a s)
   \<and> fw_data (applyServerFirewall_settle s0 (Inl e) s) = fw_data s \<and> \<not> fwBusy (applyServerFirewall_settle s0 a s)
   \<and> fw_data (applyUserFirewall_settle (Inl e) s) = fw_data s \<and> \<not> userFwBusy (applyUserFirewall_settle a s)
   \<and> fw_data (applyOrganizationFirewall_settle (Inl e) s) = fw_data s \<and> \<not> orgFwBusy (applyOrganizationFirewall_settle a s)
   \<and> shown (fwError (loadServerFirewall_settle (Inl e) s)) \<and> shown (fwError (applyServerFirewall_settle s0 (Inl e) s))
   \<and> shown (fwError (applyUserFirewall_settle (Inl e) s)) \<and> shown (fwError (applyOrganizationFirewall_settle (Inl e) s))"
  by (intro conjI fw_load.settle_error fw_load.settle_idle fw_apply.settle_error fw_apply.settle_idle fw_user.settle_error
      fw_user.settle_idle fw_org.settle_error fw_org.settle_idle)
     (simp_all add: loadServerFirewall_settle_def applyServerFirewall_settle_def applyUserFirewall_settle_def
        applyOrganizationFirewall_settle_def message_or_def text_or_def)

text \<open>C32: A late answer puts the rules of one server on the page of another, from where they are applied to it: server \<open>a\<close> is
  opened, then server \<open>b\<close>; the answer for \<open>b\<close> arrives first and then the one for \<open>a\<close>. The page of \<open>b\<close> then shows the
  rules of \<open>a\<close>, and applying sends them to \<open>b\<close>.\<close>

theorem late_firewall_answer_applied:
  fixes s :: fw_sys
  assumes "on_server_tab [''firewall''] (ra, tok)" and "on_server_tab [''firewall''] (rb, tok)" and "tok \<noteq> []"
    and "selectedServerId ra \<noteq> selectedServerId rb" and "srv 0 = Inr va" and "srv 1 = Inr vb"
    and "jprop (jprop va ''tunnel'') ''rules'' = JArr rulesA" and "jprop (jprop va ''tunnel'') ''natRules'' = JArr natA"
    and "jprop (jprop va ''tunnel'') ''defaultPolicy'' = JStr policyA" and "policyA \<noteq> []"
  defines "y \<equiv> foldl (effect_step firewall_effect_deps firewall_effect_start firewall_effect_settle srv) (fresh_effect s)
      [Render (ra, tok), Render (rb, tok), Arrive 1, Arrive 0]"
  shows "map_option snd (applyServerFirewall_start tok (selectedServerId rb) (view y))
    = Some [(''POST'', node_path (selectedServerId rb) ''/firewall-apply'',
        JObj [(''tunnel'', JObj [(''defaultPolicy'', JStr policyA), (''rules'', JArr rulesA), (''natRules'', JArr natA)])])]"
proof -
  have ids: "selectedServerId ra \<noteq> []" "selectedServerId rb \<noteq> []" using assms(1,2) by (simp_all add: on_server_tab_def)
  have deps: "firewall_effect_deps (ra, tok) \<noteq> firewall_effect_deps (rb, tok)" using assms(4) by (simp add: firewall_effect_deps_def)
  have "tunnelRules (view y) = rulesA \<and> tunnelNatRules (view y) = natA \<and> defaultPolicy (view y) = policyA"
    using assms(1-3,5-10) ids deps
    by (simp add: y_def fresh_effect_def firewall_effect_start_def firewall_effect_settle_def loadServerFirewall_start_def send_def
        loadServerFirewall_settle_def Let_def array_or_empty_def)
  then show ?thesis using ids assms(3) by (simp add: applyServerFirewall_start_def)
qed

definition firewall_page :: "string \<Rightarrow> route" where
  "firewall_page i = base_route\<lparr>serversView := ''detail'', serverDetailTab := ''firewall'', selectedServerId := i\<rparr>"

definition tunnel_answer :: "string \<Rightarrow> jsval" where
  "tunnel_answer policy = JObj [(''tunnel'', JObj [(''defaultPolicy'', JStr policy), (''rules'', JArr []), (''natRules'', JArr [])])]"

theorem late_firewall_answer_applied_witness:
  "map_option snd (applyServerFirewall_start ''tok'' ''b''
      (view (foldl (effect_step firewall_effect_deps firewall_effect_start firewall_effect_settle
          (\<lambda>n. Inr (tunnel_answer (if n = 0 then ''allow'' else ''deny'')))) (fresh_effect blank_fw)
        [Render (firewall_page ''a'', ''tok''), Render (firewall_page ''b'', ''tok''), Arrive 1, Arrive 0])))
   = Some [(''POST'', node_path ''b'' ''/firewall-apply'', tunnel_answer ''allow'')]"
proof -
  have p: "on_server_tab [''firewall''] (firewall_page i, ''tok'')" "selectedServerId (firewall_page i) = i" if "i \<noteq> []" for i
    using that by (simp_all add: firewall_page_def on_server_tab_def base_route_def)
  have t: "jprop (jprop (tunnel_answer q) ''tunnel'') ''rules'' = JArr []" "jprop (jprop (tunnel_answer q) ''tunnel'') ''natRules'' = JArr []"
    "jprop (jprop (tunnel_answer q) ''tunnel'') ''defaultPolicy'' = JStr q" for q
    by (simp_all add: tunnel_answer_def jprop_def obj_get_def)
  show ?thesis
    using late_firewall_answer_applied [where srv = "\<lambda>n. Inr (tunnel_answer (if n = 0 then ''allow'' else ''deny''))" and va = "tunnel_answer ''allow''"
        and s = blank_fw, OF p(1) p(1) _ _ _ _ t, of "''a''" "''b''" "tunnel_answer ''deny''"]
    by (simp add: p tunnel_answer_def del: effect_step.simps foldl.simps)
qed

end
