(* ===== verification/Base64.thy ===== *)
theory Base64
  imports Http
begin

section \<open>Base64 and JSON text\<close>

text \<open>
  What \<^verbatim>\<open>parseJwtPayload\<close> and \<^verbatim>\<open>uint8ArrayToBase64\<close> use of the standard library: \<^verbatim>\<open>btoa\<close>, \<^verbatim>\<open>atob\<close> and
  \<^verbatim>\<open>JSON.parse\<close>. A binary string is a list of characters below 256, that is a \<open>string\<close>.
\<close>

subsection \<open>btoa and atob\<close>

definition b64_char :: "nat \<Rightarrow> char" where
  "b64_char n = (if n < 26 then char_of (65 + n) else if n < 52 then char_of (71 + n) else if n < 62 then char_of (n - 4)
     else if n = 62 then CHR ''+'' else CHR ''/'')"

definition b64_val :: "char \<Rightarrow> nat option" where
  "b64_val c = (let n = code_of c in
     if 65 \<le> n \<and> n \<le> 90 then Some (n - 65) else if 97 \<le> n \<and> n \<le> 122 then Some (n - 71)
     else if 48 \<le> n \<and> n \<le> 57 then Some (n + 4) else if c = CHR ''+'' then Some 62 else if c = CHR ''/'' then Some 63 else None)"

fun b64_groups :: "nat list \<Rightarrow> string" where
  "b64_groups [] = []"
| "b64_groups [a] = [b64_char (a div 4), b64_char (a mod 4 * 16), CHR ''='', CHR ''='']"
| "b64_groups [a, b] = [b64_char (a div 4), b64_char (a mod 4 * 16 + b div 16), b64_char (b mod 16 * 4), CHR ''='']"
| "b64_groups (a # b # c # r) = b64_char (a div 4) # b64_char (a mod 4 * 16 + b div 16) # b64_char (b mod 16 * 4 + c div 64)
     # b64_char (c mod 64) # b64_groups r"

definition btoa :: "string \<Rightarrow> string" where
  "btoa s = b64_groups (map code_of s)"

text \<open>The sextets of an unpadded text, to bytes; the spare bits of an incomplete group are dropped.\<close>

fun b64_bytes :: "nat list \<Rightarrow> nat list option" where
  "b64_bytes [] = Some []"
| "b64_bytes [a] = None"
| "b64_bytes [a, b] = Some [a * 4 + b div 16]"
| "b64_bytes [a, b, c] = Some [a * 4 + b div 16, b mod 16 * 16 + c div 4]"
| "b64_bytes (a # b # c # d # r) =
     map_option (\<lambda>bs. (a * 4 + b div 16) # (b mod 16 * 16 + c div 4) # (c mod 4 * 64 + d) # bs) (b64_bytes r)"

definition strip_padding :: "string \<Rightarrow> string" where
  "strip_padding s =
     (if length s mod 4 \<noteq> 0 then s
      else let n = length s in
        if 2 \<le> n \<and> s ! (n - 1) = CHR ''='' \<and> s ! (n - 2) = CHR ''='' then take (n - 2) s
        else if 1 \<le> n \<and> s ! (n - 1) = CHR ''='' then take (n - 1) s else s)"

definition ascii_space :: "char \<Rightarrow> bool" where
  "ascii_space c \<longleftrightarrow> code_of c \<in> {9, 10, 12, 13, 32}"

definition atob :: "string \<Rightarrow> string option" where
  "atob s =
     (let t = strip_padding (filter (\<lambda>c. \<not> ascii_space c) s); vs = map b64_val t
      in if None \<in> set vs then None else map_option (map char_of) (b64_bytes (map the vs)))"

subsection \<open>JSON.parse\<close>

text \<open>
  The grammar of JSON. The recursive calls are guarded by the length of the rest, which always
  decreases. A \<^verbatim>\<open>\uXXXX\<close> escape above 255 has no counterpart among the characters of the model and fails.
\<close>

definition json_space :: "char \<Rightarrow> bool" where
  "json_space c \<longleftrightarrow> code_of c \<in> {9, 10, 13, 32}"

abbreviation skip_ws :: "string \<Rightarrow> string" where
  "skip_ws s \<equiv> dropWhile json_space s"

definition json_escape :: "char \<Rightarrow> char option" where
  "json_escape c = (if c = CHR 0x22 \<or> c = CHR 0x5C \<or> c = CHR ''/'' then Some c
     else if c = CHR ''b'' then Some (CHR 0x08) else if c = CHR ''f'' then Some (CHR 0x0C)
     else if c = CHR ''n'' then Some LF else if c = CHR ''r'' then Some CR else if c = CHR ''t'' then Some (CHR 0x09) else None)"

fun json_string :: "string \<Rightarrow> (string \<times> string) option" where
  "json_string [] = None"
| "json_string (c # r) =
     (if c = CHR 0x22 then Some ([], r)
      else if code_of c < 32 then None
      else if c \<noteq> CHR 0x5C then map_option (\<lambda>(s, t). (c # s, t)) (json_string r)
      else case r of
        a # r1 \<Rightarrow>
          (case json_escape a of Some x \<Rightarrow> map_option (\<lambda>(s, t). (x # s, t)) (json_string r1)
           | None \<Rightarrow>
               if a = CHR ''u'' then
                 (case r1 of h1 # h2 # h3 # h4 # r2 \<Rightarrow>
                    (case radix_value 16 0 [h1, h2, h3, h4] of
                       Some n \<Rightarrow> if n < 256 then map_option (\<lambda>(s, t). (char_of n # s, t)) (json_string r2) else None
                     | None \<Rightarrow> None)
                  | _ \<Rightarrow> None)
               else None)
      | [] \<Rightarrow> None)"

definition number_char :: "char \<Rightarrow> bool" where
  "number_char c \<longleftrightarrow> is_digit c \<or> c \<in> set ''+-.eE''"

text \<open>\<^verbatim>\<open>-?(0|[1-9][0-9]*)(\.[0-9]+)?([eE][+-]?[0-9]+)?\<close>\<close>

definition json_number_ok :: "string \<Rightarrow> bool" where
  "json_number_ok s =
     (let u = (if s \<noteq> [] \<and> hd s = CHR ''-'' then tl s else s);
          ip = takeWhile is_digit u; r1 = dropWhile is_digit u;
          dot = (r1 \<noteq> [] \<and> hd r1 = CHR ''.'');
          fp = (if dot then takeWhile is_digit (tl r1) else []);
          r2 = (if dot then dropWhile is_digit (tl r1) else r1)
      in ip \<noteq> [] \<and> (hd ip = CHR ''0'' \<longrightarrow> length ip = 1) \<and> (dot \<longrightarrow> fp \<noteq> []) \<and> exponent_of r2 \<noteq> None)"

function json_value :: "string \<Rightarrow> (jsval \<times> string) option"
  and json_items :: "string \<Rightarrow> (jsval list \<times> string) option"
  and json_members :: "string \<Rightarrow> (jsobj \<times> string) option" where
  "json_value s0 =
     (let s = skip_ws s0 in
      if js_starts_with s ''null'' then Some (JNull, drop 4 s)
      else if js_starts_with s ''true'' then Some (JBool True, drop 4 s)
      else if js_starts_with s ''false'' then Some (JBool False, drop 5 s)
      else case s of [] \<Rightarrow> None
        | c # r \<Rightarrow>
            if c = CHR 0x22 then map_option (\<lambda>(x, t). (JStr x, t)) (json_string r)
            else if c = CHR ''['' then
              (if skip_ws r \<noteq> [] \<and> hd (skip_ws r) = CHR '']'' then Some (JArr [], tl (skip_ws r))
               else if length r < length s0 then map_option (\<lambda>(xs, t). (JArr xs, t)) (json_items r) else None)
            else if c = CHR ''{'' then
              (if skip_ws r \<noteq> [] \<and> hd (skip_ws r) = CHR ''}'' then Some (JObj [], tl (skip_ws r))
               else if length r < length s0 then map_option (\<lambda>(ms, t). (JObj (obj_spread [] ms), t)) (json_members r) else None)
            else let n = takeWhile number_char s in
              if json_number_ok n then Some (JNum (number_of_string n), dropWhile number_char s) else None)"
| "json_items s =
     (case json_value s of None \<Rightarrow> None
      | Some (v, t0) \<Rightarrow>
          let t = skip_ws t0 in
          if t \<noteq> [] \<and> hd t = CHR '']'' then Some ([v], tl t)
          else if t \<noteq> [] \<and> hd t = CHR '','' \<and> length (tl t) < length s
          then map_option (\<lambda>(vs, u). (v # vs, u)) (json_items (tl t)) else None)"
| "json_members s =
     (case skip_ws s of [] \<Rightarrow> None
      | q # r \<Rightarrow>
          if q \<noteq> CHR 0x22 then None
          else case json_string r of None \<Rightarrow> None
            | Some (k, t0) \<Rightarrow>
                let t = skip_ws t0 in
                if t = [] \<or> hd t \<noteq> CHR '':'' \<or> \<not> length (tl t) < length s then None
                else (case json_value (tl t) of None \<Rightarrow> None
                  | Some (v, u0) \<Rightarrow>
                      let u = skip_ws u0 in
                      if u \<noteq> [] \<and> hd u = CHR ''}'' then Some ([(k, v)], tl u)
                      else if u \<noteq> [] \<and> hd u = CHR '','' \<and> length (tl u) < length s
                      then map_option (\<lambda>(ms, w). ((k, v) # ms, w)) (json_members (tl u)) else None))"
  by pat_completeness auto
termination
  by (relation "measure (\<lambda>x. case x of Inl s \<Rightarrow> 2 * length s | Inr (Inl s) \<Rightarrow> 2 * length s + 1 | Inr (Inr s) \<Rightarrow> 2 * length s + 1)") auto

definition JSON_parse :: "string \<Rightarrow> jsval option" where
  "JSON_parse s = (case json_value s of Some (v, r) \<Rightarrow> if skip_ws r = [] then Some v else None | None \<Rightarrow> None)"

subsection \<open>The code\<close>

text \<open>\<^verbatim>\<open>uint8ArrayToBase64\<close>: the binary string is built chunk by chunk.\<close>

function chunked :: "nat \<Rightarrow> nat list \<Rightarrow> nat \<Rightarrow> string \<Rightarrow> string" where
  "chunked chunk bytes i binary =
     (if chunk = 0 \<or> length bytes \<le> i then binary
      else chunked chunk bytes (i + chunk) (binary @ map char_of (take chunk (drop i bytes))))"
  by pat_completeness auto
termination
  by (relation "measure (\<lambda>(chunk, bytes, i, binary). length bytes - i)") auto

declare chunked.simps [simp del]

definition uint8ArrayToBase64 :: "nat list \<Rightarrow> string" where
  "uint8ArrayToBase64 bytes = btoa (chunked 8192 bytes 0 [])"

text \<open>The payload of a token; \<open>JNull\<close> where the code returns \<^verbatim>\<open>null\<close>.\<close>

definition parseJwtPayload :: "string \<Rightarrow> jsval" where
  "parseJwtPayload token =
     (if token = [] then JNull
      else (let parts = js_split (CHR ''.'') token; part = (if 1 < length parts then parts ! 1 else []) in
        if part = [] then JNull
        else (let base64 = map (\<lambda>c. if c = CHR ''-'' then CHR ''+'' else if c = CHR ''_'' then CHR ''/'' else c) part;
                  padded = base64 @ take ((4 - length base64 mod 4) mod 4) ''==''
              in case atob padded of None \<Rightarrow> JNull
                 | Some text \<Rightarrow> (case JSON_parse text of None \<Rightarrow> JNull | Some v \<Rightarrow> v))))"

subsection \<open>Round trip of the upload encoding\<close>

lemma chunked_all: "0 < chunk \<Longrightarrow> chunked chunk bytes i binary = binary @ map char_of (drop i bytes)"
proof (induction chunk bytes i binary rule: chunked.induct)
  case (1 chunk bytes i binary)
  show ?case
  proof (cases "length bytes \<le> i")
    case True
    then show ?thesis by (simp add: chunked.simps)
  next
    case False
    have "take chunk (drop i bytes) @ drop (i + chunk) bytes = drop i bytes"
      by (metis add.commute append_take_drop_id drop_drop)
    then have "map char_of (take chunk (drop i bytes)) @ map char_of (drop (i + chunk) bytes) = (map char_of (drop i bytes) :: string)"
      by (metis map_append)
    with False 1 show ?thesis by (subst chunked.simps) simp
  qed
qed

lemma code_of_b64_char:
  assumes "n < 64"
  shows "code_of (b64_char n) = (if n < 26 then 65 + n else if n < 52 then 71 + n else if n < 62 then n - 4 else if n = 62 then 43 else 47)"
proof -
  have "code_of (CHR ''+'') = 43" "code_of (CHR ''/'') = 47" by (simp_all add: code_of_def)
  then show ?thesis using assms by (simp add: b64_char_def code_of_char_of)
qed

lemma b64_char_cases:
  assumes "n < 64"
  shows "b64_val (b64_char n) = Some n \<and> \<not> ascii_space (b64_char n) \<and> b64_char n \<noteq> CHR ''=''"
proof -
  note code = code_of_b64_char [OF assms]
  have "b64_val (b64_char n) = Some n"
    using assms code by (cases "n < 62") (auto simp: b64_val_def Let_def b64_char_def)
  moreover have "\<not> ascii_space (b64_char n)" using code by (auto simp: ascii_space_def split: if_splits)
  moreover have "code_of (b64_char n) \<noteq> code_of (CHR ''='')" unfolding code by (auto simp: code_of_def)
  ultimately show ?thesis by metis
qed

lemma strip_padding_group:
  assumes "length s mod 4 = 0" "s \<noteq> []"
  shows "strip_padding (a # b # c # d # s) = a # b # c # d # strip_padding s"
proof -
  let ?w = "[a, b, c, d]"
  have n: "4 \<le> length s" using assms by (cases "length s < 4") auto
  have nth: "(?w @ s) ! (length (?w @ s) - k) = s ! (length s - k)" if "k \<le> 4" for k
  proof -
    have "length (?w @ s) - k = length ?w + (length s - k)" using n that by simp
    then show ?thesis by (simp only: nth_append_length_plus)
  qed
  have tk: "take (length (?w @ s) - k) (?w @ s) = ?w @ take (length s - k) s" if "k \<le> 4" for k
    using n that by (simp add: take_append del: append_Cons)
  have len: "length (?w @ s) mod 4 = 0" "2 \<le> length (?w @ s)" "1 \<le> length (?w @ s)" "2 \<le> length s" "1 \<le> length s"
    using assms n by simp_all
  have "strip_padding (?w @ s) = ?w @ strip_padding s"
    unfolding strip_padding_def Let_def using len assms(1) nth [of 1] nth [of 2] tk [of 1] tk [of 2]
    by (simp del: append_Cons length_append)
  then show ?thesis by simp
qed

lemma b64_groups_decode:
  assumes "list_all (\<lambda>b. b < 256) bs"
  shows "length (b64_groups bs) mod 4 = 0 \<and>
    (\<exists>vs. strip_padding (b64_groups bs) = map b64_char vs \<and> list_all (\<lambda>v. v < 64) vs \<and> b64_bytes vs = Some bs)"
  using assms
proof (induction bs rule: b64_groups.induct)
  case 1
  show ?case by (simp add: strip_padding_def)
next
  case (2 a)
  then have "a div 4 < 64" "a mod 4 * 16 < 64" "a div 4 * 4 + a mod 4 * 16 div 16 = a" by auto
  then show ?case by (intro conjI exI [of _ "[a div 4, a mod 4 * 16]"]) (simp_all add: strip_padding_def)
next
  case (3 a b)
  then have v: "a div 4 < 64" "a mod 4 * 16 + b div 16 < 64" "b mod 16 * 4 < 64" by auto
  have "b mod 16 * 4 div 4 = b mod 16" "(a mod 4 * 16 + b div 16) div 16 = a mod 4" "(a mod 4 * 16 + b div 16) mod 16 = b div 16"
    using 3 by auto
  then have "b64_bytes [a div 4, a mod 4 * 16 + b div 16, b mod 16 * 4] = Some [a, b]" by simp
  with v b64_char_cases [OF v(3)] show ?case
    by (intro conjI exI [of _ "[a div 4, a mod 4 * 16 + b div 16, b mod 16 * 4]"]) (simp_all add: strip_padding_def)
next
  case (4 a b c r)
  then obtain vs where IH: "length (b64_groups r) mod 4 = 0" "strip_padding (b64_groups r) = map b64_char vs"
    "list_all (\<lambda>v. v < 64) vs" "b64_bytes vs = Some r" by auto
  let ?w = "[a div 4, a mod 4 * 16 + b div 16, b mod 16 * 4 + c div 64, c mod 64]"
  have w: "list_all (\<lambda>v. v < 64) ?w" using "4.prems" by auto
  have "(a mod 4 * 16 + b div 16) div 16 = a mod 4" "(a mod 4 * 16 + b div 16) mod 16 = b div 16"
    "(b mod 16 * 4 + c div 64) div 4 = b mod 16" "(b mod 16 * 4 + c div 64) mod 4 = c div 64"
    using "4.prems" by auto
  then have bytes: "b64_bytes (?w @ vs) = Some (a # b # c # r)" using IH(4) by simp
  have "strip_padding (b64_groups (a # b # c # r)) = map b64_char (?w @ vs)"
  proof (cases "b64_groups r = []")
    case True
    then have "vs = []" using IH(2) by (simp add: strip_padding_def)
    with True w b64_char_cases [of "c mod 64"] show ?thesis by (simp add: strip_padding_def)
  next
    case False
    with IH(1,2) strip_padding_group show ?thesis by simp
  qed
  with bytes w IH(1,3) show ?case by (intro conjI exI [of _ "?w @ vs"]) simp_all
qed

lemma b64_char_no_space: "\<not> ascii_space (b64_char n)"
proof (cases "n < 64")
  case False
  then show ?thesis by (simp add: b64_char_def ascii_space_def code_of_def)
qed (use b64_char_cases in blast)

lemma no_space_groups: "filter (\<lambda>c. \<not> ascii_space c) (b64_groups bs) = b64_groups bs"
  by (induction bs rule: b64_groups.induct) (simp_all add: b64_char_no_space, simp_all add: ascii_space_def code_of_def)

lemma atob_groups:
  assumes "list_all (\<lambda>b. b < 256) bytes"
  shows "atob (b64_groups bytes) = Some (map char_of bytes)"
proof -
  obtain vs where vs: "strip_padding (b64_groups bytes) = map b64_char vs" "list_all (\<lambda>v. v < 64) vs" "b64_bytes vs = Some bytes"
    using b64_groups_decode [OF assms] by blast
  have m: "map b64_val (map b64_char vs) = map Some vs"
    using vs(2) b64_char_cases by (induction vs) simp_all
  show ?thesis unfolding atob_def Let_def no_space_groups vs(1) m using vs(3) by (auto simp: comp_def)
qed

text \<open>The text in which an agent binary is uploaded decodes to exactly its bytes, whatever their number: neither the
  chunks of 8192 bytes nor the padding loses or adds one.\<close>

theorem upload_encoding_roundtrip:
  assumes "list_all (\<lambda>b. b < 256) bytes"
  shows "atob (uint8ArrayToBase64 bytes) = Some (map char_of bytes)"
proof -
  have codes: "map (code_of \<circ> char_of) bytes = bytes"
    using assms by (induction bytes) (simp_all add: code_of_char_of)
  have "uint8ArrayToBase64 bytes = b64_groups bytes"
    by (simp add: uint8ArrayToBase64_def btoa_def chunked_all codes)
  then show ?thesis using atob_groups [OF assms] by simp
qed

theorem upload_encoding_roundtrip_witness:
  "atob (uint8ArrayToBase64 [0, 255, 127, 69]) = Some (map char_of [0::nat, 255, 127, 69])"
  by (rule upload_encoding_roundtrip) simp

end
