(* ===== verification/Session.thy ===== *)
theory Session
  imports Actions Base64 Routes
begin

section \<open>The session of an administrator\<close>

text \<open>
  Signing in (\<^verbatim>\<open>login\<close>, \<^verbatim>\<open>submitMfaLogin\<close>), keeping the session alive (\<^verbatim>\<open>refreshSession\<close>), its end (the
  session-invalid event, the expiry timer, \<^verbatim>\<open>logout\<close>) and its copy in \<^verbatim>\<open>localStorage\<close>. The handlers are
  steps of a state machine; the effect that copies the token into \<^verbatim>\<open>localStorage\<close> runs after each of them.
\<close>

subsection \<open>Expiry of a token\<close>

text \<open>\<^verbatim>\<open>x * 1000\<close> and \<^verbatim>\<open>now >= x\<close> on numbers\<close>

definition times_1000 :: "jsnum \<Rightarrow> jsnum" where
  "times_1000 n = (case n of Dec m e \<Rightarrow> mk_dec m (e + 3) | _ \<Rightarrow> n)"

definition int_ge :: "int \<Rightarrow> jsnum \<Rightarrow> bool" where
  "int_ge now n = (case n of NaN \<Rightarrow> False | Infinity \<Rightarrow> False | NegInfinity \<Rightarrow> True
     | Dec m e \<Rightarrow> if 0 \<le> e then now \<ge> m * 10 ^ nat e else now * 10 ^ nat (- e) \<ge> m)"

definition readStoredTokenIfValid :: "int \<Rightarrow> string option \<Rightarrow> string \<times> string option" where
  "readStoredTokenIfValid now storage = (case storage of None \<Rightarrow> ([], None)
     | Some t \<Rightarrow>
         if t = [] then ([], storage)
         else (let expSec = jprop (parseJwtPayload t) ''exp'' in
           if \<not> truthy expSec \<or> int_ge now (times_1000 (to_num expSec)) then ([], None) else (t, storage)))"

definition tokenExpiresAtMs :: "string \<Rightarrow> jsnum option" where
  "tokenExpiresAtMs t =
     (if t = [] then None
      else case jprop (parseJwtPayload t) ''exp'' of JNum n \<Rightarrow> Some (times_1000 n) | _ \<Rightarrow> None)"

definition sessionAdminId :: "string \<Rightarrow> string" where
  "sessionAdminId t =
     (if t = [] then []
      else let sub = jprop (parseJwtPayload t) ''sub'' in
        if sub \<noteq> JUndef \<and> sub \<noteq> JNull \<and> sub \<noteq> JStr [] then to_str sub else [])"

text \<open>The test of the timer: \<^verbatim>\<open>expMs && now >= expMs\<close>.\<close>

definition token_expired :: "int \<Rightarrow> string \<Rightarrow> bool" where
  "token_expired now t = (case tokenExpiresAtMs t of None \<Rightarrow> False
     | Some ms \<Rightarrow> truthy (JNum ms) \<and> int_ge now ms)"

subsection \<open>State and handlers\<close>

record session_sys =
  token :: string
  stored :: "string option"
  sessionNow :: int
  mfaOpen :: bool
  mfaPendingToken :: string
  mfaTotpCode :: string
  mfaRecoveryCode :: string
  mfaError :: uitext
  mfaBusy :: bool
  signError :: uitext
  overview :: jsval
  myAdminProfile :: jsval
  myAdminProfileLoading :: bool
  page :: string
  editOrganization :: jsobj
  userListFilter :: string
  serverNameFilter :: string
  refreshing :: nat

text \<open>The token of an answer; the interface delivers a text.\<close>

definition token_of :: "jsval \<Rightarrow> string" where
  "token_of v = str_prop v ''token''"

definition retry_text :: "req_error \<Rightarrow> uitext" where
  "retry_text e = Cat (message e) (case retryAfterSeconds e of None \<Rightarrow> NoText
     | Some n \<Rightarrow> Cat (Ui '' retry after seconds: '') (Raw (num_string n)))"

definition closeMfaModal :: "session_sys \<Rightarrow> session_sys" where
  "closeMfaModal s = s\<lparr>mfaOpen := False, mfaPendingToken := [], mfaTotpCode := [], mfaRecoveryCode := [],
     mfaError := NoText, mfaBusy := False\<rparr>"

definition login_call :: "string \<Rightarrow> string \<Rightarrow> call" where
  "login_call user pass = (''POST'', ''/api/auth/login'', JObj [(''username'', JStr user), (''password'', JStr pass)])"

definition login_settle :: "int \<Rightarrow> answer \<Rightarrow> session_sys \<Rightarrow> session_sys" where
  "login_settle now a s = (case a of
       Inl e \<Rightarrow> s\<lparr>signError := retry_text e\<rparr>
     | Inr r \<Rightarrow>
         if truthy (jprop r ''mfaRequired'') \<and> truthy (jprop r ''mfaPendingToken'')
         then s\<lparr>mfaPendingToken := to_str (jprop r ''mfaPendingToken''), mfaOpen := True, mfaTotpCode := [],
                mfaRecoveryCode := [], mfaError := NoText, signError := NoText\<rparr>
         else if token_of r = [] then s\<lparr>signError := Ui ''the server returned no login data''\<rparr>
         else s\<lparr>token := token_of r, sessionNow := now, page := paths_home\<rparr>)"

definition submitMfaLogin_start :: "session_sys \<Rightarrow> (session_sys \<times> call list) option" where
  "submitMfaLogin_start s =
     (if mfaPendingToken s = [] \<or> mfaBusy s then None
      else Some (s\<lparr>mfaBusy := True, mfaError := NoText\<rparr>,
        [(''POST'', ''/api/auth/login/mfa'', JObj [(''mfaPendingToken'', JStr (mfaPendingToken s)), (''totpCode'', JStr (mfaTotpCode s)),
           (''recoveryCode'', if js_trim (mfaRecoveryCode s) = [] then JUndef else JStr (js_trim (mfaRecoveryCode s)))])]))"

definition submitMfaLogin_settle :: "int \<Rightarrow> answer \<Rightarrow> session_sys \<Rightarrow> session_sys" where
  "submitMfaLogin_settle now a s = (case a of
       Inl e \<Rightarrow> s\<lparr>mfaError := retry_text e, mfaBusy := False\<rparr>
     | Inr r \<Rightarrow>
         if token_of r = [] then s\<lparr>mfaError := Ui ''the server returned no session token'', mfaBusy := False\<rparr>
         else (closeMfaModal (s\<lparr>token := token_of r, sessionNow := now\<rparr>))\<lparr>page := paths_home, mfaBusy := False\<rparr>)"

definition onInvalid :: "session_sys \<Rightarrow> session_sys" where
  "onInvalid s = s\<lparr>stored := None, token := [], overview := JNull, signError := Ui ''the session has expired'', page := paths_home\<rparr>"

definition refreshSession_start :: "session_sys \<Rightarrow> session_sys" where
  "refreshSession_start s = (if token s = [] then s else s\<lparr>refreshing := Suc (refreshing s)\<rparr>)"

definition refreshSession_settle :: "response option \<Rightarrow> session_sys \<Rightarrow> session_sys" where
  "refreshSession_settle answer s0 =
     (let s = s0\<lparr>refreshing := refreshing s0 - 1\<rparr> in
      case answer of None \<Rightarrow> s
      | Some res \<Rightarrow>
          if status res = 401 then onInvalid s
          else if \<not> res_ok res then s
          else case body res of None \<Rightarrow> s
            | Some v \<Rightarrow> if token_of v \<noteq> [] then s\<lparr>token := token_of v\<rparr> else s)"

definition expiry_tick :: "int \<Rightarrow> session_sys \<Rightarrow> session_sys" where
  "expiry_tick now s =
     (if token s = [] then s
      else let s1 = s\<lparr>sessionNow := now\<rparr> in if token_expired now (token s1) then onInvalid s1 else s1)"

definition blank_organization :: jsobj where
  "blank_organization = map (\<lambda>k. (k, JStr [])) [''id'', ''name'', ''inn'', ''legalAddress'', ''generalDirector'', ''phone'', ''email'']"

definition logout :: "session_sys \<Rightarrow> session_sys" where
  "logout s = s\<lparr>token := [], myAdminProfile := JNull, myAdminProfileLoading := False, overview := JNull, signError := NoText,
     editOrganization := blank_organization, userListFilter := [], serverNameFilter := [], page := paths_home\<rparr>"

text \<open>The effect on \<^verbatim>\<open>[token]\<close>.\<close>

definition store_token :: "session_sys \<Rightarrow> session_sys" where
  "store_token s = s\<lparr>stored := (if token s \<noteq> [] then Some (token s) else None)\<rparr>"

datatype session_event =
    LoginAnswer int answer
  | MfaType string string
  | MfaSubmit
  | MfaAnswer int answer
  | MfaClose
  | RefreshStart
  | RefreshAnswer "response option"
  | SessionInvalid
  | Tick int
  | Logout

text \<open>An answer is taken only when its request is under way.\<close>

fun session_handler :: "session_event \<Rightarrow> session_sys \<Rightarrow> session_sys" where
  "session_handler (LoginAnswer now a) s = login_settle now a s"
| "session_handler (MfaType totp recovery) s = s\<lparr>mfaTotpCode := totp, mfaRecoveryCode := recovery\<rparr>"
| "session_handler MfaSubmit s = (case submitMfaLogin_start s of None \<Rightarrow> s | Some (s', calls) \<Rightarrow> s')"
| "session_handler (MfaAnswer now a) s = submitMfaLogin_settle now a s"
| "session_handler MfaClose s = closeMfaModal s"
| "session_handler RefreshStart s = refreshSession_start s"
| "session_handler (RefreshAnswer r) s = (if refreshing s = 0 then s else refreshSession_settle r s)"
| "session_handler SessionInvalid s = onInvalid s"
| "session_handler (Tick now) s = expiry_tick now s"
| "session_handler Logout s = logout s"

definition session_step :: "session_sys \<Rightarrow> session_event \<Rightarrow> session_sys" where
  "session_step s e = store_token (session_handler e s)"

interpretation mfa: async_action submitMfaLogin_start "submitMfaLogin_settle now" mfaBusy
    "\<lambda>s. (token s, stored s, mfaPendingToken s, mfaTotpCode s, mfaRecoveryCode s)" for now
  by unfold_locales (auto simp: submitMfaLogin_start_def submitMfaLogin_settle_def closeMfaModal_def split: if_splits sum.splits)

subsection \<open>Properties\<close>

text \<open>Where a token can come from.\<close>

fun issued :: "session_event \<Rightarrow> string set" where
  "issued (LoginAnswer now (Inr r)) =
     (if truthy (jprop r ''mfaRequired'') \<and> truthy (jprop r ''mfaPendingToken'') then {} else {token_of r})"
| "issued (MfaAnswer now (Inr r)) = {token_of r}"
| "issued (RefreshAnswer (Some res)) = (if res_ok res then token_of ` set_option (body res) else {})"
| "issued _ = {}"

lemma token_store [simp]: "token (store_token s) = token s"
  by (simp add: store_token_def)

lemma handler_token: "token (session_handler e s) \<in> {[], token s} \<union> issued e"
proof (cases e)
  case (LoginAnswer now a)
  then show ?thesis by (cases a) (auto simp: login_settle_def)
next
  case (MfaAnswer now a)
  then show ?thesis by (cases a) (auto simp: submitMfaLogin_settle_def closeMfaModal_def)
next
  case (RefreshAnswer r)
  then show ?thesis
    by (cases r) (auto simp: refreshSession_settle_def Let_def onInvalid_def split: option.splits)
qed (auto simp: submitMfaLogin_start_def closeMfaModal_def refreshSession_start_def onInvalid_def expiry_tick_def logout_def Let_def)

text \<open>C11: An administrator is signed in only with a token the server issued: after any sequence of events the token is empty,
  the initial one, or one from a successful answer of the login, MFA or refresh calls; an answer that
  asks for the second factor never signs in. The copy in \<open>localStorage\<close> always is the current token.\<close>

theorem session_token_was_issued:
  assumes "stored s = (if token s = [] then None else Some (token s))"
  shows "token (foldl session_step s evs) \<in> {[], token s} \<union> (\<Union>e\<in>set evs. issued e)
    \<and> stored (foldl session_step s evs)
      = (if token (foldl session_step s evs) = [] then None else Some (token (foldl session_step s evs)))"
proof
  show "token (foldl session_step s evs) \<in> {[], token s} \<union> (\<Union>e\<in>set evs. issued e)"
  proof (induction evs arbitrary: s)
    case (Cons e evs)
    have "token (foldl session_step (session_step s e) evs) \<in> {[], token (session_step s e)} \<union> (\<Union>e\<in>set evs. issued e)"
      by (rule Cons.IH)
    moreover have "token (session_step s e) \<in> {[], token s} \<union> issued e" using handler_token by (simp add: session_step_def)
    ultimately show ?case by auto
  qed simp
  show "stored (foldl session_step s evs)
      = (if token (foldl session_step s evs) = [] then None else Some (token (foldl session_step s evs)))"
    using assms by (cases evs rule: rev_cases) (simp_all add: session_step_def store_token_def)
qed

definition signed_out :: session_sys where
  "signed_out = \<lparr>token = [], stored = None, sessionNow = 0, mfaOpen = False, mfaPendingToken = [], mfaTotpCode = [],
     mfaRecoveryCode = [], mfaError = NoText, mfaBusy = False, signError = NoText, overview = JNull, myAdminProfile = JNull,
     myAdminProfileLoading = False, page = paths_home, editOrganization = blank_organization, userListFilter = [], serverNameFilter = [],
     refreshing = 0\<rparr>"

theorem session_token_was_issued_witness:
  "token (foldl session_step signed_out [LoginAnswer 5 (Inr (JObj [(''mfaRequired'', JBool True), (''mfaPendingToken'', JStr ''p''),
      (''token'', JStr ''t'')])), MfaSubmit]) \<in> {[]}"
  using session_token_was_issued [of signed_out "[LoginAnswer 5 (Inr (JObj [(''mfaRequired'', JBool True), (''mfaPendingToken'', JStr ''p''),
      (''token'', JStr ''t'')])), MfaSubmit]"]
  by (simp add: signed_out_def jprop_def obj_get_def)

text \<open>The timer ends the session exactly when the token says so: after a tick the administrator is signed out if and only
  if the expiry time of the token has passed (or nobody was signed in); then the stored copy and the
  overview are gone and the message is shown.\<close>

theorem expiry_ends_session:
  "token (session_step s (Tick now)) = (if token_expired now (token s) then [] else token s)
   \<and> (token_expired now (token s) = False
      \<or> stored (session_step s (Tick now)) = None \<and> overview (session_step s (Tick now)) = JNull
        \<and> shown (signError (session_step s (Tick now))) \<and> page (session_step s (Tick now)) = paths_home)"
proof -
  have "\<not> token_expired now []" by (simp add: token_expired_def tokenExpiresAtMs_def)
  then show ?thesis by (cases "token s = []") (auto simp: session_step_def store_token_def expiry_tick_def onInvalid_def Let_def)
qed

text \<open>A page reload keeps a session exactly as long as its timer would: when the signed-in token has a numeric, non-zero
  expiry time, reading it back from the storage gives the token if it has not expired, and otherwise
  gives nothing and removes it.\<close>

theorem reload_agrees_with_timer:
  assumes "stored s = Some (token s)" and "token s \<noteq> []" and "jprop (parseJwtPayload (token s)) ''exp'' = JNum (Dec m e)" and "m \<noteq> 0"
  shows "readStoredTokenIfValid now (stored s) = (if token_expired now (token s) then ([], None) else (token s, Some (token s)))"
proof -
  have "mk_dec m e \<noteq> Dec 0 0 \<and> mk_dec m e \<noteq> NaN" for e
    using assms(4)
  proof (induction m e rule: mk_dec.induct)
    case (1 m e)
    then show ?case by (auto simp: mk_dec.simps [of m e])
  qed
  then have "truthy (JNum (times_1000 (Dec m e)))" by (simp add: times_1000_def)
  then show ?thesis using assms
    by (simp add: readStoredTokenIfValid_def token_expired_def tokenExpiresAtMs_def)
qed

text \<open>The payload of this token is \<^verbatim>\<open>{"exp":10}\<close>.\<close>

definition sample_token :: string where
  "sample_token = ''h.eyJleHAiOjEwfQ.s''"

lemma sample_payload: "parseJwtPayload sample_token = JObj [(''exp'', JNum (Dec 1 1))]"
  by code_simp

theorem reload_agrees_with_timer_witness:
  "readStoredTokenIfValid 9999 (stored (signed_out\<lparr>token := sample_token, stored := Some sample_token\<rparr>))
   = (sample_token, Some sample_token)"
proof -
  have "\<not> token_expired 9999 sample_token"
    by (simp add: token_expired_def tokenExpiresAtMs_def sample_payload jprop_def obj_get_def times_1000_def mk_dec.simps int_ge_def)
  then show ?thesis
    using reload_agrees_with_timer [of "signed_out\<lparr>token := sample_token, stored := Some sample_token\<rparr>" 1 1 9999]
    by (simp add: sample_payload jprop_def obj_get_def) (simp add: sample_token_def)
qed

text \<open>C34: A refresh that is under way when the administrator signs out signs in again when its answer arrives: the handler
  stores the token of the answer without looking whether the session it belongs to still exists.\<close>

theorem refresh_after_logout_signs_in:
  assumes "token s \<noteq> []" and "res_ok res" and "body res = Some v" and "token_of v \<noteq> []"
  shows "token (foldl session_step s [RefreshStart, Logout]) = []
    \<and> token (foldl session_step s [RefreshStart, Logout, RefreshAnswer (Some res)]) = token_of v
    \<and> stored (foldl session_step s [RefreshStart, Logout, RefreshAnswer (Some res)]) = Some (token_of v)"
proof -
  have "status res \<noteq> 401" using assms(2) by (simp add: res_ok_def)
  then show ?thesis using assms
    by (simp add: session_step_def store_token_def refreshSession_start_def logout_def refreshSession_settle_def Let_def)
qed

theorem refresh_after_logout_signs_in_witness:
  "token (foldl session_step (signed_out\<lparr>token := ''t1''\<rparr>) [RefreshStart, Logout,
      RefreshAnswer (Some \<lparr>status = 200, body = Some (JObj [(''token'', JStr ''t2'')])\<rparr>)]) = ''t2''"
  using refresh_after_logout_signs_in [of "signed_out\<lparr>token := ''t1''\<rparr>" "\<lparr>status = 200, body = Some (JObj [(''token'', JStr ''t2'')])\<rparr>"
      "JObj [(''token'', JStr ''t2'')]"]
  by (simp add: res_ok_def token_of_def str_prop_def jprop_def obj_get_def)

end
