(* ===== verification/Node_Config.thy ===== *)
theory Node_Config
  imports Settings Line_Diff Effects Panel_Data
begin

section \<open>Applying the configuration of a node\<close>

text \<open>
  The settings page of a node: the draft text, the text on the node and their diff, applying it,
  saving parts of the settings, and the versions of the client configuration.
\<close>

subsection \<open>State and derived values\<close>

record node_sys =
  ovpnSettings :: jsobj
  agentRaw :: string
  applying :: bool
  applyLogVisible :: bool
  applyLog :: uitext
  applyStatus :: string
  applyMessage :: uitext
  ovpnConfigPath :: jsval
  ovpnError :: uitext
  ovpnHints :: "jsval list"
  ovpnLoading :: bool
  rawLoading :: bool
  panelError :: uitext
  clientSettings :: jsobj
  clientVersions :: "jsval list"
  clientActiveId :: string
  clientSelectedId :: string
  clientSaving :: bool
  clientLoading :: bool
  materialsDh :: "jsval list"
  materialsTls :: "jsval list"
  clientError :: uitext
  saveModalOpen :: bool
  deleteBusy :: bool
  deleteOpen :: bool
  deleteVersionId :: string
  deleteError :: uitext
  applyClientBusy :: bool
  applyClientOpen :: bool
  applyClientError :: uitext
  deleteLabel :: uitext
  applyConfirmOpen :: bool
  applyConfirmDone :: bool

definition serverOpenVpnDraftRaw :: "(string \<Rightarrow> string \<Rightarrow> int) \<Rightarrow> node_sys \<Rightarrow> string" where
  "serverOpenVpnDraftRaw lc s = fallbackRawFromSettings lc (ovpnSettings s)"

definition serverOpenVpnActiveRaw :: "(string \<Rightarrow> string \<Rightarrow> int) \<Rightarrow> node_sys \<Rightarrow> string" where
  "serverOpenVpnActiveRaw lc s = js_or (js_trim (agentRaw s)) (fallbackRawFromSettings lc (ovpnSettings s))"

definition serverOpenVpnConfigDiff :: "(string \<Rightarrow> string \<Rightarrow> int) \<Rightarrow> node_sys \<Rightarrow> diff_line list" where
  "serverOpenVpnConfigDiff lc s = lineDiffLcs (serverOpenVpnActiveRaw lc s) (serverOpenVpnDraftRaw lc s)"

subsection \<open>Loading\<close>

text \<open>
  Four loading effects: the settings of the node, the client part of them, the text of its configuration file and the
  key material. The second depends on a tab that no address has. The third reads also \<^verbatim>\<open>serverOpenVpnSettings\<close>, an object
  that React compares by identity, here the number of times it was set.
\<close>

definition load_node_start :: "page_env \<Rightarrow> node_sys \<Rightarrow> node_sys \<times> call list \<times> call list" where
  "load_node_start e s =
     (if on_server_tab [''settings'', ''ca-center'', ''keys'', ''certificates''] e \<and> snd e \<noteq> []
      then (s\<lparr>ovpnLoading := True, ovpnError := NoText, ovpnHints := []\<rparr>,
            [(''GET'', node_path (selectedServerId (fst e)) ''/openvpn-settings'', JUndef)], [])
      else (s, [], []))"

definition load_node_settle :: "page_env \<Rightarrow> bool \<Rightarrow> answer \<Rightarrow> node_sys \<Rightarrow> node_sys" where
  "load_node_settle e cancelled a s =
     (if cancelled then s
      else case a of
        Inr data \<Rightarrow>
          if data = JNull then s\<lparr>ovpnSettings := [], ovpnConfigPath := JStr [], ovpnError := MSG_NULL, ovpnHints := [], ovpnLoading := False\<rparr>
          else s\<lparr>ovpnSettings := load_settings (object_or_empty (jprop data ''settings'')),
                 ovpnConfigPath := (if truthy (jprop data ''configPath'') then jprop data ''configPath'' else JStr []),
                 ovpnHints := array_or_empty (jprop data ''hints''), ovpnLoading := False\<rparr>
      | Inl er \<Rightarrow> s\<lparr>ovpnSettings := [], ovpnConfigPath := JStr [], ovpnError := message_or er (Ui ''the settings could not be loaded''),
                  ovpnHints := hints er, ovpnLoading := False\<rparr>)"

text \<open>The client settings: the keys of the form and of the profile that the answer has.\<close>

definition pick_keys :: "string list \<Rightarrow> jsobj \<Rightarrow> jsobj" where
  "pick_keys ks all = fold (\<lambda>k merged. if obj_has all k then obj_put merged k (obj_get all k) else merged) ks []"

definition load_client_start :: "page_env \<Rightarrow> node_sys \<Rightarrow> node_sys \<times> call list \<times> call list" where
  "load_client_start e s =
     (if on_server_tab [''client''] e \<and> snd e \<noteq> []
      then (s\<lparr>clientLoading := True, clientError := NoText\<rparr>,
            [(''GET'', node_path (selectedServerId (fst e)) ''/openvpn-settings'', JUndef)], [])
      else (s, [], []))"

definition load_client_settle :: "page_env \<Rightarrow> bool \<Rightarrow> answer \<Rightarrow> node_sys \<Rightarrow> node_sys" where
  "load_client_settle e cancelled a s =
     (if cancelled then s
      else (case a of
          Inr data \<Rightarrow> s\<lparr>clientSettings := pick_keys (map fkey OPENVPN_CLIENT_SETTINGS_FIELDS @ PANEL_CLIENT_PROFILE_KEYS)
                        (object_or_empty (jprop data ''settings''))\<rparr>
        | Inl er \<Rightarrow> s\<lparr>clientSettings := [], clientError := message_or er (Ui ''the client configuration could not be loaded'')\<rparr>)
        \<lparr>clientVersions := [], clientActiveId := [], clientSelectedId := [], clientLoading := False\<rparr>)"

definition load_raw_deps :: "page_env \<times> nat \<Rightarrow> (string \<times> string \<times> string \<times> string \<times> bool) \<times> nat" where
  "load_raw_deps e = (server_deps (fst e), snd e)"

definition load_raw_start :: "page_env \<times> nat \<Rightarrow> node_sys \<Rightarrow> node_sys \<times> call list \<times> call list" where
  "load_raw_start e s =
     (if on_server_tab [''settings''] (fst e) \<and> snd (fst e) \<noteq> []
      then (s\<lparr>rawLoading := True\<rparr>, [(''GET'', node_path (selectedServerId (fst (fst e))) ''/openvpn-raw-config'', JUndef)], [])
      else (s, [], []))"

definition load_raw_settle :: "page_env \<times> nat \<Rightarrow> bool \<Rightarrow> answer \<Rightarrow> node_sys \<Rightarrow> node_sys" where
  "load_raw_settle e cancelled a s =
     (if cancelled then s
      else s\<lparr>agentRaw := (case a of Inr data \<Rightarrow> str_prop data ''rawConfig'' | Inl er \<Rightarrow> []), rawLoading := False\<rparr>)"

text \<open>The two requests of \<^verbatim>\<open>Promise.all\<close> are answered together: both values, or the first error.\<close>

definition material_calls :: "string \<Rightarrow> call list" where
  "material_calls nodeId = [(''GET'', node_path nodeId ''/openvpn-materials?kind=dh'', JUndef),
     (''GET'', node_path nodeId ''/openvpn-materials?kind=tls_auth'', JUndef)]"

definition load_materials_deps :: "page_env \<Rightarrow> string \<times> string \<times> string \<times> string \<times> string" where
  "load_materials_deps e = (primaryNav (fst e), serversView (fst e), serverDetailTab (fst e), selectedServerId (fst e), snd e)"

definition load_materials_start :: "page_env \<Rightarrow> node_sys \<Rightarrow> node_sys \<times> call list \<times> call list" where
  "load_materials_start e s =
     (s, if on_server_tab [''settings'', ''keys'', ''certificates''] e \<and> snd e \<noteq> [] then material_calls (selectedServerId (fst e)) else [], [])"

definition load_materials_settle :: "page_env \<Rightarrow> bool \<Rightarrow> req_error + jsval \<times> jsval \<Rightarrow> node_sys \<Rightarrow> node_sys" where
  "load_materials_settle e cancelled a s =
     (if cancelled then s
      else case a of Inr (dh, tls) \<Rightarrow> s\<lparr>materialsDh := array_or_empty dh, materialsTls := array_or_empty tls\<rparr>
        | Inl er \<Rightarrow> s\<lparr>materialsDh := [], materialsTls := []\<rparr>)"

text \<open>The same request after a change of the material, without a cleanup: nothing cancels it.\<close>

definition refreshServerNodeOpenvpnMaterials_start :: "string \<Rightarrow> string \<Rightarrow> call list" where
  "refreshServerNodeOpenvpnMaterials_start auth nodeId = (if nodeId = [] \<or> auth = [] then [] else material_calls nodeId)"

definition refreshServerNodeOpenvpnMaterials_settle :: "req_error + jsval \<times> jsval \<Rightarrow> node_sys \<Rightarrow> node_sys" where
  "refreshServerNodeOpenvpnMaterials_settle a s =
     (case a of Inr (dh, tls) \<Rightarrow> s\<lparr>materialsDh := array_or_empty dh, materialsTls := array_or_empty tls\<rparr>
        | Inl er \<Rightarrow> s\<lparr>materialsDh := [], materialsTls := []\<rparr>)"

definition node_view :: "node_sys \<Rightarrow> jsobj \<times> jsval \<times> jsval list \<times> bool" where
  "node_view s = (ovpnSettings s, ovpnConfigPath s, ovpnHints s, ovpnLoading s)"

definition node_answer :: "jsval \<Rightarrow> jsobj \<times> jsval \<times> jsval list \<times> bool" where
  "node_answer data =
     (if data = JNull then ([], JStr [], [], False)
      else (load_settings (object_or_empty (jprop data ''settings'')),
            if truthy (jprop data ''configPath'') then jprop data ''configPath'' else JStr [], array_or_empty (jprop data ''hints''), False))"

interpretation node_loader: loading_effect server_deps load_node_start load_node_settle node_view "\<lambda>e. node_answer"
  by unfold_locales (auto simp: load_node_settle_def node_view_def node_answer_def)

interpretation client_loader: loading_effect server_deps load_client_start load_client_settle "\<lambda>s. (clientSettings s, clientLoading s)"
    "\<lambda>e v. (pick_keys (map fkey OPENVPN_CLIENT_SETTINGS_FIELDS @ PANEL_CLIENT_PROFILE_KEYS) (object_or_empty (jprop v ''settings'')), False)"
  by unfold_locales (auto simp: load_client_settle_def)

interpretation raw_loader: loading_effect load_raw_deps load_raw_start load_raw_settle "\<lambda>s. (agentRaw s, rawLoading s)"
    "\<lambda>e v. (str_prop v ''rawConfig'', False)"
  by unfold_locales (auto simp: load_raw_settle_def)

interpretation material_loader: loading_effect load_materials_deps load_materials_start load_materials_settle
    "\<lambda>s. (materialsDh s, materialsTls s)" "\<lambda>e p. (array_or_empty (fst p), array_or_empty (snd p))"
  by unfold_locales (auto simp: load_materials_settle_def split: prod.split)

subsection \<open>Applying the server configuration\<close>

definition raw_config :: "(string \<Rightarrow> string \<Rightarrow> int) \<Rightarrow> node_sys \<Rightarrow> string" where
  "raw_config lc s = rawConfigFromServerSettingsDiff (serverOpenVpnConfigDiff lc s)"

text \<open>
  The result of the part before the request: \<open>None\<close> when a guard returns at once, otherwise the new
  state and the call, which is missing when there is no text to apply.
\<close>

definition applyServerOpenVpnSettings_start ::
  "(string \<Rightarrow> string \<Rightarrow> int) \<Rightarrow> string \<Rightarrow> string \<Rightarrow> node_sys \<Rightarrow> (node_sys \<times> call option) option" where
  "applyServerOpenVpnSettings_start lc auth nodeId s =
     (if nodeId = [] \<or> auth = [] then None
      else if js_trim (raw_config lc s) = [] then Some (s\<lparr>ovpnError := Ui ''there is no configuration text to apply''\<rparr>, None)
      else Some (s\<lparr>applying := True, applyLogVisible := True, applyLog := Ui ''writing server.conf and restarting'', applyStatus := ''idle'',
                   applyMessage := NoText, ovpnError := NoText, ovpnHints := [], panelError := NoText\<rparr>,
        Some (''POST'', node_path nodeId ''/openvpn-settings-apply'',
          JObj [(''rawConfig'', JStr (raw_config lc s)), (''settings'', JObj (buildOpenVpnSettingsForPanelSave (ovpnSettings s)))])))"

definition applyServerOpenVpnSettings_settle :: "string \<Rightarrow> answer \<Rightarrow> node_sys \<Rightarrow> node_sys" where
  "applyServerOpenVpnSettings_settle rawConfig a s = (case a of
       Inr data \<Rightarrow>
         (let out = js_trim (str_prop data ''output'');
              s1 = s\<lparr>applyLog := (if out = [] then Ui ''no output'' else Raw out), applyStatus := ''success'',
                     applyMessage := error_text (jprop data ''message'') (Ui ''configuration written, OpenVPN restarted''),
                     agentRaw := rawConfig, applying := False\<rparr>
          in case jprop data ''settings'' of JObj ob \<Rightarrow> s1\<lparr>ovpnSettings := load_settings ob\<rparr> | _ \<Rightarrow> s1)
     | Inl e \<Rightarrow>
         (let out = js_trim (err_output e) in
          s\<lparr>applyLog := (if out = [] then message_or e (Ui ''applying failed'') else Raw out), applyStatus := ''error'',
            applyMessage := message_or e (Ui ''applying the configuration ended with an error''),
            ovpnError := Cat (message_or e (Ui ''applying failed'')) (if out = [] then NoText else Cat (Raw [LF, LF]) (Raw out)),
            ovpnHints := hints e, applying := False\<rparr>))"

subsection \<open>Saving parts of the settings\<close>

definition persistOpenVpnPanelPartial_call :: "string \<Rightarrow> jsobj \<Rightarrow> call" where
  "persistOpenVpnPanelPartial_call nodeId partial =
     (''POST'', node_path nodeId ''/openvpn-settings'', JObj [(''settings'', JObj partial)])"

definition persistOpenVpnPanelPartial_done :: "jsobj \<Rightarrow> jsobj \<Rightarrow> jsobj" where
  "persistOpenVpnPanelPartial_done partial prev = obj_spread prev partial"

definition client_partial :: "jsobj \<Rightarrow> jsobj" where
  "client_partial settings = fold (save_profile settings) PANEL_CLIENT_PROFILE_KEYS (buildOpenVpnClientConfigPayload settings)"

definition saveServerOpenVpnClientSettings_start :: "string \<Rightarrow> string \<Rightarrow> node_sys \<Rightarrow> (node_sys \<times> call list) option" where
  "saveServerOpenVpnClientSettings_start auth nodeId s =
     (if nodeId = [] \<or> auth = [] then None
      else Some (s\<lparr>clientSaving := True, clientError := NoText, panelError := NoText\<rparr>,
        [persistOpenVpnPanelPartial_call nodeId (client_partial (clientSettings s))]))"

definition saveServerOpenVpnClientSettings_settle :: "jsobj \<Rightarrow> answer \<Rightarrow> node_sys \<Rightarrow> node_sys" where
  "saveServerOpenVpnClientSettings_settle partial a s = (case a of
       Inr v \<Rightarrow> s\<lparr>ovpnSettings := persistOpenVpnPanelPartial_done partial (ovpnSettings s), saveModalOpen := True, clientSaving := False\<rparr>
     | Inl e \<Rightarrow> s\<lparr>clientError := message_or e (Ui ''the client configuration could not be saved''), clientSaving := False\<rparr>)"

subsection \<open>Versions of the client configuration\<close>

text \<open>\<^verbatim>\<open>String(data?.activeVersionId || versions[0]?.id || "")\<close>\<close>

definition active_version :: "jsval \<Rightarrow> jsval list \<Rightarrow> string" where
  "active_version data versions =
     (let a = jprop data ''activeVersionId''; f = (case versions of [] \<Rightarrow> JUndef | v # _ \<Rightarrow> jprop v ''id'')
      in if truthy a then to_str a else str_or f)"

definition deleteServerOpenVpnClientVersion_start :: "string \<Rightarrow> string \<Rightarrow> node_sys \<Rightarrow> (node_sys \<times> call list) option" where
  "deleteServerOpenVpnClientVersion_start auth nodeId s =
     (if nodeId = [] \<or> auth = [] \<or> deleteVersionId s = [] then None
      else Some (s\<lparr>deleteBusy := True, deleteError := NoText\<rparr>,
        [(''DELETE'', node_path nodeId (''/openvpn-client-config-versions/'' @ encodeURIComponent (deleteVersionId s)), JUndef)]))"

definition deleteServerOpenVpnClientVersion_settle :: "answer \<Rightarrow> node_sys \<Rightarrow> node_sys" where
  "deleteServerOpenVpnClientVersion_settle a s = (case a of
       Inr data \<Rightarrow>
         (let versions = array_or_empty (jprop data ''versions''); act = active_version data versions in
          s\<lparr>clientVersions := versions, clientSettings := object_or_empty (jprop data ''settings''), clientActiveId := act,
            clientSelectedId := act, deleteOpen := False, deleteVersionId := [], deleteLabel := NoText, deleteBusy := False, deleteError := NoText\<rparr>)
     | Inl e \<Rightarrow> s\<lparr>deleteBusy := False, deleteError := message_or e (Ui ''the version could not be deleted'')\<rparr>)"

definition applyServerOpenVpnClientSettings_start :: "string \<Rightarrow> string \<Rightarrow> node_sys \<Rightarrow> (node_sys \<times> call list) option" where
  "applyServerOpenVpnClientSettings_start auth nodeId s =
     (if nodeId = [] \<or> auth = [] \<or> clientSelectedId s = [] then None
      else Some (s\<lparr>applyClientBusy := True, applyClientError := NoText\<rparr>,
        [(''POST'', node_path nodeId ''/openvpn-client-config-apply'', JObj [(''versionId'', JStr (clientSelectedId s))])]))"

definition applyServerOpenVpnClientSettings_settle :: "answer \<Rightarrow> node_sys \<Rightarrow> node_sys" where
  "applyServerOpenVpnClientSettings_settle a s = (case a of
       Inr data \<Rightarrow>
         (let versions = array_or_empty (jprop data ''versions''); base = object_or_empty (jprop data ''settings'');
              act = active_version data versions;
              hit = find (\<lambda>v. jprop v ''id'' = JStr act) versions;
              hitSettings = (case hit of None \<Rightarrow> base | Some v \<Rightarrow> (case jprop v ''settings'' of JObj ob \<Rightarrow> ob | _ \<Rightarrow> base))
          in s\<lparr>clientVersions := versions, clientActiveId := act, clientSelectedId := act,
               clientSettings := (if act \<noteq> [] then hitSettings else clientSettings s),
               applyClientOpen := False, applyClientBusy := False, applyClientError := NoText\<rparr>)
     | Inl e \<Rightarrow> s\<lparr>applyClientBusy := False, applyClientError := message_or e (Ui ''the client configuration could not be applied'')\<rparr>)"

text \<open>What must not be lost when a request fails: the two forms and the versions.\<close>

definition node_data :: "node_sys \<Rightarrow> jsobj \<times> jsobj \<times> jsval list \<times> string \<times> string \<times> string" where
  "node_data s = (ovpnSettings s, clientSettings s, clientVersions s, clientActiveId s, clientSelectedId s, agentRaw s)"

interpretation client_save: async_action "saveServerOpenVpnClientSettings_start auth nodeId" "saveServerOpenVpnClientSettings_settle partial"
    clientSaving node_data for auth nodeId partial
  by unfold_locales (auto simp: saveServerOpenVpnClientSettings_start_def saveServerOpenVpnClientSettings_settle_def node_data_def
    split: if_splits sum.splits)

interpretation client_delete: async_action "deleteServerOpenVpnClientVersion_start auth nodeId" deleteServerOpenVpnClientVersion_settle
    deleteBusy node_data for auth nodeId
  by unfold_locales (auto simp: deleteServerOpenVpnClientVersion_start_def deleteServerOpenVpnClientVersion_settle_def node_data_def Let_def
    split: if_splits sum.splits)

interpretation client_apply: async_action "applyServerOpenVpnClientSettings_start auth nodeId" applyServerOpenVpnClientSettings_settle
    applyClientBusy node_data for auth nodeId
  by unfold_locales (auto simp: applyServerOpenVpnClientSettings_start_def applyServerOpenVpnClientSettings_settle_def node_data_def Let_def
    split: if_splits sum.splits)

subsection \<open>Properties\<close>

text \<open>C8: What is written to a node is what the form says: whatever text is on the node, the text sent with an apply consists of
  the lines rendered from the settings in the form (up to line ends and blank lines at the end), the
  settings saved with it are those of the form, and nothing is sent when there is no text.\<close>

theorem apply_sends_rendered_settings:
  "case applyServerOpenVpnSettings_start lc auth nodeId s of
     None \<Rightarrow> nodeId = [] \<or> auth = []
   | Some (s', None) \<Rightarrow> js_trim (js_join [LF] (to_lines (fallbackRawFromSettings lc (ovpnSettings s)))) = [] \<and> shown (ovpnError s')
   | Some (s', Some c) \<Rightarrow> applying s' \<and> ovpnSettings s' = ovpnSettings s
       \<and> c = (''POST'', node_path nodeId ''/openvpn-settings-apply'',
           JObj [(''rawConfig'', JStr (js_join [LF] (to_lines (fallbackRawFromSettings lc (ovpnSettings s))))),
                 (''settings'', JObj (buildOpenVpnSettingsForPanelSave (ovpnSettings s)))])"
  by (simp add: applyServerOpenVpnSettings_start_def raw_config_def serverOpenVpnConfigDiff_def serverOpenVpnDraftRaw_def raw_config_lines)

definition blank_node :: node_sys where
  "blank_node = \<lparr>ovpnSettings = [], agentRaw = [], applying = False, applyLogVisible = False, applyLog = NoText, applyStatus = ''idle'',
     applyMessage = NoText, ovpnConfigPath = JStr [], ovpnError = NoText, ovpnHints = [], ovpnLoading = False, rawLoading = False, panelError = NoText,
     clientSettings = [], clientVersions = [], clientActiveId = [], clientSelectedId = [], clientSaving = False, clientLoading = False,
     materialsDh = [], materialsTls = [], clientError = NoText,
     saveModalOpen = False, deleteBusy = False, deleteOpen = False, deleteVersionId = [], deleteError = NoText, applyClientBusy = False,
     applyClientOpen = False, applyClientError = NoText, deleteLabel = NoText, applyConfirmOpen = False, applyConfirmDone = False\<rparr>"

text \<open>C6: Quick changes between servers never show the settings of the wrong one: whatever requests for other servers are
  under way when the settings page turns to server \<open>i\<close>, and in whatever order the answers arrive, the page first keeps
  what it has and is marked loading, and when the request of this page is answered it shows exactly that
  answer and is no longer loading, whatever answers to the older requests come before or after.\<close>

theorem node_page_shows_its_server:
  assumes "runs_ok y" and "last_deps y \<noteq> Some (server_deps (r, tok))" and "on_server_tab [''settings''] (r, tok)" and "tok \<noteq> []"
    and "srv (req_count y) = Inr v" and "list_all arrives evs"
  defines "z \<equiv> foldl (effect_step server_deps load_node_start load_node_settle srv) y (Render (r, tok) # evs)"
  shows "(live z \<noteq> [] \<and> ovpnSettings (view z) = ovpnSettings (view y) \<and> ovpnLoading (view z))
    \<or> (live z = [] \<and> node_view (view z) = node_answer v)"
proof -
  have "on_server_tab [''settings'', ''ca-center'', ''keys'', ''certificates''] (r, tok)"
    using assms(3) by (auto simp: on_server_tab_def)
  then have "load_node_start (r, tok) (view y) = ((view y)\<lparr>ovpnLoading := True, ovpnError := NoText, ovpnHints := []\<rparr>,
      [(''GET'', node_path (selectedServerId r) ''/openvpn-settings'', JUndef)], [])"
    using assms(4) by (simp add: load_node_start_def)
  from node_loader.race [where srv = srv, OF assms(1,2) this assms(5,6)] show ?thesis
    by (auto simp: z_def)
qed

definition server_page :: "string \<Rightarrow> page_env" where
  "server_page i = (base_route\<lparr>serversView := ''detail'', serverDetailTab := ''settings'', selectedServerId := i\<rparr>, ''tok'')"

text \<open>Server \<open>a\<close> is opened, then \<open>b\<close>; the answer for \<open>b\<close> overtakes the one for \<open>a\<close>.\<close>

theorem node_page_shows_its_server_witness:
  "node_view (view (foldl (effect_step server_deps load_node_start load_node_settle
      (\<lambda>n. Inr (JObj [(''configPath'', JStr (if n = 0 then ''/a'' else ''/b''))]))) (fresh_effect blank_node)
      [Render (server_page ''a''), Render (server_page ''b''), Arrive 1, Arrive 0])) = node_answer (JObj [(''configPath'', JStr ''/b'')])"
proof -
  let ?srv = "\<lambda>n::nat. Inr (JObj [(''configPath'', JStr (if n = 0 then ''/a'' else ''/b''))]) :: answer"
  define y where "y = effect_step server_deps load_node_start load_node_settle ?srv (fresh_effect blank_node) (Render (server_page ''a''))"
  have f: "on_server_tab [''settings'', ''ca-center'', ''keys'', ''certificates''] (server_page i) = (i \<noteq> [])" for i
    by (simp add: on_server_tab_def server_page_def base_route_def)
  have y: "runs_ok y" "last_deps y = Some (server_deps (server_page ''a''))" "req_count y = 1" "length (awaited y) = 1"
    unfolding y_def by (simp_all add: fresh_effect_def load_node_start_def f send_def runs_ok_def) (simp_all add: server_page_def f)
  let ?z = "foldl (effect_step server_deps load_node_start load_node_settle ?srv) y (Render (server_page ''b'') # [Arrive 1, Arrive 0])"
  have l: "live ?z = []"
    unfolding y_def by (simp add: fresh_effect_def load_node_start_def f send_def live_def server_deps_def server_page_def base_route_def on_server_tab_def)
  have "last_deps y \<noteq> Some (server_deps (server_page ''b''))" using y by (simp add: server_deps_def server_page_def)
  then have "node_view (view ?z) = node_answer (JObj [(''configPath'', JStr ''/b'')])"
    using node_page_shows_its_server [of y "fst (server_page ''b'')" "snd (server_page ''b'')" ?srv "JObj [(''configPath'', JStr ''/b'')]" "[Arrive 1, Arrive 0]"]
      y l by (simp add: on_server_tab_def server_page_def base_route_def del: effect_step.simps)
  then show ?thesis by (simp add: y_def)
qed

text \<open>The client configuration is never loaded: on every route that an address parses to, the effect that fills the client
  form sends nothing and changes nothing, so the page state keeps the client settings, the versions and the
  selection it started with until some other handler sets them.\<close>

theorem client_config_never_loaded:
  assumes "parseAppRoute p q = Inr r"
  shows "load_client_start (r, tok) s = (s, [], [])"
  using parsed_route [OF assms] client_not_tab by (auto simp: load_client_start_def on_server_tab_def route_ok_def)

theorem client_config_never_loaded_witness:
  "\<exists>r. parseAppRoute ''/servers/s1'' ''?tab=client'' = Inr r \<and> load_client_start (r, ''tok'') blank_node = (blank_node, [], [])"
proof -
  have r: "parseAppRoute ''/servers/s1'' ''?tab=client'' =
     Inr (base_route\<lparr>serversView := ''detail'', selectedServerId := ''s1''\<rparr>)" by code_simp
  from client_config_never_loaded [OF r] r show ?thesis by blast
qed

text \<open>A failed request on the settings page loses nothing: applying, saving the client profile, deleting and applying a
  client version all keep the two forms, the versions, the selection and the text of the node, show an
  error and stop being busy. After a successful apply the text known of the node is the one that was sent.\<close>

theorem failed_node_action_keeps_forms:
  "node_data (applyServerOpenVpnSettings_settle raw (Inl e) s) = node_data s
     \<and> shown (ovpnError (applyServerOpenVpnSettings_settle raw (Inl e) s)) \<and> \<not> applying (applyServerOpenVpnSettings_settle raw a s)
   \<and> agentRaw (applyServerOpenVpnSettings_settle raw (Inr v) s) = raw
   \<and> node_data (saveServerOpenVpnClientSettings_settle partial (Inl e) s) = node_data s
     \<and> shown (clientError (saveServerOpenVpnClientSettings_settle partial (Inl e) s)) \<and> \<not> clientSaving (saveServerOpenVpnClientSettings_settle partial a s)
   \<and> node_data (deleteServerOpenVpnClientVersion_settle (Inl e) s) = node_data s
     \<and> shown (deleteError (deleteServerOpenVpnClientVersion_settle (Inl e) s)) \<and> \<not> deleteBusy (deleteServerOpenVpnClientVersion_settle a s)
   \<and> node_data (applyServerOpenVpnClientSettings_settle (Inl e) s) = node_data s
     \<and> shown (applyClientError (applyServerOpenVpnClientSettings_settle (Inl e) s)) \<and> \<not> applyClientBusy (applyServerOpenVpnClientSettings_settle a s)"
proof -
  have "node_data (applyServerOpenVpnSettings_settle raw (Inl e) s) = node_data s"
    "shown (ovpnError (applyServerOpenVpnSettings_settle raw (Inl e) s))" "agentRaw (applyServerOpenVpnSettings_settle raw (Inr v) s) = raw"
    by (simp_all add: applyServerOpenVpnSettings_settle_def Let_def node_data_def message_or_def text_or_def split: jsval.split)
  moreover have "\<not> applying (applyServerOpenVpnSettings_settle raw a s)"
    by (cases a) (simp_all add: applyServerOpenVpnSettings_settle_def Let_def split: jsval.split)
  moreover have "shown (clientError (saveServerOpenVpnClientSettings_settle partial (Inl e) s))"
    "shown (deleteError (deleteServerOpenVpnClientVersion_settle (Inl e) s))"
    "shown (applyClientError (applyServerOpenVpnClientSettings_settle (Inl e) s))"
    by (simp_all add: saveServerOpenVpnClientSettings_settle_def deleteServerOpenVpnClientVersion_settle_def
        applyServerOpenVpnClientSettings_settle_def message_or_def text_or_def)
  ultimately show ?thesis
    by (simp add: client_save.settle_error client_save.settle_idle client_delete.settle_error client_delete.settle_idle
        client_apply.settle_error client_apply.settle_idle)
qed

text \<open>The active version is the one whose settings are in the form: after a client version was applied and the answer names
  an active version, that version is selected, and the form holds the settings stored with it (or
  those of the answer when the version carries none).\<close>

theorem applied_version_is_shown:
  assumes "find (\<lambda>v. jprop v ''id'' = JStr (active_version data (array_or_empty (jprop data ''versions'')))) (array_or_empty (jprop data ''versions'')) = Some v"
    and "jprop v ''settings'' = JObj ob" and "active_version data (array_or_empty (jprop data ''versions'')) \<noteq> []"
  shows "clientSettings (applyServerOpenVpnClientSettings_settle (Inr data) s) = ob
    \<and> JStr (clientSelectedId (applyServerOpenVpnClientSettings_settle (Inr data) s)) = jprop v ''id''
    \<and> clientActiveId (applyServerOpenVpnClientSettings_settle (Inr data) s) = clientSelectedId (applyServerOpenVpnClientSettings_settle (Inr data) s)"
proof -
  have "jprop v ''id'' = JStr (active_version data (array_or_empty (jprop data ''versions'')))"
    using assms(1) by (auto simp: find_Some_iff)
  then show ?thesis using assms by (simp add: applyServerOpenVpnClientSettings_settle_def Let_def)
qed

definition sample_versions :: jsval where
  "sample_versions = JObj [(''activeVersionId'', JStr ''v2''), (''versions'', JArr [JObj [(''id'', JStr ''v2''),
     (''settings'', JObj [(''verb'', JStr ''4'')])]])]"

theorem applied_version_is_shown_witness:
  "clientSettings (applyServerOpenVpnClientSettings_settle (Inr sample_versions) blank_node) = [(''verb'', JStr ''4'')]"
  by (rule applied_version_is_shown [THEN conjunct1, of _ "JObj [(''id'', JStr ''v2''), (''settings'', JObj [(''verb'', JStr ''4'')])]"])
     (simp_all add: sample_versions_def active_version_def array_or_empty_def jprop_def obj_get_def)

end
