(* ===== verification/Scripts.thy ===== *)
theory Scripts
  imports Actions Panel_Data
begin

section \<open>Handlers with several requests\<close>

text \<open>
  Many handlers of \<^verbatim>\<open>App.tsx\<close> wait more than once: they create a certificate, save the settings that refer to it and
  refresh the lists. Such an \<^verbatim>\<open>async\<close> function is modelled by a \<open>script\<close>, a tree of the steps it takes: the functional
  updates it makes of the page state, the requests it sends with a continuation for every answer, and the
  refreshes it asks \<^verbatim>\<open>loadData\<close> for. What the function captured when it was created (React closures) is the
  state the script is built from; what it reads through a ref or in an updater is the state when that step runs (\<open>Get\<close>, \<open>Set\<close>).
\<close>

datatype 's script =
    Stop
  | Set "'s \<Rightarrow> 's" "'s script"
  | Get "'s \<Rightarrow> 's script"
  | Ask call "answer \<Rightarrow> 's script"
  | Attempt call "answer \<Rightarrow> 's script"
  | Refresh refresh_group "'s script"
  | Kick refresh_group "'s script"

text \<open>
  \<open>Attempt\<close> is a request whose failure the code catches on the spot and ignores; \<open>Ask\<close> is any other.
  \<open>Refresh\<close> is \<^verbatim>\<open>await loadData(\<dots>)\<close>, \<open>Kick\<close> the same without waiting.
  The acts are what the rest of the program sees of a handler that runs.
\<close>

datatype act = Called call answer | Attempted call answer | Refreshed refresh_group

text \<open>
  \<open>exec k srv env n s\<close> runs the script on the state \<open>s\<close>. \<open>srv n c\<close> is the answer to call \<open>c\<close> when it is the \<open>n\<close>-th wait;
  \<open>env n\<close> is whatever else happened to the page state during that wait: edits of the user, polls, other handlers.
\<close>

primrec exec :: "'s script \<Rightarrow> (nat \<Rightarrow> call \<Rightarrow> answer) \<Rightarrow> (nat \<Rightarrow> 's \<Rightarrow> 's) \<Rightarrow> nat \<Rightarrow> 's \<Rightarrow> 's \<times> act list" where
  "exec Stop srv env n s = (s, [])"
| "exec (Set f k) srv env n s = exec k srv env n (f s)"
| "exec (Get k) srv env n s = exec (k s) srv env n s"
| "exec (Ask c k) srv env n s =
     (let r = exec (k (srv n c)) srv env (Suc n) (env n s) in (fst r, Called c (srv n c) # snd r))"
| "exec (Attempt c k) srv env n s =
     (let r = exec (k (srv n c)) srv env (Suc n) (env n s) in (fst r, Attempted c (srv n c) # snd r))"
| "exec (Refresh g k) srv env n s =
     (let r = exec k srv env (Suc n) (env n s) in (fst r, Refreshed g # snd r))"
| "exec (Kick g k) srv env n s = (let r = exec k srv env n s in (fst r, Refreshed g # snd r))"

text \<open>\<^verbatim>\<open>try { v = await request(c); \<dots> } catch (e) { \<dots> }\<close>\<close>

definition try_ask :: "call \<Rightarrow> (req_error \<Rightarrow> 's script) \<Rightarrow> (jsval \<Rightarrow> 's script) \<Rightarrow> 's script" where
  "try_ask c handle k = Ask c (\<lambda>a. case a of Inl e \<Rightarrow> handle e | Inr v \<Rightarrow> k v)"

fun is_call :: "act \<Rightarrow> bool" where
  "is_call (Called c a) = True"
| "is_call _ = False"

fun bad_act :: "act \<Rightarrow> bool" where
  "bad_act (Called c (Inl e)) = True"
| "bad_act _ = False"

definition calls_of :: "act list \<Rightarrow> call list" where
  "calls_of acts = concat (map (\<lambda>a. case a of Called c r \<Rightarrow> [c] | Attempted c r \<Rightarrow> [c] | Refreshed g \<Rightarrow> []) acts)"

lemma calls_of_simps [simp]:
  "calls_of [] = []" "calls_of (Called c r # acts) = c # calls_of acts" "calls_of (Attempted c r # acts) = c # calls_of acts"
  "calls_of (Refreshed g # acts) = calls_of acts"
  by (simp_all add: calls_of_def)

lemma bad_act_Called [simp]: "bad_act (Called c a) = (\<exists>e. a = Inl e)"
  by (cases a) auto

lemma bad_is_call: "list_ex bad_act acts \<Longrightarrow> list_ex is_call acts"
  by (induction acts) (auto elim: bad_act.elims)

lemma exec_try_ask [simp]:
  "exec (try_ask c handle k) srv env n s =
     (let r = exec (case srv n c of Inl e \<Rightarrow> handle e | Inr v \<Rightarrow> k v) srv env (Suc n) (env n s) in (fst r, Called c (srv n c) # snd r))"
  by (simp add: try_ask_def)

subsection \<open>Dialogs\<close>

text \<open>The state of a modal dialog: \<^verbatim>\<open>{ open, busy, error, \<dots>form }\<close>.\<close>

record 'f modal =
  m_open :: bool
  m_busy :: bool
  m_error :: uitext
  m_form :: 'f

definition closed_modal :: "'f \<Rightarrow> 'f modal" where
  "closed_modal f = \<lparr>m_open = False, m_busy = False, m_error = NoText, m_form = f\<rparr>"

definition begin_modal :: "'f modal \<Rightarrow> 'f modal" where
  "begin_modal m = m\<lparr>m_busy := True, m_error := NoText\<rparr>"

definition fail_modal :: "uitext \<Rightarrow> 'f modal \<Rightarrow> 'f modal" where
  "fail_modal t m = m\<lparr>m_busy := False, m_error := t\<rparr>"

definition reject_modal :: "uitext \<Rightarrow> 'f modal \<Rightarrow> 'f modal" where
  "reject_modal t m = m\<lparr>m_error := t\<rparr>"

lemma modal_simps [simp]:
  "m_open (closed_modal f) = False" "m_busy (closed_modal f) = False" "m_error (closed_modal f) = NoText" "m_form (closed_modal f) = f"
  "m_open (begin_modal m) = m_open m" "m_busy (begin_modal m) = True" "m_error (begin_modal m) = NoText" "m_form (begin_modal m) = m_form m"
  "m_open (fail_modal t m) = m_open m" "m_busy (fail_modal t m) = False" "m_error (fail_modal t m) = t" "m_form (fail_modal t m) = m_form m"
  "m_open (reject_modal t m) = m_open m" "m_busy (reject_modal t m) = m_busy m" "m_error (reject_modal t m) = t"
  "m_form (reject_modal t m) = m_form m"
  by (simp_all add: closed_modal_def begin_modal_def fail_modal_def reject_modal_def)

text \<open>
  A run of a dialog's handler, from the captured state \<open>s0\<close> on the state \<open>s\<close>. The contract, when nothing else touches the
  dialog meanwhile: without a request only its error text may change; when every request succeeded it ends closed and idle;
  when one failed it ends idle with a message and otherwise as it was, its form included.
\<close>

definition undisturbed :: "('s \<Rightarrow> 'f modal) \<Rightarrow> (nat \<Rightarrow> 's \<Rightarrow> 's) \<Rightarrow> bool" where
  "undisturbed modal env \<longleftrightarrow> (\<forall>n s. modal (env n s) = modal s)"

definition modal_status :: "'f modal \<Rightarrow> bool \<times> bool \<times> uitext" where
  "modal_status m = (m_open m, m_busy m, m_error m)"

text \<open>What a run from the status \<open>st\<close> with these acts may end in.\<close>

definition outcome_ok :: "bool \<times> bool \<times> uitext \<Rightarrow> act list \<Rightarrow> bool \<times> bool \<times> uitext \<Rightarrow> bool" where
  "outcome_ok st acts st' =
     (if list_ex bad_act acts then fst st' = fst st \<and> \<not> fst (snd st') \<and> shown (snd (snd st'))
      else if list_ex is_call acts then \<not> fst st' \<and> \<not> fst (snd st')
      else fst st' = fst st \<and> fst (snd st') = fst (snd st))"

locale dialog =
  fixes handler :: "'s \<Rightarrow> 's script"
    and modal :: "'s \<Rightarrow> 'f modal"
  assumes quiet: "\<not> list_ex is_call (snd (exec (handler s0) srv env n s)) \<Longrightarrow>
      \<exists>t. modal (fst (exec (handler s0) srv env n s)) = reject_modal t (modal s)"
    and succeeds: "undisturbed modal env \<Longrightarrow> list_ex is_call (snd (exec (handler s0) srv env n s)) \<Longrightarrow>
      \<not> list_ex bad_act (snd (exec (handler s0) srv env n s)) \<Longrightarrow>
      \<not> m_open (modal (fst (exec (handler s0) srv env n s))) \<and> \<not> m_busy (modal (fst (exec (handler s0) srv env n s)))"
    and fails: "undisturbed modal env \<Longrightarrow> list_ex bad_act (snd (exec (handler s0) srv env n s)) \<Longrightarrow>
      \<exists>t. shown t \<and> modal (fst (exec (handler s0) srv env n s)) = fail_modal t (modal s)"
begin

lemma never_stuck:
  assumes "undisturbed modal env" and "\<not> m_busy (modal s)"
  shows "\<not> m_busy (modal (fst (exec (handler s0) srv env n s)))"
  using quiet [of s0 srv env n s] succeeds [OF assms(1), of s0 srv n s] fails [OF assms(1), of s0 srv n s] assms(2) by force

lemma open_after:
  assumes "undisturbed modal env" and "m_open (modal s)"
  shows "m_open (modal (fst (exec (handler s0) srv env n s)))
    \<longleftrightarrow> \<not> list_ex is_call (snd (exec (handler s0) srv env n s)) \<or> list_ex bad_act (snd (exec (handler s0) srv env n s))"
  using quiet [of s0 srv env n s] succeeds [OF assms(1), of s0 srv n s] fails [OF assms(1), of s0 srv n s] assms by force

lemma outcome:
  assumes "undisturbed modal env"
  shows "outcome_ok (modal_status (modal s)) (snd (exec (handler s0) srv env n s)) (modal_status (modal (fst (exec (handler s0) srv env n s))))"
  using quiet [of s0 srv env n s] succeeds [OF assms, of s0 srv n s] fails [OF assms, of s0 srv n s]
    bad_is_call [of "snd (exec (handler s0) srv env n s)"]
  by (cases "list_ex bad_act (snd (exec (handler s0) srv env n s))"; cases "list_ex is_call (snd (exec (handler s0) srv env n s))")
    (auto simp: outcome_ok_def modal_status_def)

lemma input_kept:
  assumes "undisturbed modal env" and "m_open (modal (fst (exec (handler s0) srv env n s)))"
  shows "m_form (modal (fst (exec (handler s0) srv env n s))) = m_form (modal s)"
  using quiet [of s0 srv env n s] succeeds [OF assms(1), of s0 srv n s] fails [OF assms(1), of s0 srv n s] assms by force

end

lemma shown_message_or [simp]: "shown d \<Longrightarrow> shown (message_or e d)"
  by (simp add: message_or_def text_or_def)

lemma reject_self: "\<exists>t. m = reject_modal t m"
  by (rule exI [of _ "m_error m"]) (simp add: reject_modal_def)

lemma fail_begin [simp]: "fail_modal t (begin_modal m) = fail_modal t m"
  by (simp add: fail_modal_def begin_modal_def)

lemma fails_with: "shown t \<Longrightarrow> \<exists>u. shown u \<and> fail_modal t m = fail_modal u m"
  by blast

lemma rejects_with: "\<exists>u. reject_modal t m = reject_modal u m"
  by blast

lemmas dialog_outcomes = undisturbed_def reject_self fails_with rejects_with

subsection \<open>Handlers with a finally\<close>

text \<open>
  Handlers that set a busy flag and clear it in \<^verbatim>\<open>finally\<close>. Here the contract holds whatever else happens to the state
  during the waits: a run that sent anything ends idle, a run that sent nothing leaves the flag alone.
\<close>

locale finally_idle =
  fixes handler :: "'s \<Rightarrow> 's script"
    and busy :: "'s \<Rightarrow> bool"
  assumes run: "busy (fst (exec (handler s0) srv env n s)) = (busy s \<and> snd (exec (handler s0) srv env n s) = [])"
begin

lemma idle_again: "\<not> busy s \<Longrightarrow> \<not> busy (fst (exec (handler s0) srv env n s))"
  by (simp add: run)

text \<open>Handlers that run one after the other, each created in the state the one before left.\<close>

primrec rounds :: "nat \<Rightarrow> (nat \<Rightarrow> nat \<Rightarrow> call \<Rightarrow> answer) \<Rightarrow> (nat \<Rightarrow> 's \<Rightarrow> 's) \<Rightarrow> 's \<Rightarrow> 's" where
  "rounds 0 srv env s = s"
| "rounds (Suc k) srv env s = (let t = rounds k srv env s in fst (exec (handler t) (srv k) env 0 t))"

lemma rounds_idle: "\<not> busy s \<Longrightarrow> \<not> busy (rounds k srv env s)"
  by (induction k) (simp_all add: Let_def idle_again)

end

end
