(* ===== verification/Cert_Selection.thy ===== *)
theory Cert_Selection
  imports Http Tables Routes "HOL-Library.Sublist"
begin

section \<open>Certificates shown and the days they may be valid\<close>

text \<open>
  The certificate lists of the pages, computed from the polled \<^verbatim>\<open>certificates\<close> and \<^verbatim>\<open>rootCAs\<close>; the state of a
  certificate in a table; the limit on the days of a new one. \<open>time_of\<close> stands for \<^verbatim>\<open>new Date(v).getTime()\<close>
  (\<open>None\<close> for \<^verbatim>\<open>NaN\<close>), \<open>now\<close> for \<^verbatim>\<open>Date.now()\<close>, \<open>lc\<close> for \<^verbatim>\<open>localeCompare\<close>.
\<close>

subsection \<open>Lists of certificates\<close>

text \<open>\<^verbatim>\<open>String(c.rootCaId || c.rootCa?.id || "").trim()\<close>\<close>

definition cert_root :: "jsval \<Rightarrow> string" where
  "cert_root c = js_trim (if truthy (jprop c ''rootCaId'') then to_str (jprop c ''rootCaId'') else str_or (jprop (jprop c ''rootCa'') ''id''))"

definition selectedServerCertificates :: "(string \<Rightarrow> string \<Rightarrow> int) \<Rightarrow> string \<Rightarrow> jsval list \<Rightarrow> jsval list" where
  "selectedServerCertificates lc serverId certificates =
     (if serverId = [] then []
      else js_sort (\<lambda>a b. lc (str_or (jprop a ''commonName'')) (str_or (jprop b ''commonName'')))
             (filter (\<lambda>c. jprop c ''agentNodeId'' = JStr serverId) certificates))"

definition panelRootCaIdForServer :: "jsobj \<Rightarrow> string" where
  "panelRootCaIdForServer settings = js_trim (str_or (obj_get settings ''panelRootCaId''))"

definition keysTabServerCertificates :: "(string \<Rightarrow> string \<Rightarrow> int) \<Rightarrow> string \<Rightarrow> jsobj \<Rightarrow> jsval list \<Rightarrow> jsval list" where
  "keysTabServerCertificates lc serverId settings certificates =
     (if serverId = [] \<or> panelRootCaIdForServer settings = [] then []
      else filter (\<lambda>c. \<not> truthy (jprop c ''vpnUserId'') \<and> cert_root c = panelRootCaIdForServer settings)
             (selectedServerCertificates lc serverId certificates))"

definition serverPanelDisplayedServerCert :: "(string \<Rightarrow> string \<Rightarrow> int) \<Rightarrow> string \<Rightarrow> jsobj \<Rightarrow> jsval list \<Rightarrow> jsval option" where
  "serverPanelDisplayedServerCert lc serverId settings certificates =
     (let rows = keysTabServerCertificates lc serverId settings certificates;
          pid = js_trim (str_or (obj_get settings ''panelServerCertId''))
      in case rows of [] \<Rightarrow> None
         | first # _ \<Rightarrow>
             (case (if pid = [] then None else find (\<lambda>c. jprop c ''id'' = JStr pid) rows) of
                Some hit \<Rightarrow> Some hit | None \<Rightarrow> Some first))"

definition serverPanelRootCa :: "jsobj \<Rightarrow> jsval list \<Rightarrow> jsval option" where
  "serverPanelRootCa settings rootCAs = find (\<lambda>r. jprop r ''id'' = JStr (panelRootCaIdForServer settings)) rootCAs"

text \<open>Newest first; a comparison with an invalid date gives \<^verbatim>\<open>NaN\<close>, which counts as equal.\<close>

definition created_ms :: "(jsval \<Rightarrow> int option) \<Rightarrow> jsval \<Rightarrow> int option" where
  "created_ms time_of c = (if truthy (jprop c ''createdAt'') then time_of (jprop c ''createdAt'') else Some 0)"

definition cmp_newest :: "(jsval \<Rightarrow> int option) \<Rightarrow> jsval \<Rightarrow> jsval \<Rightarrow> int" where
  "cmp_newest time_of a b = (case (created_ms time_of b, created_ms time_of a) of (Some x, Some y) \<Rightarrow> x - y | _ \<Rightarrow> 0)"

definition serverRootIssuedCertificates :: "(jsval \<Rightarrow> int option) \<Rightarrow> jsobj \<Rightarrow> jsval list \<Rightarrow> jsval list" where
  "serverRootIssuedCertificates time_of settings certificates =
     (if panelRootCaIdForServer settings = [] then []
      else js_sort (cmp_newest time_of) (filter (\<lambda>c. cert_root c = panelRootCaIdForServer settings) certificates))"

definition cert_matches :: "string \<Rightarrow> jsval \<Rightarrow> bool" where
  "cert_matches q c = list_ex (\<lambda>v. js_includes (js_lower (str_or v)) q)
     [jprop c ''commonName'', jprop c ''serialNumber'', jprop (jprop c ''vpnUser'') ''fullName'', jprop (jprop c ''vpnUser'') ''email'']"

definition filteredServerRootIssuedCertificates :: "string \<Rightarrow> jsval list \<Rightarrow> jsval list" where
  "filteredServerRootIssuedCertificates query rows =
     (let q = js_lower (js_trim query) in if q = [] then rows else filter (cert_matches q) rows)"

definition serverCenterSelectedCert :: "string \<Rightarrow> jsval list \<Rightarrow> jsval option" where
  "serverCenterSelectedCert certId rows =
     (if js_trim certId = [] then None else find (\<lambda>c. jprop c ''id'' = JStr (js_trim certId)) rows)"

definition certSummaryTargetId :: "route \<Rightarrow> jsval list \<Rightarrow> string" where
  "certSummaryTargetId r rows =
     (let sel = (case serverCenterSelectedCert (serverCenterCertId r) rows of Some c \<Rightarrow> jprop c ''id'' | None \<Rightarrow> JUndef) in
      if primaryNav r = ''servers'' \<and> serversView r = ''detail'' \<and> serverDetailTab r = ''ca-center'' \<and> truthy sel then to_str sel
      else selectedCertId r)"

subsection \<open>State of a certificate\<close>

definition panelCertValidityPresentation :: "(jsval \<Rightarrow> int option) \<Rightarrow> int \<Rightarrow> jsval \<Rightarrow> bool \<times> uitext" where
  "panelCertValidityPresentation time_of now validTo =
     (if \<not> truthy validTo then (False, Ui ''expired'')
      else case time_of validTo of None \<Rightarrow> (False, Ui ''expired'')
        | Some t \<Rightarrow> if t > now then (True, Ui ''valid'') else (False, Ui ''expired''))"

definition userCertRowStatusPresentation :: "(jsval \<Rightarrow> int option) \<Rightarrow> int \<Rightarrow> jsval \<Rightarrow> uitext \<times> string" where
  "userCertRowStatusPresentation time_of now cert =
     (if truthy (jprop cert ''revokedAt'') then (Ui ''revoked'', ''app-status app-status--off'')
      else let v = panelCertValidityPresentation time_of now (jprop cert ''expiresAt'')
           in (snd v, if fst v then ''app-status app-status--ok'' else ''app-status app-status--bad''))"

definition userCertCanShowConfigDownload :: "(jsval \<Rightarrow> int option) \<Rightarrow> int \<Rightarrow> jsval \<Rightarrow> bool" where
  "userCertCanShowConfigDownload time_of now cert =
     (if truthy (jprop cert ''revokedAt'') then False
      else if \<not> fst (panelCertValidityPresentation time_of now (jprop cert ''expiresAt'')) then False
      else if \<not> (let k = jprop cert ''hasKeyMaterial'' in
                  if k = JUndef \<or> k = JNull then truthy (jprop cert ''hasCertPem'') \<and> truthy (jprop cert ''hasKeyPem'') else truthy k) then False
      else if js_trim (str_or (jprop cert ''agentNodeId'')) = [] then False
      else True)"

text \<open>\<^verbatim>\<open>a || b || "\<dash>"\<close> on the fingerprints.\<close>

definition first_text :: "jsval list \<Rightarrow> uitext" where
  "first_text vs = (case find truthy vs of Some v \<Rightarrow> Raw (to_str v) | None \<Rightarrow> Ui ''dash'')"

definition panelCertFingerprintRow :: "jsval \<Rightarrow> uitext \<times> uitext" where
  "panelCertFingerprintRow data =
     (if \<not> truthy data then (Ui ''SHA-256'', Ui ''dash'')
      else let h = js_lower (if truthy (jprop data ''certificateSignatureHash'') then to_str (jprop data ''certificateSignatureHash'') else ''sha256'') in
        if h = ''sha512'' then (Ui ''SHA-512'', first_text [jprop data ''fingerprintSha512'', jprop data ''fingerprintSha256''])
        else if h = ''sha384'' then (Ui ''SHA-384'', first_text [jprop data ''fingerprintSha384'', jprop data ''fingerprintSha256''])
        else if h = ''sha1'' then (Ui ''SHA-1'', first_text [jprop data ''fingerprintSha1''])
        else (Ui ''SHA-256'', first_text [jprop data ''fingerprintSha256'']))"

subsection \<open>The days of a new certificate\<close>

definition DAY_MS :: int where
  "DAY_MS = 86400000"

definition daysRemainingUntil :: "(jsval \<Rightarrow> int option) \<Rightarrow> int \<Rightarrow> jsval \<Rightarrow> int" where
  "daysRemainingUntil time_of now expiry =
     (if \<not> truthy expiry then 0
      else case time_of expiry of None \<Rightarrow> 0 | Some t \<Rightarrow> max 0 (- ((now - t) div DAY_MS)))"

definition rootCaExpiresAtIso :: "jsval \<Rightarrow> jsval \<Rightarrow> jsval" where
  "rootCaExpiresAtIso rootCa serverRow =
     (let fromCa = (if truthy (jprop rootCa ''expiresAt'') then jprop rootCa ''expiresAt'' else jprop rootCa ''validTo'') in
      if truthy fromCa then fromCa
      else if truthy (jprop serverRow ''panelRootCaExpiresAt'') then jprop serverRow ''panelRootCaExpiresAt'' else JNull)"

definition certValidityDaysLimitPresentation :: "int \<Rightarrow> uitext \<Rightarrow> int \<times> uitext \<times> bool" where
  "certValidityDaysLimitPresentation maxDays expiresLabel =
     (let cap = max 0 maxDays in
      if cap < 1 then (0, Ui ''no valid root certificate'', True)
      else (cap, Cat (if shown expiresLabel then Cat (Ui ''not longer than the root certificate, until '') expiresLabel
                      else Ui ''not longer than the rest of the root certificate'') (Raw (int_string cap)), False))"

definition serverPanelRootCaExpiresAt :: "jsval option \<Rightarrow> jsval \<Rightarrow> jsval" where
  "serverPanelRootCaExpiresAt rootCa summary =
     (let a = rootCaExpiresAtIso (case rootCa of Some r \<Rightarrow> r | None \<Rightarrow> JNull) JNull in
      if truthy a then a else if truthy (jprop summary ''validTo'') then jprop summary ''validTo'' else JNull)"

definition keysMaxServerCertValidityDays :: "(jsval \<Rightarrow> int option) \<Rightarrow> int \<Rightarrow> jsval \<Rightarrow> int" where
  "keysMaxServerCertValidityDays time_of now expiresAt = min 3650 (max 0 (daysRemainingUntil time_of now expiresAt))"

text \<open>The days sent with a new server certificate, from the text of the form.\<close>

definition floor_or_zero :: "jsnum \<Rightarrow> int option" where
  "floor_or_zero x = (case x of NaN \<Rightarrow> Some 0 | Infinity \<Rightarrow> None | NegInfinity \<Rightarrow> Some 0
     | Dec m e \<Rightarrow> Some (if 0 \<le> e then m * 10 ^ nat e else m div 10 ^ nat (- e)))"

definition srv_cert_days :: "jsval \<Rightarrow> int \<Rightarrow> int" where
  "srv_cert_days v maxD = (case floor_or_zero (to_num v) of None \<Rightarrow> min maxD 3650 | Some d \<Rightarrow> min (max 1 d) (min maxD 3650))"

subsection \<open>Properties\<close>

lemma floor_of_int [simp]: "floor_or_zero (num_of_int k) = Some k"
proof (cases "k = 0")
  case False
  from mk_dec_value [OF this, of 0] show ?thesis by (auto simp: floor_or_zero_def)
qed (simp add: floor_or_zero_def mk_dec.simps)

lemma ceil_days:
  fixes now t :: int
  defines "c \<equiv> - ((now - t) div DAY_MS)"
  shows "c * DAY_MS < t - now + DAY_MS \<and> t - now \<le> c * DAY_MS"
proof -
  have "(now - t) div DAY_MS * DAY_MS = now - t - (now - t) mod DAY_MS" by (simp add: minus_mod_eq_div_mult)
  moreover have "0 \<le> (now - t) mod DAY_MS" "(now - t) mod DAY_MS < DAY_MS" by (simp_all add: DAY_MS_def)
  ultimately show ?thesis unfolding c_def mult_minus_left by linarith
qed

text \<open>The certificate shown for a server is one of its own: it belongs to the node, to no user, and was issued by the
  root certificate saved for the node; the one saved in the settings is shown when it is among these, and otherwise
  one is shown whenever there is any.\<close>

theorem displayed_cert_belongs:
  "(case serverPanelDisplayedServerCert lc serverId settings certificates of
      Some c \<Rightarrow> c \<in> set certificates \<and> jprop c ''agentNodeId'' = JStr serverId \<and> serverId \<noteq> [] \<and> \<not> truthy (jprop c ''vpnUserId'')
         \<and> cert_root c = panelRootCaIdForServer settings \<and> panelRootCaIdForServer settings \<noteq> []
         \<and> (jprop c ''id'' = JStr (js_trim (str_or (obj_get settings ''panelServerCertId'')))
            \<or> js_trim (str_or (obj_get settings ''panelServerCertId'')) = []
            \<or> JStr (js_trim (str_or (obj_get settings ''panelServerCertId'')))
                \<notin> (\<lambda>c. jprop c ''id'') ` set (keysTabServerCertificates lc serverId settings certificates))
    | None \<Rightarrow> keysTabServerCertificates lc serverId settings certificates = [])"
proof (cases "serverPanelDisplayedServerCert lc serverId settings certificates")
  case (Some c)
  let ?rows = "keysTabServerCertificates lc serverId settings certificates"
  let ?pid = "js_trim (str_or (obj_get settings ''panelServerCertId''))"
  have "c \<in> set ?rows \<and> (jprop c ''id'' = JStr ?pid \<or> ?pid = [] \<or> JStr ?pid \<notin> (\<lambda>c. jprop c ''id'') ` set ?rows)"
    using Some
    by (auto simp: serverPanelDisplayedServerCert_def Let_def find_Some_iff find_None_iff split: list.splits option.splits if_splits)
  then show ?thesis using Some by (auto simp: keysTabServerCertificates_def selectedServerCertificates_def split: if_splits)
qed (auto simp: serverPanelDisplayedServerCert_def Let_def split: list.splits option.splits)

text \<open>C14: The days of a new server certificate are always between one and what the root certificate allows (at most 3650),
  whatever was typed. But the allowance rounds the rest of the root certificate up, where the comment in the code
  speaks of full days: the new certificate can outlive its root, by less than a day.\<close>

theorem server_cert_days_bounded:
  fixes v :: jsval
  assumes "1 \<le> keysMaxServerCertValidityDays time_of now expiry" and "time_of expiry = Some t"
  defines "d \<equiv> srv_cert_days v (keysMaxServerCertValidityDays time_of now expiry)"
  shows "1 \<le> d \<and> d \<le> 3650 \<and> d \<le> daysRemainingUntil time_of now expiry \<and> now + d * DAY_MS < t + DAY_MS"
proof -
  let ?k = "keysMaxServerCertValidityDays time_of now expiry"
  have d: "1 \<le> d \<and> d \<le> ?k" using assms(1)
    by (auto simp: d_def srv_cert_days_def floor_or_zero_def keysMaxServerCertValidityDays_def split: option.split)
  have k: "?k \<le> 3650 \<and> ?k \<le> max 0 (daysRemainingUntil time_of now expiry)" by (simp add: keysMaxServerCertValidityDays_def)
  have r: "daysRemainingUntil time_of now expiry = - ((now - t) div DAY_MS)"
    using assms(1,2) by (auto simp: keysMaxServerCertValidityDays_def daysRemainingUntil_def max_def split: if_splits)
  have "d \<le> - ((now - t) div DAY_MS)" using d k r by linarith
  then have "d * DAY_MS \<le> - ((now - t) div DAY_MS) * DAY_MS" by (intro mult_right_mono) (simp_all add: DAY_MS_def)
  then show ?thesis using ceil_days [of now t] d k r by linarith
qed

theorem server_cert_days_bounded_witness:
  "srv_cert_days (JStr ''825'') (keysMaxServerCertValidityDays (\<lambda>v. Some 1000) 0 (JStr ''d'')) = 1
   \<and> 0 + 1 * DAY_MS < 1000 + DAY_MS \<and> 1000 < 0 + 1 * DAY_MS"
proof -
  have k: "keysMaxServerCertValidityDays (\<lambda>v. Some 1000) 0 (JStr ''d'') = 1"
    by (simp add: keysMaxServerCertValidityDays_def daysRemainingUntil_def DAY_MS_def)
  have "srv_cert_days (JStr ''825'') 1 = 1" by code_simp
  then show ?thesis
    using server_cert_days_bounded [of "\<lambda>v. Some 1000" 0 "JStr ''d''" 1000 "JStr ''825''"] k by (simp add: DAY_MS_def)
qed

text \<open>A configuration can be downloaded only for a certificate in force: never for one that was revoked, has expired, has
  an unreadable date, lacks its key or belongs to no node; and such a certificate is always shown as valid.\<close>

theorem config_download_only_when_valid:
  "userCertCanShowConfigDownload time_of now cert \<longleftrightarrow>
     \<not> truthy (jprop cert ''revokedAt'')
     \<and> truthy (jprop cert ''expiresAt'') \<and> (\<exists>t > now. time_of (jprop cert ''expiresAt'') = Some t)
     \<and> (if jprop cert ''hasKeyMaterial'' \<in> {JUndef, JNull} then truthy (jprop cert ''hasCertPem'') \<and> truthy (jprop cert ''hasKeyPem'')
        else truthy (jprop cert ''hasKeyMaterial''))
     \<and> js_trim (str_or (jprop cert ''agentNodeId'')) \<noteq> []
     \<and> userCertRowStatusPresentation time_of now cert = (Ui ''valid'', ''app-status app-status--ok'')"
  by (auto simp: userCertCanShowConfigDownload_def userCertRowStatusPresentation_def panelCertValidityPresentation_def Let_def
      split: option.splits if_splits)

text \<open>The list of issued certificates shows each certificate of the node's root exactly as often as it was polled, newest
  first where the dates can be read, and a search only leaves rows out.\<close>

theorem issued_list_complete:
  assumes "panelRootCaIdForServer settings \<noteq> []" and "list_all (\<lambda>c. created_ms time_of c \<noteq> None) certificates"
  shows "mset (serverRootIssuedCertificates time_of settings certificates) = filter_mset (\<lambda>c. cert_root c = panelRootCaIdForServer settings) (mset certificates)
    \<and> sorted_wrt (\<lambda>a b. the (created_ms time_of b) \<le> the (created_ms time_of a)) (serverRootIssuedCertificates time_of settings certificates)
    \<and> subseq (filteredServerRootIssuedCertificates q (serverRootIssuedCertificates time_of settings certificates))
        (serverRootIssuedCertificates time_of settings certificates)"
proof -
  let ?rows = "filter (\<lambda>c. cert_root c = panelRootCaIdForServer settings) certificates"
  let ?cmp = "\<lambda>a b. the (created_ms time_of b) - the (created_ms time_of a)"
  have "total_preorder ?cmp" by (auto simp: total_preorder_def)
  then have "sorted_wrt (\<lambda>a b. ?cmp a b \<le> 0) (js_sort ?cmp ?rows)" by (rule sorted_js_sort)
  moreover have "js_sort (cmp_newest time_of) ?rows = js_sort ?cmp ?rows"
    by (rule js_sort_cong) (use assms(2) in \<open>force simp: cmp_newest_def list_all_iff split: option.split\<close>)
  ultimately show ?thesis using assms(1)
    by (simp add: serverRootIssuedCertificates_def filteredServerRootIssuedCertificates_def Let_def mset_filter)
qed

theorem issued_list_complete_witness:
  "let c1 = JObj [(''id'', JStr ''1''), (''rootCaId'', JStr ''r''), (''createdAt'', JNum (Dec 5 0))];
       c2 = JObj [(''id'', JStr ''2''), (''rootCa'', JObj [(''id'', JStr ''r'')]), (''createdAt'', JNum (Dec 7 0))]
   in mset (serverRootIssuedCertificates (\<lambda>v. case v of JNum (Dec m e) \<Rightarrow> Some m | _ \<Rightarrow> None) [(''panelRootCaId'', JStr ''r'')] [c1, c2]) = {#c1, c2#}"
  using issued_list_complete [of "[(''panelRootCaId'', JStr ''r'')]" "\<lambda>v. case v of JNum (Dec m e) \<Rightarrow> Some m | _ \<Rightarrow> None"
      "[JObj [(''id'', JStr ''1''), (''rootCaId'', JStr ''r''), (''createdAt'', JNum (Dec 5 0))],
        JObj [(''id'', JStr ''2''), (''rootCa'', JObj [(''id'', JStr ''r'')]), (''createdAt'', JNum (Dec 7 0))]]"]
  by (simp add: created_ms_def cert_root_def panelRootCaIdForServer_def jprop_def obj_get_def js_trim_def is_space_def code_of_def)

end
