(* ===== verification/Certificates.thy ===== *)
theory Certificates
  imports Scripts Node_Config Cert_Selection
begin

section \<open>Working with certificates\<close>

text \<open>
  The dialogs and handlers of the certificate pages: new and imported server certificates, certificates issued or imported
  under the root certificate of a node, its \<^verbatim>\<open>index.txt\<close>, binding, creating, importing and removing the
  root certificate, revoking and unlinking a user's certificate, deleting key material.
\<close>

subsection \<open>State\<close>

record srv_cert_form =
  f_cn :: string
  f_validityDays :: jsval
  f_keySize :: string
  f_signatureAlgorithm :: string

record pem_form =
  f_certPem :: string
  f_keyPem :: string

record root_import_form = pem_form +
  f_name :: string
  f_commonName :: string
  f_issuedListText :: string
  f_revokedListText :: string

record cert_page =
  tokenRef :: string
  settings :: jsobj
  cpError :: uitext
  srvCertCreateModal :: "srv_cert_form modal"
  serverCaIssueModal :: "(string \<times> string) modal"
  serverCaImportModal :: "pem_form modal"
  serverCaIndexImportModal :: "string modal"
  srvCertImportModal :: "pem_form modal"
  serverServerCertDeleteModal :: "unit modal"
  openvpnMaterialDeleteModal :: "(string \<times> uitext) modal"
  userCertRevokeModal :: "(string \<times> string) modal"
  userCertUnlinkModal :: "(string \<times> string) modal"
  serverRootCaDeleteModal :: "(nat \<times> string) modal"
  serverBindRootCaBusy :: bool
  openvpnMaterialsDh :: "jsval list"
  openvpnMaterialsTls :: "jsval list"
  summaryLoading :: bool
  summaryData :: jsval
  newRootCA :: jsobj
  importRootCA :: root_import_form
  serverPanelRootCaImport :: pem_form
  caImportMessage :: uitext
  rootCaCreateOpen :: bool
  rootCaImportOpen :: bool

definition blank_srv_cert_form :: srv_cert_form where
  "blank_srv_cert_form = \<lparr>f_cn = [], f_validityDays = JNum (Dec 825 0), f_keySize = ''2048'', f_signatureAlgorithm = ''sha256''\<rparr>"

definition blank_pem_form :: pem_form where
  "blank_pem_form = \<lparr>f_certPem = [], f_keyPem = []\<rparr>"

definition blank_root_import :: root_import_form where
  "blank_root_import = \<lparr>f_certPem = [], f_keyPem = [], f_name = [], f_commonName = [], f_issuedListText = [], f_revokedListText = []\<rparr>"

definition blank_root_ca :: jsobj where
  "blank_root_ca = [(''name'', JStr []), (''commonName'', JStr []), (''days'', JStr ''3650''), (''keySize'', JStr ''4096''),
     (''signatureAlgorithm'', JStr ''sha256'')]"

subsection \<open>Saving parts of the node's settings\<close>

text \<open>\<^verbatim>\<open>await persistOpenVpnPanelPartial(partial)\<close> inside a \<^verbatim>\<open>try\<close>: it returns silently without server or token.\<close>

definition persist_partial ::
  "string \<Rightarrow> jsobj \<Rightarrow> (req_error \<Rightarrow> 'a cert_page_scheme script) \<Rightarrow> 'a cert_page_scheme script \<Rightarrow> 'a cert_page_scheme script" where
  "persist_partial serverId partial handle k =
     Get (\<lambda>s. if serverId = [] \<or> tokenRef s = [] then k
       else try_ask (persistOpenVpnPanelPartial_call serverId partial) handle
              (\<lambda>_. Set (\<lambda>s. s\<lparr>settings := persistOpenVpnPanelPartial_done partial (settings s)\<rparr>) k))"

text \<open>\<^verbatim>\<open>if (created?.id) await persistOpenVpnPanelPartial(openvpnCertPathsPartial(settings, \<dots>))\<close>\<close>

definition persist_created ::
  "string \<Rightarrow> (string \<Rightarrow> jsobj) \<Rightarrow> jsval \<Rightarrow> (req_error \<Rightarrow> 'a cert_page_scheme script) \<Rightarrow> 'a cert_page_scheme script \<Rightarrow> 'a cert_page_scheme script" where
  "persist_created serverId partial created handle k =
     (if truthy (jprop created ''id'') then persist_partial serverId (partial (to_str (jprop created ''id''))) handle k else k)"

subsection \<open>Server certificates\<close>

definition srv_cert_call :: "string \<Rightarrow> int \<Rightarrow> string \<Rightarrow> srv_cert_form \<Rightarrow> call" where
  "srv_cert_call serverId maxD rid form =
     (''POST'', node_path serverId ''/server-certificate'',
       JObj [(''rootCaId'', JStr rid), (''commonName'', JStr (js_trim (f_cn form))),
             (''validityDays'', JNum (num_of_int (srv_cert_days (f_validityDays form) maxD))),
             (''keySize'', JNum (let k = number_of_string (f_keySize form) in if truthy (JNum k) then k else num_of_int 2048)),
             (''signatureAlgorithm'', JStr (js_or (f_signatureAlgorithm form) ''sha256''))])"

definition submitSrvCertCreate :: "string \<Rightarrow> int \<Rightarrow> cert_page \<Rightarrow> cert_page script" where
  "submitSrvCertCreate serverId maxD s0 =
     (let rid = panelRootCaIdForServer (settings s0); form = m_form (srvCertCreateModal s0);
          upd = (\<lambda>f s. s\<lparr>srvCertCreateModal := f (srvCertCreateModal s)\<rparr>);
          handle = (\<lambda>e. Set (upd (fail_modal (message_or e (Ui ''the certificate could not be issued'')))) Stop)
      in if serverId = [] \<or> rid = [] \<or> tokenRef s0 = [] then Stop
         else if maxD < 1 then Set (upd (reject_modal (Ui ''the root certificate expires too soon''))) Stop
         else if js_trim (f_cn form) = [] then Set (upd (reject_modal (Ui ''enter the subject CN''))) Stop
         else Set (upd begin_modal)
           (try_ask (srv_cert_call serverId maxD rid form) handle
             (\<lambda>created. persist_created serverId (\<lambda>i. openvpnCertPathsPartial (settings s0) None (Some i)) created handle
               (Refresh RefreshCertificates (Set (\<lambda>s. s\<lparr>srvCertCreateModal := closed_modal blank_srv_cert_form\<rparr>) Stop)))))"

definition submitSrvCertImport :: "string \<Rightarrow> cert_page \<Rightarrow> cert_page script" where
  "submitSrvCertImport serverId s0 =
     (let rid = panelRootCaIdForServer (settings s0); form = m_form (srvCertImportModal s0);
          upd = (\<lambda>f s. s\<lparr>srvCertImportModal := f (srvCertImportModal s)\<rparr>);
          handle = (\<lambda>e. Set (upd (fail_modal (message_or e (Ui ''the import failed'')))) Stop)
      in if serverId = [] \<or> rid = [] \<or> tokenRef s0 = [] then Stop
         else Set (upd begin_modal)
           (try_ask (''POST'', node_path serverId ''/server-certificate-import'',
               JObj [(''rootCaId'', JStr rid), (''certPem'', JStr (f_certPem form)), (''keyPem'', JStr (f_keyPem form))]) handle
             (\<lambda>created. persist_created serverId (\<lambda>i. openvpnCertPathsPartial (settings s0) None (Some i)) created handle
               (Refresh RefreshCertificates (Set (\<lambda>s. s\<lparr>srvCertImportModal := closed_modal blank_pem_form\<rparr>) Stop)))))"

definition submitDeleteServerServerCert :: "string \<Rightarrow> cert_page \<Rightarrow> cert_page script" where
  "submitDeleteServerServerCert serverId s0 =
     (let upd = (\<lambda>f s. s\<lparr>serverServerCertDeleteModal := f (serverServerCertDeleteModal s)\<rparr>) in
      if serverId = [] \<or> tokenRef s0 = [] then Stop
      else Set (upd begin_modal)
        (try_ask (''DELETE'', node_path serverId ''/server-certificate'', JUndef)
          (\<lambda>e. Set (upd (fail_modal (message_or e (Ui ''the server certificate could not be deleted'')))) Stop)
          (\<lambda>_. Refresh RefreshCertificates (Set (\<lambda>s. s\<lparr>serverServerCertDeleteModal := closed_modal ()\<rparr>) Stop))))"

subsection \<open>Certificates under the node's root\<close>

text \<open>
  \<^verbatim>\<open>new Date(ms).toISOString()\<close> throws outside the range of dates; here that happens before the \<^verbatim>\<open>try\<close>, so the handler
  ends without a trace. \<open>show_date\<close> stands for the text of a date.
\<close>

definition MAX_DATE_MS :: int where
  "MAX_DATE_MS = 8640000000000000"

definition toISOString :: "(int \<Rightarrow> string) \<Rightarrow> int \<Rightarrow> string option" where
  "toISOString show_date ms = (if \<bar>ms\<bar> \<le> MAX_DATE_MS then Some (show_date ms) else None)"

definition issue_days :: "string \<Rightarrow> int" where
  "issue_days t = (case parse_int (js_trim t) of Some d \<Rightarrow> if d > 0 then d else 365 | None \<Rightarrow> 365)"

definition submitServerCaIssueCertificate :: "(int \<Rightarrow> string) \<Rightarrow> int \<Rightarrow> string \<Rightarrow> cert_page \<Rightarrow> cert_page script" where
  "submitServerCaIssueCertificate show_date now serverId s0 =
     (let rid = panelRootCaIdForServer (settings s0); nodeId = js_trim serverId;
          cn = js_trim (fst (m_form (serverCaIssueModal s0)));
          upd = (\<lambda>f s. s\<lparr>serverCaIssueModal := f (serverCaIssueModal s)\<rparr>)
      in if rid = [] \<or> nodeId = [] \<or> tokenRef s0 = [] then Stop
         else if cn = [] then Set (upd (reject_modal (Ui ''enter the subject CN''))) Stop
         else case toISOString show_date (now + issue_days (snd (m_form (serverCaIssueModal s0))) * DAY_MS) of
             None \<Rightarrow> Stop
           | Some expiresAt \<Rightarrow>
               Set (upd begin_modal)
                 (try_ask (''POST'', ''/api/certificates'', JObj [(''vpnUserId'', JNull), (''commonName'', JStr cn), (''rootCaId'', JStr rid),
                     (''agentNodeId'', JStr nodeId), (''expiresAt'', JStr expiresAt)])
                   (\<lambda>e. Set (upd (fail_modal (message_or e (Ui ''the certificate could not be issued'')))) Stop)
                   (\<lambda>_. Refresh RefreshCertificates (Set (\<lambda>s. s\<lparr>serverCaIssueModal := closed_modal ([], ''365'')\<rparr>) Stop))))"

definition submitServerCaImportCertificate :: "string \<Rightarrow> cert_page \<Rightarrow> cert_page script" where
  "submitServerCaImportCertificate serverId s0 =
     (let rid = panelRootCaIdForServer (settings s0); nodeId = js_trim serverId; form = m_form (serverCaImportModal s0);
          certPem = js_trim (f_certPem form); keyPem = js_trim (f_keyPem form);
          upd = (\<lambda>f s. s\<lparr>serverCaImportModal := f (serverCaImportModal s)\<rparr>)
      in if rid = [] \<or> nodeId = [] \<or> tokenRef s0 = [] then Stop
         else if certPem = [] \<or> keyPem = [] then Set (upd (reject_modal (Ui ''enter the certificate and its key''))) Stop
         else Set (upd begin_modal)
           (try_ask (''POST'', ''/api/certificates/import'', JObj [(''rootCaId'', JStr rid), (''agentNodeId'', JStr nodeId),
               (''certPem'', JStr certPem), (''keyPem'', JStr keyPem)])
             (\<lambda>e. Set (upd (fail_modal (message_or e (Ui ''the certificate could not be imported'')))) Stop)
             (\<lambda>_. Refresh RefreshCertificates (Set (\<lambda>s. s\<lparr>serverCaImportModal := closed_modal blank_pem_form\<rparr>) Stop))))"

definition root_ca_path :: "string \<Rightarrow> string \<Rightarrow> string" where
  "root_ca_path rid rest = ''/api/certificates/root-ca/'' @ encodeURIComponent rid @ rest"

definition submitServerCaImportIndex :: "string \<Rightarrow> cert_page \<Rightarrow> cert_page script" where
  "submitServerCaImportIndex serverId s0 =
     (let rid = panelRootCaIdForServer (settings s0); nodeId = js_trim serverId;
          issuedList = js_trim (m_form (serverCaIndexImportModal s0));
          upd = (\<lambda>f s. s\<lparr>serverCaIndexImportModal := f (serverCaIndexImportModal s)\<rparr>)
      in if rid = [] \<or> nodeId = [] \<or> tokenRef s0 = [] then Stop
         else if issuedList = [] then Set (upd (reject_modal (Ui ''paste the contents of index.txt''))) Stop
         else Set (upd begin_modal)
           (try_ask (''POST'', root_ca_path rid ''/import-index'', JObj [(''issuedList'', JStr issuedList), (''agentNodeId'', JStr nodeId)])
             (\<lambda>e. Set (upd (fail_modal (message_or e (Ui ''index.txt could not be loaded'')))) Stop)
             (\<lambda>_. Refresh RefreshCertificates (Set (\<lambda>s. s\<lparr>serverCaIndexImportModal := closed_modal []\<rparr>) Stop))))"

text \<open>What reading the chosen file does; the reader delivers the text or an error.\<close>

definition onServerCaIndexFileChange :: "string option \<Rightarrow> cert_page \<Rightarrow> cert_page" where
  "onServerCaIndexFileChange content s = s\<lparr>serverCaIndexImportModal := (case content of
       Some t \<Rightarrow> (serverCaIndexImportModal s)\<lparr>m_form := t, m_error := NoText\<rparr>
     | None \<Rightarrow> reject_modal (Ui ''the file could not be read'') (serverCaIndexImportModal s))\<rparr>"

subsection \<open>User certificates and key material\<close>

text \<open>The id goes into the path as it is.\<close>

definition confirmUserCertRevoke :: "cert_page \<Rightarrow> cert_page script" where
  "confirmUserCertRevoke s0 =
     (let i = fst (m_form (userCertRevokeModal s0)); upd = (\<lambda>f s. s\<lparr>userCertRevokeModal := f (userCertRevokeModal s)\<rparr>) in
      if i = [] \<or> m_busy (userCertRevokeModal s0) then Stop
      else Set (upd begin_modal)
        (try_ask (''POST'', ''/api/certificates/'' @ i @ ''/revoke'', JObj [(''reason'', JStr ''manual revoke'')])
          (\<lambda>e. Set (upd (fail_modal (message_or e (Ui ''the certificate could not be revoked'')))) Stop)
          (\<lambda>_. Set (\<lambda>s. s\<lparr>userCertRevokeModal := closed_modal ([], [])\<rparr>) (Kick RefreshCertificates Stop))))"

definition confirmUserCertUnlink :: "cert_page \<Rightarrow> cert_page script" where
  "confirmUserCertUnlink s0 =
     (let i = fst (m_form (userCertUnlinkModal s0)); upd = (\<lambda>f s. s\<lparr>userCertUnlinkModal := f (userCertUnlinkModal s)\<rparr>) in
      if i = [] \<or> m_busy (userCertUnlinkModal s0) then Stop
      else Set (upd begin_modal)
        (try_ask (''PATCH'', ''/api/certificates/'' @ i, JObj [(''vpnUserId'', JNull)])
          (\<lambda>e. Set (upd (fail_modal (message_or e (Ui ''the certificate could not be unlinked'')))) Stop)
          (\<lambda>_. Set (\<lambda>s. s\<lparr>userCertUnlinkModal := closed_modal ([], [])\<rparr>) (Kick RefreshCertificates Stop))))"

text \<open>
  Deleting key material: the two lists are loaded again (errors there empty them), then the settings that refer to the
  deleted material are cleared.
\<close>

definition refresh_materials :: "string \<Rightarrow> 'a cert_page_scheme script \<Rightarrow> 'a cert_page_scheme script" where
  "refresh_materials serverId k =
     Get (\<lambda>s. if serverId = [] \<or> tokenRef s = [] then k
       else Attempt (material_calls serverId ! 0) (\<lambda>dh. Attempt (material_calls serverId ! 1) (\<lambda>tls.
         Set (\<lambda>s. case (dh, tls) of
             (Inr a, Inr b) \<Rightarrow> s\<lparr>openvpnMaterialsDh := array_or_empty a, openvpnMaterialsTls := array_or_empty b\<rparr>
           | _ \<Rightarrow> s\<lparr>openvpnMaterialsDh := [], openvpnMaterialsTls := []\<rparr>) k)))"

definition material_partial :: "jsobj \<Rightarrow> string \<Rightarrow> jsobj" where
  "material_partial s mid =
     map (\<lambda>k. (k, JStr [])) (filter (\<lambda>k. str_or (obj_get s k) = mid) [''panelDhMaterialId'', ''panelTlsAuthMaterialId''])"

definition submitDeleteOpenvpnMaterial :: "string \<Rightarrow> cert_page \<Rightarrow> cert_page script" where
  "submitDeleteOpenvpnMaterial serverId s0 =
     (let mid = fst (m_form (openvpnMaterialDeleteModal s0));
          upd = (\<lambda>f s. s\<lparr>openvpnMaterialDeleteModal := f (openvpnMaterialDeleteModal s)\<rparr>);
          handle = (\<lambda>e. Set (upd (fail_modal (message_or e (Ui ''deleting failed'')))) Stop);
          finish = Refresh RefreshCertificates (Set (\<lambda>s. s\<lparr>openvpnMaterialDeleteModal := closed_modal ([], NoText)\<rparr>) Stop);
          partial = material_partial (settings s0) mid
      in if mid = [] \<or> tokenRef s0 = [] \<or> serverId = [] then Stop
         else Set (upd begin_modal)
           (try_ask (''DELETE'', node_path serverId (''/openvpn-materials/'' @ encodeURIComponent mid), JUndef) handle
             (\<lambda>_. refresh_materials serverId
               (if partial = [] then finish else persist_partial serverId partial handle finish))))"

subsection \<open>The root certificate\<close>

definition bindServerPanelRootCa :: "string \<Rightarrow> string \<Rightarrow> cert_page \<Rightarrow> cert_page script" where
  "bindServerPanelRootCa serverId rootCaId s0 =
     (let rid = js_trim rootCaId; finish = Set (\<lambda>s. s\<lparr>serverBindRootCaBusy := False\<rparr>) Stop in
      if rid = [] \<or> serverId = [] \<or> tokenRef s0 = [] then Stop
      else Set (\<lambda>s. s\<lparr>serverBindRootCaBusy := True, cpError := NoText\<rparr>)
        (persist_partial serverId (openvpnCertPathsPartial (settings s0) (Some rid) (Some []))
          (\<lambda>e. Set (\<lambda>s. s\<lparr>cpError := message_or e (Ui ''Error'')\<rparr>) finish)
          (Refresh RefreshCertificates finish)))"

text \<open>
  The address table has no entry \<^verbatim>\<open>caRoot\<close> and none \<^verbatim>\<open>ca\<close>: calling one throws, and the \<^verbatim>\<open>catch\<close> of the handler shows it.
\<close>

definition MSG_NOT_A_FUNCTION :: uitext where
  "MSG_NOT_A_FUNCTION = Ui ''paths.caRoot is not a function''"

definition createRootCA :: "cert_page \<Rightarrow> cert_page script" where
  "createRootCA s0 =
     Set (\<lambda>s. s\<lparr>cpError := NoText\<rparr>)
       (try_ask (''POST'', ''/api/certificates/root-ca/generate'', JObj (newRootCA s0))
         (\<lambda>e. Set (\<lambda>s. s\<lparr>cpError := message_or e (Ui ''Error'')\<rparr>) Stop)
         (\<lambda>created. Set (\<lambda>s. s\<lparr>newRootCA := blank_root_ca\<rparr>) (Refresh RefreshCertificates (Set (\<lambda>s. s\<lparr>cpError := MSG_NOT_A_FUNCTION\<rparr>) Stop))))"

text \<open>The report on an imported inventory; \<open>None\<close> where reading the answer throws.\<close>

definition labelled :: "(string \<times> jsval) list \<Rightarrow> uitext" where
  "labelled ps = foldr (\<lambda>(l, v) t. Cat (Cat (Ui l) (Raw (to_str v))) t) ps NoText"

definition issued_bit :: "jsval \<Rightarrow> uitext list" where
  "issued_bit i =
     (if truthy i then [labelled [(''index.txt: added '', jprop i ''created''),
         (''updated '', case jprop i ''updated'' of JNum n \<Rightarrow> JNum n | _ \<Rightarrow> JNum (Dec 0 0)), (''renewed '', jprop i ''reactivated''),
         (''unchanged '', jprop i ''skipped'')]]
      else [])"

definition revoked_bit :: "jsval \<Rightarrow> uitext list option" where
  "revoked_bit r =
     (if \<not> truthy r then Some []
      else case r of
          JObj ob \<Rightarrow> Some [if obj_has ob ''revoked''
              then labelled [(''crl.pem: marked revoked '', jprop r ''revoked''), (''not in the database '', jprop r ''notInDb''), (''skipped '', jprop r ''skipped'')]
              else labelled [(''revoked '', jprop r ''updated''), (''new entries '', jprop r ''created''), (''skipped '', jprop r ''skipped'')]]
        | JArr xs \<Rightarrow> Some [labelled [(''revoked '', JUndef), (''new entries '', JUndef), (''skipped '', JUndef)]]
        | _ \<Rightarrow> None)"

definition import_report :: "jsval \<Rightarrow> uitext option" where
  "import_report r =
     (if r = JNull \<or> r = JUndef then None
      else case revoked_bit (jprop (jprop r ''inventory'') ''revoked'') of None \<Rightarrow> None
        | Some rb \<Rightarrow>
            (case issued_bit (jprop (jprop r ''inventory'') ''issued'') @ rb of [] \<Rightarrow> Some NoText
              | [a] \<Rightarrow> Some a | a # b # _ \<Rightarrow> Some (Cat a (Cat (Ui '' . '') b))))"

definition import_body :: "root_import_form \<Rightarrow> jsval" where
  "import_body f = JObj ([(''name'', JStr (f_name f)), (''commonName'', JStr (f_commonName f)), (''certPem'', JStr (f_certPem f)),
     (''keyPem'', JStr (f_keyPem f))]
     @ (if js_trim (f_issuedListText f) = [] then [] else [(''issuedList'', JStr (f_issuedListText f))])
     @ (if js_trim (f_revokedListText f) = [] then [] else [(''revokedList'', JStr (f_revokedListText f))]))"

definition importRootCaFiles :: "cert_page \<Rightarrow> cert_page script" where
  "importRootCaFiles s0 =
     Set (\<lambda>s. s\<lparr>caImportMessage := NoText\<rparr>)
       (try_ask (''POST'', ''/api/certificates/root-ca/import'', import_body (importRootCA s0))
         (\<lambda>e. Set (\<lambda>s. s\<lparr>cpError := message e\<rparr>) Stop)
         (\<lambda>r. case import_report r of
             None \<Rightarrow> Set (\<lambda>s. s\<lparr>cpError := Ui ''the answer cannot be read''\<rparr>) Stop
           | Some t \<Rightarrow> Set (\<lambda>s. s\<lparr>caImportMessage := t, importRootCA := blank_root_import\<rparr>)
               (Refresh RefreshCertificates (Set (\<lambda>s. s\<lparr>cpError := MSG_NOT_A_FUNCTION\<rparr>) Stop))))"

text \<open>On the page of a server the new root is bound to it; a server that has one refuses another.\<close>

definition MSG_HAS_ROOT :: uitext where
  "MSG_HAS_ROOT = Ui ''this server already has a root certificate''"

definition generate_body :: "jsobj \<Rightarrow> jsval" where
  "generate_body f =
     (let cn = js_trim (str_or (obj_get f ''commonName'')) in
      JObj (obj_put (obj_put f ''name'' (JStr (js_or cn (js_trim (str_or (obj_get f ''name'')))))) ''commonName'' (JStr cn)))"

definition bind_new_root :: "string \<Rightarrow> cert_page \<Rightarrow> jsval \<Rightarrow> (cert_page \<Rightarrow> cert_page) \<Rightarrow> cert_page script" where
  "bind_new_root serverId s0 created close_dialog =
     persist_created serverId (\<lambda>i. openvpnCertPathsPartial (settings s0) (Some i) (Some [])) created
       (\<lambda>e. Set (\<lambda>s. s\<lparr>cpError := message_or e (Ui ''Error'')\<rparr>) Stop) (Refresh RefreshCertificates (Set close_dialog Stop))"

definition createRootCAForServer :: "string \<Rightarrow> cert_page \<Rightarrow> cert_page script" where
  "createRootCAForServer serverId s0 =
     (if serverId = [] \<or> tokenRef s0 = [] then Stop
      else if panelRootCaIdForServer (settings s0) \<noteq> [] then Set (\<lambda>s. s\<lparr>cpError := MSG_HAS_ROOT\<rparr>) Stop
      else Set (\<lambda>s. s\<lparr>cpError := NoText\<rparr>)
        (try_ask (''POST'', ''/api/certificates/root-ca/generate'', generate_body (newRootCA s0))
          (\<lambda>e. Set (\<lambda>s. s\<lparr>cpError := message_or e (Ui ''Error'')\<rparr>) Stop)
          (\<lambda>created. Set (\<lambda>s. s\<lparr>newRootCA := blank_root_ca\<rparr>)
            (bind_new_root serverId s0 created (\<lambda>s. s\<lparr>rootCaCreateOpen := False\<rparr>)))))"

definition importRootCaForServer :: "string \<Rightarrow> cert_page \<Rightarrow> cert_page script" where
  "importRootCaForServer serverId s0 =
     (let certPem = js_trim (f_certPem (serverPanelRootCaImport s0)); keyPem = js_trim (f_keyPem (serverPanelRootCaImport s0)) in
      if serverId = [] \<or> tokenRef s0 = [] then Stop
      else if panelRootCaIdForServer (settings s0) \<noteq> [] then Set (\<lambda>s. s\<lparr>cpError := MSG_HAS_ROOT\<rparr>) Stop
      else Set (\<lambda>s. s\<lparr>caImportMessage := NoText\<rparr>)
        (if certPem = [] \<or> keyPem = [] then Set (\<lambda>s. s\<lparr>cpError := Ui ''paste the certificate and its key''\<rparr>) Stop
         else try_ask (''POST'', ''/api/certificates/root-ca/import'', JObj [(''certPem'', JStr certPem), (''keyPem'', JStr keyPem)])
          (\<lambda>e. Set (\<lambda>s. s\<lparr>cpError := message_or e (Ui ''Error'')\<rparr>) Stop)
          (\<lambda>created. Set (\<lambda>s. s\<lparr>serverPanelRootCaImport := blank_pem_form\<rparr>)
            (bind_new_root serverId s0 created (\<lambda>s. s\<lparr>rootCaImportOpen := False\<rparr>)))))"

text \<open>Removing it takes two steps of a dialog and its common name typed in; afterwards the settings are loaded again.\<close>

definition expected_cn :: "cert_page \<Rightarrow> jsval option \<Rightarrow> string" where
  "expected_cn s0 rootCa =
     (let a = jprop (summaryData s0) ''commonName''; b = (case rootCa of Some r \<Rightarrow> jprop r ''commonName'' | None \<Rightarrow> JUndef) in
      js_trim (if a \<noteq> JUndef \<and> a \<noteq> JNull then to_str a else str_nullish b))"

definition submitRemoveServerPanelRootCa :: "string \<Rightarrow> jsval option \<Rightarrow> cert_page \<Rightarrow> cert_page script" where
  "submitRemoveServerPanelRootCa serverId rootCa s0 =
     (let modal = serverRootCaDeleteModal s0; provided = js_trim (snd (m_form modal)); expected = expected_cn s0 rootCa;
          upd = (\<lambda>f s. s\<lparr>serverRootCaDeleteModal := f (serverRootCaDeleteModal s)\<rparr>)
      in if serverId = [] \<or> tokenRef s0 = [] \<or> m_busy modal then Stop
         else if fst (m_form modal) < 2 then Stop
         else if expected = [] then Set (upd (reject_modal (Ui ''the common name is not known''))) Stop
         else if provided \<noteq> expected then Set (upd (reject_modal (Ui ''enter the exact common name''))) Stop
         else Set (upd begin_modal)
           (try_ask (''POST'', node_path serverId ''/root-ca/remove'', JObj [(''confirmCommonName'', JStr provided)])
             (\<lambda>e. Set (upd (fail_modal (message_or e (Ui ''the root certificate could not be removed'')))) Stop)
             (\<lambda>_. Set (\<lambda>s. s\<lparr>summaryLoading := False, summaryData := JNull, serverRootCaDeleteModal := closed_modal (1, [])\<rparr>)
               (Refresh RefreshCertificates
                 (Attempt (''GET'', node_path serverId ''/openvpn-settings'', JUndef) (\<lambda>a. case a of
                     Inr v \<Rightarrow> (if v = JNull then Stop
                       else Set (\<lambda>s. s\<lparr>settings := load_settings (object_or_empty (jprop v ''settings''))\<rparr>) Stop)
                   | Inl e \<Rightarrow> Stop))))))"

subsection \<open>The dialogs keep their contract\<close>

lemmas script_parts = Let_def persist_created_def persist_partial_def refresh_materials_def

interpretation create_dialog: dialog "submitSrvCertCreate serverId maxD" srvCertCreateModal for serverId maxD
  by unfold_locales
    (auto simp: submitSrvCertCreate_def script_parts dialog_outcomes split: if_splits sum.splits)

interpretation import_dialog: dialog "submitSrvCertImport serverId" srvCertImportModal for serverId
  by unfold_locales
    (auto simp: submitSrvCertImport_def script_parts dialog_outcomes split: if_splits sum.splits)

interpretation delete_dialog: dialog "submitDeleteServerServerCert serverId" serverServerCertDeleteModal for serverId
  by unfold_locales
    (auto simp: submitDeleteServerServerCert_def script_parts dialog_outcomes split: if_splits sum.splits)

interpretation issue_dialog: dialog "submitServerCaIssueCertificate show_date now serverId" serverCaIssueModal for show_date now serverId
  by unfold_locales
    (auto simp: submitServerCaIssueCertificate_def script_parts dialog_outcomes split: if_splits sum.splits option.splits)

interpretation ca_import_dialog: dialog "submitServerCaImportCertificate serverId" serverCaImportModal for serverId
  by unfold_locales
    (auto simp: submitServerCaImportCertificate_def script_parts dialog_outcomes split: if_splits sum.splits)

interpretation index_dialog: dialog "submitServerCaImportIndex serverId" serverCaIndexImportModal for serverId
  by unfold_locales
    (auto simp: submitServerCaImportIndex_def script_parts dialog_outcomes split: if_splits sum.splits)

interpretation revoke_dialog: dialog confirmUserCertRevoke userCertRevokeModal
  by unfold_locales
    (auto simp: confirmUserCertRevoke_def script_parts dialog_outcomes split: if_splits sum.splits)

interpretation unlink_dialog: dialog confirmUserCertUnlink userCertUnlinkModal
  by unfold_locales
    (auto simp: confirmUserCertUnlink_def script_parts dialog_outcomes split: if_splits sum.splits)

interpretation material_dialog: dialog "submitDeleteOpenvpnMaterial serverId" openvpnMaterialDeleteModal for serverId
  by unfold_locales
    (auto simp: submitDeleteOpenvpnMaterial_def script_parts dialog_outcomes split: if_splits sum.splits prod.splits)

interpretation remove_dialog: dialog "submitRemoveServerPanelRootCa serverId rootCa" serverRootCaDeleteModal for serverId rootCa
  by unfold_locales
    (auto simp: submitRemoveServerPanelRootCa_def script_parts dialog_outcomes split: if_splits sum.splits)

subsection \<open>Properties\<close>

definition cert_dialogs ::
  "string \<Rightarrow> int \<Rightarrow> (int \<Rightarrow> string) \<Rightarrow> int \<Rightarrow> jsval option \<Rightarrow> ((cert_page \<Rightarrow> cert_page script) \<times> (cert_page \<Rightarrow> bool \<times> bool \<times> uitext)) list" where
  "cert_dialogs serverId maxD show_date now rootCa =
    [(submitSrvCertCreate serverId maxD, \<lambda>s. modal_status (srvCertCreateModal s)),
     (submitSrvCertImport serverId, \<lambda>s. modal_status (srvCertImportModal s)),
     (submitDeleteServerServerCert serverId, \<lambda>s. modal_status (serverServerCertDeleteModal s)),
     (submitServerCaIssueCertificate show_date now serverId, \<lambda>s. modal_status (serverCaIssueModal s)),
     (submitServerCaImportCertificate serverId, \<lambda>s. modal_status (serverCaImportModal s)),
     (submitServerCaImportIndex serverId, \<lambda>s. modal_status (serverCaIndexImportModal s)),
     (confirmUserCertRevoke, \<lambda>s. modal_status (userCertRevokeModal s)),
     (confirmUserCertUnlink, \<lambda>s. modal_status (userCertUnlinkModal s)),
     (submitDeleteOpenvpnMaterial serverId, \<lambda>s. modal_status (openvpnMaterialDeleteModal s)),
     (submitRemoveServerPanelRootCa serverId rootCa, \<lambda>s. modal_status (serverRootCaDeleteModal s))]"

definition dialogs_of where
  "dialogs_of s = (srvCertCreateModal s, srvCertImportModal s, serverServerCertDeleteModal s, serverCaIssueModal s, serverCaImportModal s,
     serverCaIndexImportModal s, userCertRevokeModal s, userCertUnlinkModal s, openvpnMaterialDeleteModal s, serverRootCaDeleteModal s)"

text \<open>C4: No dialog of the certificate pages stays busy: whatever the server answers to each request and whatever polls do in
  between, each of the ten dialogs ends idle, closed when every request succeeded, still open with a message when one failed
  (a failed reload of lists after the change does not count), and unchanged but for its message when nothing was sent.\<close>

theorem certificate_dialogs_settle:
  assumes "\<And>n t. dialogs_of (env n t) = dialogs_of t"
  shows "list_all (\<lambda>(h, st). outcome_ok (st s) (snd (exec (h s0) srv env n s)) (st (fst (exec (h s0) srv env n s))))
    (cert_dialogs serverId maxD show_date now rootCa)"
proof -
  have u: "undisturbed srvCertCreateModal env" "undisturbed srvCertImportModal env" "undisturbed serverServerCertDeleteModal env"
    "undisturbed serverCaIssueModal env" "undisturbed serverCaImportModal env" "undisturbed serverCaIndexImportModal env"
    "undisturbed userCertRevokeModal env" "undisturbed userCertUnlinkModal env" "undisturbed openvpnMaterialDeleteModal env"
    "undisturbed serverRootCaDeleteModal env"
    using assms by (simp_all add: undisturbed_def dialogs_of_def)
  show ?thesis
    unfolding cert_dialogs_def
    using create_dialog.outcome [OF u(1)] import_dialog.outcome [OF u(2)] delete_dialog.outcome [OF u(3)] issue_dialog.outcome [OF u(4)]
      ca_import_dialog.outcome [OF u(5)] index_dialog.outcome [OF u(6)] revoke_dialog.outcome [OF u(7)] unlink_dialog.outcome [OF u(8)]
      material_dialog.outcome [OF u(9)] remove_dialog.outcome [OF u(10)]
    by simp
qed

definition blank_certs :: cert_page where
  "blank_certs = \<lparr>tokenRef = ''tok'', settings = [(''panelRootCaId'', JStr ''r1'')], cpError = NoText,
     srvCertCreateModal = closed_modal blank_srv_cert_form, serverCaIssueModal = closed_modal ([], ''365''),
     serverCaImportModal = closed_modal blank_pem_form, serverCaIndexImportModal = closed_modal [],
     srvCertImportModal = closed_modal blank_pem_form, serverServerCertDeleteModal = closed_modal (),
     openvpnMaterialDeleteModal = closed_modal ([], NoText), userCertRevokeModal = (closed_modal (''c1'', ''alice''))\<lparr>m_open := True\<rparr>,
     userCertUnlinkModal = closed_modal ([], []), serverRootCaDeleteModal = closed_modal (1, []), serverBindRootCaBusy = False,
     openvpnMaterialsDh = [], openvpnMaterialsTls = [], summaryLoading = False, summaryData = JNull, newRootCA = blank_root_ca,
     importRootCA = blank_root_import, serverPanelRootCaImport = blank_pem_form, caImportMessage = NoText, rootCaCreateOpen = False,
     rootCaImportOpen = False\<rparr>"

text \<open>The revocation of a certificate fails while a poll clears the page's message.\<close>

theorem certificate_dialogs_settle_witness:
  "outcome_ok (modal_status (userCertRevokeModal blank_certs)) (snd (exec (confirmUserCertRevoke blank_certs) (\<lambda>n c. Inl (plain_error (Ui ''gone'')))
      (\<lambda>n t. t\<lparr>cpError := NoText\<rparr>) 0 blank_certs)) (True, False, Ui ''gone'')"
proof -
  have "exec (confirmUserCertRevoke blank_certs) (\<lambda>n c. Inl (plain_error (Ui ''gone''))) (\<lambda>n t. t\<lparr>cpError := NoText\<rparr>) 0 blank_certs
    = (blank_certs\<lparr>userCertRevokeModal := (userCertRevokeModal blank_certs)\<lparr>m_error := Ui ''gone''\<rparr>\<rparr>,
       [Called (''POST'', ''/api/certificates/c1/revoke'', JObj [(''reason'', JStr ''manual revoke'')]) (Inl (plain_error (Ui ''gone'')))])"
    by code_simp
  then show ?thesis
    using certificate_dialogs_settle [of "\<lambda>n t. t\<lparr>cpError := NoText\<rparr>" blank_certs blank_certs "\<lambda>n c. Inl (plain_error (Ui ''gone''))" 0
        "''s''" 1 "\<lambda>_. []" 0 None]
    by (simp add: dialogs_of_def cert_dialogs_def modal_status_def blank_certs_def closed_modal_def)
qed

text \<open>C13: Nothing is sent to remove the root certificate of a node unless the dialog is in its second step and the common name
  typed in is the one of that root certificate, which is known; the only other request is the reload of the settings,
  after the removal has succeeded.\<close>

theorem root_removal_needs_confirmation:
  "case calls_of (snd (exec (submitRemoveServerPanelRootCa serverId rootCa s0) srv env n s)) of
     [] \<Rightarrow> True
   | c # cs \<Rightarrow>
       fst (m_form (serverRootCaDeleteModal s0)) \<ge> 2 \<and> expected_cn s0 rootCa \<noteq> []
       \<and> js_trim (snd (m_form (serverRootCaDeleteModal s0))) = expected_cn s0 rootCa
       \<and> c = (''POST'', node_path serverId ''/root-ca/remove'', JObj [(''confirmCommonName'', JStr (expected_cn s0 rootCa))])
       \<and> (if isl (srv n c) then cs = [] else cs = [(''GET'', node_path serverId ''/openvpn-settings'', JUndef)])"
  by (auto simp: submitRemoveServerPanelRootCa_def Let_def not_less split: sum.split if_splits)

text \<open>A server certificate that was issued becomes the one of the node: when the requests succeed, the settings of the
  page refer to the new certificate and the lists are refreshed. When saving the reference fails, nothing is refreshed, the
  settings stay as they were and the dialog stays open, although the certificate exists.\<close>

theorem issued_server_cert_linked:
  assumes "serverId \<noteq> []" and "1 \<le> maxD" and "panelRootCaIdForServer (settings s) \<noteq> []" and "tokenRef s \<noteq> []"
    and "js_trim (f_cn (m_form (srvCertCreateModal s))) \<noteq> []"
    and "srv 0 (srv_cert_call serverId maxD (panelRootCaIdForServer (settings s)) (m_form (srvCertCreateModal s))) = Inr created"
    and "jprop created ''id'' = JStr i" and "i \<noteq> []"
  defines "out \<equiv> exec (submitSrvCertCreate serverId maxD s) srv (\<lambda>_ t. t) 0 s"
    and "save \<equiv> persistOpenVpnPanelPartial_call serverId (openvpnCertPathsPartial (settings s) None (Some i))"
  shows "case srv 1 save of
      Inr v \<Rightarrow> obj_get (settings (fst out)) ''panelServerCertId'' = JStr i \<and> Refreshed RefreshCertificates \<in> set (snd out)
        \<and> srvCertCreateModal (fst out) = closed_modal blank_srv_cert_form
    | Inl e \<Rightarrow> settings (fst out) = settings s \<and> Refreshed RefreshCertificates \<notin> set (snd out)
        \<and> m_open (srvCertCreateModal (fst out)) = m_open (srvCertCreateModal s) \<and> shown (m_error (srvCertCreateModal (fst out)))"
proof -
  have g: "obj_get (openvpnCertPathsPartial (settings s) None (Some i)) ''panelServerCertId'' = JStr i \<and>
      obj_has (openvpnCertPathsPartial (settings s) None (Some i)) ''panelServerCertId''"
    using assms(8) by (simp add: openvpnCertPathsPartial_def put_if_blank_laws js_obj)
  have t: "truthy (JStr i)" using assms(8) by simp
  show ?thesis
    using assms(1-8) g t
    by (auto simp: out_def save_def submitSrvCertCreate_def script_parts persistOpenVpnPanelPartial_done_def
        get_spread [OF paths_partial_distinct] split: sum.split)
qed

definition filled_certs :: cert_page where
  "filled_certs = blank_certs\<lparr>srvCertCreateModal := (closed_modal (blank_srv_cert_form\<lparr>f_cn := ''vpn''\<rparr>))\<lparr>m_open := True\<rparr>\<rparr>"

theorem issued_server_cert_linked_witness:
  "obj_get (settings (fst (exec (submitSrvCertCreate ''s1'' 10 filled_certs) (\<lambda>n c. Inr (JObj [(''id'', JStr ''c9'')])) (\<lambda>_ t. t) 0 filled_certs)))
     ''panelServerCertId'' = JStr ''c9''"
proof -
  have f: "panelRootCaIdForServer (settings filled_certs) = ''r1''" "js_trim (f_cn (m_form (srvCertCreateModal filled_certs))) = ''vpn''"
    "tokenRef filled_certs = ''tok''"
    by code_simp+
  show ?thesis
    using issued_server_cert_linked [of "''s1''" 10 filled_certs "\<lambda>n c. Inr (JObj [(''id'', JStr ''c9'')])" "JObj [(''id'', JStr ''c9'')]" "''c9''"]
    by (simp add: f jprop_def obj_get_def)
qed

text \<open>The old handlers that create or import a root certificate without a server always end with an error: after every
  request has succeeded and the form was cleared they call an address function that does not exist.\<close>

theorem root_ca_pages_end_in_error:
  "shown (cpError (fst (exec (createRootCA s0) srv env n s)))
   \<and> (list_ex bad_act (snd (exec (createRootCA s0) srv env n s)) \<or> cpError (fst (exec (createRootCA s0) srv env n s)) = MSG_NOT_A_FUNCTION)
   \<and> (list_ex bad_act (snd (exec (importRootCaFiles s0) srv env n s)) \<or> shown (cpError (fst (exec (importRootCaFiles s0) srv env n s))))"
  by (auto simp: createRootCA_def importRootCaFiles_def MSG_NOT_A_FUNCTION_def Let_def split: sum.split option.split)

end
