(* ===== verification/Users.thy ===== *)
theory Users
  imports Certificates Drafts Base64 Effects
begin

section \<open>Users and their certificates\<close>

text \<open>
  The pages of VPN users: which certificates may be bound to a user or issued for one, the form of a new user with its
  certificate, the profile of a user, binding and issuing certificates there, and the connection profile that is
  downloaded or mailed.
\<close>

subsection \<open>Certificates to choose from\<close>

definition by_common_name :: "(string \<Rightarrow> string \<Rightarrow> int) \<Rightarrow> jsval \<Rightarrow> jsval \<Rightarrow> int" where
  "by_common_name lc a b = lc (str_or (jprop a ''commonName'')) (str_or (jprop b ''commonName''))"

text \<open>\<^verbatim>\<open>Boolean(c.hasKeyMaterial ?? (c.certPem && c.keyPem))\<close>\<close>

definition has_key_material :: "jsval \<Rightarrow> bool" where
  "has_key_material c = (let k = jprop c ''hasKeyMaterial'' in
     if k = JUndef \<or> k = JNull then truthy (jprop c ''certPem'') \<and> truthy (jprop c ''keyPem'') else truthy k)"

definition bindable :: "string \<Rightarrow> jsval \<Rightarrow> bool" where
  "bindable rootId c \<longleftrightarrow> cert_root c = rootId \<and> \<not> truthy (jprop c ''revokedAt'') \<and> \<not> truthy (jprop c ''vpnUserId'') \<and> has_key_material c"

definition selectedUserUnlinkedCertificates :: "(string \<Rightarrow> string \<Rightarrow> int) \<Rightarrow> jsval list \<Rightarrow> jsval list" where
  "selectedUserUnlinkedCertificates lc certs = js_sort (by_common_name lc) (filter (\<lambda>c. \<not> truthy (jprop c ''vpnUserId'')) certs)"

definition userModalBindableCertificates :: "(string \<Rightarrow> string \<Rightarrow> int) \<Rightarrow> string \<Rightarrow> jsval list \<Rightarrow> jsval list" where
  "userModalBindableCertificates lc rootId certs =
     (if rootId = [] then []
      else js_sort (by_common_name lc)
        (filter (\<lambda>c. cert_root c = rootId \<and> \<not> truthy (jprop c ''revokedAt'') \<and> has_key_material c)
           (selectedUserUnlinkedCertificates lc certs)))"

definition newUserBindableCertificates :: "(string \<Rightarrow> string \<Rightarrow> int) \<Rightarrow> string \<Rightarrow> jsval list \<Rightarrow> jsval list" where
  "newUserBindableCertificates lc rootId certs =
     (if rootId = [] then [] else js_sort (by_common_name lc) (filter (bindable rootId) certs))"

definition newUserSelectedIssueServer :: "jsval list \<Rightarrow> string \<Rightarrow> jsval" where
  "newUserSelectedIssueServer servers serverId = (case find (\<lambda>v. jprop v ''id'' = JStr serverId) servers of Some v \<Rightarrow> v | None \<Rightarrow> JNull)"

definition newUserCertRootCaId :: "jsval \<Rightarrow> string" where
  "newUserCertRootCaId server = js_trim (str_or (jprop server ''panelRootCaId''))"

definition root_ca_of :: "jsval list \<Rightarrow> string \<Rightarrow> jsval" where
  "root_ca_of cas i = (case find (\<lambda>r. jprop r ''id'' = JStr i) cas of Some r \<Rightarrow> r | None \<Rightarrow> JNull)"

text \<open>The allowance of days for the root certificate of a chosen server.\<close>

definition newUserMaxCertValidityDays :: "(jsval \<Rightarrow> int option) \<Rightarrow> int \<Rightarrow> jsval list \<Rightarrow> jsval \<Rightarrow> int" where
  "newUserMaxCertValidityDays time_of now cas server =
     keysMaxServerCertValidityDays time_of now (rootCaExpiresAtIso (root_ca_of cas (newUserCertRootCaId server)) server)"

text \<open>The servers of the certificate dialogs: those the API offers, or else all nodes, without a root certificate.\<close>

definition node_as_server :: "jsval \<Rightarrow> jsval" where
  "node_as_server n = JObj [(''id'', jprop n ''id''), (''name'', if truthy (jprop n ''name'') then jprop n ''name'' else jprop n ''id''),
     (''host'', if truthy (jprop n ''host'') then jprop n ''host'' else JStr []), (''panelRootCaId'', JStr []),
     (''openvpnPort'', JNum (Dec 1194 0)), (''openvpnProto'', JStr ''udp'')]"

definition userCertModalServers :: "(string \<Rightarrow> string \<Rightarrow> int) \<Rightarrow> jsval list \<Rightarrow> jsval list \<Rightarrow> jsval list" where
  "userCertModalServers lc fromApi nds =
     js_sort (\<lambda>a b. lc (str_or (jprop a ''name'')) (str_or (jprop b ''name'')))
       (if fromApi \<noteq> [] then fromApi else map node_as_server nds)"

text \<open>Certificates of a user, newest first, then by name.\<close>

definition cmp_user_cert :: "(jsval \<Rightarrow> int option) \<Rightarrow> (string \<Rightarrow> string \<Rightarrow> int) \<Rightarrow> jsval \<Rightarrow> jsval \<Rightarrow> int" where
  "cmp_user_cert time_of lc a b =
     (case (created_ms time_of b, created_ms time_of a) of
        (Some x, Some y) \<Rightarrow> if x \<noteq> y then x - y else by_common_name lc a b
      | _ \<Rightarrow> 0)"

definition selectedUserCertificates :: "(jsval \<Rightarrow> int option) \<Rightarrow> (string \<Rightarrow> string \<Rightarrow> int) \<Rightarrow> string \<Rightarrow> jsval list \<Rightarrow> jsval list" where
  "selectedUserCertificates time_of lc userId certs =
     (if userId = [] then []
      else js_sort (cmp_user_cert time_of lc) (filter (\<lambda>c. jprop c ''vpnUserId'' = JStr userId) certs))"

subsection \<open>State of the pages\<close>

record issue_form =
  i_commonName :: string
  i_serverId :: string
  i_validityDays :: string

record users_page =
  uToken :: string
  uError :: uitext
  uPage :: string
  uListFilter :: string
  newVpnUser :: profile_draft
  newUserCertServerId :: string
  newUserCertChoice :: string
  newUserCertNewCn :: string
  newUserCertValidityDays :: string
  userProfileDraft :: profile_draft
  profileIssueCert :: issue_form
  userCertIssueModalOpen :: bool
  userCertBindModalOpen :: bool
  userCertBindSelectedCertId :: string
  userCertBindServerId :: string
  userCertBindBusy :: bool
  connCertificateId :: string
  connServerId :: string
  connEmail :: string
  connBusy :: bool
  connServers :: "jsval list"
  connCertificates :: "jsval list"
  connDefaultEmail :: string
  uDownloads :: "(string \<times> string) list"
  uMessage :: uitext
  uCcdBusy :: bool
  uCcdResult :: uitext
  newUserIssueServers :: "jsval list"

definition blank_profile :: profile_draft where
  "blank_profile = \<lparr>fullName = [], position = [], email = [], phone = [], organizationId = [], pnotes = []\<rparr>"

definition show_error :: "uitext \<Rightarrow> users_page script" where
  "show_error t = Set (\<lambda>s. s\<lparr>uError := t\<rparr>) Stop"

text \<open>\<^verbatim>\<open>x.trim() || null\<close>\<close>

definition trim_or_null :: "string \<Rightarrow> jsval" where
  "trim_or_null t = (if js_trim t = [] then JNull else JStr (js_trim t))"

definition profile_body :: "profile_draft \<Rightarrow> jsval" where
  "profile_body p = JObj [(''fullName'', JStr (js_trim (fullName p))), (''position'', trim_or_null (position p)), (''email'', JStr (js_trim (email p))),
     (''phone'', trim_or_null (phone p)), (''organizationId'', trim_or_null (organizationId p)), (''notes'', trim_or_null (pnotes p))]"

subsection \<open>The days typed in\<close>

definition new_user_days :: "string \<Rightarrow> int \<Rightarrow> int" where
  "new_user_days t maxD =
     (let cap = max 1 maxD in case parse_int (js_trim t) of Some d \<Rightarrow> if d > 0 then min d cap else min 1825 cap | None \<Rightarrow> min 1825 cap)"

definition profile_max_days :: "int \<Rightarrow> int" where
  "profile_max_days capFromCa = (if capFromCa > 0 then max 1 capFromCa else 3650)"

definition profile_days :: "string \<Rightarrow> int \<Rightarrow> int" where
  "profile_days t capFromCa =
     (let m = profile_max_days capFromCa in case parse_int (js_trim t) of Some d \<Rightarrow> if d > 0 then min d m else min 1825 m | None \<Rightarrow> min 1825 m)"

text \<open>The effects that keep the fields in range when the allowance changes.\<close>

definition new_user_root_effect :: "string \<Rightarrow> users_page \<Rightarrow> users_page" where
  "new_user_root_effect rootId s = (if js_trim rootId = [] then s\<lparr>newUserCertChoice := [], newUserCertNewCn := []\<rparr> else s)"

definition new_user_days_effect :: "string \<Rightarrow> int \<Rightarrow> users_page \<Rightarrow> users_page" where
  "new_user_days_effect rootId maxD s =
     (if js_trim rootId = [] then s\<lparr>newUserCertValidityDays := ''1825''\<rparr>
      else let cap = max 1 maxD in
        case parse_int (js_trim (newUserCertValidityDays s)) of
          None \<Rightarrow> s\<lparr>newUserCertValidityDays := int_string (min 1825 cap)\<rparr>
        | Some raw \<Rightarrow>
            if raw \<le> 0 then s\<lparr>newUserCertValidityDays := int_string (min 1825 cap)\<rparr>
            else if raw > cap then s\<lparr>newUserCertValidityDays := int_string cap\<rparr> else s)"

definition profile_server_effect :: "users_page \<Rightarrow> users_page" where
  "profile_server_effect s =
     (if js_trim (userCertBindServerId s) = [] then s\<lparr>profileIssueCert := (profileIssueCert s)\<lparr>i_serverId := [], i_validityDays := ''1825''\<rparr>\<rparr>
      else s\<lparr>profileIssueCert := (profileIssueCert s)\<lparr>i_serverId := userCertBindServerId s\<rparr>\<rparr>)"

definition profile_days_effect :: "int \<Rightarrow> users_page \<Rightarrow> users_page" where
  "profile_days_effect maxD s =
     (let m = max 0 maxD; def = int_string (min 1825 (max 1 (if m > 0 then m else 1825)));
          put = (\<lambda>t. s\<lparr>profileIssueCert := (profileIssueCert s)\<lparr>i_validityDays := t\<rparr>\<rparr>)
      in case parse_int (js_trim (i_validityDays (profileIssueCert s))) of
           None \<Rightarrow> put def
         | Some raw \<Rightarrow> if raw \<le> 0 then put def else if m > 0 \<and> raw > m then put (int_string m) else s)"

definition conn_certificate_effect :: "users_page \<Rightarrow> users_page" where
  "conn_certificate_effect s = s\<lparr>connServerId := []\<rparr>"

subsection \<open>A new user\<close>

definition MSG_RANGE :: uitext where
  "MSG_RANGE = Ui ''Invalid time value''"

definition new_user_done :: "jsval \<Rightarrow> users_page script" where
  "new_user_done created =
     Set (\<lambda>s. s\<lparr>newVpnUser := blank_profile, newUserCertServerId := [], newUserCertChoice := [], newUserCertNewCn := [],
             newUserCertValidityDays := ''1825''\<rparr>)
       (Refresh RefreshVpnUsers
         (Set (\<lambda>s. if truthy (jprop created ''id'') then s\<lparr>uPage := paths_userProfile (to_str (jprop created ''id'')) ''overview''\<rparr>
                  else s\<lparr>uPage := paths_users, uListFilter := []\<rparr>) Stop))"

definition CREATE_CHOICE :: string where
  "CREATE_CHOICE = ''__create__''"

definition chosen_cert :: "jsval list \<Rightarrow> users_page \<Rightarrow> jsval option" where
  "chosen_cert certs s =
     (let choice = js_trim (newUserCertChoice s) in
      if choice \<noteq> [] \<and> choice \<noteq> CREATE_CHOICE then find (\<lambda>c. jprop c ''id'' = JStr choice) certs else None)"

definition chosen_cn :: "users_page \<Rightarrow> string" where
  "chosen_cn s = (if js_trim (newUserCertChoice s) = CREATE_CHOICE then js_trim (newUserCertNewCn s) else [])"

definition bind_cert_call :: "jsval \<Rightarrow> jsval \<Rightarrow> string \<Rightarrow> call" where
  "bind_cert_call c created server = (''PATCH'', ''/api/certificates/'' @ encodeURIComponent (to_str (jprop c ''id'')),
     JObj [(''vpnUserId'', jprop created ''id''), (''agentNodeId'', JStr server)])"

definition new_cert_call :: "jsval \<Rightarrow> string \<Rightarrow> string \<Rightarrow> string \<Rightarrow> string \<Rightarrow> call" where
  "new_cert_call userId cn rootId server expiresAt = (''POST'', ''/api/certificates'', JObj [(''vpnUserId'', userId), (''commonName'', JStr cn),
     (''rootCaId'', JStr rootId), (''agentNodeId'', JStr server), (''expiresAt'', JStr expiresAt)])"

text \<open>What follows the request that creates the user; \<open>created.id\<close> throws when the answer is empty.\<close>

definition new_user_certificate :: "(int \<Rightarrow> string) \<Rightarrow> int \<Rightarrow> jsval list \<Rightarrow> string \<Rightarrow> int \<Rightarrow> users_page \<Rightarrow> jsval \<Rightarrow> users_page script" where
  "new_user_certificate show_date now certs rootId maxD s0 created =
     (let server = js_trim (newUserCertServerId s0); handle = (\<lambda>e. show_error (message_or e (Ui ''Error''))) in
      case chosen_cert certs s0 of
        Some c \<Rightarrow>
          if server = [] then show_error (Ui ''choose a server to bind the certificate'')
          else if created = JNull then show_error MSG_NULL
          else try_ask (bind_cert_call c created server) handle (\<lambda>_. new_user_done created)
      | None \<Rightarrow>
          if chosen_cn s0 \<noteq> [] then
            (if server = [] then show_error (Ui ''choose a server to issue the certificate'')
             else case toISOString show_date (now + new_user_days (newUserCertValidityDays s0) maxD * DAY_MS) of
                 None \<Rightarrow> show_error MSG_RANGE
               | Some expiresAt \<Rightarrow>
                   if created = JNull then show_error MSG_NULL
                   else try_ask (new_cert_call (jprop created ''id'') (chosen_cn s0) (js_trim rootId) server expiresAt)
                          handle (\<lambda>_. new_user_done created))
          else if js_trim (newUserCertChoice s0) \<noteq> [] \<and> js_trim (newUserCertChoice s0) \<noteq> CREATE_CHOICE
            then show_error (Ui ''the chosen certificate is not in the list'')
          else if js_trim (newUserCertChoice s0) = CREATE_CHOICE then show_error (Ui ''enter the CN of the new certificate'')
          else new_user_done created)"

definition createVpnUser :: "(int \<Rightarrow> string) \<Rightarrow> int \<Rightarrow> jsval list \<Rightarrow> string \<Rightarrow> int \<Rightarrow> users_page \<Rightarrow> users_page script" where
  "createVpnUser show_date now certs rootId maxD s0 =
     Set (\<lambda>s. s\<lparr>uError := NoText\<rparr>)
       (if chosen_cn s0 \<noteq> [] \<and> js_trim rootId = [] then show_error (Ui ''choose a root certificate'')
        else try_ask (''POST'', ''/api/vpn-users'', profile_body (newVpnUser s0)) (\<lambda>e. show_error (message_or e (Ui ''Error'')))
               (new_user_certificate show_date now certs rootId maxD s0))"

subsection \<open>The profile of a user\<close>

definition saveUserProfile :: "string \<Rightarrow> users_page \<Rightarrow> users_page script" where
  "saveUserProfile userId s0 =
     (if userId = [] then Stop
      else Set (\<lambda>s. s\<lparr>uError := NoText\<rparr>)
        (try_ask (''PATCH'', ''/api/vpn-users/'' @ userId, profile_body (userProfileDraft s0))
          (\<lambda>e. show_error (message e)) (\<lambda>_. Kick RefreshVpnUsers Stop)))"

definition ccd_body :: "ccd_draft \<Rightarrow> jsval" where
  "ccd_body c = JObj [(''ifconfigPushLocal'', JStr (ifconfigPushLocal c)), (''ifconfigPushRemote'', JStr (ifconfigPushRemote c)),
     (''pushRoutes'', JStr (pushRoutes c)), (''iroutes'', JStr (iroutes c)), (''dnsServers'', JStr (dnsServers c)),
     (''customDirectives'', JStr (customDirectives c))]"

definition user_path :: "string \<Rightarrow> string \<Rightarrow> string" where
  "user_path userId rest = ''/api/vpn-users/'' @ encodeURIComponent userId @ rest"

definition applyUserCcd :: "string \<Rightarrow> ccd_draft \<Rightarrow> users_page \<Rightarrow> users_page script" where
  "applyUserCcd userId draft s0 =
     (if userId = [] \<or> uToken s0 = [] then Stop
      else Set (\<lambda>s. s\<lparr>uCcdBusy := True, uCcdResult := NoText\<rparr>)
        (try_ask (''POST'', user_path userId ''/ccd'', ccd_body draft)
          (\<lambda>e. Set (\<lambda>s. s\<lparr>uError := message_or e (Ui ''the CCD could not be saved''), uCcdBusy := False\<rparr>) Stop)
          (\<lambda>v. Set (\<lambda>s. s\<lparr>uCcdResult := error_text (jprop v ''message'') (Ui ''CCD saved''), uCcdBusy := False\<rparr>) Stop)))"

definition confirmUserCertBind :: "string \<Rightarrow> users_page \<Rightarrow> users_page script" where
  "confirmUserCertBind userId s0 =
     (let certId = js_trim (userCertBindSelectedCertId s0); idle = (\<lambda>s. s\<lparr>userCertBindBusy := False\<rparr>) in
      if certId = [] \<or> userId = [] \<or> userCertBindServerId s0 = [] \<or> uToken s0 = [] then Stop
      else Set (\<lambda>s. s\<lparr>userCertBindBusy := True, uError := NoText\<rparr>)
        (try_ask (''PATCH'', ''/api/certificates/'' @ encodeURIComponent certId,
            JObj [(''vpnUserId'', JStr userId), (''agentNodeId'', JStr (userCertBindServerId s0))])
          (\<lambda>e. Set (\<lambda>s. idle (s\<lparr>uError := message_or e (Ui ''the certificate could not be bound'')\<rparr>)) Stop)
          (\<lambda>_. Refresh RefreshCertificates
            (Set (\<lambda>s. idle (s\<lparr>userCertBindModalOpen := False, userCertBindSelectedCertId := []\<rparr>)) Stop))))"

text \<open>Issuing for the user of the profile page: the root certificate is the one of the chosen server.\<close>

definition issueProfileCertificate ::
  "(int \<Rightarrow> string) \<Rightarrow> int \<Rightarrow> jsval list \<Rightarrow> int \<Rightarrow> string \<Rightarrow> users_page \<Rightarrow> users_page script" where
  "issueProfileCertificate show_date now servers capFromCa userId s0 =
     (let form = profileIssueCert s0; serverId = js_trim (js_or (i_serverId form) (userCertBindServerId s0));
          rootId = newUserCertRootCaId (newUserSelectedIssueServer servers serverId); cn = js_trim (i_commonName form);
          m = profile_max_days capFromCa
      in if userId = [] then Stop
         else if serverId = [] then show_error (Ui ''choose a server'')
         else if rootId = [] then show_error (Ui ''the server has no root certificate'')
         else if cn = [] then show_error (Ui ''enter the subject CN'')
         else if uToken s0 = [] then show_error (Ui ''not signed in'')
         else case toISOString show_date (now + profile_days (i_validityDays form) capFromCa * DAY_MS) of
             None \<Rightarrow> Stop
           | Some expiresAt \<Rightarrow>
               Set (\<lambda>s. s\<lparr>uError := NoText\<rparr>)
                 (try_ask (new_cert_call (JStr userId) cn rootId serverId expiresAt)
                   (\<lambda>e. show_error (message_or e (Ui ''the certificate could not be issued'')))
                   (\<lambda>_. Set (\<lambda>s. s\<lparr>profileIssueCert := (profileIssueCert s)\<lparr>i_commonName := [], i_validityDays := int_string (min 1825 m)\<rparr>,
                                 userCertIssueModalOpen := False\<rparr>) (Kick RefreshCertificates Stop))))"

subsection \<open>The connection profile\<close>

definition connection_call :: "string \<Rightarrow> (string \<times> jsval) list \<Rightarrow> call" where
  "connection_call userId ps = (''POST'', user_path userId ''/connection-profile'', JObj ps)"

text \<open>The file of an answer: its name and its bytes; \<^verbatim>\<open>atob\<close> throws on bad text.\<close>

definition answer_file :: "jsval \<Rightarrow> (string \<times> string) option" where
  "answer_file v = map_option (\<lambda>b. (js_or (str_or (jprop v ''fileName'')) ''client.ovpn'', b)) (atob (str_or (jprop v ''contentBase64'')))"

definition download_file :: "jsval \<Rightarrow> users_page \<Rightarrow> users_page" where
  "download_file v s = (case answer_file v of
       Some f \<Rightarrow> s\<lparr>uDownloads := uDownloads s @ [f]\<rparr>
     | None \<Rightarrow> s\<lparr>uError := Ui ''the content is not base64''\<rparr>)"

definition downloadConfig :: "string \<Rightarrow> string \<Rightarrow> string \<Rightarrow> users_page script" where
  "downloadConfig userId certId serverId =
     Set (\<lambda>s. s\<lparr>connBusy := True\<rparr>)
       (try_ask (connection_call userId [(''action'', JStr ''download''), (''certificateId'', JStr certId), (''serverId'', JStr serverId)])
         (\<lambda>e. Set (\<lambda>s. s\<lparr>uError := message_or e (Ui ''the configuration could not be built''), connBusy := False\<rparr>) Stop)
         (\<lambda>v. Set (\<lambda>s. (download_file v s)\<lparr>connBusy := False\<rparr>) Stop))"

definition downloadUserConnectionProfile :: "string \<Rightarrow> users_page \<Rightarrow> users_page script" where
  "downloadUserConnectionProfile userId s0 =
     (if userId = [] \<or> uToken s0 = [] then Stop
      else if connCertificateId s0 = [] \<or> connServerId s0 = [] then show_error (Ui ''choose a certificate and a server'')
      else downloadConfig userId (connCertificateId s0) (connServerId s0))"

definition downloadUserCertConfig :: "string \<Rightarrow> string \<Rightarrow> string \<Rightarrow> users_page \<Rightarrow> users_page script" where
  "downloadUserCertConfig userId certificateId serverId s0 =
     (if userId = [] \<or> uToken s0 = [] then Stop
      else if js_trim certificateId = [] \<or> js_trim serverId = [] then show_error (Ui ''the certificate is bound to no server'')
      else downloadConfig userId (js_trim certificateId) (js_trim serverId))"

definition emailUserConnectionProfile :: "string \<Rightarrow> users_page \<Rightarrow> users_page script" where
  "emailUserConnectionProfile userId s0 =
     (if userId = [] \<or> uToken s0 = [] then Stop
      else if connCertificateId s0 = [] \<or> connServerId s0 = [] then show_error (Ui ''choose a certificate and a server'')
      else if js_trim (connEmail s0) = [] then show_error (Ui ''enter an email address'')
      else Set (\<lambda>s. s\<lparr>connBusy := True\<rparr>)
        (try_ask (connection_call userId [(''action'', JStr ''email''), (''certificateId'', JStr (connCertificateId s0)),
             (''serverId'', JStr (connServerId s0)), (''email'', JStr (js_trim (connEmail s0)))])
          (\<lambda>e. Set (\<lambda>s. s\<lparr>uError := message_or e (Ui ''the configuration could not be sent''), connBusy := False\<rparr>) Stop)
          (\<lambda>v. Set (\<lambda>s. s\<lparr>uError := NoText, uMessage := (if truthy (jprop v ''message'') then Raw (to_str (jprop v ''message'')) else uMessage s),
                       connBusy := False\<rparr>) Stop)))"

text \<open>The effect that loads the choices of the dialog.\<close>

definition on_user_certs :: "page_env \<Rightarrow> bool" where
  "on_user_certs e \<longleftrightarrow> primaryNav (fst e) = ''users'' \<and> usersSub (fst e) = ''profile'' \<and> userProfileTab (fst e) = ''certs''
     \<and> selectedUserId (fst e) \<noteq> [] \<and> snd e \<noteq> []"

definition conn_options_deps :: "page_env \<Rightarrow> string \<times> string \<times> string \<times> string \<times> string" where
  "conn_options_deps e = (primaryNav (fst e), usersSub (fst e), userProfileTab (fst e), selectedUserId (fst e), snd e)"

definition conn_options_start :: "page_env \<Rightarrow> users_page \<Rightarrow> users_page \<times> call list \<times> call list" where
  "conn_options_start e s =
     (s, if on_user_certs e then [(''GET'', user_path (selectedUserId (fst e)) ''/connection-profile/options'', JUndef)] else [], [])"

definition conn_options_settle :: "page_env \<Rightarrow> bool \<Rightarrow> answer \<Rightarrow> users_page \<Rightarrow> users_page" where
  "conn_options_settle e cancelled a s =
     (if cancelled then s
      else case a of
        Inr v \<Rightarrow>
          (let cs = array_or_empty (jprop v ''certificates''); mail = str_or (jprop v ''defaultEmail'') in
           s\<lparr>connCertificates := cs, connServers := array_or_empty (jprop v ''servers''), connDefaultEmail := mail,
             connCertificateId := (case cs of [] \<Rightarrow> [] | c # _ \<Rightarrow> str_or (jprop c ''id'')), connServerId := [],
             connEmail := js_or (connEmail s) mail\<rparr>)
      | Inl er \<Rightarrow> s\<lparr>connCertificates := [], connServers := [], connDefaultEmail := []\<rparr>)"

interpretation conn_options: loading_effect conn_options_deps conn_options_start conn_options_settle
    "\<lambda>s. (connCertificates s, connServers s, connDefaultEmail s, connServerId s)"
    "\<lambda>e v. (array_or_empty (jprop v ''certificates''), array_or_empty (jprop v ''servers''), str_or (jprop v ''defaultEmail''), [])"
  by unfold_locales (auto simp: conn_options_settle_def Let_def)

definition issue_servers_deps :: "page_env \<Rightarrow> string \<times> string \<times> string" where
  "issue_servers_deps e = (primaryNav (fst e), usersSub (fst e), snd e)"

definition issue_servers_start :: "page_env \<Rightarrow> users_page \<Rightarrow> users_page \<times> call list \<times> call list" where
  "issue_servers_start e s =
     (if primaryNav (fst e) \<noteq> ''users'' \<or> usersSub (fst e) \<noteq> ''add'' \<or> snd e = [] then (s\<lparr>newUserIssueServers := []\<rparr>, [], [])
      else (s, [(''GET'', ''/api/vpn-users/issue-certificate/servers'', JUndef)], []))"

definition issue_servers_settle :: "page_env \<Rightarrow> bool \<Rightarrow> answer \<Rightarrow> users_page \<Rightarrow> users_page" where
  "issue_servers_settle e cancelled a s =
     (if cancelled then s
      else s\<lparr>newUserIssueServers := (case a of Inr v \<Rightarrow> array_or_empty (jprop v ''servers'') | Inl er \<Rightarrow> [])\<rparr>)"

interpretation issue_servers: loading_effect issue_servers_deps issue_servers_start issue_servers_settle
    newUserIssueServers "\<lambda>e v. array_or_empty (jprop v ''servers'')"
  by unfold_locales (auto simp: issue_servers_settle_def)

subsection \<open>Properties\<close>

lemma bindable_lists:
  "rootId \<noteq> [] \<Longrightarrow> set (newUserBindableCertificates lc rootId certs) = {c \<in> set certs. bindable rootId c}"
  "rootId \<noteq> [] \<Longrightarrow> set (userModalBindableCertificates lc rootId certs) = {c \<in> set certs. bindable rootId c}"
  by (auto simp: newUserBindableCertificates_def userModalBindableCertificates_def selectedUserUnlinkedCertificates_def bindable_def)

lemma find_mem: "find P xs = Some x \<Longrightarrow> x \<in> set xs \<and> P x"
  by (induction xs) (auto split: if_splits)

lemma chosen_cert_bindable:
  "chosen_cert (newUserBindableCertificates lc rootId certs) s = Some c \<Longrightarrow> c \<in> set certs \<and> bindable rootId c"
  by (auto simp: chosen_cert_def newUserBindableCertificates_def Let_def split: if_splits dest!: find_mem)

lemma show_error_quiet [simp]: "snd (exec (show_error t) srv env n s) = []"
  by (simp add: show_error_def)

lemma new_user_done_calls [simp]: "calls_of (snd (exec (new_user_done v) srv env n s)) = []"
  by (simp add: new_user_done_def Let_def)

lemma certificate_step_calls:
  fixes cs s0 created srv env n s rootId maxD show_date now
  defines "calls \<equiv> calls_of (snd (exec (new_user_certificate show_date now cs rootId maxD s0 created) srv env n s))"
  shows "calls = []
    \<or> (\<exists>c. chosen_cert cs s0 = Some c \<and> calls = [bind_cert_call c created (js_trim (newUserCertServerId s0))])
    \<or> (\<exists>x. chosen_cn s0 \<noteq> [] \<and> calls = [new_cert_call (jprop created ''id'') (chosen_cn s0) (js_trim rootId) (js_trim (newUserCertServerId s0)) x])"
proof (cases "chosen_cert cs s0")
  case None
  then show ?thesis
    by (auto simp: calls_def new_user_certificate_def Let_def split: option.split sum.split)
next
  case (Some c)
  then show ?thesis
    by (auto simp: calls_def new_user_certificate_def Let_def split: sum.split)
qed

text \<open>What the new user gets is free: the list the form offers names the certificate \<open>x\<close> of the root certificate of the server \<open>v\<close>.\<close>

lemma offered_free:
  assumes "chosen_cert (newUserBindableCertificates lc (newUserCertRootCaId (newUserSelectedIssueServer servers serverId)) certs) s0 = Some x"
  shows "x \<in> set certs \<and> (\<exists>v\<in>set servers. jprop v ''id'' = JStr serverId \<and> js_trim (str_or (jprop v ''panelRootCaId'')) \<noteq> []
      \<and> cert_root x = js_trim (str_or (jprop v ''panelRootCaId'')))
    \<and> \<not> truthy (jprop x ''revokedAt'') \<and> \<not> truthy (jprop x ''vpnUserId'') \<and> has_key_material x"
proof -
  let ?server = "newUserSelectedIssueServer servers serverId"
  have r: "newUserCertRootCaId ?server \<noteq> []"
    using assms by (auto simp: newUserBindableCertificates_def chosen_cert_def Let_def split: if_splits)
  have "js_trim (str_or (jprop JNull ''panelRootCaId'')) = []" by code_simp
  then obtain v where "find (\<lambda>v. jprop v ''id'' = JStr serverId) servers = Some v"
    using r by (cases "find (\<lambda>v. jprop v ''id'' = JStr serverId) servers") (simp_all add: newUserCertRootCaId_def newUserSelectedIssueServer_def)
  then show ?thesis
    using chosen_cert_bindable [OF assms] r find_mem [of "\<lambda>v. jprop v ''id'' = JStr serverId" servers v]
    by (auto simp: bindable_def newUserCertRootCaId_def newUserSelectedIssueServer_def)
qed

text \<open>C17: Only a free certificate is ever bound to a new user: every certificate the form binds is one of the panel's, not revoked, without a
  user, with its key (as the panel reports it, or both of its texts at hand), and of the root certificate of the chosen server; the
  request comes second, after the one that creates the user, names the user of that answer, and there is at most one. If no certificate
  is bound, a new one may be asked for instead, for that user and the root certificate of that server.\<close>

theorem new_user_binds_free_cert:
  fixes servers certs :: "jsval list" and s0 :: users_page
  defines "rootId \<equiv> newUserCertRootCaId (newUserSelectedIssueServer servers (newUserCertServerId s0))"
  shows "case calls_of (snd (exec (createVpnUser show_date now (newUserBindableCertificates lc rootId certs) rootId maxD s0) srv env n s)) of
     [] \<Rightarrow> True
   | [c] \<Rightarrow> c = (''POST'', ''/api/vpn-users'', profile_body (newVpnUser s0))
   | [c, d] \<Rightarrow> c = (''POST'', ''/api/vpn-users'', profile_body (newVpnUser s0))
       \<and> (\<exists>created. srv n c = Inr created
           \<and> ((\<exists>x\<in>set certs. \<exists>v\<in>set servers. jprop v ''id'' = JStr (newUserCertServerId s0)
                  \<and> cert_root x = js_trim (str_or (jprop v ''panelRootCaId'')) \<and> cert_root x \<noteq> []
                  \<and> \<not> truthy (jprop x ''revokedAt'') \<and> \<not> truthy (jprop x ''vpnUserId'')
                  \<and> (truthy (jprop x ''hasKeyMaterial'')
                      \<or> jprop x ''hasKeyMaterial'' \<in> {JUndef, JNull} \<and> truthy (jprop x ''certPem'') \<and> truthy (jprop x ''keyPem''))
                  \<and> d = (''PATCH'', ''/api/certificates/'' @ encodeURIComponent (to_str (jprop x ''id'')),
                       JObj [(''vpnUserId'', jprop created ''id''), (''agentNodeId'', JStr (js_trim (newUserCertServerId s0)))]))
              \<or> (\<exists>expiry. js_trim rootId \<noteq> [] \<and> d = (''POST'', ''/api/certificates'',
                       JObj [(''vpnUserId'', jprop created ''id''), (''commonName'', JStr (chosen_cn s0)), (''rootCaId'', JStr (js_trim rootId)),
                         (''agentNodeId'', JStr (js_trim (newUserCertServerId s0))), (''expiresAt'', JStr expiry)]))))
   | _ \<Rightarrow> False"
proof (cases "srv n (''POST'', ''/api/vpn-users'', profile_body (newVpnUser s0))")
  case (Inr created)
  let ?cs = "newUserBindableCertificates lc rootId certs"
  have free: "x \<in> set certs \<and> (\<exists>v\<in>set servers. jprop v ''id'' = JStr (newUserCertServerId s0)
        \<and> cert_root x = js_trim (str_or (jprop v ''panelRootCaId'')) \<and> cert_root x \<noteq> [])
      \<and> \<not> truthy (jprop x ''revokedAt'') \<and> \<not> truthy (jprop x ''vpnUserId'')
      \<and> (truthy (jprop x ''hasKeyMaterial'')
          \<or> jprop x ''hasKeyMaterial'' \<in> {JUndef, JNull} \<and> truthy (jprop x ''certPem'') \<and> truthy (jprop x ''keyPem''))"
    if "chosen_cert ?cs s0 = Some x" for x
    using offered_free [OF that [unfolded rootId_def]] by (auto simp: has_key_material_def Let_def split: if_splits)
  show ?thesis
    using certificate_step_calls [of show_date now ?cs rootId maxD s0 created srv env "Suc n" "env n (s\<lparr>uError := NoText\<rparr>)"] free Inr
    by (fastforce simp: createVpnUser_def bind_cert_call_def new_cert_call_def Let_def simp del: append_Cons)
qed (simp add: createVpnUser_def Let_def)

text \<open>The form of a new user can create the user and then refuse the certificate: with the choice to issue a certificate but
  a blank name, the user is created on the server and only then an error is shown; the form keeps its contents and the lists
  are not refreshed, so the same submission creates the user a second time.\<close>

theorem new_user_created_then_refused:
  assumes "js_trim (newUserCertChoice s) = CREATE_CHOICE" and "js_trim (newUserCertNewCn s) = []"
    and "srv 0 (''POST'', ''/api/vpn-users'', profile_body (newVpnUser s)) = Inr created"
  shows "exec (createVpnUser show_date now certs rootId maxD s) srv (\<lambda>_ t. t) 0 s
    = (s\<lparr>uError := Ui ''enter the CN of the new certificate''\<rparr>,
       [Called (''POST'', ''/api/vpn-users'', profile_body (newVpnUser s)) (Inr created)])"
proof -
  have "chosen_cert certs s = None" "chosen_cn s = []" using assms by (simp_all add: chosen_cert_def chosen_cn_def)
  moreover have "CREATE_CHOICE \<noteq> []" by (simp add: CREATE_CHOICE_def)
  ultimately show ?thesis using assms by (simp add: createVpnUser_def new_user_certificate_def show_error_def)
qed

definition blank_users :: users_page where
  "blank_users = \<lparr>uToken = ''tok'', uError = NoText, uPage = paths_users, uListFilter = [], newVpnUser = blank_profile,
     newUserCertServerId = ''s1'', newUserCertChoice = ''__create__'', newUserCertNewCn = '' '', newUserCertValidityDays = ''1825'',
     userProfileDraft = blank_profile, profileIssueCert = \<lparr>i_commonName = [], i_serverId = [], i_validityDays = ''1825''\<rparr>,
     userCertIssueModalOpen = False, userCertBindModalOpen = False, userCertBindSelectedCertId = [], userCertBindServerId = [],
     userCertBindBusy = False, connCertificateId = [], connServerId = [], connEmail = [], connBusy = False, connServers = [],
     connCertificates = [], connDefaultEmail = [], uDownloads = [], uMessage = NoText, uCcdBusy = False, uCcdResult = NoText,
     newUserIssueServers = []\<rparr>"

theorem new_user_created_then_refused_witness:
  "length (calls_of (snd (exec (createVpnUser (\<lambda>_. []) 0 [] ''r1'' 100 blank_users) (\<lambda>n c. Inr (JObj [(''id'', JStr ''u1'')])) (\<lambda>_ t. t) 0 blank_users))) = 1"
proof -
  have "js_trim (newUserCertChoice blank_users) = CREATE_CHOICE" "js_trim (newUserCertNewCn blank_users) = []" by code_simp+
  from new_user_created_then_refused [OF this, of "\<lambda>n c. Inr (JObj [(''id'', JStr ''u1'')])" "JObj [(''id'', JStr ''u1'')]"]
  show ?thesis by simp
qed

text \<open>The number fields.\<close>

lemma parse_int_nat_string: "parse_int (nat_string n) = Some (int n)"
proof -
  have d: "\<forall>c\<in>set (nat_string n). is_digit c" by (rule nat_string_digits)
  obtain c cs where n: "nat_string n = c # cs" using nat_string_not_Nil by (cases "nat_string n") auto
  then have c: "is_digit c" using d by simp
  then have "\<not> is_space c" "c \<noteq> CHR ''-''" "c \<noteq> CHR ''+''" by (auto simp: is_digit_def is_space_def code_of_def)
  moreover have "takeWhile is_digit (nat_string n) = nat_string n" using d by simp
  ultimately show ?thesis using n digits_value_nat_string [of n] by (auto simp: parse_int_def Let_def)
qed

lemma trim_nat_string: "js_trim (nat_string n) = nat_string n"
proof -
  have d: "\<not> is_space c" if "c \<in> set (nat_string n)" for c
    using that nat_string_digits [of n] by (auto simp: is_digit_def is_space_def code_of_def)
  have "dropWhile is_space (nat_string n) = nat_string n" "dropWhile is_space (rev (nat_string n)) = rev (nat_string n)"
    using d by (metis dropWhile_eq_self_iff hd_in_set) (metis d dropWhile_eq_self_iff hd_in_set set_rev)
  then show ?thesis by (simp add: js_trim_def)
qed

lemma parse_days: "0 < d \<Longrightarrow> parse_int (js_trim (int_string d)) = Some d"
  by (simp add: int_string_def trim_nat_string parse_int_nat_string)

text \<open>The days of a user's certificate stay in range, whatever was typed: for a new user between one and the allowance of
  the root certificate, on the profile page likewise as long as there is an allowance. But where the root certificate has
  expired or its end is unknown the profile page falls back to 3650 days.\<close>

theorem user_cert_days_bounded:
  "1 \<le> new_user_days t maxD \<and> new_user_days t maxD \<le> max 1 maxD
   \<and> 1 \<le> profile_days t cap \<and> profile_days t cap \<le> (if cap > 0 then cap else 3650)
   \<and> profile_days ''4000'' 0 = 3650"
proof -
  have "profile_days ''4000'' 0 = 3650" by code_simp
  moreover have "1 \<le> new_user_days t maxD \<and> new_user_days t maxD \<le> max 1 maxD"
    by (auto simp: new_user_days_def Let_def split: option.split)
  moreover have "1 \<le> profile_days t cap \<and> profile_days t cap \<le> (if cap > 0 then cap else 3650)"
    by (auto simp: profile_days_def profile_max_days_def Let_def split: option.split)
  ultimately show ?thesis by blast
qed

text \<open>When the allowance of days changes, the field of the form is brought into range: after the effects have run, the
  texts of both forms are numbers between one and the allowance, and a number that was in range is kept.\<close>

theorem days_fields_in_range:
  assumes "js_trim rootId \<noteq> []" and "1 \<le> maxD"
  shows "(case parse_int (js_trim (newUserCertValidityDays (new_user_days_effect rootId maxD s))) of
        Some d \<Rightarrow> 1 \<le> d \<and> d \<le> maxD | None \<Rightarrow> False)
    \<and> (case parse_int (js_trim (i_validityDays (profileIssueCert (profile_days_effect maxD s)))) of
        Some d \<Rightarrow> 1 \<le> d \<and> d \<le> maxD | None \<Rightarrow> False)
    \<and> (case parse_int (js_trim (newUserCertValidityDays s)) of
        Some d \<Rightarrow> if 1 \<le> d \<and> d \<le> maxD then new_user_days_effect rootId maxD s = s else True | None \<Rightarrow> True)"
proof -
  have p: "parse_int (js_trim (int_string (min 1825 maxD))) = Some (min 1825 maxD)" "parse_int (js_trim (int_string maxD)) = Some maxD"
    using assms(2) by (auto intro: parse_days)
  have m: "max 1 maxD = maxD" "max 0 maxD = maxD" using assms(2) by simp_all
  show ?thesis
    using assms p by (auto simp: new_user_days_effect_def profile_days_effect_def Let_def m split: option.split)
qed

theorem days_fields_in_range_witness:
  "newUserCertValidityDays (new_user_days_effect ''r1'' 90 blank_users) = ''90''
   \<and> (case parse_int (js_trim (newUserCertValidityDays (new_user_days_effect ''r1'' 90 blank_users))) of
        Some d \<Rightarrow> 1 \<le> d \<and> d \<le> 90 | None \<Rightarrow> False)"
proof -
  have t: "js_trim ''r1'' \<noteq> []" by code_simp
  have "newUserCertValidityDays (new_user_days_effect ''r1'' 90 blank_users) = ''90''" by code_simp
  then show ?thesis using days_fields_in_range [OF t, of 90 blank_users] by simp
qed

end
