(* ===== verification/Admins.thy ===== *)
theory Admins
  imports Scripts
begin

section \<open>Administrators\<close>

text \<open>
  The pages of administrators: inviting, editing, blocking and unblocking them, links to reset a password, the own profile
  with password and second factor, and the two public pages on which a password is chosen with such a link.
\<close>

subsection \<open>State\<close>

record admin_form =
  a_fullName :: string
  a_username :: string
  a_email :: string

record block_modal =
  b_open :: bool
  b_adminId :: string
  b_expected :: string
  b_byFullName :: bool
  b_input :: string
  b_busy :: bool
  b_validationError :: uitext
  b_error :: uitext

record password_draft =
  currentPassword :: string
  newPassword :: string
  confirmPassword :: string

record totp_setup =
  t_loading :: bool
  t_qrDataUrl :: string
  t_manualSecret :: string
  t_expiresAt :: string
  t_code :: string
  t_error :: uitext
  t_busy :: bool

record admin_page =
  aToken :: string
  adminDetailStatusBusy :: bool
  adminDetailStatusError :: uitext
  adminBlockModal :: block_modal
  adminProfileDraft :: admin_form
  adminProfileSaving :: bool
  adminProfileFieldError :: uitext
  resetOpen :: bool
  resetUrl :: string
  resetBusy :: bool
  resetError :: uitext
  myProfile :: jsval
  myProfileLoading :: bool
  passwordDraft :: password_draft
  passwordBusy :: bool
  passwordError :: uitext
  passwordModalOpen :: bool
  totpSetup :: totp_setup
  totpDisableCode :: string
  totpDisableBusy :: bool
  totpDisableError :: uitext
  totpDisableModalOpen :: bool
  recoveryCodes :: "jsval list option"
  regenerateCode :: string
  regenerateBusy :: bool
  regenerateError :: uitext
  newAdmin :: admin_form
  addAdminBusy :: bool
  addAdminError :: uitext
  inviteUrl :: "string option"
  adminNav :: string
  adminError :: uitext
  totpSetupModalOpen :: bool
  recoveryModalOpen :: bool
  addAdminModalOpen :: bool

definition blank_admin_form :: admin_form where
  "blank_admin_form = \<lparr>a_fullName = [], a_username = [], a_email = []\<rparr>"

definition closed_block :: block_modal where
  "closed_block = \<lparr>b_open = False, b_adminId = [], b_expected = [], b_byFullName = True, b_input = [], b_busy = False,
     b_validationError = NoText, b_error = NoText\<rparr>"

definition blank_password :: password_draft where
  "blank_password = \<lparr>currentPassword = [], newPassword = [], confirmPassword = []\<rparr>"

definition blank_totp :: totp_setup where
  "blank_totp = \<lparr>t_loading = False, t_qrDataUrl = [], t_manualSecret = [], t_expiresAt = [], t_code = [], t_error = NoText, t_busy = False\<rparr>"

text \<open>\<^verbatim>\<open>e?.message ? String(e.message) : String(e)\<close>\<close>

definition any_message :: "req_error \<Rightarrow> uitext" where
  "any_message e = message_or e (Ui ''Error'')"

definition admin_path :: "string \<Rightarrow> string \<Rightarrow> string" where
  "admin_path i rest = ''/api/admins/'' @ encodeURIComponent i @ rest"

subsection \<open>Blocking and editing\<close>

text \<open>\<^verbatim>\<open>s.trim().replace(/\s+/g, " ")\<close>\<close>

function collapse_spaces :: "string \<Rightarrow> string" where
  "collapse_spaces [] = []"
| "collapse_spaces (c # cs) = (if is_space c then CHR '' '' # collapse_spaces (dropWhile is_space cs) else c # collapse_spaces cs)"
  by pat_completeness auto
termination
  by (relation "measure length") (auto simp: length_dropWhile_le le_imp_less_Suc)

definition normalizeAdminBlockConfirmInput :: "string \<Rightarrow> string" where
  "normalizeAdminBlockConfirmInput t = collapse_spaces (js_trim t)"

definition patchAdminIsActive :: "string \<Rightarrow> bool \<Rightarrow> admin_page \<Rightarrow> admin_page script" where
  "patchAdminIsActive adminId isActive s0 =
     Set (\<lambda>s. s\<lparr>adminDetailStatusBusy := True, adminDetailStatusError := NoText\<rparr>)
       (try_ask (''PATCH'', admin_path adminId [], JObj [(''isActive'', JBool isActive)])
         (\<lambda>e. Set (\<lambda>s. s\<lparr>adminDetailStatusError := any_message e, adminDetailStatusBusy := False\<rparr>) Stop)
         (\<lambda>_. Refresh RefreshAdmins (Set (\<lambda>s. s\<lparr>adminDetailStatusBusy := False\<rparr>) Stop)))"

definition closeAdminBlockModal :: "admin_page \<Rightarrow> admin_page" where
  "closeAdminBlockModal s = s\<lparr>adminBlockModal := closed_block\<rparr>"

text \<open>The button that opens the dialog: the text to type in is the name in the form, or the login when that is blank.\<close>

definition open_block_modal :: "string \<Rightarrow> admin_page \<Rightarrow> admin_page" where
  "open_block_modal adminId s =
     (let fn = js_trim (a_fullName (adminProfileDraft s)); un = js_trim (a_username (adminProfileDraft s)) in
      s\<lparr>adminBlockModal := \<lparr>b_open = True, b_adminId = adminId,
          b_expected = (if fn \<noteq> [] then normalizeAdminBlockConfirmInput fn else normalizeAdminBlockConfirmInput un),
          b_byFullName = (fn \<noteq> []), b_input = [], b_busy = False, b_validationError = NoText, b_error = NoText\<rparr>\<rparr>)"

definition type_block_input :: "string \<Rightarrow> admin_page \<Rightarrow> admin_page" where
  "type_block_input t s = s\<lparr>adminBlockModal := (adminBlockModal s)\<lparr>b_input := t, b_validationError := NoText, b_error := NoText\<rparr>\<rparr>"

definition submitAdminBlock :: "admin_page \<Rightarrow> admin_page script" where
  "submitAdminBlock s0 =
     (let m = adminBlockModal s0; upd = (\<lambda>f s. s\<lparr>adminBlockModal := f (adminBlockModal s)\<rparr>) in
      if \<not> b_open m \<or> b_adminId m = [] then Stop
      else if normalizeAdminBlockConfirmInput (b_input m) \<noteq> b_expected m then
        Set (upd (\<lambda>m. m\<lparr>b_validationError := (if b_byFullName m then Ui ''enter the full name exactly'' else Ui ''enter the login'')\<rparr>)) Stop
      else Set (upd (\<lambda>m. m\<lparr>b_validationError := NoText, b_error := NoText, b_busy := True\<rparr>))
        (try_ask (''PATCH'', admin_path (b_adminId m) [], JObj [(''isActive'', JBool False)])
          (\<lambda>e. Set (upd (\<lambda>m. m\<lparr>b_busy := False, b_error := any_message e\<rparr>)) Stop)
          (\<lambda>_. Refresh RefreshAdmins (Set closeAdminBlockModal Stop))))"

text \<open>\<open>sel\<close> is \<^verbatim>\<open>selectedAdmin\<close>, \<open>JNull\<close> when none is selected.\<close>

definition selectedAdmin :: "string \<Rightarrow> jsval list \<Rightarrow> jsval" where
  "selectedAdmin adminId rows =
     (if adminId = [] then JNull else case find (\<lambda>a. jprop a ''id'' = JStr adminId) rows of Some a \<Rightarrow> a | None \<Rightarrow> JNull)"

definition admin_body :: "admin_form \<Rightarrow> jsval" where
  "admin_body f = JObj [(''fullName'', JStr (js_trim (a_fullName f))), (''username'', JStr (js_trim (a_username f))), (''email'', JStr (js_trim (a_email f)))]"

definition saveAdminProfile :: "jsval \<Rightarrow> admin_page \<Rightarrow> admin_page script" where
  "saveAdminProfile sel s0 =
     (if sel = JNull then Stop
      else Set (\<lambda>s. s\<lparr>adminProfileSaving := True, adminProfileFieldError := NoText\<rparr>)
        (try_ask (''PATCH'', admin_path (to_str (jprop sel ''id'')) [], admin_body (adminProfileDraft s0))
          (\<lambda>e. Set (\<lambda>s. s\<lparr>adminProfileFieldError := any_message e, adminProfileSaving := False\<rparr>) Stop)
          (\<lambda>_. Refresh RefreshAdmins (Set (\<lambda>s. s\<lparr>adminProfileSaving := False\<rparr>) Stop))))"

text \<open>The effects on the selection: clear the message; fill the form when the id or the time of the last change differs.\<close>

definition admin_selected_effect :: "admin_page \<Rightarrow> admin_page" where
  "admin_selected_effect s = s\<lparr>adminDetailStatusError := NoText\<rparr>"

definition admin_form_effect :: "jsval \<Rightarrow> admin_page \<Rightarrow> admin_page" where
  "admin_form_effect sel s =
     (if sel = JNull then s
      else s\<lparr>adminProfileDraft := \<lparr>a_fullName = str_or (jprop sel ''fullName''), a_username = str_or (jprop sel ''username''),
               a_email = str_or (jprop sel ''email'')\<rparr>, adminProfileFieldError := NoText\<rparr>)"

definition closeAdminPasswordResetModal :: "admin_page \<Rightarrow> admin_page" where
  "closeAdminPasswordResetModal s = s\<lparr>resetOpen := False, resetUrl := [], resetBusy := False, resetError := NoText\<rparr>"

definition openAdminPasswordResetModal :: "string \<Rightarrow> jsval \<Rightarrow> admin_page \<Rightarrow> admin_page script" where
  "openAdminPasswordResetModal origin sel s0 =
     (if sel = JNull \<or> truthy (jprop sel ''invitePending'') then Stop
      else Set (\<lambda>s. s\<lparr>resetOpen := True, resetUrl := [], resetBusy := True, resetError := NoText\<rparr>)
        (try_ask (''POST'', admin_path (to_str (jprop sel ''id'')) ''/password-reset-link'', JObj [])
          (\<lambda>e. Set (\<lambda>s. s\<lparr>resetOpen := True, resetUrl := [], resetBusy := False, resetError := any_message e\<rparr>) Stop)
          (\<lambda>v. Set (\<lambda>s. s\<lparr>resetOpen := True, resetUrl := (if str_prop v ''resetPath'' = [] then [] else origin @ str_prop v ''resetPath''),
                       resetBusy := False, resetError := NoText\<rparr>) Stop)))"

definition createAdmin :: "string \<Rightarrow> admin_page \<Rightarrow> admin_page script" where
  "createAdmin origin s0 =
     Set (\<lambda>s. s\<lparr>addAdminBusy := True, addAdminError := NoText\<rparr>)
       (try_ask (''POST'', ''/api/admins'', admin_body (newAdmin s0))
         (\<lambda>e. Set (\<lambda>s. s\<lparr>addAdminError := any_message e, addAdminBusy := False\<rparr>) Stop)
         (\<lambda>v. Set (\<lambda>s. s\<lparr>inviteUrl := (if str_prop v ''invitePath'' = [] then None else Some (origin @ str_prop v ''invitePath'')),
                      newAdmin := blank_admin_form\<rparr>)
           (Refresh RefreshAdmins (Set (\<lambda>s. s\<lparr>addAdminBusy := False\<rparr>) Stop))))"

subsection \<open>The own profile\<close>

definition loadMyAdminProfile :: "admin_page script \<Rightarrow> admin_page script" where
  "loadMyAdminProfile k =
     Get (\<lambda>s. if aToken s = [] then k
       else Set (\<lambda>s. s\<lparr>myProfileLoading := True\<rparr>)
         (Attempt (''GET'', ''/api/admins/me'', JUndef) (\<lambda>a. Set (\<lambda>s. case a of
             Inr v \<Rightarrow> s\<lparr>myProfile := (if truthy v then v else JNull), passwordError := NoText, totpDisableError := NoText,
                       regenerateError := NoText, myProfileLoading := False\<rparr>
           | Inl e \<Rightarrow> s\<lparr>myProfile := JNull, passwordError := any_message e, myProfileLoading := False\<rparr>) k)))"

definition submitMyAdminPasswordChange :: "admin_page \<Rightarrow> admin_page script" where
  "submitMyAdminPasswordChange s0 =
     (let d = passwordDraft s0 in
      if passwordBusy s0 then Stop
      else if newPassword d \<noteq> confirmPassword d then Set (\<lambda>s. s\<lparr>passwordError := Ui ''the passwords differ''\<rparr>) Stop
      else Set (\<lambda>s. s\<lparr>passwordBusy := True, passwordError := NoText\<rparr>)
        (try_ask (''POST'', ''/api/admins/me/change-password'', JObj [(''currentPassword'', JStr (currentPassword d)), (''newPassword'', JStr (newPassword d))])
          (\<lambda>e. Set (\<lambda>s. s\<lparr>passwordError := any_message e, passwordBusy := False\<rparr>) Stop)
          (\<lambda>_. Set (\<lambda>s. s\<lparr>passwordDraft := blank_password, passwordModalOpen := False, passwordBusy := False\<rparr>) Stop)))"

definition startMyAdminTotpSetup :: "admin_page \<Rightarrow> admin_page script" where
  "startMyAdminTotpSetup s0 =
     Set (\<lambda>s. s\<lparr>totpSetup := (totpSetup s)\<lparr>t_loading := True, t_error := NoText\<rparr>\<rparr>)
       (try_ask (''POST'', ''/api/admins/me/totp/setup/start'', JObj [])
         (\<lambda>e. Set (\<lambda>s. s\<lparr>totpSetup := (totpSetup s)\<lparr>t_loading := False, t_busy := False, t_error := any_message e\<rparr>\<rparr>) Stop)
         (\<lambda>v. Set (\<lambda>s. s\<lparr>totpSetup := \<lparr>t_loading = False, t_qrDataUrl = str_or (jprop v ''qrDataUrl''), t_manualSecret = str_or (jprop v ''manualSecret''),
                  t_expiresAt = str_or (jprop v ''expiresAt''), t_code = [], t_error = NoText, t_busy = False\<rparr>\<rparr>) Stop))"

definition shown_codes :: "jsval \<Rightarrow> jsval list option" where
  "shown_codes v = (let cs = array_or_empty (jprop v ''recoveryCodes'') in if cs = [] then None else Some cs)"

definition confirmMyAdminTotpSetup :: "admin_page \<Rightarrow> admin_page script" where
  "confirmMyAdminTotpSetup s0 =
     (if t_code (totpSetup s0) = [] \<or> t_busy (totpSetup s0) then Stop
      else Set (\<lambda>s. s\<lparr>totpSetup := (totpSetup s)\<lparr>t_busy := True, t_error := NoText\<rparr>\<rparr>)
        (try_ask (''POST'', ''/api/admins/me/totp/setup/confirm'', JObj [(''totpCode'', JStr (t_code (totpSetup s0)))])
          (\<lambda>e. Set (\<lambda>s. s\<lparr>totpSetup := (totpSetup s)\<lparr>t_busy := False, t_error := any_message e\<rparr>\<rparr>) Stop)
          (\<lambda>v. Set (\<lambda>s. s\<lparr>recoveryCodes := shown_codes v, totpSetup := blank_totp\<rparr>) (loadMyAdminProfile Stop))))"

definition regenerateMyAdminRecoveryCodes :: "admin_page \<Rightarrow> admin_page script" where
  "regenerateMyAdminRecoveryCodes s0 =
     (let idle = Set (\<lambda>s. s\<lparr>regenerateBusy := False\<rparr>) Stop in
      if js_trim (regenerateCode s0) = [] \<or> regenerateBusy s0 then Stop
      else Set (\<lambda>s. s\<lparr>regenerateBusy := True, regenerateError := NoText\<rparr>)
        (try_ask (''POST'', ''/api/admins/me/totp/recovery-codes/regenerate'', JObj [(''totpCode'', JStr (js_trim (regenerateCode s0)))])
          (\<lambda>e. Set (\<lambda>s. s\<lparr>regenerateError := any_message e\<rparr>) idle)
          (\<lambda>v. Set (\<lambda>s. s\<lparr>recoveryCodes := shown_codes v, regenerateCode := []\<rparr>) (loadMyAdminProfile idle))))"

definition disableMyAdminTotp :: "admin_page \<Rightarrow> admin_page script" where
  "disableMyAdminTotp s0 =
     (let idle = Set (\<lambda>s. s\<lparr>totpDisableBusy := False\<rparr>) Stop in
      if totpDisableCode s0 = [] \<or> totpDisableBusy s0 then Stop
      else Set (\<lambda>s. s\<lparr>totpDisableBusy := True, totpDisableError := NoText\<rparr>)
        (try_ask (''POST'', ''/api/admins/me/totp/disable'', JObj [(''totpCode'', JStr (totpDisableCode s0))])
          (\<lambda>e. Set (\<lambda>s. s\<lparr>totpDisableError := any_message e\<rparr>) idle)
          (\<lambda>_. Set (\<lambda>s. s\<lparr>totpDisableCode := [], totpDisableModalOpen := False\<rparr>) (loadMyAdminProfile idle))))"

subsection \<open>Choosing a password with a link\<close>

text \<open>The two public pages differ in their address and texts only.\<close>

record accept_page =
  preview :: "jsval option"
  loadError :: uitext
  password :: string
  password2 :: string
  submitError :: uitext
  acceptBusy :: bool
  acceptDone :: bool

definition accept_load_start :: "string \<Rightarrow> string \<Rightarrow> accept_page \<Rightarrow> accept_page \<times> string option" where
  "accept_load_start path link s =
     (if js_trim link = [] then (s\<lparr>loadError := Ui ''the link has no token''\<rparr>, None)
      else (s, Some (path @ ''?token='' @ encodeURIComponent (js_trim link))))"

text \<open>\<^verbatim>\<open>res.json().catch(() => ({}))\<close>; reading a property of a \<^verbatim>\<open>null\<close> body throws and is caught.\<close>

definition body_or_empty :: "response \<Rightarrow> jsval" where
  "body_or_empty res = (case body res of Some v \<Rightarrow> v | None \<Rightarrow> JObj [])"

definition body_error :: "jsval \<Rightarrow> uitext \<Rightarrow> uitext" where
  "body_error v d = (if v = JNull then MSG_NULL else case jprop v ''error'' of JStr t \<Rightarrow> Raw t | _ \<Rightarrow> d)"

definition accept_load_settle :: "bool \<Rightarrow> response option \<Rightarrow> accept_page \<Rightarrow> accept_page" where
  "accept_load_settle cancelled answer s =
     (if cancelled then s
      else case answer of None \<Rightarrow> s\<lparr>loadError := Ui ''network error''\<rparr>
        | Some res \<Rightarrow>
            if \<not> res_ok res then s\<lparr>loadError := body_error (body_or_empty res) (Ui ''the link could not be checked'')\<rparr>
            else s\<lparr>preview := Some (body_or_empty res)\<rparr>)"

definition accept_submit_start :: "string \<Rightarrow> string \<Rightarrow> accept_page \<Rightarrow> accept_page \<times> call option" where
  "accept_submit_start path link s0 =
     (let s = s0\<lparr>submitError := NoText\<rparr> in
      if length (password s) < 8 then (s\<lparr>submitError := Ui ''the password is too short''\<rparr>, None)
      else if password s \<noteq> password2 s then (s\<lparr>submitError := Ui ''the passwords differ''\<rparr>, None)
      else (s\<lparr>acceptBusy := True\<rparr>,
            Some (''POST'', path @ ''/complete'', JObj [(''token'', JStr (js_trim link)), (''password'', JStr (password s))])))"

definition accept_submit_settle :: "response option \<Rightarrow> accept_page \<Rightarrow> accept_page" where
  "accept_submit_settle answer s =
     (case answer of None \<Rightarrow> s\<lparr>submitError := Ui ''network error'', acceptBusy := False\<rparr>
      | Some res \<Rightarrow>
          if \<not> res_ok res then s\<lparr>submitError := body_error (body_or_empty res) (Ui ''the password could not be saved''), acceptBusy := False\<rparr>
          else s\<lparr>acceptDone := True, acceptBusy := False\<rparr>)"

text \<open>The two pages.\<close>

definition AdminPasswordResetAccept_load :: "string \<Rightarrow> accept_page \<Rightarrow> accept_page \<times> string option" where
  "AdminPasswordResetAccept_load = accept_load_start ''/api/admin-password-reset''"

definition AdminPasswordResetAccept_submit :: "string \<Rightarrow> accept_page \<Rightarrow> accept_page \<times> call option" where
  "AdminPasswordResetAccept_submit = accept_submit_start ''/api/admin-password-reset''"

definition AdminInviteAccept_load :: "string \<Rightarrow> accept_page \<Rightarrow> accept_page \<times> string option" where
  "AdminInviteAccept_load = accept_load_start ''/api/admin-invite''"

definition AdminInviteAccept_submit :: "string \<Rightarrow> accept_page \<Rightarrow> accept_page \<times> call option" where
  "AdminInviteAccept_submit = accept_submit_start ''/api/admin-invite''"

subsection \<open>Contracts\<close>

lemmas admin_scripts = Let_def loadMyAdminProfile_def any_message_def

interpretation admin_active: finally_idle "patchAdminIsActive i b" adminDetailStatusBusy for i b
  by unfold_locales (simp add: patchAdminIsActive_def admin_scripts split: sum.split)

interpretation admin_save: finally_idle "saveAdminProfile sel" adminProfileSaving for sel
  by unfold_locales (simp add: saveAdminProfile_def admin_scripts split: sum.split)

interpretation admin_create: finally_idle "createAdmin origin" addAdminBusy for origin
  by unfold_locales (simp add: createAdmin_def admin_scripts split: sum.split)

interpretation password_change: finally_idle submitMyAdminPasswordChange passwordBusy
  by unfold_locales (simp add: submitMyAdminPasswordChange_def admin_scripts split: sum.split)

interpretation codes_regenerate: finally_idle regenerateMyAdminRecoveryCodes regenerateBusy
  by unfold_locales (simp add: regenerateMyAdminRecoveryCodes_def admin_scripts split: sum.split)

interpretation totp_disable: finally_idle disableMyAdminTotp totpDisableBusy
  by unfold_locales (simp add: disableMyAdminTotp_def admin_scripts split: sum.split)

subsection \<open>Properties\<close>

text \<open>No action on administrators or on the own profile stays busy, whatever the server answers and whatever happens to the
  page in between: every run that sent a request ends with its busy mark cleared, and a run that sent nothing leaves it alone.\<close>

theorem admin_actions_end_idle:
  "adminDetailStatusBusy (fst (exec (patchAdminIsActive i b s0) srv env n s)) = False
   \<and> addAdminBusy (fst (exec (createAdmin origin s0) srv env n s)) = False
   \<and> adminProfileSaving (fst (exec (saveAdminProfile sel s0) srv env n s)) = (adminProfileSaving s \<and> snd (exec (saveAdminProfile sel s0) srv env n s) = [])
   \<and> passwordBusy (fst (exec (submitMyAdminPasswordChange s0) srv env n s))
       = (passwordBusy s \<and> snd (exec (submitMyAdminPasswordChange s0) srv env n s) = [])
   \<and> regenerateBusy (fst (exec (regenerateMyAdminRecoveryCodes s0) srv env n s))
       = (regenerateBusy s \<and> snd (exec (regenerateMyAdminRecoveryCodes s0) srv env n s) = [])
   \<and> totpDisableBusy (fst (exec (disableMyAdminTotp s0) srv env n s)) = (totpDisableBusy s \<and> snd (exec (disableMyAdminTotp s0) srv env n s) = [])"
proof -
  have "snd (exec (patchAdminIsActive i b s0) srv env n s) \<noteq> []" "snd (exec (createAdmin origin s0) srv env n s) \<noteq> []"
    by (simp_all add: patchAdminIsActive_def createAdmin_def Let_def)
  then show ?thesis
    using admin_active.run [of i b s0 srv env n s] admin_create.run [of origin s0 srv env n s] admin_save.run [of sel s0 srv env n s]
      password_change.run [of s0 srv env n s] codes_regenerate.run [of s0 srv env n s] totp_disable.run [of s0 srv env n s]
    by simp
qed

text \<open>An administrator is blocked only after the confirmation text was typed: the one request of the dialog goes to the
  administrator it was opened for and asks for nothing but \<open>isActive: false\<close>, and it is sent only when the typed text, spaces
  normalised, is the name shown (the full name in the form, or the login when that is blank). A wrong text leaves everything
  but a message as it was.\<close>

theorem block_needs_confirmation:
  fixes s1 i t
  defines "s2 \<equiv> type_block_input t (open_block_modal i s1)"
    and "name \<equiv> (let fn = js_trim (a_fullName (adminProfileDraft s1)) in if fn \<noteq> [] then fn else js_trim (a_username (adminProfileDraft s1)))"
  shows "calls_of (snd (exec (submitAdminBlock s2) srv env n s))
      = (if i \<noteq> [] \<and> normalizeAdminBlockConfirmInput t = normalizeAdminBlockConfirmInput name
         then [(''PATCH'', admin_path i [], JObj [(''isActive'', JBool False)])] else [])
    \<and> (if normalizeAdminBlockConfirmInput t = normalizeAdminBlockConfirmInput name then True
       else fst (exec (submitAdminBlock s2) srv env n s)
          \<in> {s, s\<lparr>adminBlockModal := (adminBlockModal s)\<lparr>b_validationError := Ui ''enter the full name exactly''\<rparr>\<rparr>,
             s\<lparr>adminBlockModal := (adminBlockModal s)\<lparr>b_validationError := Ui ''enter the login''\<rparr>\<rparr>})"
proof -
  have m: "adminBlockModal s2 = \<lparr>b_open = True, b_adminId = i, b_expected = normalizeAdminBlockConfirmInput name,
      b_byFullName = (js_trim (a_fullName (adminProfileDraft s1)) \<noteq> []), b_input = t, b_busy = False, b_validationError = NoText, b_error = NoText\<rparr>"
    by (simp add: s2_def type_block_input_def open_block_modal_def name_def Let_def)
  have *: "exec (submitAdminBlock s2) srv env n s =
     (if i = [] then (s, [])
      else if normalizeAdminBlockConfirmInput t \<noteq> normalizeAdminBlockConfirmInput name
        then (s\<lparr>adminBlockModal := (adminBlockModal s)\<lparr>b_validationError :=
               (if b_byFullName (adminBlockModal s) then Ui ''enter the full name exactly'' else Ui ''enter the login'')\<rparr>\<rparr>, [])
      else exec (submitAdminBlock s2) srv env n s)"
    by (simp add: submitAdminBlock_def m Let_def)
  show ?thesis
  proof (cases "i \<noteq> [] \<and> normalizeAdminBlockConfirmInput t = normalizeAdminBlockConfirmInput name")
    case True
    then show ?thesis by (simp add: submitAdminBlock_def m Let_def closeAdminBlockModal_def split: sum.split)
  next
    case False
    then show ?thesis by (subst (1 2) *) auto
  qed
qed

text \<open>A password chosen with a link is sent only when it has at least eight characters and was typed twice alike, together with
  the token of the link; any other attempt shows a message and sends nothing. When the answer has come the form is no
  longer busy, and it is done exactly when the server accepted.\<close>

theorem accept_password_rules:
  "(case accept_submit_start path link s of
      (s', None) \<Rightarrow> shown (submitError s') \<and> (length (password s) < 8 \<or> password s \<noteq> password2 s) \<and> acceptBusy s' = acceptBusy s
    | (s', Some c) \<Rightarrow> acceptBusy s' \<and> 8 \<le> length (password s) \<and> password2 s = password s
        \<and> c = (''POST'', path @ ''/complete'', JObj [(''token'', JStr (js_trim link)), (''password'', JStr (password s))]))
   \<and> \<not> acceptBusy (accept_submit_settle a s)
   \<and> acceptDone (accept_submit_settle a s) = (acceptDone s \<or> (case a of Some res \<Rightarrow> res_ok res | None \<Rightarrow> False))"
  by (auto simp: accept_submit_start_def accept_submit_settle_def Let_def split: option.split)

text \<open>The own password is changed only to a text that was confirmed: a request is sent exactly when the two new passwords are
  equal and no change is under way, and it carries the current and the new one; the fields are emptied and the dialog
  closed exactly when the server accepted.\<close>

theorem password_change_confirmed:
  "calls_of (snd (exec (submitMyAdminPasswordChange s) srv (\<lambda>_ t. t) 0 s))
     = (if \<not> passwordBusy s \<and> newPassword (passwordDraft s) = confirmPassword (passwordDraft s)
        then [(''POST'', ''/api/admins/me/change-password'', JObj [(''currentPassword'', JStr (currentPassword (passwordDraft s))),
                (''newPassword'', JStr (newPassword (passwordDraft s)))])] else [])
   \<and> passwordDraft (fst (exec (submitMyAdminPasswordChange s) srv (\<lambda>_ t. t) 0 s))
     = (if list_ex is_call (snd (exec (submitMyAdminPasswordChange s) srv (\<lambda>_ t. t) 0 s))
           \<and> \<not> list_ex bad_act (snd (exec (submitMyAdminPasswordChange s) srv (\<lambda>_ t. t) 0 s)) then blank_password else passwordDraft s)"
  by (auto simp: submitMyAdminPasswordChange_def Let_def split: sum.split)

end
