(* ===== verification/Backups.thy ===== *)
theory Backups
  imports Scripts
begin

section \<open>Backups of the panel\<close>

text \<open>
  The backup section of the settings: loading the list with its schedule, saving the schedule, running, deleting and
  restoring a backup.
\<close>

record backup_page =
  bTokenRef :: string
  bError :: uitext
  backupSettings :: jsval
  backups :: "jsval list"
  backupsLoading :: bool
  backupsSaving :: bool
  backupsRunBusy :: bool
  deleteModal :: "(string \<times> string) modal"
  formInterval :: jsnum
  formRetain :: jsnum
  restoreFile :: "string option"
  restoreConfirm :: bool
  restoreBusy :: bool
  restoreMessage :: uitext
  sessionInvalid :: bool

text \<open>\<^verbatim>\<open>Number(v ?? d)\<close>\<close>

definition num_nullish :: "jsval \<Rightarrow> int \<Rightarrow> jsnum" where
  "num_nullish v d = (if v = JUndef \<or> v = JNull then num_of_int d else to_num v)"

text \<open>Reading a property of the answer \<^verbatim>\<open>null\<close> throws; the handler catches it like a failed request.\<close>

definition backups_loaded :: "bool \<Rightarrow> jsval \<Rightarrow> backup_page \<Rightarrow> backup_page" where
  "backups_loaded sync v s =
     (let cfg = jprop v ''settings'';
          s1 = s\<lparr>backupSettings := cfg, backups := array_or_empty (jprop v ''backups'')\<rparr>;
          s2 = (if sync \<and> truthy cfg
                then s1\<lparr>formInterval := num_nullish (jprop cfg ''intervalMinutes'') 0, formRetain := num_nullish (jprop cfg ''retainCount'') 10\<rparr>
                else s1)
      in s2\<lparr>bError := NoText\<rparr>)"

definition loadPanelBackups :: "bool \<Rightarrow> bool \<Rightarrow> backup_page script \<Rightarrow> backup_page script" where
  "loadPanelBackups sync showLoading k =
     Get (\<lambda>s. if bTokenRef s = [] then k
       else Set (\<lambda>s. if showLoading then s\<lparr>backupsLoading := True\<rparr> else s)
         (Attempt (''GET'', ''/api/panel/app-backups'', JUndef) (\<lambda>a. Set (\<lambda>s.
             let s1 = (case a of
                   Inr v \<Rightarrow> if v = JNull then s\<lparr>bError := MSG_NULL\<rparr> else backups_loaded sync v s
                 | Inl e \<Rightarrow> s\<lparr>bError := message e\<rparr>)
             in if showLoading then s1\<lparr>backupsLoading := False\<rparr> else s1) k)))"

text \<open>\<^verbatim>\<open>Math.max(lo, Math.floor(Number(x)))\<close>; with \<^verbatim>\<open>NaN\<close> the result is \<^verbatim>\<open>NaN\<close>, which JSON writes as \<^verbatim>\<open>null\<close>.\<close>

definition floor_at_least :: "int \<Rightarrow> jsnum \<Rightarrow> jsnum" where
  "floor_at_least lo x = (case x of NaN \<Rightarrow> NaN | Infinity \<Rightarrow> Infinity | NegInfinity \<Rightarrow> num_of_int lo
     | Dec m e \<Rightarrow> num_of_int (max lo (if 0 \<le> e then m * 10 ^ nat e else m div 10 ^ nat (- e))))"

definition schedule_call :: "backup_page \<Rightarrow> call" where
  "schedule_call s = (''PUT'', ''/api/panel/app-backups/settings'',
     JObj [(''intervalMinutes'', JNum (floor_at_least 0 (formInterval s))), (''retainCount'', JNum (floor_at_least 1 (formRetain s)))])"

definition saveBackupSettingsHandler :: "string \<Rightarrow> backup_page \<Rightarrow> backup_page script" where
  "saveBackupSettingsHandler auth s0 =
     (if auth = [] then Stop
      else Set (\<lambda>s. s\<lparr>backupsSaving := True\<rparr>)
        (try_ask (schedule_call s0)
          (\<lambda>e. Set (\<lambda>s. s\<lparr>bError := message e, backupsSaving := False\<rparr>) Stop)
          (\<lambda>_. loadPanelBackups True False (Set (\<lambda>s. s\<lparr>bError := NoText, backupsSaving := False\<rparr>) Stop))))"

definition runBackupNowHandler :: "string \<Rightarrow> backup_page \<Rightarrow> backup_page script" where
  "runBackupNowHandler auth s0 =
     (if auth = [] then Stop
      else Set (\<lambda>s. s\<lparr>backupsRunBusy := True\<rparr>)
        (try_ask (''POST'', ''/api/panel/app-backups/run'', JUndef)
          (\<lambda>e. Set (\<lambda>s. s\<lparr>bError := message e, backupsRunBusy := False\<rparr>) Stop)
          (\<lambda>_. loadPanelBackups False False (Set (\<lambda>s. s\<lparr>bError := NoText, backupsRunBusy := False\<rparr>) Stop))))"

definition deletePanelBackupHandler :: "string \<Rightarrow> backup_page \<Rightarrow> backup_page script" where
  "deletePanelBackupHandler auth s0 =
     (let i = fst (m_form (deleteModal s0)); upd = (\<lambda>f s. s\<lparr>deleteModal := f (deleteModal s)\<rparr>) in
      if auth = [] \<or> i = [] then Stop
      else Set (upd begin_modal)
        (try_ask (''DELETE'', ''/api/panel/app-backups/archives/'' @ encodeURIComponent i, JUndef)
          (\<lambda>e. Set (upd (fail_modal (message_or e (Ui ''Error'')))) Stop)
          (\<lambda>_. loadPanelBackups False False (Set (\<lambda>s. s\<lparr>bError := NoText, deleteModal := closed_modal ([], [])\<rparr>) Stop))))"

text \<open>Restoring sends the file itself, without \<^verbatim>\<open>request\<close>; the last refresh asks for every entity.\<close>

definition restoreFromArchiveHandler_start :: "string \<Rightarrow> backup_page \<Rightarrow> backup_page option" where
  "restoreFromArchiveHandler_start auth s =
     (if auth = [] \<or> restoreFile s = None \<or> \<not> restoreConfirm s then None
      else Some (s\<lparr>restoreBusy := True, restoreMessage := NoText\<rparr>))"

definition restoreFromArchiveHandler_settle :: "response option \<Rightarrow> backup_page \<Rightarrow> backup_page \<times> panel_key list" where
  "restoreFromArchiveHandler_settle answer s0 = (case answer of
       None \<Rightarrow> (s0\<lparr>bError := MSG_NETWORK, restoreBusy := False\<rparr>, [])
     | Some res \<Rightarrow>
         (let s = (if status res = 401 then s0\<lparr>sessionInvalid := True\<rparr> else s0);
              v = (case body res of Some v \<Rightarrow> v | None \<Rightarrow> JObj [])
          in if v = JNull then (s\<lparr>bError := MSG_NULL, restoreBusy := False\<rparr>, [])
             else if \<not> res_ok res then (s\<lparr>bError := error_text (jprop v ''error'') (Ui ''restoring failed''), restoreBusy := False\<rparr>, [])
             else (s\<lparr>restoreMessage := (case jprop v ''message'' of JStr t \<Rightarrow> Raw t | _ \<Rightarrow> Ui ''done''),
                     restoreFile := None, restoreConfirm := False, restoreBusy := False\<rparr>, ALL_PANEL_DATA_KEYS)))"

text \<open>Leaving the restore section clears its form.\<close>

definition restore_left_effect :: "route \<Rightarrow> backup_page \<Rightarrow> backup_page" where
  "restore_left_effect r s =
     (if primaryNav r \<noteq> ''settings'' \<or> settingsSection r \<noteq> ''restore''
      then s\<lparr>restoreFile := None, restoreConfirm := False, restoreMessage := NoText\<rparr> else s)"

subsection \<open>Contracts\<close>

lemmas backup_scripts = Let_def loadPanelBackups_def backups_loaded_def

interpretation backup_save: finally_idle "saveBackupSettingsHandler auth" backupsSaving for auth
  by unfold_locales (simp add: saveBackupSettingsHandler_def backup_scripts split: sum.split)

interpretation backup_run: finally_idle "runBackupNowHandler auth" backupsRunBusy for auth
  by unfold_locales (simp add: runBackupNowHandler_def backup_scripts split: sum.split)

interpretation backup_delete: dialog "deletePanelBackupHandler auth" deleteModal for auth
  by unfold_locales
    (auto simp: deletePanelBackupHandler_def backup_scripts dialog_outcomes split: if_splits sum.splits)

subsection \<open>Properties\<close>

lemma floor_at_least_cases: "floor_at_least lo x = NaN \<and> x = NaN \<or> floor_at_least lo x = Infinity \<or> (\<exists>k\<ge>lo. floor_at_least lo x = num_of_int k)"
proof (cases x)
  case (Dec m e)
  then have "floor_at_least lo x = num_of_int (max lo (if 0 \<le> e then m * 10 ^ nat e else m div 10 ^ nat (- e)))"
    by (simp add: floor_at_least_def)
  then show ?thesis using max.cobounded1 by blast
qed (auto simp: floor_at_least_def)

lemma all_keys_not_Nil: "ALL_PANEL_DATA_KEYS \<noteq> []"
  by code_simp

text \<open>The schedule sent to the server is whole numbers, never a negative interval and never fewer than one kept archive, whatever
  numbers are in the form; a number that cannot be read is sent as such.\<close>

theorem backup_schedule_bounds:
  "(formInterval s = NaN \<or> floor_at_least 0 (formInterval s) = Infinity \<or> (\<exists>k\<ge>0. floor_at_least 0 (formInterval s) = num_of_int k))
   \<and> (formRetain s = NaN \<or> floor_at_least 1 (formRetain s) = Infinity \<or> (\<exists>k\<ge>1. floor_at_least 1 (formRetain s) = num_of_int k))
   \<and> calls_of (snd (exec (saveBackupSettingsHandler auth s) srv env n t))
       \<in> (if auth = [] then {[]} else {[schedule_call s], [schedule_call s, (''GET'', ''/api/panel/app-backups'', JUndef)]})"
  using floor_at_least_cases [of 0 "formInterval s"] floor_at_least_cases [of 1 "formRetain s"]
  by (auto simp: saveBackupSettingsHandler_def backup_scripts split: sum.split)

text \<open>A failed reload after saving the schedule is hidden: the reload shows its error, and the handler clears it at once, so the
  page keeps the old list and says nothing. The same holds for running and deleting a backup.\<close>

theorem backup_reload_error_hidden:
  assumes "auth \<noteq> []" and "bTokenRef s \<noteq> []" and "srv 0 (schedule_call s) = Inr v"
    and "srv 1 (''GET'', ''/api/panel/app-backups'', JUndef) = Inl e"
  shows "exec (saveBackupSettingsHandler auth s) srv (\<lambda>_ t. t) 0 s
    = (s\<lparr>bError := NoText, backupsSaving := False\<rparr>,
       [Called (schedule_call s) (Inr v), Attempted (''GET'', ''/api/panel/app-backups'', JUndef) (Inl e)])"
  using assms by (simp add: saveBackupSettingsHandler_def backup_scripts)

definition blank_backups :: backup_page where
  "blank_backups = \<lparr>bTokenRef = ''tok'', bError = NoText, backupSettings = JNull, backups = [], backupsLoading = False, backupsSaving = False,
     backupsRunBusy = False, deleteModal = closed_modal ([], []), formInterval = Dec 60 0, formRetain = Dec 5 0, restoreFile = None,
     restoreConfirm = False, restoreBusy = False, restoreMessage = NoText, sessionInvalid = False\<rparr>"

theorem backup_reload_error_hidden_witness:
  "bError (fst (exec (saveBackupSettingsHandler ''tok'' blank_backups)
      (\<lambda>n c. if fst c = ''PUT'' then Inr JNull else Inl (plain_error (Ui ''down''))) (\<lambda>_ t. t) 0 blank_backups)) = NoText"
  using backup_reload_error_hidden [of "''tok''" blank_backups "\<lambda>n c. if fst c = ''PUT'' then Inr JNull else Inl (plain_error (Ui ''down''))" JNull
      "plain_error (Ui ''down'')"]
  by (simp add: schedule_call_def blank_backups_def)

text \<open>A backup is restored only after the file was chosen and the box was ticked, and only a successful restore clears both and
  reloads every entity; in every case the page ends idle, and a rejected session is reported.\<close>

theorem restore_rules:
  "(restoreFromArchiveHandler_start auth s = None \<longleftrightarrow> auth = [] \<or> restoreFile s = None \<or> \<not> restoreConfirm s)
   \<and> \<not> restoreBusy (fst (restoreFromArchiveHandler_settle a s))
   \<and> (snd (restoreFromArchiveHandler_settle a s) = ALL_PANEL_DATA_KEYS
      \<longleftrightarrow> (\<exists>res. a = Some res \<and> res_ok res \<and> body res \<noteq> Some JNull))
   \<and> (restoreFile (fst (restoreFromArchiveHandler_settle a s)), restoreConfirm (fst (restoreFromArchiveHandler_settle a s)))
     = (if snd (restoreFromArchiveHandler_settle a s) = [] then (restoreFile s, restoreConfirm s) else (None, False))
   \<and> sessionInvalid (fst (restoreFromArchiveHandler_settle a s)) = (sessionInvalid s \<or> (\<exists>res. a = Some res \<and> status res = 401))"
proof (cases a)
  case (Some res)
  show ?thesis using Some all_keys_not_Nil
    by (cases "body res") (auto simp: restoreFromArchiveHandler_settle_def restoreFromArchiveHandler_start_def Let_def)
next
  case None
  then show ?thesis using all_keys_not_Nil by (auto simp: restoreFromArchiveHandler_settle_def restoreFromArchiveHandler_start_def)
qed

end
