(* ===== verification/Time_Format.thy ===== *)
theory Time_Format
  imports Http Tables
begin

section \<open>Times, durations and labels\<close>

text \<open>
  The formatters of \<^verbatim>\<open>App.tsx\<close> and \<^verbatim>\<open>monitoringTime.ts\<close> that compute something: durations in words, the countdown of the
  session, instants in several notations, addresses, session numbers, the state of the service. \<open>time_of\<close> stands for
  \<^verbatim>\<open>new Date(v).getTime()\<close> and \<open>parse_date\<close> for \<^verbatim>\<open>Date.parse\<close>, \<open>None\<close> where they give \<^verbatim>\<open>NaN\<close>; instants are whole milliseconds.
\<close>

subsection \<open>Durations\<close>

text \<open>A duration in words is a list of numbers with their units; the Russian abbreviations are the print names of the units.\<close>

datatype time_unit = Year | Month | Day | Hour | Minute | Second

fun unit_sec :: "time_unit \<Rightarrow> int" where
  "unit_sec Year = 31536000"
| "unit_sec Month = 2592000"
| "unit_sec Day = 86400"
| "unit_sec Hour = 3600"
| "unit_sec Minute = 60"
| "unit_sec Second = 1"

text \<open>The two largest units, the second one left out when it is zero.\<close>

definition two_units :: "time_unit \<Rightarrow> time_unit \<Rightarrow> int \<Rightarrow> (int \<times> time_unit) list" where
  "two_units u v sec =
     (let a = sec div unit_sec u; b = sec mod unit_sec u div unit_sec v in if b \<noteq> 0 then [(a, u), (b, v)] else [(a, u)])"

text \<open>\<open>None\<close> is the dash of a negative or unknown duration.\<close>

definition formatDurationRuFromMs :: "int \<Rightarrow> (int \<times> time_unit) list option" where
  "formatDurationRuFromMs ms =
     (if ms < 0 then None
      else let sec = ms div 1000 in Some
        (if sec \<ge> unit_sec Year then two_units Year Month sec
         else if sec \<ge> unit_sec Month then two_units Month Day sec
         else if sec \<ge> unit_sec Day then two_units Day Hour sec
         else if sec \<ge> unit_sec Hour then two_units Hour Minute sec
         else if sec \<ge> unit_sec Minute then two_units Minute Second sec
         else [(sec, Second)]))"

definition formatDurationSeconds :: "int option \<Rightarrow> (int \<times> time_unit) list option" where
  "formatDurationSeconds totalSec = (case totalSec of None \<Rightarrow> None
     | Some t \<Rightarrow>
         let s = max 0 t in Some
           (if s < 60 then [(s, Second)]
            else if s div 60 < 60 then two_units Minute Second s
            else two_units Hour Minute s))"

definition in_seconds :: "(int \<times> time_unit) list \<Rightarrow> int" where
  "in_seconds ps = sum_list (map (\<lambda>(n, u). n * unit_sec u) ps)"

text \<open>\<^verbatim>\<open>mm:ss\<close> of the session countdown; \<^verbatim>\<open>padStart(2, "0")\<close>.\<close>

definition pad2 :: "int \<Rightarrow> string" where
  "pad2 n = (let t = int_string n in replicate (2 - length t) (CHR ''0'') @ t)"

definition formatSessionCountdown :: "int \<Rightarrow> string" where
  "formatSessionCountdown totalSeconds = (let s = max 0 totalSeconds in pad2 (s div 60) @ '':'' @ pad2 (s mod 60))"

subsection \<open>Instants\<close>

text \<open>\<open>local_date\<close> is \<^verbatim>\<open>toLocaleString\<close> of a readable date, \<open>None\<close> for an unreadable one.\<close>

definition formatMaybeDate :: "(jsval \<Rightarrow> string option) \<Rightarrow> jsval \<Rightarrow> string" where
  "formatMaybeDate local_date v = (if \<not> truthy v then ''n/a'' else case local_date v of None \<Rightarrow> to_str v | Some t \<Rightarrow> t)"

definition all_digits :: "string \<Rightarrow> bool" where
  "all_digits t = (t \<noteq> [] \<and> list_all is_digit t)"

text \<open>A number above \<open>10 ^ 12\<close> is in milliseconds, any other in seconds.\<close>

definition scale_instant :: "int \<Rightarrow> int" where
  "scale_instant n = (if n > 10 ^ 12 then n else n * 1000)"

text \<open>Whole numbers, texts of digits and dates; fractions of a second are below the model.\<close>

definition parseSessionInstantMs :: "(string \<Rightarrow> int option) \<Rightarrow> jsval \<Rightarrow> int option" where
  "parseSessionInstantMs parse_date raw =
     (if raw = JUndef \<or> raw = JNull \<or> raw = JStr [] then None
      else case raw of
          JNum (Dec m e) \<Rightarrow> Some (scale_instant (if 0 \<le> e then m * 10 ^ nat e else m div 10 ^ nat (- e)))
        | _ \<Rightarrow>
            (let s = js_trim (to_str raw) in
             if s = [] then None
             else if all_digits s then Some (scale_instant (int (digits_value 0 s)))
             else parse_date s))"

definition formatSessionConnectedLabel :: "(string \<Rightarrow> int option) \<Rightarrow> jsval \<Rightarrow> int \<Rightarrow> (int \<times> time_unit) list option" where
  "formatSessionConnectedLabel parse_date raw now = (case parseSessionInstantMs parse_date raw of
       None \<Rightarrow> None | Some start \<Rightarrow> formatDurationRuFromMs (max 0 (now - start)))"

definition formatUserSessionEndedLabel :: "(string \<Rightarrow> int option) \<Rightarrow> (jsval \<Rightarrow> int option) \<Rightarrow> jsval \<Rightarrow> (int \<times> time_unit) list option" where
  "formatUserSessionEndedLabel parse_date time_of r =
     (let start = parseSessionInstantMs parse_date (jprop r ''connectedAt'');
          endRaw = (if truthy (jprop r ''endedAt'') then jprop r ''endedAt'' else jprop r ''lastSeenAt'');
          endMs = (if truthy endRaw then time_of endRaw else None)
      in case (start, endMs) of (Some a, Some b) \<Rightarrow> formatDurationRuFromMs (max 0 (b - a)) | _ \<Rightarrow> None)"

datatype activity = Online | NoCertificates | NeverSeen | UnreadableDate | Ago "(int \<times> time_unit) list option"

definition formatUserLastActivityCell :: "(jsval \<Rightarrow> int option) \<Rightarrow> int \<Rightarrow> int \<Rightarrow> jsval \<Rightarrow> int \<Rightarrow> activity" where
  "formatUserLastActivityCell time_of activeSessions linkedCertCount lastVpnActivityAt now =
     (if activeSessions > 0 then Online
      else if linkedCertCount = 0 then NoCertificates
      else if \<not> truthy lastVpnActivityAt then NeverSeen
      else case time_of lastVpnActivityAt of None \<Rightarrow> UnreadableDate | Some t \<Rightarrow> Ago (formatDurationRuFromMs (max 0 (now - t))))"

text \<open>The durations of the connection logs.\<close>

definition clientIpAssignmentDurationSeconds :: "(jsval \<Rightarrow> int option) \<Rightarrow> int \<Rightarrow> jsval \<Rightarrow> int option" where
  "clientIpAssignmentDurationSeconds time_of now item =
     (let start = dateMsOrZero time_of (jprop item ''firstSeenAt'') in
      if start = 0 then None
      else if truthy (jprop item ''endedAt'') then Some (max 0 ((dateMsOrZero time_of (jprop item ''endedAt'') - start) div 1000))
      else Some (max 0 ((now - start) div 1000)))"

definition clientSourceHistoryDurationSeconds :: "(jsval \<Rightarrow> int option) \<Rightarrow> int \<Rightarrow> jsval \<Rightarrow> int option" where
  "clientSourceHistoryDurationSeconds time_of now item =
     (let ended = jprop item ''endedAt''; d = jprop item ''durationSeconds'' in
      case (if ended \<noteq> JUndef \<and> ended \<noteq> JNull \<and> d \<noteq> JUndef \<and> d \<noteq> JNull then to_num d else NaN) of
        Dec m e \<Rightarrow> Some (max 0 (if 0 \<le> e then m * 10 ^ nat e else m div 10 ^ nat (- e)))
      | _ \<Rightarrow> clientIpAssignmentDurationSeconds time_of now item)"

text \<open>\<^verbatim>\<open>monitoringTime.ts\<close>. A text ends in a zone when it ends in \<^verbatim>\<open>Z\<close> or in an offset \<^verbatim>\<open>+hh:mm\<close>, \<^verbatim>\<open>+hhmm\<close>.\<close>

definition offset_suffix :: "string \<Rightarrow> bool" where
  "offset_suffix t =
     (let offset = (\<lambda>u. length u = 5 \<and> (hd u = CHR ''+'' \<or> hd u = CHR ''-'') \<and> list_all is_digit (tl u));
          n = length t; w = drop (n - 6) t
      in offset (drop (n - 5) t) \<or> (length w = 6 \<and> w ! 3 = CHR '':'' \<and> offset (take 3 w @ drop 4 w)))"

definition zoned :: "string \<Rightarrow> bool" where
  "zoned t = (t \<noteq> [] \<and> (last t = CHR ''z'' \<or> last t = CHR ''Z'' \<or> offset_suffix t))"

fun replace_first :: "char \<Rightarrow> char \<Rightarrow> string \<Rightarrow> string" where
  "replace_first a b [] = []"
| "replace_first a b (c # cs) = (if c = a then b # cs else c # replace_first a b cs)"

definition parseUtcMs :: "(string \<Rightarrow> int option) \<Rightarrow> jsval \<Rightarrow> int option" where
  "parseUtcMs parse_date value =
     (if value = JUndef \<or> value = JNull then None
      else let s = js_trim (to_str value) in
        if s = [] then None
        else if zoned s then parse_date s
        else parse_date ((if CHR ''T'' \<in> set s then s else replace_first (CHR '' '') (CHR ''T'') s) @ ''Z''))"

text \<open>Minutes as a whole number.\<close>

definition monitoringWindowMs :: "int \<Rightarrow> int" where
  "monitoringWindowMs minutes = (if minutes > 0 then minutes else 15) * 60 * 1000"

definition monitoringXRange :: "int \<Rightarrow> int \<Rightarrow> int \<times> int" where
  "monitoringXRange now minutes = (now - monitoringWindowMs minutes, now)"

text \<open>The samples of a chart: those of the window, in the order of time.\<close>

definition chart_rows :: "(string \<Rightarrow> int option) \<Rightarrow> int \<Rightarrow> int \<Rightarrow> jsval list \<Rightarrow> (int \<times> jsval) list" where
  "chart_rows parse_date now minutes samples =
     js_sort (\<lambda>a b. fst a - fst b)
       (concat (map (\<lambda>s. case parseUtcMs parse_date (jprop s ''createdAt'') of
            None \<Rightarrow> [] | Some t \<Rightarrow> if t \<ge> fst (monitoringXRange now minutes) then [(t, s)] else []) samples))"

definition toChartSeries :: "(string \<Rightarrow> int option) \<Rightarrow> int \<Rightarrow> int \<Rightarrow> (jsval \<Rightarrow> jsval) list \<Rightarrow> jsval list \<Rightarrow> int list \<times> jsnum list list" where
  "toChartSeries parse_date now minutes getters samples =
     (let rows = chart_rows parse_date now minutes samples in
      (map fst rows, map (\<lambda>g. map (\<lambda>r. to_num (if truthy (g (snd r)) then g (snd r) else JNum (Dec 0 0))) rows) getters))"

subsection \<open>Live samples\<close>

definition METRIC_KEYS :: "string list" where
  "METRIC_KEYS = [''cpuPercent'', ''memoryPercent'', ''diskPercent'', ''diskReadBps'', ''diskWriteBps'', ''networkInBps'', ''networkOutBps'']"

definition live_fields :: "string \<Rightarrow> jsval \<Rightarrow> jsobj" where
  "live_fields createdAt live = (''createdAt'', JStr createdAt) # map (\<lambda>k. (k, jprop live k)) METRIC_KEYS"

definition own_fields :: "jsval \<Rightarrow> jsobj" where
  "own_fields v = (case v of JObj ob \<Rightarrow> ob | _ \<Rightarrow> [])"

definition cmp_sample :: "(string \<Rightarrow> int option) \<Rightarrow> jsval \<Rightarrow> jsval \<Rightarrow> int" where
  "cmp_sample parse_date a b =
     (case (parseUtcMs parse_date (jprop a ''createdAt''), parseUtcMs parse_date (jprop b ''createdAt'')) of (Some x, Some y) \<Rightarrow> x - y | _ \<Rightarrow> 0)"

text \<open>The values just polled are appended, or replace the last sample when it is less than 0.8 s away.\<close>

definition mergeLiveMetricSamples :: "(string \<Rightarrow> int option) \<Rightarrow> (int \<Rightarrow> string) \<Rightarrow> int \<Rightarrow> jsval list \<Rightarrow> jsval \<Rightarrow> jsval list" where
  "mergeLiveMetricSamples parse_date show_date now recentMetrics live =
     (let sorted = js_sort (cmp_sample parse_date) recentMetrics; fields = live_fields (show_date now) live in
      if sorted \<noteq> [] \<and> (case parseUtcMs parse_date (jprop (last sorted) ''createdAt'') of None \<Rightarrow> False | Some t \<Rightarrow> \<bar>t - now\<bar> < 800)
      then butlast sorted @ [JObj (obj_spread (own_fields (last sorted)) fields)]
      else sorted @ [JObj fields])"

subsection \<open>Addresses and names\<close>

fun index_of :: "char \<Rightarrow> string \<Rightarrow> nat option" where
  "index_of c [] = None"
| "index_of c (x # xs) = (if x = c then Some 0 else map_option Suc (index_of c xs))"

definition last_index_of :: "char \<Rightarrow> string \<Rightarrow> nat option" where
  "last_index_of c s = map_option (\<lambda>k. length s - 1 - k) (index_of c (rev s))"

definition remoteAddrHostOnlyDisplay :: "jsval \<Rightarrow> string" where
  "remoteAddrHostOnlyDisplay addr =
     (let s = js_trim (str_nullish addr);
          colon = (case last_index_of (CHR '':'') s of
              Some k \<Rightarrow>
                (let tail = drop (Suc k) s; host = take k s in
                 if 0 < k \<and> all_digits tail \<and> length tail \<le> 5 \<and> CHR ''.'' \<in> set host then host else s)
            | None \<Rightarrow> s)
      in if s = [] then []
         else if hd s = CHR ''['' then
           (case index_of (CHR '']'') s of Some e \<Rightarrow> if 1 < e then take (e - 1) (tl s) else colon | None \<Rightarrow> colon)
         else colon)"

definition openvpnSessionIdParts :: "string \<Rightarrow> string \<times> string" where
  "openvpnSessionIdParts sessionId =
     (let raw = js_trim sessionId; dash = ''-'' in
      if raw = [] then (dash, dash)
      else case index_of (CHR ''|'') raw of
          None \<Rightarrow> (raw, raw)
        | Some i \<Rightarrow> (js_or (js_trim (take i raw)) dash, js_or (js_trim (drop (Suc i) raw)) dash))"

definition normalizeIfaceLikeOpenvpnDev :: "jsval \<Rightarrow> string" where
  "normalizeIfaceLikeOpenvpnDev raw =
     (let s = js_trim (str_or raw); l = js_lower s in
      if s = [] then [] else if l = ''tun'' then ''tun0'' else if l = ''tap'' then ''tap0'' else s)"

text \<open>\<open>hostname_of\<close> stands for \<^verbatim>\<open>new URL(s).hostname\<close>, \<open>None\<close> where it throws.\<close>

definition parseHostFromAddr :: "(string \<Rightarrow> string option) \<Rightarrow> jsval \<Rightarrow> string" where
  "parseHostFromAddr hostname_of raw =
     (let s = js_trim (str_or raw) in
      if s = [] then []
      else if js_starts_with s ''http://'' \<or> js_starts_with s ''https://'' then (case hostname_of s of Some h \<Rightarrow> h | None \<Rightarrow> [])
      else let inner = takeWhile (\<lambda>c. c \<noteq> CHR '']'') (tl s); rest = drop (Suc (length inner)) (tl s) in
        if hd s = CHR ''['' \<and> inner \<noteq> [] \<and> length inner < length (tl s) \<and> (rest = [] \<or> hd rest = CHR '':'' \<and> all_digits (tl rest)) then inner
        else case js_split (CHR '':'') s of [h, p] \<Rightarrow> if all_digits p then h else s | _ \<Rightarrow> s)"

subsection \<open>State of the service\<close>

definition num_positive :: "jsnum \<Rightarrow> bool" where
  "num_positive x = (case x of Infinity \<Rightarrow> True | Dec m e \<Rightarrow> m > 0 | _ \<Rightarrow> False)"

definition isOpenvpnUp :: "jsval \<Rightarrow> bool" where
  "isOpenvpnUp server = (case server of
       JObj ob \<Rightarrow>
         if truthy (jprop server ''openvpnRunning'') then True
         else let active = js_lower (js_trim (str_or (jprop server ''openvpnServiceActiveState'')));
                  sub = js_lower (js_trim (str_or (jprop server ''openvpnServiceSubState'')))
              in active = ''active'' \<and> (sub = ''running'' \<or> sub = ''started'' \<or> num_positive (to_num (jprop server ''openvpnServiceMainPid'')))
     | _ \<Rightarrow> False)"

datatype service_label = Down | UpUnmanaged | Up

definition openvpnStatusLabel :: "jsval \<Rightarrow> service_label" where
  "openvpnStatusLabel server =
     (if \<not> isOpenvpnUp server then Down else if \<not> truthy (jprop server ''openvpnRunning'') then UpUnmanaged else Up)"

definition adminLogMethodClass :: "jsval \<Rightarrow> string" where
  "adminLogMethodClass method =
     (let m = js_upper (str_or method) in
      if m = ''GET'' then ''admin-log-method admin-log-method--get''
      else if m = ''POST'' then ''admin-log-method admin-log-method--post''
      else if m = ''PUT'' \<or> m = ''PATCH'' then ''admin-log-method admin-log-method--put''
      else if m = ''DELETE'' then ''admin-log-method admin-log-method--delete''
      else if m = ''HEAD'' \<or> m = ''OPTIONS'' then ''admin-log-method admin-log-method--head''
      else ''admin-log-method admin-log-method--other'')"

definition EKU_OID_LABEL :: "(string \<times> string) list" where
  "EKU_OID_LABEL = [(''1.3.6.1.5.5.7.3.1'', ''serverAuth''), (''1.3.6.1.5.5.7.3.2'', ''clientAuth''), (''1.3.6.1.5.5.7.3.3'', ''codeSigning''),
     (''1.3.6.1.5.5.7.3.4'', ''emailProtection''), (''1.3.6.1.5.5.7.3.8'', ''timeStamping''), (''1.3.6.1.5.5.7.3.9'', ''ocspSigning'')]"

text \<open>
  The table by names is a plain object, so that looking up a name of \<^verbatim>\<open>Object.prototype\<close> finds something, too: the
  function then reads a property of \<^verbatim>\<open>undefined\<close> and throws, here \<open>None\<close>.
\<close>

definition PROTOTYPE_NAMES :: "string list" where
  "PROTOTYPE_NAMES = [''constructor'', ''__proto__'']"

definition formatEkuValue :: "jsval \<Rightarrow> string option" where
  "formatEkuValue value =
     (let raw = js_trim (str_or value); l = js_lower raw; text = (\<lambda>p. snd p @ '' ('' @ fst p @ '')'') in
      if raw = [] then Some []
      else case find (\<lambda>p. js_lower (fst p) = l) EKU_OID_LABEL of
          Some p \<Rightarrow> Some (text p)
        | None \<Rightarrow>
            (case find (\<lambda>p. js_lower (snd p) = l) EKU_OID_LABEL of
               Some p \<Rightarrow> Some (text p)
             | None \<Rightarrow> if l \<in> set PROTOTYPE_NAMES then None else Some raw))"

subsection \<open>Properties\<close>

fun finer :: "time_unit \<Rightarrow> time_unit" where
  "finer Year = Month"
| "finer Month = Day"
| "finer Day = Hour"
| "finer Hour = Minute"
| "finer Minute = Second"
| "finer Second = Second"

lemma unit_pos: "0 < unit_sec u"
  by (cases u) simp_all

lemma two_units_value:
  assumes "unit_sec u \<le> sec"
  shows "in_seconds (two_units u v sec) \<le> sec \<and> sec < in_seconds (two_units u v sec) + unit_sec v
    \<and> list_all (\<lambda>(n, w). 0 < n) (two_units u v sec) \<and> length (two_units u v sec) \<le> 2 \<and> snd (hd (two_units u v sec)) = u"
proof -
  let ?a = "sec div unit_sec u" and ?r = "sec mod unit_sec u"
  let ?b = "?r div unit_sec v"
  have pos: "0 < unit_sec u" "0 < unit_sec v" by (rule unit_pos)+
  have a: "?a * unit_sec u + ?r = sec" by simp
  have b: "?b * unit_sec v + ?r mod unit_sec v = ?r" by simp
  have m: "0 \<le> ?r mod unit_sec v" "?r mod unit_sec v < unit_sec v" "0 \<le> ?r" using pos by simp_all
  have "0 < ?a" using assms pos by (simp add: pos_imp_zdiv_pos_iff)
  moreover have "0 \<le> ?b" using m(3) pos(2) by (simp add: pos_imp_zdiv_nonneg_iff)
  moreover have v: "in_seconds (two_units u v sec) = ?a * unit_sec u + ?b * unit_sec v"
    by (simp add: two_units_def in_seconds_def Let_def)
  have "in_seconds (two_units u v sec) \<le> sec \<and> sec < in_seconds (two_units u v sec) + unit_sec v"
    unfolding v using a b m by linarith
  ultimately show ?thesis by (simp add: two_units_def Let_def)
qed

text \<open>A duration in words is the duration rounded down to its two largest units: it has at most two numbers, none of them zero
  (but for \<open>0 s\<close>), never says more than has passed, and misses less than one of the smaller unit. The months beside a year can
  be twelve, since a year counts 365 days and a month 30.\<close>

theorem duration_rounds_down:
  "(case formatDurationRuFromMs ms of
      None \<Rightarrow> ms < 0
    | Some ps \<Rightarrow> 0 \<le> ms \<and> ps \<noteq> [] \<and> length ps \<le> 2 \<and> (list_all (\<lambda>(n, u). 0 < n) ps \<or> ps = [(0, Second)])
        \<and> in_seconds ps \<le> ms div 1000 \<and> ms div 1000 < in_seconds ps + unit_sec (finer (snd (hd ps))))
   \<and> formatDurationRuFromMs 62640000000 = Some [(1, Year), (12, Month)]"
proof -
  have ne: "two_units u v sec \<noteq> []" for u v sec by (simp add: two_units_def Let_def)
  have fin: "formatDurationRuFromMs ms = Some ps \<Longrightarrow> 0 \<le> ms \<and> ps \<noteq> [] \<and> length ps \<le> 2 \<and> (list_all (\<lambda>(n, u). 0 < n) ps \<or> ps = [(0, Second)])
        \<and> in_seconds ps \<le> ms div 1000 \<and> ms div 1000 < in_seconds ps + unit_sec (finer (snd (hd ps)))" for ps
  proof -
    assume f: "formatDurationRuFromMs ms = Some ps"
    then have ms: "0 \<le> ms" by (auto simp: formatDurationRuFromMs_def split: if_splits)
    define sec where "sec = ms div 1000"
    have sec: "0 \<le> sec" using ms by (simp add: sec_def)
    have "(\<exists>u. unit_sec u \<le> sec \<and> ps = two_units u (finer u) sec) \<or> (sec < 60 \<and> ps = [(sec, Second)])"
      using f ms by (auto simp: formatDurationRuFromMs_def Let_def sec_def split: if_splits intro: exI [of _ Year] exI [of _ Month]
        exI [of _ Day] exI [of _ Hour] exI [of _ Minute])
    then show ?thesis
    proof
      assume "\<exists>u. unit_sec u \<le> sec \<and> ps = two_units u (finer u) sec"
      then obtain u where u: "unit_sec u \<le> sec" "ps = two_units u (finer u) sec" by blast
      show ?thesis using two_units_value [OF u(1), of "finer u"] ms ne by (simp add: u(2) sec_def)
    next
      assume "sec < 60 \<and> ps = [(sec, Second)]"
      then show ?thesis using ms sec by (auto simp: in_seconds_def sec_def)
    qed
  qed
  have none: "formatDurationRuFromMs ms = None \<Longrightarrow> ms < 0" by (simp add: formatDurationRuFromMs_def Let_def split: if_splits)
  have "formatDurationRuFromMs 62640000000 = Some [(1, Year), (12, Month)]" by code_simp
  then show ?thesis using fin none by (auto split: option.split)
qed

text \<open>The chart of a server shows exactly the readable samples of its window, each with its own instant, in the order of time.\<close>

theorem chart_rows_complete:
  "sorted (map fst (chart_rows parse_date now minutes samples))
   \<and> set (chart_rows parse_date now minutes samples)
     = {(t, s). s \<in> set samples \<and> parseUtcMs parse_date (jprop s ''createdAt'') = Some t \<and> now - monitoringWindowMs minutes \<le> t}
   \<and> 0 < monitoringWindowMs minutes"
proof -
  have "total_preorder (\<lambda>a b. fst a - (fst b :: int))" by (auto simp: total_preorder_def)
  then have "sorted_wrt (\<lambda>a b. fst a - fst b \<le> 0) (chart_rows parse_date now minutes samples)"
    unfolding chart_rows_def by (rule sorted_js_sort)
  then have "sorted (map fst (chart_rows parse_date now minutes samples))"
    by (simp add: sorted_map)
  moreover have "0 < monitoringWindowMs minutes" by (simp add: monitoringWindowMs_def)
  ultimately show ?thesis
    by (auto simp: chart_rows_def monitoringXRange_def split: option.splits if_splits)
qed

text \<open>Adding the values just polled to the samples of a server keeps all samples but possibly the last, which is replaced only
  when it is less than 0.8 seconds old; the last sample always carries the polled values and the present time.\<close>

theorem live_sample_last:
  fixes recent live show_date now parse_date
  defines "out \<equiv> mergeLiveMetricSamples parse_date show_date now recent live"
  shows "jprop (last out) ''createdAt'' = JStr (show_date now)
    \<and> list_all (\<lambda>k. jprop (last out) k = jprop live k) METRIC_KEYS
    \<and> (mset (butlast out) = mset recent
       \<or> (\<exists>x t. mset recent = add_mset x (mset (butlast out)) \<and> parseUtcMs parse_date (jprop x ''createdAt'') = Some t \<and> \<bar>t - now\<bar> < 800))"
proof -
  let ?sorted = "js_sort (cmp_sample parse_date) recent" and ?f = "live_fields (show_date now) live"
  let ?close = "?sorted \<noteq> [] \<and> (case parseUtcMs parse_date (jprop (last ?sorted) ''createdAt'') of None \<Rightarrow> False | Some t \<Rightarrow> \<bar>t - now\<bar> < 800)"
  have d: "distinct (map fst ?f)" by (simp add: live_fields_def METRIC_KEYS_def)
  have g: "obj_get ?f ''createdAt'' = JStr (show_date now) \<and> obj_has ?f ''createdAt''
      \<and> list_all (\<lambda>k. obj_get ?f k = jprop live k \<and> obj_has ?f k) METRIC_KEYS"
    by (simp add: live_fields_def METRIC_KEYS_def obj_get_def obj_has_def)
  have l: "last out = (if ?close then JObj (obj_spread (own_fields (last ?sorted)) ?f) else JObj ?f)"
    and b: "butlast out = (if ?close then butlast ?sorted else ?sorted)"
    by (simp_all add: out_def mergeLiveMetricSamples_def Let_def)
  have "jprop (last out) ''createdAt'' = JStr (show_date now) \<and> list_all (\<lambda>k. jprop (last out) k = jprop live k) METRIC_KEYS"
    using g by (auto simp: l jprop_def [of "JObj _"] get_spread [OF d] list_all_iff)
  moreover have "mset (butlast out) = mset recent
       \<or> (\<exists>x t. mset recent = add_mset x (mset (butlast out)) \<and> parseUtcMs parse_date (jprop x ''createdAt'') = Some t \<and> \<bar>t - now\<bar> < 800)"
  proof (cases ?close)
    case True
    then have "mset ?sorted = add_mset (last ?sorted) (mset (butlast ?sorted))"
      by (metis append_butlast_last_id mset_append add_mset_add_single mset.simps)
    then show ?thesis using True by (auto simp: b split: option.splits)
  next
    case False
    show ?thesis unfolding b if_not_P [OF False] by simp
  qed
  ultimately show ?thesis by blast
qed

text \<open>The number of a session is read back from its identifier, which the agent forms as \<^verbatim>\<open>CommonName|time\<close>, as long as the name has no bar.\<close>

theorem session_id_roundtrip:
  assumes "cn \<noteq> []" and "number \<noteq> []" and "CHR ''|'' \<notin> set cn" and "js_trim cn = cn" and "js_trim number = number"
    and "js_trim (cn @ ''|'' @ number) = cn @ ''|'' @ number"
  shows "openvpnSessionIdParts (cn @ ''|'' @ number) = (cn, number)"
proof -
  have "index_of (CHR ''|'') (cn @ ''|'' @ number) = Some (length cn)" using assms(3) by (induction cn) auto
  then show ?thesis using assms by (simp add: openvpnSessionIdParts_def Let_def js_or_def)
qed

theorem session_id_roundtrip_witness: "openvpnSessionIdParts ''vpn alice|1700000000'' = (''vpn alice'', ''1700000000'')"
proof -
  have "js_trim ''vpn alice'' = ''vpn alice''" "js_trim ''1700000000'' = ''1700000000''"
    "js_trim (''vpn alice'' @ ''|'' @ ''1700000000'') = ''vpn alice'' @ ''|'' @ ''1700000000''"
    by code_simp+
  from session_id_roundtrip [OF _ _ _ this] show ?thesis by simp
qed

end
