(* ===== verification/Vpn_Sessions.thy ===== *)
theory Vpn_Sessions
  imports Scripts Time_Format "HOL-Library.Sublist"
begin

section \<open>VPN sessions\<close>

text \<open>
  What the pages make of the polled sessions (\<^verbatim>\<open>clients\<close>), certificates and users: who a session belongs to, the counts and
  rates per user, the sessions of a server and of a user, ending a session and the markers of sessions being ended.
\<close>

subsection \<open>Whose session\<close>

definition cn_text :: "jsval \<Rightarrow> string" where
  "cn_text v = js_trim (str_or (jprop v ''commonName''))"

definition cn_key :: "jsval \<Rightarrow> string" where
  "cn_key v = js_lower (cn_text v)"

text \<open>The profile of a name is that of the last certificate with a user.\<close>

definition cnProfileMap :: "jsval list \<Rightarrow> jsval list \<Rightarrow> jsval \<Rightarrow> (jsval \<times> string) option" where
  "cnProfileMap certs users cn =
     map_option (\<lambda>c. (jprop c ''vpnUserId'',
         case find (\<lambda>u. jprop u ''id'' = jprop c ''vpnUserId'') users of Some u \<Rightarrow> str_or (jprop u ''fullName'') | None \<Rightarrow> []))
       (find (\<lambda>c. truthy (jprop c ''commonName'') \<and> truthy (jprop c ''vpnUserId'') \<and> jprop c ''commonName'' = cn) (rev certs))"

definition registeredCnSet :: "jsval list \<Rightarrow> jsval list" where
  "registeredCnSet certs =
     js_unique (map (\<lambda>c. jprop c ''commonName'') (filter (\<lambda>c. truthy (jprop c ''vpnUserId'') \<and> truthy (jprop c ''commonName'')) certs))"

definition linked_certs :: "jsval \<Rightarrow> jsval list \<Rightarrow> jsval list" where
  "linked_certs userId certs = filter (\<lambda>c. jprop c ''vpnUserId'' = userId \<and> cn_text c \<noteq> []) certs"

definition own_session :: "jsval \<Rightarrow> jsval list \<Rightarrow> jsval \<Rightarrow> bool" where
  "own_session userId certs cl = (cn_key cl \<noteq> [] \<and> cn_key cl \<in> set (map cn_key (linked_certs userId certs)))"

text \<open>Sums of rates, exact in the decimals of the model.\<close>

fun js_add :: "jsnum \<Rightarrow> jsnum \<Rightarrow> jsnum" where
  "js_add (Dec m e) (Dec n f) = (let g = min e f in mk_dec (m * 10 ^ nat (e - g) + n * 10 ^ nat (f - g)) g)"
| "js_add NaN y = NaN"
| "js_add x NaN = NaN"
| "js_add Infinity NegInfinity = NaN"
| "js_add NegInfinity Infinity = NaN"
| "js_add Infinity y = Infinity"
| "js_add NegInfinity y = NegInfinity"
| "js_add x Infinity = Infinity"
| "js_add x NegInfinity = NegInfinity"

definition num_or_zero :: "jsval \<Rightarrow> jsnum" where
  "num_or_zero v = (if truthy v then to_num v else Dec 0 0)"

record user_row =
  u_user :: jsval
  u_activeSessions :: nat
  u_totalInBps :: jsnum
  u_totalOutBps :: jsnum
  u_linkedCertCount :: nat

definition enrich_user :: "jsval list \<Rightarrow> jsval list \<Rightarrow> jsval \<Rightarrow> user_row" where
  "enrich_user certs live u =
     (let own = filter (own_session (jprop u ''id'') certs) live in
      \<lparr>u_user = u, u_activeSessions = length own,
       u_totalInBps = foldl (\<lambda>t cl. js_add t (num_or_zero (jprop cl ''inBps''))) (Dec 0 0) own,
       u_totalOutBps = foldl (\<lambda>t cl. js_add t (num_or_zero (jprop cl ''outBps''))) (Dec 0 0) own,
       u_linkedCertCount = length (filter (\<lambda>c. jprop c ''vpnUserId'' = jprop u ''id'') certs)\<rparr>)"

definition by_full_name :: "(string \<Rightarrow> string \<Rightarrow> int) \<Rightarrow> user_row \<Rightarrow> user_row \<Rightarrow> int" where
  "by_full_name lc a b = lc (str_or (jprop (u_user a) ''fullName'')) (str_or (jprop (u_user b) ''fullName''))"

definition vpnUsersEnriched :: "(string \<Rightarrow> string \<Rightarrow> int) \<Rightarrow> jsval list \<Rightarrow> jsval list \<Rightarrow> jsval list \<Rightarrow> user_row list" where
  "vpnUsersEnriched lc users live certs = js_sort (by_full_name lc) (map (enrich_user certs live) users)"

definition user_hay :: "jsval \<Rightarrow> string" where
  "user_hay u = js_lower (js_join '' '' (map to_str (filter truthy
     [jprop u ''fullName'', jprop u ''position'', jprop u ''email'', jprop u ''phone'', jprop (jprop u ''organization'') ''name''])))"

definition filteredVpnUsersEnriched :: "(string \<Rightarrow> string \<Rightarrow> int) \<Rightarrow> string \<Rightarrow> user_row list \<Rightarrow> user_row list" where
  "filteredVpnUsersEnriched lc query rows =
     (let q = js_lower (js_trim query) in
      js_sort (by_full_name lc) (if q = [] then rows else filter (\<lambda>r. js_includes (user_hay (u_user r)) q) rows))"

subsection \<open>The sessions of a server\<close>

definition pad3 :: "string \<Rightarrow> string" where
  "pad3 t = replicate (3 - length t) (CHR ''0'') @ t"

definition ipKey :: "jsval \<Rightarrow> string" where
  "ipKey v = js_join ''.'' (map pad3 (js_split (CHR ''.'') (str_or v)))"

definition session_user :: "jsval list \<Rightarrow> jsval list \<Rightarrow> jsval \<Rightarrow> string" where
  "session_user certs users cl = (case cnProfileMap certs users (if truthy (jprop cl ''commonName'') then jprop cl ''commonName'' else JStr []) of
     Some (i, name) \<Rightarrow> js_lower name | None \<Rightarrow> [])"

definition cmp_session :: "(string \<Rightarrow> string \<Rightarrow> int) \<Rightarrow> jsval list \<Rightarrow> jsval list \<Rightarrow> jsval \<Rightarrow> jsval \<Rightarrow> int" where
  "cmp_session lc certs users a b =
     (let ua = session_user certs users a; ub = session_user certs users b in
      if ua \<noteq> ub then lc ua ub else lc (ipKey (jprop a ''virtualIp'')) (ipKey (jprop b ''virtualIp'')))"

definition nodeSessions :: "(string \<Rightarrow> string \<Rightarrow> int) \<Rightarrow> string \<Rightarrow> jsval list \<Rightarrow> jsval list \<Rightarrow> jsval list \<Rightarrow> jsval list" where
  "nodeSessions lc serverId live certs users =
     (if serverId = [] then []
      else js_sort (cmp_session lc certs users) (filter (\<lambda>c. jprop c ''nodeId'' = JStr serverId) live))"

definition session_matches :: "jsval list \<Rightarrow> jsval list \<Rightarrow> string \<Rightarrow> jsval \<Rightarrow> bool" where
  "session_matches certs users q r = list_ex (\<lambda>t. js_includes (js_lower t) q)
     [str_or (jprop r ''commonName''), remoteAddrHostOnlyDisplay (jprop r ''remoteIp''), str_or (jprop r ''virtualIp''), str_or (jprop r ''id''),
      case cnProfileMap certs users (JStr (str_or (jprop r ''commonName''))) of Some (i, name) \<Rightarrow> name | None \<Rightarrow> []]"

definition filteredNodeSessions :: "jsval list \<Rightarrow> jsval list \<Rightarrow> string \<Rightarrow> jsval list \<Rightarrow> jsval list" where
  "filteredNodeSessions certs users query rows =
     (let q = js_lower (js_trim query) in if q = [] then rows else filter (session_matches certs users q) rows)"

subsection \<open>The sessions of a user\<close>

definition TAB :: char where
  "TAB = CHR 0x09"

definition session_key :: "jsval \<Rightarrow> jsval \<Rightarrow> string" where
  "session_key nodeId sessionId = to_str nodeId @ [TAB] @ to_str sessionId"

definition row_session_key :: "jsval \<Rightarrow> string" where
  "row_session_key r = session_key (jprop r ''nodeId'') (jprop r ''sessionId'')"

definition live_key :: "jsval \<Rightarrow> string" where
  "live_key cl = session_key (jprop cl ''nodeId'') (jprop cl ''id'')"

definition truthy_or :: "jsval \<Rightarrow> jsval \<Rightarrow> jsval" where
  "truthy_or a b = (if truthy a then a else b)"

definition live_row :: "string \<Rightarrow> jsval \<Rightarrow> jsval" where
  "live_row seenAt cl = JObj [(''nodeId'', jprop cl ''nodeId''), (''nodeName'', truthy_or (jprop cl ''nodeName'') (jprop cl ''nodeId'')),
     (''sessionId'', jprop cl ''id''), (''commonName'', JStr (cn_text cl)), (''remoteIp'', jprop cl ''remoteIp''),
     (''virtualIp'', jprop cl ''virtualIp''), (''connectedAt'', truthy_or (jprop cl ''connectedAt'') (jprop cl ''connectedSince'')),
     (''firstSeenAt'', truthy_or (jprop cl ''connectedAt'') (jprop cl ''connectedSince'')), (''lastSeenAt'', JStr seenAt),
     (''endedAt'', JNull), (''isActive'', JBool True), (''inBps'', JNum (num_or_zero (jprop cl ''inBps''))),
     (''outBps'', JNum (num_or_zero (jprop cl ''outBps'')))]"

fun add_live :: "string \<Rightarrow> (jsval \<Rightarrow> bool) \<Rightarrow> jsval list \<Rightarrow> string set \<Rightarrow> jsval list" where
  "add_live seenAt own [] seen = []"
| "add_live seenAt own (cl # cls) seen =
     (if \<not> own cl \<or> live_key cl \<in> seen then add_live seenAt own cls seen
      else live_row seenAt cl # add_live seenAt own cls (insert (live_key cl) seen))"

definition seen_ms :: "(jsval \<Rightarrow> int option) \<Rightarrow> jsval \<Rightarrow> int option" where
  "seen_ms time_of r = (if truthy (jprop r ''lastSeenAt'') then time_of (jprop r ''lastSeenAt'') else Some 0)"

definition cmp_last_activity :: "(jsval \<Rightarrow> int option) \<Rightarrow> jsval \<Rightarrow> jsval \<Rightarrow> int" where
  "cmp_last_activity time_of a b = (case (seen_ms time_of b, seen_ms time_of a) of (Some x, Some y) \<Rightarrow> x - y | _ \<Rightarrow> 0)"

definition merged_sessions :: "(jsval \<Rightarrow> int option) \<Rightarrow> string \<Rightarrow> jsval \<Rightarrow> jsval list \<Rightarrow> jsval list \<Rightarrow> jsval list \<Rightarrow> jsval list" where
  "merged_sessions time_of seenAt userId certs live rows =
     (if linked_certs userId certs = [] then rows
      else js_sort (cmp_last_activity time_of)
        (rows @ add_live seenAt (own_session userId certs) live (set (map row_session_key rows))))"

definition userProfileSessionsSorted :: "(jsval \<Rightarrow> int option) \<Rightarrow> jsval list \<Rightarrow> jsval list" where
  "userProfileSessionsSorted time_of rows = js_sort (cmp_last_activity time_of) rows"

datatype wire_hint = NoLinkedCertificate | NoActiveSession jsval

definition userSessionsWireHint :: "string \<Rightarrow> jsval list \<Rightarrow> jsval list \<Rightarrow> jsval list \<Rightarrow> wire_hint option" where
  "userSessionsWireHint userId certs live rows =
     (let linked = linked_certs (JStr userId) certs; has = list_ex (own_session (JStr userId) certs) in
      if userId = [] then None
      else if linked = [] then Some NoLinkedCertificate
      else if has live \<or> has rows then None
      else map_option (\<lambda>c. NoActiveSession (jprop c ''commonName'')) (find (\<lambda>c. \<not> list_ex (\<lambda>cl. cn_key cl = cn_key c) live) linked))"

subsection \<open>Ending a session\<close>

record session_page =
  vToken :: string
  vError :: uitext
  sessionRows :: "jsval list"
  target :: "string \<times> string"
  disconnectModal :: "(string \<times> string \<times> string) modal"
  disconnecting :: "string list"
  storedDisconnecting :: "string list"

definition loadUserProfileSessions ::
  "(jsval \<Rightarrow> int option) \<Rightarrow> string \<Rightarrow> string \<Rightarrow> jsval list \<Rightarrow> jsval list \<Rightarrow> session_page script \<Rightarrow> session_page script" where
  "loadUserProfileSessions time_of seenAt userId certs live k =
     Get (\<lambda>s. if userId = [] \<or> vToken s = [] then k
       else Attempt (''GET'', ''/api/vpn-users/'' @ encodeURIComponent userId @ ''/vpn-sessions'', JUndef) (\<lambda>a.
         Set (\<lambda>s. s\<lparr>sessionRows := (case a of
             Inr v \<Rightarrow> merged_sessions time_of seenAt (JStr userId) certs live (array_or_empty v)
           | Inl e \<Rightarrow> [])\<rparr>) k))"

definition set_markers :: "string list \<Rightarrow> session_page \<Rightarrow> session_page" where
  "set_markers ks s = s\<lparr>disconnecting := ks, storedDisconnecting := ks\<rparr>"

definition openUserSessionDisconnect :: "string \<Rightarrow> string \<Rightarrow> string \<Rightarrow> string \<Rightarrow> session_page \<Rightarrow> session_page" where
  "openUserSessionDisconnect nodeId nodeName sessionId profileName s =
     s\<lparr>target := (nodeId, sessionId),
       disconnectModal := \<lparr>m_open = True, m_busy = False, m_error = NoText, m_form = (nodeName, snd (openvpnSessionIdParts sessionId), profileName)\<rparr>\<rparr>"

definition marker :: "string \<Rightarrow> string \<Rightarrow> string" where
  "marker nodeId sessionId = nodeId @ ''-'' @ sessionId"

text \<open>The target is a ref: it is read when the handler runs.\<close>

definition submitUserSessionDisconnect :: "(session_page script \<Rightarrow> session_page script) \<Rightarrow> session_page \<Rightarrow> session_page script" where
  "submitUserSessionDisconnect reload s0 =
     Get (\<lambda>s. let nodeId = fst (target s); sessionId = snd (target s); key = marker nodeId sessionId;
                upd = (\<lambda>f s. s\<lparr>disconnectModal := f (disconnectModal s)\<rparr>) in
       if nodeId = [] \<or> sessionId = [] \<or> vToken s = [] then Stop
       else Set (\<lambda>s. upd begin_modal (set_markers (if key \<in> set (disconnecting s) then disconnecting s else disconnecting s @ [key]) s))
         (try_ask (''POST'', ''/api/clients/'' @ encodeURIComponent nodeId @ ''/'' @ encodeURIComponent sessionId @ ''/disconnect'', JUndef)
           (\<lambda>e. Set (\<lambda>s. upd (fail_modal (message_or e (Ui ''the session could not be ended'')))
                       (set_markers (filter (\<lambda>k. k \<noteq> key) (disconnecting s)) s)) Stop)
           (\<lambda>_. Set (\<lambda>s. s\<lparr>target := ([], []), disconnectModal := closed_modal ([], [], [])\<rparr>) (Refresh RefreshClients (reload Stop)))))"

text \<open>The effect that drops the markers of sessions that are gone.\<close>

definition active_markers :: "jsval list \<Rightarrow> jsval list \<Rightarrow> string set" where
  "active_markers nodeRows userRows =
     (\<lambda>r. to_str (jprop r ''nodeId'') @ ''-'' @ to_str (jprop r ''id'')) ` set nodeRows
     \<union> (\<lambda>r. to_str (jprop r ''nodeId'') @ ''-'' @ to_str (jprop r ''sessionId'')) ` {r \<in> set userRows. truthy (jprop r ''isActive'')}"

definition prune_markers :: "jsval list \<Rightarrow> jsval list \<Rightarrow> session_page \<Rightarrow> session_page" where
  "prune_markers nodeRows userRows s =
     (let next = filter (\<lambda>k. k \<in> active_markers nodeRows userRows) (disconnecting s) in
      if next = disconnecting s then s else set_markers next s)"

text \<open>The markers a new page starts with, from the stored text; \<open>parsed\<close> is the value \<^verbatim>\<open>JSON.parse\<close> gives, \<open>None\<close> where it throws.\<close>

definition stored_markers :: "jsval option \<Rightarrow> string list" where
  "stored_markers parsed = (case parsed of Some (JArr xs) \<Rightarrow> non_empty (map str_or xs) | _ \<Rightarrow> [])"

subsection \<open>Lemmas\<close>

lemma row_session_key_live [simp]: "row_session_key (live_row seenAt cl) = live_key cl"
  by (simp add: row_session_key_def live_row_def live_key_def jprop_def [of "JObj kvs" for kvs] obj_get_def)

text \<open>The sessions the list is completed with: own ones, in their order, one for each key not seen before.\<close>

fun unseen :: "(jsval \<Rightarrow> bool) \<Rightarrow> jsval list \<Rightarrow> string set \<Rightarrow> jsval list" where
  "unseen own [] seen = []"
| "unseen own (cl # cls) seen =
     (if \<not> own cl \<or> live_key cl \<in> seen then unseen own cls seen else cl # unseen own cls (insert (live_key cl) seen))"

lemma add_live_unseen: "add_live seenAt own live seen = map (live_row seenAt) (unseen own live seen)"
  by (induction own live seen rule: unseen.induct) auto

lemma unseen_subseq: "subseq (unseen own live seen) (filter own live)"
  by (induction own live seen rule: unseen.induct) (simp_all add: list_emb_Cons)

lemma unseen_keys: "live_key ` set (unseen own live seen) = live_key ` set (filter own live) - seen"
proof (induction own live seen rule: unseen.induct)
  case (2 own cl cls seen)
  then show ?case by (cases "own cl"; cases "live_key cl \<in> seen") (simp_all only: unseen.simps filter.simps list.set image_insert if_True if_False, auto)
qed simp

lemma unseen_distinct: "distinct (map live_key (unseen own live seen))"
  by (induction own live seen rule: unseen.induct) (simp_all add: unseen_keys)

lemma unseen_none: "(\<And>cl. \<not> own cl) \<Longrightarrow> unseen own live seen = []"
  by (induction own live seen rule: unseen.induct) auto

lemma no_linked_no_own: "linked_certs userId certs = [] \<Longrightarrow> \<not> own_session userId certs cl"
  by (simp add: own_session_def)

lemma mset_merged:
  "mset (merged_sessions time_of seenAt userId certs live rows) =
     mset rows + mset (map (live_row seenAt) (unseen (own_session userId certs) live (row_session_key ` set rows)))"
  by (auto simp: merged_sessions_def add_live_unseen unseen_none no_linked_no_own)

subsection \<open>The dialog and the markers\<close>

abbreviation end_session where
  "end_session time_of seenAt userId certs live \<equiv> submitUserSessionDisconnect (loadUserProfileSessions time_of seenAt userId certs live)"

interpretation disconnect_dialog: dialog "end_session time_of seenAt userId certs live" disconnectModal
  for time_of seenAt userId certs live
  by unfold_locales
    (auto simp: submitUserSessionDisconnect_def loadUserProfileSessions_def Let_def set_markers_def dialog_outcomes split: sum.splits if_splits)

definition markers_ok :: "session_page \<Rightarrow> bool" where
  "markers_ok s = (distinct (disconnecting s) \<and> storedDisconnecting s = disconnecting s)"

lemma markers_ok_prune: "markers_ok s \<Longrightarrow> markers_ok (prune_markers nodeRows userRows s)"
  by (simp add: markers_ok_def prune_markers_def set_markers_def Let_def)

lemma markers_ok_submit:
  assumes "markers_ok s" and env: "\<And>n s. markers_ok s \<Longrightarrow> markers_ok (env n s)"
  shows "markers_ok (fst (exec (end_session time_of seenAt userId certs live s0) srv env n s))"
proof -
  have upd: "markers_ok (s\<lparr>disconnectModal := m\<rparr>) = markers_ok s" "markers_ok (s\<lparr>target := t\<rparr>) = markers_ok s"
    "markers_ok (s\<lparr>sessionRows := r\<rparr>) = markers_ok s" "markers_ok (set_markers ks s) = distinct ks" for s m t r ks
    by (simp_all add: markers_ok_def set_markers_def)
  have "distinct (disconnecting s)" if "markers_ok s" for s using that by (simp add: markers_ok_def)
  then show ?thesis
    using assms by (auto simp: submitUserSessionDisconnect_def loadUserProfileSessions_def Let_def upd env split: sum.splits if_splits)
qed

lemma failed_disconnect:
  assumes "list_ex bad_act (snd (exec (end_session time_of seenAt userId certs live s0) srv env n s))"
  shows "marker (fst (target s)) (snd (target s)) \<notin> set (disconnecting (fst (exec (end_session time_of seenAt userId certs live s0) srv env n s)))
    \<and> shown (m_error (disconnectModal (fst (exec (end_session time_of seenAt userId certs live s0) srv env n s))))"
  using assms
  by (auto simp: submitUserSessionDisconnect_def loadUserProfileSessions_def Let_def set_markers_def split: sum.splits if_splits)

subsection \<open>Properties\<close>

text \<open>C29: The list of a user's sessions holds every row the server has for the user, each once, and for every live session of the user whose server
  and session identifier no row has exactly one row more; sessions of others are never in it.\<close>

theorem user_sessions_complete:
  "\<exists>added. subseq added (filter (own_session userId certs) live)
     \<and> mset (merged_sessions time_of seenAt userId certs live rows) = mset rows + mset (map (live_row seenAt) added)
     \<and> distinct (map live_key added)
     \<and> set (map live_key added) = set (map live_key (filter (own_session userId certs) live)) - set (map row_session_key rows)"
  by (rule exI [of _ "unseen (own_session userId certs) live (row_session_key ` set rows)"])
    (simp add: mset_merged unseen_distinct unseen_keys unseen_subseq del: set_filter)

text \<open>C30: Ending sessions keeps the markers of sessions being ended distinct and the stored copy the same as the markers of the page, whatever
  else that respects this happens during the waits and however the request ends; dropping the markers of sessions that are gone keeps
  exactly the markers of active sessions, in their order; and after a failed request the session is not marked and a message is shown.\<close>

theorem disconnect_markers_consistent:
  fixes time_of :: "jsval \<Rightarrow> int option" and srv :: "nat \<Rightarrow> call \<Rightarrow> answer" and s0 :: session_page
    and seenAt userId :: string and certs live :: "jsval list"
  assumes ok: "markers_ok s" and env: "\<And>n s. markers_ok s \<Longrightarrow> markers_ok (env n s)"
  defines "run \<equiv> exec (submitUserSessionDisconnect (loadUserProfileSessions time_of seenAt userId certs live) s0) srv env 0 s"
  shows "markers_ok (fst run)
    \<and> markers_ok (prune_markers nodeRows userRows (fst run))
    \<and> disconnecting (prune_markers nodeRows userRows (fst run)) = filter (\<lambda>k. k \<in> active_markers nodeRows userRows) (disconnecting (fst run))
    \<and> (if list_ex bad_act (snd run)
       then marker (fst (target s)) (snd (target s)) \<notin> set (disconnecting (fst run)) \<and> shown (m_error (disconnectModal (fst run)))
       else True)"
proof -
  have kept: "markers_ok (fst run)" unfolding run_def by (rule markers_ok_submit [OF ok env])
  moreover have "disconnecting (prune_markers nodeRows userRows t) = filter (\<lambda>k. k \<in> active_markers nodeRows userRows) (disconnecting t)" for t
    by (simp add: prune_markers_def set_markers_def Let_def)
  ultimately show ?thesis
    using failed_disconnect [of time_of seenAt userId certs live s0 srv env 0 s] by (simp add: markers_ok_prune run_def)
qed

text \<open>A page whose dialog is open for one session; the server refuses to end it.\<close>

definition ending_page :: session_page where
  "ending_page = \<lparr>vToken = ''tok'', vError = NoText, sessionRows = [], target = (''n1'', ''s1''),
     disconnectModal = \<lparr>m_open = True, m_busy = False, m_error = NoText, m_form = ([], [], [])\<rparr>,
     disconnecting = [''n2-s2''], storedDisconnecting = [''n2-s2'']\<rparr>"

theorem disconnect_markers_consistent_witness:
  "marker ''n1'' ''s1'' \<notin> set (disconnecting (fst (exec
     (submitUserSessionDisconnect (loadUserProfileSessions (\<lambda>_. None) [] ''u'' [] []) ending_page)
     (\<lambda>n c. Inl (plain_error (Ui ''refused''))) (\<lambda>n t. t) 0 ending_page)))"
  using disconnect_markers_consistent [of ending_page "\<lambda>n t. t" "\<lambda>_. None" "[]" "''u''" "[]" "[]" ending_page
      "\<lambda>n c. Inl (plain_error (Ui ''refused''))" "[]" "[]"]
  by (simp add: markers_ok_def ending_page_def submitUserSessionDisconnect_def Let_def set_markers_def)

end
