(* ===== verification/Services.thy ===== *)
theory Services
  imports Scripts Dnsmasq Settings Effects Base64
begin

section \<open>Services, journal, tasks and the agent\<close>

text \<open>
  The pages about the machine a node runs on: its system services, the journal of OpenVPN, the task queue of the panel,
  the check of the configuration and the update of the agent.
\<close>

subsection \<open>Lists\<close>

definition unit_text :: "jsval \<Rightarrow> string" where
  "unit_text r = js_lower (str_or (jprop r ''unit'')) @ '' '' @ js_lower (str_or (jprop r ''description''))"

definition service_shown :: "jsval \<Rightarrow> bool" where
  "service_shown r =
     (if js_lower (js_trim (str_or (jprop r ''loadState''))) = ''not-found'' then False
      else list_ex (js_includes (unit_text r)) [''openvpn'', ''dnsmasq'', ''nftables'', ''iptables'', ''firewalld'', ''ufw''])"

definition service_matches :: "string \<Rightarrow> jsval \<Rightarrow> bool" where
  "service_matches q r = list_ex (\<lambda>k. js_includes (js_lower (str_or (jprop r k))) q)
     [''unit'', ''description'', ''activeState'', ''subState'', ''loadState'']"

definition filteredSystemServicesRows :: "string \<Rightarrow> jsval list \<Rightarrow> jsval list" where
  "filteredSystemServicesRows query xs =
     (let q = js_lower (js_trim query); base = filter service_shown xs in if q = [] then base else filter (service_matches q) base)"

text \<open>The class and the label of a task.\<close>

definition formatTaskStatus :: "jsval \<Rightarrow> string \<times> string" where
  "formatTaskStatus statusRaw =
     (let st = js_lower (str_or statusRaw) in
      if st = ''completed'' then (''app-status app-status--ok'', ''completed'')
      else if st = ''failed'' then (''app-status app-status--off'', ''failed'')
      else if st = ''processing'' then (''app-status'', ''processing'')
      else (''app-status'', js_or st ''pending''))"

subsection \<open>State\<close>

record agent_update =
  au_open :: bool
  au_fileName :: string
  au_sha256 :: string
  au_binary :: string
  au_busy :: bool
  au_result :: uitext
  au_error :: uitext
  au_pct :: int
  au_journal :: string

record check_modal =
  c_open :: bool
  c_message :: uitext
  c_details :: "uitext list"
  c_hints :: "jsval list"
  c_success :: bool

record service_page =
  mToken :: string
  mError :: uitext
  serviceActionModal :: "string modal"
  serviceActionResult :: uitext
  taskRetryModal :: "(string \<times> string) modal"
  panelAsyncTasks :: "jsval list"
  unitModal :: "(string \<times> string) modal"
  machine :: dns_sys
  checkBusy :: bool
  checkModal :: check_modal
  agent :: agent_update
  jQuery :: string
  jPage :: nat
  jLoading :: bool
  jRows :: "jsval list"
  jTotal :: jsnum
  jTotalPages :: jsnum

subsection \<open>Actions with a dialog\<close>

definition openServiceActionConfirm :: "string \<Rightarrow> service_page \<Rightarrow> service_page" where
  "openServiceActionConfirm action s =
     s\<lparr>serviceActionResult := NoText, serviceActionModal := \<lparr>m_open = True, m_busy = False, m_error = NoText, m_form = action\<rparr>\<rparr>"

text \<open>\<^verbatim>\<open>`${err.message || d}${details}`\<close> with the output of the command on a line of its own\<close>

definition message_with_output :: "req_error \<Rightarrow> uitext \<Rightarrow> uitext" where
  "message_with_output e d = Cat (message_or e d) (if err_output e \<noteq> [] then Raw (LF # err_output e) else NoText)"

definition done_text :: "string \<Rightarrow> jsval \<Rightarrow> uitext" where
  "done_text action v = Cat (Cat (Ui ''the command was run:'') (Raw action))
     (if truthy (jprop v ''output'') then Raw ('': '' @ to_str (jprop v ''output'')) else Raw ''.'')"

definition submitServiceAction :: "string \<Rightarrow> service_page \<Rightarrow> service_page script" where
  "submitServiceAction nodeId s0 =
     (let action = m_form (serviceActionModal s0); upd = (\<lambda>f s. s\<lparr>serviceActionModal := f (serviceActionModal s)\<rparr>) in
      if nodeId = [] \<or> mToken s0 = [] \<or> action = [] then Stop
      else Set (upd begin_modal)
        (try_ask (''POST'', node_path nodeId ''/openvpn-service'', JObj [(''action'', JStr action)])
          (\<lambda>e. Set (upd (fail_modal (message_with_output e (Ui ''the operation was not done'')))) Stop)
          (\<lambda>v. Set (\<lambda>s. s\<lparr>serviceActionResult := done_text action v, serviceActionModal := closed_modal []\<rparr>) (Kick RefreshServers Stop))))"

definition task_path :: "string \<Rightarrow> string" where
  "task_path i = ''/api/tasks/'' @ encodeURIComponent i @ ''/retry''"

definition submitTaskRetryFromModal :: "service_page \<Rightarrow> service_page script" where
  "submitTaskRetryFromModal s0 =
     (let i = fst (m_form (taskRetryModal s0)); upd = (\<lambda>f s. s\<lparr>taskRetryModal := f (taskRetryModal s)\<rparr>);
          failed = (\<lambda>e. Set (upd (fail_modal (message_or e (Ui ''the task could not be queued again'')))) Stop)
      in if mToken s0 = [] \<or> i = [] then Stop
         else Set (upd begin_modal)
           (try_ask (''POST'', task_path i, JUndef) failed
             (\<lambda>_. try_ask (''GET'', ''/api/tasks'', JUndef) failed
               (\<lambda>v. Set (\<lambda>s. s\<lparr>panelAsyncTasks := array_or_empty v, taskRetryModal := closed_modal ([], [])\<rparr>) Stop))))"

text \<open>
  Both requests of \<^verbatim>\<open>loadServerServicesAndDns\<close> are sent at once and waited for together; the script lists them in the order of
  the array. The function catches their errors itself.
\<close>

definition reload_machine :: "string \<Rightarrow> service_page script \<Rightarrow> service_page script" where
  "reload_machine nodeId k = Get (\<lambda>s. case loadServerServicesAndDns_start (mToken s) nodeId (machine s) of
       None \<Rightarrow> k
     | Some (t, calls) \<Rightarrow> Set (\<lambda>s. s\<lparr>machine := t\<rparr>)
         (Attempt (calls ! 0) (\<lambda>a. Attempt (calls ! 1) (\<lambda>b.
           Set (\<lambda>s. s\<lparr>machine := loadServerServicesAndDns_settle (case (a, b) of (Inr x, Inr y) \<Rightarrow> Inr (x, y) | (Inl e, _) \<Rightarrow> Inl e | (_, Inl e) \<Rightarrow> Inl e)
             (machine s)\<rparr>) k))))"

definition submitSystemUnitActionFromModal :: "string \<Rightarrow> service_page \<Rightarrow> service_page script" where
  "submitSystemUnitActionFromModal nodeId s0 =
     (let unit = fst (m_form (unitModal s0)); action = snd (m_form (unitModal s0)); upd = (\<lambda>f s. s\<lparr>unitModal := f (unitModal s)\<rparr>) in
      if nodeId = [] \<or> mToken s0 = [] \<or> unit = [] \<or> action = [] then Stop
      else Set (upd begin_modal)
        (try_ask (''POST'', node_path nodeId ''/system-service-unit'', JObj [(''unit'', JStr unit), (''action'', JStr action)])
          (\<lambda>e. Set (upd (fail_modal (message_with_output e (Ui ''the operation was not done'')))) Stop)
          (\<lambda>_. Set (\<lambda>s. s\<lparr>unitModal := closed_modal ([], [])\<rparr>) (reload_machine nodeId Stop))))"

subsection \<open>Checking the configuration\<close>

text \<open>\<^verbatim>\<open>String(v || "").trim()\<close>; the literals of the interface have no blanks at their ends.\<close>

definition trimmed :: "jsval \<Rightarrow> string \<Rightarrow> string" where
  "trimmed v k = js_trim (str_or (jprop v k))"

definition trim_text :: "uitext \<Rightarrow> uitext" where
  "trim_text t = (case t of Raw u \<Rightarrow> Raw (js_trim u) | _ \<Rightarrow> t)"

text \<open>A line of the details, left out when the value is empty.\<close>

definition detail :: "string \<Rightarrow> string \<Rightarrow> uitext" where
  "detail label v = (if v \<noteq> [] then Cat (Ui label) (Raw v) else NoText)"

definition check_details :: "string \<Rightarrow> uitext \<Rightarrow> string \<Rightarrow> string \<Rightarrow> uitext list" where
  "check_details cmd output path source = filter shown
     [detail ''$'' cmd, text_or output (Ui ''(empty output)''), detail ''config:'' path, detail ''source:'' source]"

definition check_passed :: "jsval \<Rightarrow> check_modal" where
  "check_passed v = \<lparr>c_open = True, c_message = error_text (jprop v ''message'') (Ui ''the configuration passed the check''),
     c_details = check_details (trimmed v ''command'') (Raw (trimmed v ''output'')) (trimmed v ''configPath'') (trimmed v ''checkedSource''),
     c_hints = [], c_success = True\<rparr>"

definition check_failed :: "req_error \<Rightarrow> check_modal" where
  "check_failed e = \<lparr>c_open = True, c_message = message_or e (Ui ''the check was not done''),
     c_details = check_details (js_trim (command e))
       (if err_output e \<noteq> [] then Raw (js_trim (err_output e)) else trim_text (message e)) (js_trim (configPath e)) [],
     c_hints = hints e, c_success = False\<rparr>"

definition checkOpenvpnConfig :: "string \<Rightarrow> jsobj \<Rightarrow> service_page \<Rightarrow> service_page script" where
  "checkOpenvpnConfig nodeId settings s0 =
     (if nodeId = [] \<or> mToken s0 = [] then Stop
      else Set (\<lambda>s. s\<lparr>checkBusy := True\<rparr>)
        (try_ask (''POST'', node_path nodeId ''/openvpn-check-config'', JObj [(''settings'', JObj (buildOpenVpnSettingsForPanelSave settings))])
          (\<lambda>e. Set (\<lambda>s. s\<lparr>checkModal := check_failed e, checkBusy := False\<rparr>) Stop)
          (\<lambda>v. Set (\<lambda>s. s\<lparr>checkModal := check_passed v, checkBusy := False\<rparr>) Stop)))"

subsection \<open>Updating the agent\<close>

definition au_upd :: "(agent_update \<Rightarrow> agent_update) \<Rightarrow> service_page \<Rightarrow> service_page" where
  "au_upd f s = s\<lparr>agent := f (agent s)\<rparr>"

definition no_file :: "agent_update \<Rightarrow> agent_update" where
  "no_file a = a\<lparr>au_fileName := [], au_sha256 := [], au_binary := []\<rparr>"

definition no_messages :: "agent_update \<Rightarrow> agent_update" where
  "no_messages a = a\<lparr>au_error := NoText, au_result := NoText, au_journal := [], au_pct := 0\<rparr>"

definition open_agent_update :: "agent_update \<Rightarrow> agent_update" where
  "open_agent_update a = no_file (no_messages (a\<lparr>au_open := True\<rparr>))"

definition close_agent_update :: "agent_update \<Rightarrow> agent_update" where
  "close_agent_update a = (if au_busy a then a else a\<lparr>au_open := False\<rparr>)"

text \<open>
  Choosing a file: its bytes are read, encoded and hashed (\<open>digest\<close> stands for \<^verbatim>\<open>crypto.subtle.digest\<close>); \<open>Inl\<close> when reading
  fails. Nothing relates the answer to the file chosen last.
\<close>

definition hex2 :: "nat \<Rightarrow> string" where
  "hex2 b = map (\<lambda>d. ''0123456789abcdef'' ! d) [b div 16 mod 16, b mod 16]"

definition fileToBase64AndSha256 :: "(nat list \<Rightarrow> nat list) \<Rightarrow> nat list \<Rightarrow> string \<times> string" where
  "fileToBase64AndSha256 digest bytes = (uint8ArrayToBase64 bytes, concat (map hex2 (digest bytes)))"

definition choose_file_start :: "bool \<Rightarrow> agent_update \<Rightarrow> agent_update" where
  "choose_file_start chosen a = (if chosen then no_messages a else no_file (no_messages a))"

definition choose_file_settle :: "(nat list \<Rightarrow> nat list) \<Rightarrow> string \<Rightarrow> uitext + nat list \<Rightarrow> agent_update \<Rightarrow> agent_update" where
  "choose_file_settle digest name res a = (case res of
       Inr bytes \<Rightarrow> (let r = fileToBase64AndSha256 digest bytes in a\<lparr>au_fileName := name, au_sha256 := snd r, au_binary := fst r\<rparr>)
     | Inl t \<Rightarrow> (no_file a)\<lparr>au_error := t\<rparr>)"

text \<open>\<^verbatim>\<open>Math.max(prev, Math.min(100, Math.round(p * 100)))\<close>\<close>

definition upload_pct :: "rat \<Rightarrow> agent_update \<Rightarrow> agent_update" where
  "upload_pct p a = a\<lparr>au_pct := max (au_pct a) (min 100 \<lfloor>p * 100 + 1 / 2\<rfloor>)\<rparr>"

definition agent_call :: "string \<Rightarrow> agent_update \<Rightarrow> call" where
  "agent_call nodeId a = (''POST'', node_path nodeId ''/agent-update'', JObj
     [(''fileName'', JStr (js_or (au_fileName a) ''agent'')), (''binaryBase64'', JStr (au_binary a)), (''checksumSha256'', JStr (au_sha256 a))])"

definition updated_text :: "jsval \<Rightarrow> uitext" where
  "updated_text v = (if str_prop v ''message'' \<noteq> [] then Raw (str_prop v ''message'')
     else if str_prop v ''output'' \<noteq> [] then Raw (str_prop v ''output'') else Ui ''the agent was updated'')"

definition agent_updated :: "jsval \<Rightarrow> agent_update \<Rightarrow> agent_update" where
  "agent_updated v a = (let t = js_trim (str_prop v ''journalTail'') in
     no_file ((if t \<noteq> [] then a\<lparr>au_journal := t\<rparr> else a)\<lparr>au_result := updated_text v\<rparr>))"

definition agent_update_failed :: "req_error \<Rightarrow> agent_update \<Rightarrow> agent_update" where
  "agent_update_failed e a = a\<lparr>au_pct := 0, au_busy := False,
     au_error := Cat (message_or e (Ui ''the update was not done'')) (if err_output e \<noteq> [] then Raw ('': '' @ err_output e) else NoText)\<rparr>"

text \<open>The answer of \<^verbatim>\<open>postJsonWithUploadProgress\<close> (in \<^verbatim>\<open>Http\<close>) as that of a request; its progress events fall into the wait.\<close>

definition submitAgentUpdate :: "string \<Rightarrow> service_page \<Rightarrow> service_page script" where
  "submitAgentUpdate nodeId s0 =
     (if nodeId = [] \<or> mToken s0 = [] \<or> au_binary (agent s0) = [] then Stop
      else Set (au_upd (\<lambda>a. no_messages (a\<lparr>au_busy := True\<rparr>)))
        (try_ask (agent_call nodeId (agent s0))
          (\<lambda>e. Set (au_upd (agent_update_failed e)) Stop)
          (\<lambda>v. Set (au_upd (agent_updated v)) (Refresh RefreshServers (Set (au_upd (\<lambda>a. a\<lparr>au_busy := False\<rparr>)) Stop)))))"

text \<open>The effects after another server was selected and outside the overview. The tail of the journal is not among what they clear.\<close>

definition agent_server_effect :: "agent_update \<Rightarrow> agent_update" where
  "agent_server_effect a = (no_file a)\<lparr>au_result := NoText, au_error := NoText\<rparr>"

definition agent_tab_effect :: "route \<Rightarrow> agent_update \<Rightarrow> agent_update" where
  "agent_tab_effect r a = (if primaryNav r \<noteq> ''servers'' \<or> serversView r \<noteq> ''detail'' \<or> serverDetailTab r \<noteq> ''overview''
     then agent_server_effect a else a)"

subsection \<open>Loading effects\<close>

text \<open>The journal of a server: a page of lines, filtered by the server.\<close>

definition journal_query :: "nat \<Rightarrow> string \<Rightarrow> string" where
  "journal_query p q = ''page='' @ nat_string p @ ''&pageSize=50'' @ (if js_trim q \<noteq> [] then ''&q='' @ form_encode (js_trim q) else [])"

definition journal_deps :: "page_env \<times> nat \<times> string \<Rightarrow> (string \<times> string \<times> string \<times> string \<times> bool) \<times> nat \<times> string" where
  "journal_deps e = (server_deps (fst e), snd e)"

definition journal_start :: "page_env \<times> nat \<times> string \<Rightarrow> service_page \<Rightarrow> service_page \<times> call list \<times> call list" where
  "journal_start e s =
     (if on_server_tab [''journal''] (fst e) \<and> snd (fst e) \<noteq> []
      then (s\<lparr>jLoading := True\<rparr>, [(''GET'', node_path (selectedServerId (fst (fst e))) (''/openvpn-logs?'' @ journal_query (fst (snd e)) (snd (snd e))), JUndef)], [])
      else (s, [], []))"

definition num_or :: "jsval \<Rightarrow> int \<Rightarrow> jsnum" where
  "num_or v d = (if truthy v then to_num v else num_of_int d)"

text \<open>\<^verbatim>\<open>Math.max(1, x)\<close>\<close>

definition at_least_one :: "jsnum \<Rightarrow> jsnum" where
  "at_least_one x = (case x of NaN \<Rightarrow> NaN | Infinity \<Rightarrow> Infinity | NegInfinity \<Rightarrow> num_of_int 1
     | Dec m e \<Rightarrow> if (0 \<le> e \<and> 1 \<le> m) \<or> (e < 0 \<and> 10 ^ nat (- e) \<le> m) then x else num_of_int 1)"

definition journal_settle :: "page_env \<times> nat \<times> string \<Rightarrow> bool \<Rightarrow> answer \<Rightarrow> service_page \<Rightarrow> service_page" where
  "journal_settle e cancelled a s =
     (if cancelled then s
      else (case a of
          Inr v \<Rightarrow>
            if v = JNull then s\<lparr>jRows := [], jTotal := num_of_int 0, jTotalPages := num_of_int 1, mError := MSG_NULL\<rparr>
            else s\<lparr>jRows := array_or_empty (jprop v ''rows''), jTotal := num_or (jprop v ''total'') 0,
                   jTotalPages := at_least_one (num_or (jprop v ''totalPages'') 1)\<rparr>
        | Inl er \<Rightarrow> s\<lparr>jRows := [], jTotal := num_of_int 0, jTotalPages := num_of_int 1,
                     mError := message_or er (Ui ''the journal could not be loaded'')\<rparr>)\<lparr>jLoading := False\<rparr>)"

text \<open>Another query starts at the first page; another server drops the query too.\<close>

definition journal_query_effect :: "service_page \<Rightarrow> service_page" where
  "journal_query_effect s = s\<lparr>jPage := 1\<rparr>"

definition journal_server_effect :: "service_page \<Rightarrow> service_page" where
  "journal_server_effect s = s\<lparr>jQuery := [], jPage := 1\<rparr>"

text \<open>The services of a node are polled every three seconds, the tasks every two.\<close>

definition services_poll_start :: "page_env \<Rightarrow> service_page \<Rightarrow> service_page \<times> call list \<times> call list" where
  "services_poll_start e s =
     (s, [], if on_server_tab [''services''] e \<and> snd e \<noteq> [] then [(''GET'', node_path (selectedServerId (fst e)) ''/system-services'', JUndef)] else [])"

definition services_poll_settle :: "page_env \<Rightarrow> bool \<Rightarrow> answer \<Rightarrow> service_page \<Rightarrow> service_page" where
  "services_poll_settle e cancelled a s =
     (if cancelled then s
      else case a of
          Inr v \<Rightarrow> s\<lparr>machine := (machine s)\<lparr>servicesRows := array_or_empty (jprop v ''services''), servicesError := NoText\<rparr>\<rparr>
        | Inl er \<Rightarrow> s\<lparr>machine := (machine s)\<lparr>servicesError := message_or er (Ui ''the list of services could not be refreshed'')\<rparr>\<rparr>)"

definition tasks_deps :: "page_env \<Rightarrow> string \<times> string" where
  "tasks_deps e = (snd e, primaryNav (fst e))"

definition tasks_start :: "page_env \<Rightarrow> service_page \<Rightarrow> service_page \<times> call list \<times> call list" where
  "tasks_start e s =
     (if snd e \<noteq> [] \<and> primaryNav (fst e) = ''tasks'' then (s, [(''GET'', ''/api/tasks'', JUndef)], [(''GET'', ''/api/tasks'', JUndef)]) else (s, [], []))"

definition tasks_settle :: "page_env \<Rightarrow> bool \<Rightarrow> answer \<Rightarrow> service_page \<Rightarrow> service_page" where
  "tasks_settle e cancelled a s =
     (if cancelled then s else s\<lparr>panelAsyncTasks := (case a of Inr v \<Rightarrow> array_or_empty v | Inl er \<Rightarrow> [])\<rparr>)"

subsection \<open>Contracts\<close>

interpretation service_dialog: dialog "submitServiceAction nodeId" serviceActionModal for nodeId
  by unfold_locales (auto simp: submitServiceAction_def message_with_output_def Let_def dialog_outcomes split: sum.splits if_splits)

interpretation task_dialog: dialog submitTaskRetryFromModal taskRetryModal
  by unfold_locales (auto simp: submitTaskRetryFromModal_def Let_def dialog_outcomes split: sum.splits if_splits)

interpretation unit_dialog: dialog "submitSystemUnitActionFromModal nodeId" unitModal for nodeId
  by unfold_locales
    (auto simp: submitSystemUnitActionFromModal_def reload_machine_def message_with_output_def Let_def dialog_outcomes
      split: sum.splits if_splits option.splits)

interpretation check_run: finally_idle "checkOpenvpnConfig nodeId settings" checkBusy for nodeId settings
  by unfold_locales (simp add: checkOpenvpnConfig_def Let_def split: sum.split)

interpretation agent_run: finally_idle "submitAgentUpdate nodeId" "\<lambda>s. au_busy (agent s)" for nodeId
  by unfold_locales (simp add: submitAgentUpdate_def au_upd_def agent_update_failed_def Let_def split: sum.split)

definition journal_view :: "service_page \<Rightarrow> jsval list \<times> jsnum \<times> jsnum \<times> bool" where
  "journal_view s = (jRows s, jTotal s, jTotalPages s, jLoading s)"

definition journal_answer :: "jsval \<Rightarrow> jsval list \<times> jsnum \<times> jsnum \<times> bool" where
  "journal_answer v = (array_or_empty (jprop v ''rows''), num_or (jprop v ''total'') 0, at_least_one (num_or (jprop v ''totalPages'') 1), False)"

lemma null_journal: "journal_answer JNull = ([], num_of_int 0, num_of_int 1, False)"
  by code_simp

interpretation journal_loader: loading_effect journal_deps journal_start journal_settle journal_view "\<lambda>e. journal_answer"
  by unfold_locales (simp_all add: journal_settle_def journal_view_def null_journal, simp add: journal_answer_def)

interpretation tasks_loader: loading_effect tasks_deps tasks_start tasks_settle panelAsyncTasks "\<lambda>e. array_or_empty"
  by unfold_locales (simp_all add: tasks_settle_def)

interpretation services_loader: loading_effect server_deps services_poll_start services_poll_settle
    "\<lambda>s. (servicesRows (machine s), servicesError (machine s))" "\<lambda>e v. (array_or_empty (jprop v ''services''), NoText)"
  by unfold_locales (simp_all add: services_poll_settle_def)

subsection \<open>Properties\<close>

definition service_dialogs :: "string \<Rightarrow> ((service_page \<Rightarrow> service_page script) \<times> (service_page \<Rightarrow> bool \<times> bool \<times> uitext)) list" where
  "service_dialogs nodeId =
     [(submitServiceAction nodeId, \<lambda>s. modal_status (serviceActionModal s)), (submitTaskRetryFromModal, \<lambda>s. modal_status (taskRetryModal s)),
      (submitSystemUnitActionFromModal nodeId, \<lambda>s. modal_status (unitModal s))]"

text \<open>Every run of the dialogs for the OpenVPN service, a system unit and a failed task ends idle: closed when all its requests
  succeeded, open with a message when one failed, as it was when nothing was sent, as long as nothing else touches these dialogs.\<close>

theorem service_dialogs_settle:
  assumes "\<And>n t. (serviceActionModal (env n t), taskRetryModal (env n t), unitModal (env n t)) = (serviceActionModal t, taskRetryModal t, unitModal t)"
  shows "list_all (\<lambda>(h, st). outcome_ok (st s) (snd (exec (h s0) srv env n s)) (st (fst (exec (h s0) srv env n s)))) (service_dialogs nodeId)"
proof -
  have u: "undisturbed serviceActionModal env" "undisturbed taskRetryModal env" "undisturbed unitModal env"
    using assms by (simp_all add: undisturbed_def)
  show ?thesis
    using service_dialog.outcome [OF u(1)] task_dialog.outcome [OF u(2)] unit_dialog.outcome [OF u(3)] by (simp add: service_dialogs_def)
qed

lemma agent_update_run:
  fixes srv :: "nat \<Rightarrow> call \<Rightarrow> answer" and n :: nat
  assumes "nodeId \<noteq> []" and "mToken s \<noteq> []" and "au_binary (agent s) \<noteq> []"
    and env: "\<And>n t. \<exists>p. agent (env n t) = (agent t)\<lparr>au_pct := p\<rparr>"
  defines "out \<equiv> exec (submitAgentUpdate nodeId s) srv env n s" and "call \<equiv> agent_call nodeId (agent s)"
  shows "calls_of (snd out) = [call] \<and> \<not> au_busy (agent (fst out))
    \<and> (case srv n call of
        Inr v \<Rightarrow> au_result (agent (fst out)) = updated_text v \<and> shown (updated_text v) \<and> au_error (agent (fst out)) = NoText
          \<and> (au_fileName (agent (fst out)), au_sha256 (agent (fst out)), au_binary (agent (fst out))) = ([], [], [])
      | Inl e \<Rightarrow> shown (au_error (agent (fst out))) \<and> au_result (agent (fst out)) = NoText \<and> au_pct (agent (fst out)) = 0
          \<and> (au_fileName (agent (fst out)), au_sha256 (agent (fst out)), au_binary (agent (fst out)))
            = (au_fileName (agent s), au_sha256 (agent s), au_binary (agent s)))"
proof -
  have kept: "au_busy (agent (env n t)) = au_busy (agent t)" "au_result (agent (env n t)) = au_result (agent t)"
    "au_error (agent (env n t)) = au_error (agent t)" "au_fileName (agent (env n t)) = au_fileName (agent t)"
    "au_sha256 (agent (env n t)) = au_sha256 (agent t)" "au_binary (agent (env n t)) = au_binary (agent t)" for n t
    using env [of n t] by auto
  show ?thesis
    using assms(1-3)
    by (simp add: out_def call_def submitAgentUpdate_def au_upd_def agent_update_failed_def agent_updated_def no_file_def no_messages_def
        updated_text_def kept Let_def split: sum.split)
qed

lemma agent_call_of_file:
  assumes "agent s = choose_file_settle digest name (Inr bytes) a"
  shows "agent_call nodeId (agent s) = (''POST'', ''/api/panel/nodes/'' @ encodeURIComponent nodeId @ ''/agent-update'',
     JObj [(''fileName'', JStr (if name = [] then ''agent'' else name)), (''binaryBase64'', JStr (uint8ArrayToBase64 bytes)),
       (''checksumSha256'', JStr (concat (map (\<lambda>b. [''0123456789abcdef'' ! (b div 16 mod 16), ''0123456789abcdef'' ! (b mod 16)]) (digest bytes))))])"
proof -
  have "hex2 = (\<lambda>b. [''0123456789abcdef'' ! (b div 16 mod 16), ''0123456789abcdef'' ! (b mod 16)])"
    by (rule ext) (simp only: hex2_def list.map)
  then show ?thesis
    by (simp add: assms choose_file_settle_def fileToBase64AndSha256_def agent_call_def node_path_def js_or_def Let_def del: nth_Cons_numeral)
qed

text \<open>C35: Sending an agent to a node: after a file was read, the one request that is sent goes to the node and carries the name of the file,
  a text that decodes to exactly its bytes and the hexadecimal digest of these bytes. When it succeeds a result is shown and the file is
  dropped, when it fails a message is shown, the bar is empty and the file stays chosen; either way the page ends idle. This holds as
  long as nothing but the bar changes while the request is under way.\<close>

theorem agent_update_outcome:
  fixes srv :: "nat \<Rightarrow> call \<Rightarrow> answer" and n :: nat and nodeId name :: string and bytes :: "nat list"
    and digest :: "nat list \<Rightarrow> nat list" and s :: service_page
  assumes "nodeId \<noteq> []" and "mToken s \<noteq> []" and "bytes \<noteq> []" and "list_all (\<lambda>b. b < 256) bytes"
    and chosen: "agent s = choose_file_settle digest name (Inr bytes) a"
    and env: "\<And>n t. \<exists>p. agent (env n t) = (agent t)\<lparr>au_pct := p\<rparr>"
  defines "out \<equiv> exec (submitAgentUpdate nodeId s) srv env n s"
  shows "\<exists>t. atob t = Some (map char_of bytes) \<and>
      (let call = (''POST'', ''/api/panel/nodes/'' @ encodeURIComponent nodeId @ ''/agent-update'',
         JObj [(''fileName'', JStr (if name = [] then ''agent'' else name)), (''binaryBase64'', JStr t),
           (''checksumSha256'', JStr (concat (map (\<lambda>b. [''0123456789abcdef'' ! (b div 16 mod 16), ''0123456789abcdef'' ! (b mod 16)]) (digest bytes))))])
       in calls_of (snd out) = [call] \<and> \<not> au_busy (agent (fst out))
        \<and> (case srv n call of
            Inr v \<Rightarrow> au_result (agent (fst out)) = updated_text v \<and> shown (updated_text v) \<and> au_error (agent (fst out)) = NoText
              \<and> (au_fileName (agent (fst out)), au_sha256 (agent (fst out)), au_binary (agent (fst out))) = ([], [], [])
          | Inl e \<Rightarrow> shown (au_error (agent (fst out))) \<and> au_result (agent (fst out)) = NoText \<and> au_pct (agent (fst out)) = 0
              \<and> (au_fileName (agent (fst out)), au_sha256 (agent (fst out)), au_binary (agent (fst out)))
                = (au_fileName (agent s), au_sha256 (agent s), au_binary (agent s))))"
proof -
  have decoded: "atob (uint8ArrayToBase64 bytes) = Some (map char_of bytes)"
    by (rule upload_encoding_roundtrip [OF assms(4)])
  have "atob [] = Some []" by code_simp
  then have "uint8ArrayToBase64 bytes \<noteq> []" using decoded assms(3) by auto
  then have "au_binary (agent s) \<noteq> []" by (simp add: chosen choose_file_settle_def fileToBase64AndSha256_def)
  note run = agent_update_run [where srv = srv and n = n, OF assms(1,2) this env, unfolded agent_call_of_file [OF chosen]]
  show ?thesis
    unfolding out_def Let_def by (rule exI [of _ "uint8ArrayToBase64 bytes"], rule conjI [OF decoded run])
qed

definition idle_agent :: agent_update where
  "idle_agent = \<lparr>au_open = True, au_fileName = ''agent'', au_sha256 = ''00'', au_binary = ''AA=='', au_busy = False, au_result = NoText,
     au_error = NoText, au_pct = 0, au_journal = []\<rparr>"

definition quiet_machine :: dns_sys where
  "quiet_machine = \<lparr>servicesRows = [], servicesLoading = False, servicesError = NoText, dnsLoading = False, dnsError = NoText,
     dnsApplyBusy = False, queueMessage = NoText, dnsDraft = []\<rparr>"

definition blank_services :: service_page where
  "blank_services = \<lparr>mToken = ''tok'', mError = NoText, serviceActionModal = closed_modal [], serviceActionResult = NoText,
     taskRetryModal = closed_modal ([], []), panelAsyncTasks = [], unitModal = closed_modal ([], []), machine = quiet_machine, checkBusy = False,
     checkModal = \<lparr>c_open = False, c_message = NoText, c_details = [], c_hints = [], c_success = False\<rparr>, agent = idle_agent,
     jQuery = [], jPage = 1, jLoading = False, jRows = [], jTotal = num_of_int 0, jTotalPages = num_of_int 1\<rparr>"

theorem service_dialogs_settle_witness:
  "list_all (\<lambda>(h, st). outcome_ok (st blank_services) (snd (exec (h blank_services) (\<lambda>_ _. Inr JNull) (\<lambda>_ t. t) 0 blank_services))
     (st (fst (exec (h blank_services) (\<lambda>_ _. Inr JNull) (\<lambda>_ t. t) 0 blank_services)))) (service_dialogs ''n1'')"
  by (rule service_dialogs_settle) simp

text \<open>A page on which a file of two bytes was chosen.\<close>

definition chosen_file :: service_page where
  "chosen_file = blank_services\<lparr>agent := choose_file_settle (\<lambda>_. [18, 171]) ''agent.bin'' (Inr [77, 90]) idle_agent\<rparr>"

theorem agent_update_outcome_witness:
  "length (calls_of (snd (exec (submitAgentUpdate ''n1'' chosen_file) (\<lambda>_ _. Inr JNull) (\<lambda>_ t. t) 0 chosen_file))) = 1
   \<and> au_binary (agent (fst (exec (submitAgentUpdate ''n1'' chosen_file) (\<lambda>_ _. Inr JNull) (\<lambda>_ t. t) 0 chosen_file))) = []"
proof -
  have e: "\<exists>p. agent ((\<lambda>_ t. t) n t) = (agent t)\<lparr>au_pct := p\<rparr>" for n :: nat and t by (rule exI [of _ "au_pct (agent t)"]) simp
  have f: "mToken chosen_file \<noteq> []" "agent chosen_file = choose_file_settle (\<lambda>_. [18, 171]) ''agent.bin'' (Inr [77, 90]) idle_agent"
    by (simp_all add: chosen_file_def blank_services_def)
  from agent_update_outcome [where nodeId = "''n1''" and srv = "\<lambda>_ _. Inr JNull" and n = 0, OF _ f(1) _ _ f(2) e]
  show ?thesis by (auto simp: Let_def)
qed

text \<open>Every check of the configuration ends with a report in its dialog, marked a success exactly when the request succeeded,
  with a message when it failed, at least one line of details, and the page is idle again.\<close>

lemma trim_text_shown: "shown t \<Longrightarrow> t = Raw u \<Longrightarrow> js_trim u \<noteq> [] \<Longrightarrow> shown (trim_text t)"
  by (simp add: trim_text_def)

theorem check_reports:
  "(case snd (exec (checkOpenvpnConfig nodeId settings s0) srv env n s) of
      [] \<Rightarrow> nodeId = [] \<or> mToken s0 = []
    | a # as \<Rightarrow> as = [] \<and> (let s' = fst (exec (checkOpenvpnConfig nodeId settings s0) srv env n s); m = checkModal s' in
        c_open m \<and> \<not> checkBusy s' \<and> c_success m = (\<not> bad_act a) \<and> (c_success m \<or> shown (c_message m)) \<and> c_details m \<noteq> [] \<and> list_all shown (c_details m)))"
proof -
  have "list_all shown (check_details c t p q) \<and> check_details c t p q \<noteq> []" for c t p q
    by (simp add: check_details_def list_all_iff text_or_def)
  then show ?thesis
    by (auto simp: checkOpenvpnConfig_def Let_def check_passed_def check_failed_def error_text_def split: sum.split)
qed

text \<open>The journal never shows the lines of another server, page or query: whatever requests are under way when it turns to a
  page of a server and a query, and in whatever order the answers arrive, it is loading until the request for this page is
  answered and then shows that answer.\<close>

theorem journal_shows_its_page:
  assumes "runs_ok y" and "last_deps y \<noteq> Some (journal_deps ((r, tok), p, q))" and "on_server_tab [''journal''] (r, tok)" and "tok \<noteq> []"
    and "srv (req_count y) = Inr v" and "list_all arrives evs"
  defines "z \<equiv> foldl (effect_step journal_deps journal_start journal_settle srv) y (Render ((r, tok), p, q) # evs)"
  shows "(live z \<noteq> [] \<and> jRows (view z) = jRows (view y) \<and> jLoading (view z)) \<or> (live z = [] \<and> journal_view (view z) = journal_answer v)"
proof -
  have "journal_start ((r, tok), p, q) (view y) = ((view y)\<lparr>jLoading := True\<rparr>,
      [(''GET'', node_path (selectedServerId r) (''/openvpn-logs?'' @ journal_query p q), JUndef)], [])"
    using assms(3,4) by (simp add: journal_start_def)
  from journal_loader.race [where srv = srv, OF assms(1,2) this assms(5,6)] show ?thesis by (auto simp: z_def)
qed

definition journal_route :: route where
  "journal_route = base_route\<lparr>primaryNav := ''servers'', serversView := ''detail'', selectedServerId := ''s1'', serverDetailTab := ''journal''\<rparr>"

theorem journal_shows_its_page_witness:
  "journal_view (view (foldl (effect_step journal_deps journal_start journal_settle (\<lambda>_. Inr JNull)) (fresh_effect blank_services)
     [Render ((journal_route, ''tok''), 1, ''tls''), Arrive 0])) = journal_answer JNull"
proof -
  let ?z = "foldl (effect_step journal_deps journal_start journal_settle (\<lambda>_. Inr JNull)) (fresh_effect blank_services)
      [Render ((journal_route, ''tok''), 1, ''tls''), Arrive 0]"
  have l: "live ?z = []"
    by (simp add: fresh_effect_def live_def send_def journal_start_def on_server_tab_def journal_route_def)
  show ?thesis
    using journal_shows_its_page [of "fresh_effect blank_services" journal_route "''tok''" 1 "''tls''" "\<lambda>_. Inr JNull" JNull "[Arrive 0]"] l
    by (simp add: fresh_effect_def runs_ok_def on_server_tab_def journal_route_def del: effect_step.simps)
qed

text \<open>Two files chosen one after the other: the file that is sent is the one whose reading ended last, even if it was chosen first.\<close>

theorem late_file_wins:
  "au_binary (choose_file_settle digest old (Inr xs) (choose_file_settle digest new (Inr ys) (choose_file_start True (choose_file_start True a))))
     = uint8ArrayToBase64 xs
   \<and> au_fileName (choose_file_settle digest old (Inr xs) (choose_file_settle digest new (Inr ys) (choose_file_start True (choose_file_start True a)))) = old"
  by (simp add: choose_file_settle_def fileToBase64AndSha256_def)

text \<open>The journal of the agent of one server stays on the page of the next: turning to another server and leaving the overview clear
  everything else of the dialog's result.\<close>

theorem journal_tail_survives:
  "au_journal (agent_tab_effect r (agent_server_effect (agent_updated v a))) = au_journal (agent_updated v a)
   \<and> au_result (agent_server_effect (agent_updated v a)) = NoText"
  by (simp add: agent_tab_effect_def agent_server_effect_def no_file_def)

end
