(* ===== verification/Entities.thy ===== *)
theory Entities
  imports Scripts Effects Drafts Time_Format
begin

section \<open>Servers and organizations\<close>

text \<open>
  Adding and changing nodes and organizations, the selections and derived values of their pages, and the draft of the agent's
  address, which is filled from the polled server.
\<close>

subsection \<open>Selections\<close>

text \<open>The server of the page, \<open>JNull\<close> when there is none; the overview goes before the list of nodes.\<close>

definition selectedServer :: "jsval \<Rightarrow> jsval list \<Rightarrow> string \<Rightarrow> jsval" where
  "selectedServer ov ns i =
     (if i = [] then JNull
      else case find_entity (as_array (jprop ov ''servers'')) i of Some x \<Rightarrow> x
        | None \<Rightarrow> (case find_entity ns i of Some x \<Rightarrow> x | None \<Rightarrow> JNull))"

definition by_name :: "(string \<Rightarrow> string \<Rightarrow> int) \<Rightarrow> jsval \<Rightarrow> jsval \<Rightarrow> int" where
  "by_name lc a b = lc (str_or (jprop a ''name'')) (str_or (jprop b ''name''))"

definition filteredOverviewServers :: "(string \<Rightarrow> string \<Rightarrow> int) \<Rightarrow> jsval list \<Rightarrow> jsval \<Rightarrow> string \<Rightarrow> jsval list" where
  "filteredOverviewServers lc ns ov query =
     (let list = (if ns \<noteq> [] then ns else as_array (jprop ov ''servers'')); q = js_lower (js_trim query)
      in js_sort (by_name lc) (if q = [] then list else filter (\<lambda>x. js_includes (js_lower (str_or (jprop x ''name''))) q) list))"

definition organizationsSortedByName :: "(string \<Rightarrow> string \<Rightarrow> int) \<Rightarrow> jsval list \<Rightarrow> jsval list" where
  "organizationsSortedByName lc orgs = js_sort (by_name lc) orgs"

text \<open>\<^verbatim>\<open>v != null\<close>\<close>

definition present :: "jsval \<Rightarrow> bool" where
  "present v = (v \<noteq> JUndef \<and> v \<noteq> JNull)"

definition agent_addr :: "jsval \<Rightarrow> string" where
  "agent_addr x = (if present (jprop x ''host'')
     then js_or (str_or (jprop x ''protocol'')) ''http'' @ ''://'' @ to_str (jprop x ''host'') @ '':'' @ str_nullish (jprop x ''port'')
     else ''-'')"

definition serverAgentSummary :: "jsval \<Rightarrow> string \<times> bool" where
  "serverAgentSummary x = (if x = JNull then (''-'', False) else (agent_addr x, js_upper (str_or (jprop x ''status'')) = ''ONLINE''))"

definition selectedServerMonitoringSamples :: "(string \<Rightarrow> int option) \<Rightarrow> (int \<Rightarrow> string) \<Rightarrow> int \<Rightarrow> jsval \<Rightarrow> jsval list" where
  "selectedServerMonitoringSamples parse_date show_date now x =
     (if x = JNull then [] else mergeLiveMetricSamples parse_date show_date now (as_array (jprop x ''recentMetrics'')) x)"

subsection \<open>Choices of the NAT dialog\<close>

text \<open>Interfaces and addresses the agent reported, with the ones of the OpenVPN settings; each once, sorted.\<close>

definition natOutInterfaceOptions :: "(string \<Rightarrow> string \<Rightarrow> int) \<Rightarrow> jsval \<Rightarrow> string list \<Rightarrow> string list" where
  "natOutInterfaceOptions lc dev detected =
     js_sort lc (js_unique (non_empty [normalizeIfaceLikeOpenvpnDev dev] @ non_empty (map js_trim detected)))"

definition natToAddressOptions :: "(string \<Rightarrow> string option) \<Rightarrow> (string \<Rightarrow> string \<Rightarrow> int) \<Rightarrow> jsval \<Rightarrow> string list \<Rightarrow> string list" where
  "natToAddressOptions hostname_of lc local detected =
     js_sort lc (js_unique (filter (\<lambda>a. CHR '':'' \<notin> set a) (non_empty (map js_trim detected))
       @ non_empty [parseHostFromAddr hostname_of (if truthy local then local else JStr [])]))"

record network_info =
  natInterfaces :: "string list"
  natAddresses :: "string list"
  netError :: uitext

text \<open>Loaded from the node while the dialog of a NAT rule of a server is open: scope, kind, server and token.\<close>

type_synonym nat_env = "(bool \<times> string \<times> string) \<times> string \<times> string"

definition nat_deps :: "nat_env \<Rightarrow> (bool \<times> string \<times> string) \<times> string" where
  "nat_deps e = (fst e, fst (snd e))"

definition nat_start :: "nat_env \<Rightarrow> network_info \<Rightarrow> network_info \<times> call list \<times> call list" where
  "nat_start e s = (case e of ((opened, sc, kd), serverId, tok) \<Rightarrow>
     (s, if opened \<and> sc = ''server'' \<and> kd = ''nat'' \<and> serverId \<noteq> [] \<and> tok \<noteq> []
         then [(''GET'', node_path serverId ''/network-info'', JUndef)] else [], []))"

definition nat_settle :: "nat_env \<Rightarrow> bool \<Rightarrow> answer \<Rightarrow> network_info \<Rightarrow> network_info" where
  "nat_settle e cancelled a s =
     (if cancelled then s
      else case a of
          Inr v \<Rightarrow> s\<lparr>natInterfaces := non_empty (map (\<lambda>it. str_or (jprop it ''name'')) (array_or_empty (jprop v ''interfaces''))),
                     natAddresses := non_empty (map str_or (array_or_empty (jprop v ''addresses'')))\<rparr>
        | Inl er \<Rightarrow> s\<lparr>netError := message_or er (Ui ''the interfaces of the agent could not be loaded'')\<rparr>)"

interpretation nat_loader: loading_effect nat_deps nat_start nat_settle "\<lambda>s. (natInterfaces s, natAddresses s)"
    "\<lambda>e v. (non_empty (map (\<lambda>it. str_or (jprop it ''name'')) (array_or_empty (jprop v ''interfaces''))),
            non_empty (map str_or (array_or_empty (jprop v ''addresses''))))"
  by unfold_locales (simp_all add: nat_settle_def)

subsection \<open>State\<close>

record node_form =
  nName :: string
  nProtocol :: string
  nHost :: string
  nPort :: string
  nAuthToken :: string

record org_form =
  fName :: string
  fInn :: string
  fLegalAddress :: string
  fGeneralDirector :: string
  fPhone :: string
  fEmail :: string

record entity_page =
  eToken :: string
  eError :: uitext
  ePage :: string
  newNode :: node_form
  serverAgentDraft :: node_form
  newOrganization :: org_form
  editOrganization :: org_card

definition blank_node_form :: node_form where
  "blank_node_form = \<lparr>nName = [], nProtocol = ''http'', nHost = [], nPort = ''9443'', nAuthToken = []\<rparr>"

definition blank_org_form :: org_form where
  "blank_org_form = \<lparr>fName = [], fInn = [], fLegalAddress = [], fGeneralDirector = [], fPhone = [], fEmail = []\<rparr>"

definition blank_card :: org_card where
  "blank_card = \<lparr>ocId = JStr [], ocName = [], ocInn = [], ocLegalAddress = [], ocGeneralDirector = [], ocPhone = [], ocEmail = []\<rparr>"

definition entity_error :: "uitext \<Rightarrow> entity_page script" where
  "entity_error t = Set (\<lambda>s. s\<lparr>eError := t\<rparr>) Stop"

subsection \<open>Servers\<close>

definition node_call :: "node_form \<Rightarrow> call" where
  "node_call f = (''POST'', ''/api/agent/nodes'', JObj [(''name'', JStr (nName f)), (''protocol'', JStr (nProtocol f)), (''host'', JStr (nHost f)),
     (''port'', JNum (to_num (JStr (nPort f)))), (''authToken'', JStr (nAuthToken f))])"

definition created_id :: "jsval \<Rightarrow> string option" where
  "created_id v = (if truthy (jprop v ''id'') then Some (to_str (jprop v ''id'')) else None)"

definition createNode :: "entity_page \<Rightarrow> entity_page script" where
  "createNode s0 = Set (\<lambda>s. s\<lparr>eError := NoText\<rparr>)
     (try_ask (node_call (newNode s0)) (\<lambda>e. entity_error (message_or e (Ui ''Error'')))
       (\<lambda>v. Set (\<lambda>s. s\<lparr>newNode := blank_node_form\<rparr>) (Refresh RefreshServers
         (Set (\<lambda>s. s\<lparr>ePage := (case created_id v of Some i \<Rightarrow> paths_serverDetail i ''service'' | None \<Rightarrow> paths_servers)\<rparr>) Stop))))"

definition agent_patch :: "node_form \<Rightarrow> jsval" where
  "agent_patch f = JObj ([(''name'', JStr (js_trim (nName f))), (''protocol'', JStr (nProtocol f)), (''host'', JStr (js_trim (nHost f))),
       (''port'', JNum (to_num (JStr (nPort f))))]
     @ (if js_trim (nAuthToken f) \<noteq> [] then [(''authToken'', JStr (js_trim (nAuthToken f)))] else []))"

definition saveServerAgentConfig :: "string \<Rightarrow> entity_page \<Rightarrow> entity_page script" where
  "saveServerAgentConfig serverId s0 =
     (if serverId = [] then Stop
      else Set (\<lambda>s. s\<lparr>eError := NoText\<rparr>)
        (try_ask (''PATCH'', ''/api/agent/nodes/'' @ encodeURIComponent serverId, agent_patch (serverAgentDraft s0))
          (\<lambda>e. entity_error (message_or e (Ui ''Error'')))
          (\<lambda>_. Set (\<lambda>s. s\<lparr>serverAgentDraft := (serverAgentDraft s)\<lparr>nAuthToken := []\<rparr>\<rparr>) (Kick RefreshServers Stop))))"

text \<open>The draft of the agent's address is filled again whenever one of these five values of the polled server changes.\<close>

definition agent_key :: "jsval \<Rightarrow> jsval list" where
  "agent_key x = map (jprop x) [''id'', ''name'', ''protocol'', ''host'', ''port'']"

definition text_of_present :: "jsval \<Rightarrow> string" where
  "text_of_present v = (if present v then to_str v else [])"

definition stored_agent :: "jsval \<Rightarrow> node_form" where
  "stored_agent x = \<lparr>nName = str_or (jprop x ''name''), nProtocol = js_or (str_or (jprop x ''protocol'')) ''http'',
     nHost = text_of_present (jprop x ''host''), nPort = text_of_present (jprop x ''port''), nAuthToken = []\<rparr>"

text \<open>The effect with the key it ran for last.\<close>

definition agent_draft_effect :: "jsval \<Rightarrow> jsval list option \<times> node_form \<Rightarrow> jsval list option \<times> node_form" where
  "agent_draft_effect x s =
     (if fst s = Some (agent_key x) then s else (Some (agent_key x), if x = JNull then snd s else stored_agent x))"

subsection \<open>Organizations\<close>

text \<open>\<^verbatim>\<open>v || null\<close>\<close>

definition or_null :: "string \<Rightarrow> jsval" where
  "or_null t = (if t = [] then JNull else JStr t)"

definition org_body :: "string \<Rightarrow> string \<Rightarrow> string \<Rightarrow> string \<Rightarrow> string \<Rightarrow> string \<Rightarrow> jsval" where
  "org_body name inn addr director ph em = JObj [(''name'', JStr (js_trim name)), (''inn'', or_null inn), (''legalAddress'', or_null addr),
     (''generalDirector'', or_null director), (''phone'', or_null ph), (''email'', or_null em)]"

definition new_org_body :: "org_form \<Rightarrow> jsval" where
  "new_org_body f = org_body (fName f) (fInn f) (fLegalAddress f) (fGeneralDirector f) (fPhone f) (fEmail f)"

definition card_body :: "org_card \<Rightarrow> jsval" where
  "card_body c = org_body (ocName c) (ocInn c) (ocLegalAddress c) (ocGeneralDirector c) (ocPhone c) (ocEmail c)"

definition goOrganizationsList :: "entity_page \<Rightarrow> entity_page" where
  "goOrganizationsList s = s\<lparr>ePage := paths_organizations, editOrganization := blank_card\<rparr>"

definition openOrganizationEdit :: "string \<Rightarrow> entity_page \<Rightarrow> entity_page" where
  "openOrganizationEdit i s = s\<lparr>eError := NoText, ePage := paths_organizationEdit i ''overview''\<rparr>"

definition createOrganization :: "entity_page \<Rightarrow> entity_page script" where
  "createOrganization s0 =
     (if js_trim (fName (newOrganization s0)) = [] then entity_error (Ui ''enter the name of the organization'')
      else Set (\<lambda>s. s\<lparr>eError := NoText\<rparr>)
        (try_ask (''POST'', ''/api/organizations'', new_org_body (newOrganization s0)) (\<lambda>e. entity_error (message e))
          (\<lambda>v. Set (\<lambda>s. s\<lparr>newOrganization := blank_org_form\<rparr>) (Refresh RefreshOrganizations
            (Set (\<lambda>s. s\<lparr>ePage := (case created_id v of Some i \<Rightarrow> paths_organizationEdit i ''overview'' | None \<Rightarrow> paths_organizations)\<rparr>) Stop)))))"

definition updateOrganization :: "entity_page \<Rightarrow> entity_page script" where
  "updateOrganization s0 =
     (let c = editOrganization s0 in
      if js_trim (ocName c) = [] then entity_error (Ui ''enter the name of the organization'')
      else if \<not> truthy (ocId c) then entity_error (Ui ''no organization is chosen'')
      else Set (\<lambda>s. s\<lparr>eError := NoText\<rparr>)
        (try_ask (''PATCH'', ''/api/organizations/'' @ to_str (ocId c), card_body c) (\<lambda>e. entity_error (message e))
          (\<lambda>_. Set goOrganizationsList (Kick RefreshOrganizations Stop))))"

subsection \<open>Properties\<close>

fun agent_step :: "jsval list option \<times> node_form \<Rightarrow> (jsval, node_form) draft_event \<Rightarrow> jsval list option \<times> node_form" where
  "agent_step s (Poll x) = agent_draft_effect x s"
| "agent_step s (Edit f) = (fst s, f (snd s))"

fun polls_key :: "jsval list \<Rightarrow> (jsval, node_form) draft_event \<Rightarrow> bool" where
  "polls_key k (Poll x) = (agent_key x = k)"
| "polls_key k (Edit f) = True"

lemma agent_run_kept: "fst s = Some k \<Longrightarrow> list_all (polls_key k) evs \<Longrightarrow> foldl agent_step s evs = (Some k, foldl edit_only (snd s) evs)"
proof (induction evs arbitrary: s)
  case (Cons v evs)
  then show ?case by (cases v; cases s) (auto simp: agent_draft_effect_def)
qed (simp add: prod_eq_iff)

text \<open>What is typed into the address of an agent survives polling as long as the polled server keeps its identifier, name, protocol,
  host and port, whatever else about it changes (its metrics do, with every poll); a poll that brings another of these five values
  replaces the whole form, the typed token included.\<close>

theorem agent_edits_survive_polls:
  assumes "fst s = Some k" and "list_all (polls_key k) evs" and "agent_key x \<noteq> k" and "x \<noteq> JNull"
  shows "snd (foldl agent_step s evs) = foldl edit_only (snd s) evs
    \<and> snd (foldl agent_step s (evs @ [Poll x])) = stored_agent x \<and> nAuthToken (snd (foldl agent_step s (evs @ [Poll x]))) = []"
  using agent_run_kept [OF assms(1,2)] assms(3,4) by (simp add: agent_draft_effect_def stored_agent_def)

theorem agent_edits_survive_polls_witness:
  "nAuthToken (snd (foldl agent_step (Some (agent_key (JObj [])), blank_node_form)
     [Edit (\<lambda>f. f\<lparr>nAuthToken := ''t''\<rparr>), Poll (JObj [(''cpuPercent'', JStr ''7'')])])) = ''t''"
proof -
  have k: "agent_key (JObj [(''cpuPercent'', JStr ''7'')]) = agent_key (JObj [])" by code_simp
  have "agent_key (JObj [(''name'', JStr ''b'')]) \<noteq> agent_key (JObj [])" by code_simp
  from agent_edits_survive_polls [where s = "(Some (agent_key (JObj [])), blank_node_form)"
      and evs = "[Edit (\<lambda>f. f\<lparr>nAuthToken := ''t''\<rparr>), Poll (JObj [(''cpuPercent'', JStr ''7'')])]", OF _ _ this] show ?thesis
    by (simp add: k)
qed

text \<open>The choices of the NAT dialog hold every interface and address known once and nothing blank: the trimmed names the agent
  reported and the device of the settings; the trimmed addresses without a colon and the host of the settings.\<close>

theorem nat_options_complete:
  "distinct (natOutInterfaceOptions lc dev detected) \<and> distinct (natToAddressOptions hostname_of lc local addrs)
   \<and> set (natOutInterfaceOptions lc dev detected) = insert (normalizeIfaceLikeOpenvpnDev dev) (js_trim ` set detected) - {[]}
   \<and> set (natToAddressOptions hostname_of lc local addrs)
     = insert (parseHostFromAddr hostname_of (if truthy local then local else JStr [])) {a \<in> js_trim ` set addrs. CHR '':'' \<notin> set a} - {[]}"
  by (auto simp: natOutInterfaceOptions_def natToAddressOptions_def)

text \<open>The form of a new organization: nothing is sent for a blank name; a refused request keeps what was typed and shows the message; an
  accepted one empties the form and opens the page of the new organization, at the address that leads back to it.\<close>

theorem organization_created:
  assumes "\<And>n t. newOrganization (env n t) = newOrganization t" and "\<And>n t. eError (env n t) = eError t"
  shows "case exec (createOrganization s) srv env n s of (s', acts) \<Rightarrow>
      if js_trim (fName (newOrganization s)) = [] then acts = [] \<and> shown (eError s') \<and> newOrganization s' = newOrganization s
      else case srv n (''POST'', ''/api/organizations'', new_org_body (newOrganization s)) of
          Inl e \<Rightarrow> eError s' = message e \<and> newOrganization s' = newOrganization s
        | Inr v \<Rightarrow> eError s' = NoText \<and> newOrganization s' = blank_org_form \<and> list_ex (\<lambda>a. a = Refreshed RefreshOrganizations) acts
            \<and> ePage s' = (case created_id v of Some i \<Rightarrow> paths_organizationEdit i ''overview'' | None \<Rightarrow> paths_organizations)"
  using assms by (simp add: createOrganization_def entity_error_def Let_def split: sum.split)

end
