(* ===== verification/Navigation.thy ===== *)
theory Navigation
  imports Routes Http
begin

section \<open>Navigation\<close>

text \<open>
  The bars of links around a page: the rail on the left and the sections of a server, an organization, a user, the logs and the
  settings. An entry is a label, the address it goes to and whether it is drawn as the current one.
\<close>

subsection \<open>The bars\<close>

record nav_entry =
  n_label :: uitext
  n_href :: string
  n_active :: bool

definition entry_of :: "string \<Rightarrow> string \<Rightarrow> bool \<Rightarrow> nav_entry" where
  "entry_of label href active = \<lparr>n_label = Ui label, n_href = href, n_active = active\<rparr>"

definition sidebarRailClass :: "bool \<Rightarrow> string" where
  "sidebarRailClass active = (if active then ''sidebar-rail-btn is-active'' else ''sidebar-rail-btn'')"

definition rail_nav :: "route \<Rightarrow> nav_entry list" where
  "rail_nav r = map (\<lambda>(label, href, nav). entry_of label href (primaryNav r = nav))
     [(''Servers'', paths_servers, ''servers''), (''Organizations'', paths_organizations, ''organizations''),
      (''Users'', paths_users, ''users''), (''Tasks'', paths_tasks, ''tasks''), (''Journal'', paths_logs ''vpn-ip'', ''logs''),
      (''Settings'', paths_settings, ''settings''), (''Documentation'', paths_documentation ''intro'', ''documentation'')]"

text \<open>A bar of tabs: label, tab the entry goes to, and the tabs it is current for.\<close>

definition tab_nav :: "(string \<Rightarrow> string) \<Rightarrow> string \<Rightarrow> (string \<times> string \<times> string list) list \<Rightarrow> nav_entry list" where
  "tab_nav href tab es = map (\<lambda>(label, target, for_tabs). entry_of label (href target) (tab \<in> set for_tabs)) es"

definition server_nav :: "string \<Rightarrow> string \<Rightarrow> nav_entry list" where
  "server_nav serverId tab = tab_nav (paths_serverDetail serverId) tab
     [(''Overview'', ''overview'', [''overview'']), (''Active sessions'', ''sessions'', [''sessions'']),
      (''Monitoring'', ''monitoring'', [''monitoring'']), (''Agent'', ''agent'', [''agent'']),
      (''Certificates and keys'', ''certificates'', [''certificates'', ''keys'']),
      (''Certification centre'', ''ca-center'', [''ca-center'']), (''OpenVPN service'', ''settings'', [''settings'']),
      (''DNS service'', ''dns'', [''dns'']), (''Firewall'', ''firewall'', [''firewall'']), (''Journal'', ''journal'', [''journal''])]"

definition organization_nav :: "string \<Rightarrow> string \<Rightarrow> nav_entry list" where
  "organization_nav orgId tab = tab_nav (paths_organizationEdit orgId) tab
     [(''Organization'', ''overview'', [''overview'']), (''Firewall'', ''firewall'', [''firewall''])]"

definition user_nav :: "string \<Rightarrow> string \<Rightarrow> nav_entry list" where
  "user_nav userId tab = tab_nav (paths_userProfile userId) tab
     [(''Profile'', ''overview'', [''overview'']), (''Certificates'', ''certs'', [''certs'']), (''Sessions'', ''sessions'', [''sessions'']),
      (''OpenVPN settings'', ''ccd'', [''ccd'', ''vpn'']), (''Firewall'', ''firewall'', [''firewall''])]"

definition logs_nav :: "string \<Rightarrow> nav_entry list" where
  "logs_nav view = tab_nav paths_logs view
     [(''VPN addresses'', ''vpn-ip'', [''vpn-ip'']), (''Source addresses'', ''source-ip'', [''source-ip'']),
      (''Actions of administrators'', ''admin'', [''admin''])]"

text \<open>The entry of the administrators is not current while the dialog of a new one is open.\<close>

definition settings_nav :: "bool \<Rightarrow> string \<Rightarrow> string \<Rightarrow> nav_entry list" where
  "settings_nav addAdminModalOpen sec view =
     [entry_of ''Administrators'' paths_settings (sec = ''admins'' \<and> (view = ''list'' \<or> view = ''detail'') \<and> \<not> addAdminModalOpen),
      entry_of ''Backup'' paths_settingsBackup (sec = ''backup''), entry_of ''Restoring'' paths_settingsRestore (sec = ''restore'')]"

text \<open>The bar of the page of a route; pages that are a list, a form or a text have none.\<close>

definition page_nav :: "bool \<Rightarrow> route \<Rightarrow> nav_entry list" where
  "page_nav addAdminModalOpen r =
     (let nav = primaryNav r in
      if nav = ''servers'' \<and> serversView r = ''detail'' then server_nav (selectedServerId r) (serverDetailTab r)
      else if nav = ''organizations'' \<and> organizationsView r = ''edit'' then organization_nav (organizationEditId r) (organizationEditTab r)
      else if nav = ''users'' \<and> usersSub r = ''profile'' then user_nav (selectedUserId r) (userProfileTab r)
      else if nav = ''logs'' then logs_nav (logsView r)
      else if nav = ''settings'' then settings_nav addAdminModalOpen (settingsSection r) (adminsPage r)
      else [])"

subsection \<open>Properties\<close>

text \<open>
  What following an entry of a bar must do: its address parses, to a page with the same bar, on which this entry and no other is
  current.
\<close>

definition follows :: "(route \<Rightarrow> nav_entry list) \<Rightarrow> route \<Rightarrow> nav_entry \<Rightarrow> bool" where
  "follows bar r e = (case parse_href (n_href e) of
       Inl err \<Rightarrow> False
     | Inr t \<Rightarrow> map n_href (bar t) = map n_href (bar r) \<and> filter n_active (bar t) = [e\<lparr>n_active := True\<rparr>])"

lemma static_pages_parse:
  "parse_href paths_servers = Inr (base_route\<lparr>primaryNav := ''servers''\<rparr>)"
  "parse_href paths_organizations = Inr (base_route\<lparr>primaryNav := ''organizations''\<rparr>)"
  "parse_href paths_users = Inr (base_route\<lparr>primaryNav := ''users''\<rparr>)"
  "parse_href paths_tasks = Inr (base_route\<lparr>primaryNav := ''tasks''\<rparr>)"
  "parse_href paths_settings = Inr (base_route\<lparr>primaryNav := ''settings''\<rparr>)"
  "parse_href paths_settingsBackup = Inr (base_route\<lparr>primaryNav := ''settings'', settingsSection := ''backup''\<rparr>)"
  "parse_href paths_settingsRestore = Inr (base_route\<lparr>primaryNav := ''settings'', settingsSection := ''restore''\<rparr>)"
  "parse_href (paths_documentation ''intro'') = Inr (base_route\<lparr>primaryNav := ''documentation''\<rparr>)"
  "parse_href (paths_logs ''vpn-ip'') = Inr (base_route\<lparr>primaryNav := ''logs'', logsView := ''vpn-ip''\<rparr>)"
  "parse_href (paths_logs ''source-ip'') = Inr (base_route\<lparr>primaryNav := ''logs'', logsView := ''source-ip''\<rparr>)"
  "parse_href (paths_logs ''admin'') = Inr (base_route\<lparr>primaryNav := ''logs'', logsView := ''admin''\<rparr>)"
  by code_simp+

lemma tabs_of_bars:
  "{''overview'', ''sessions'', ''monitoring'', ''agent'', ''certificates'', ''ca-center'', ''settings'', ''dns'', ''firewall'', ''journal''}
     \<subseteq> set SERVER_TABS"
  "{''overview'', ''firewall''} \<subseteq> set ORGANIZATION_TABS"
  "{''overview'', ''certs'', ''sessions'', ''ccd'', ''firewall''} \<subseteq> set USER_TABS"
  by (simp_all add: tab_sets)

lemmas bar_defs = page_nav_def tab_nav_def entry_of_def base_route_def Let_def

lemma rail_follows: "list_all (follows rail_nav r) (rail_nav r)"
  by (simp add: rail_nav_def follows_def static_pages_parse entry_of_def base_route_def)

lemma server_bar_follows:
  assumes "primaryNav r = ''servers''" and "serversView r = ''detail''" and "selectedServerId r \<noteq> []" and "selectedServerId r \<noteq> ''new''"
  shows "list_all (follows (page_nav False) r) (server_nav (selectedServerId r) tab)"
  using server_detail_parses [OF assms(3,4)] tabs_of_bars(1) assms(1,2)
  by (simp add: server_nav_def follows_def bar_defs)

lemma organization_bar_follows:
  assumes "primaryNav r = ''organizations''" and "organizationsView r = ''edit''" and "organizationEditId r \<noteq> []" and "organizationEditId r \<noteq> ''new''"
  shows "list_all (follows (page_nav False) r) (organization_nav (organizationEditId r) tab)"
  using organization_edit_parses [OF assms(3,4)] tabs_of_bars(2) assms(1,2)
  by (simp add: organization_nav_def follows_def bar_defs)

lemma user_bar_follows:
  assumes "primaryNav r = ''users''" and "usersSub r = ''profile''" and "selectedUserId r \<noteq> []" and "selectedUserId r \<noteq> ''new''"
  shows "list_all (follows (page_nav False) r) (user_nav (selectedUserId r) tab)"
  using user_profile_parses [OF assms(3,4)] tabs_of_bars(3) assms(1,2)
  by (simp add: user_nav_def follows_def bar_defs)

lemma logs_bar_follows: "primaryNav r = ''logs'' \<Longrightarrow> list_all (follows (page_nav False) r) (logs_nav view)"
  by (simp add: logs_nav_def follows_def static_pages_parse bar_defs)

lemma settings_bar_follows: "primaryNav r = ''settings'' \<Longrightarrow> list_all (follows (page_nav False) r) (settings_nav dlg sec view)"
  by (simp add: settings_nav_def follows_def static_pages_parse bar_defs)

text \<open>C16: 
  Every entry of the bars leads to the page it is current on: its address parses, the page has the same bar, for the same server,
  organization or user, and exactly this entry is marked there.
\<close>

theorem navigation_marks_its_page:
  assumes "primaryNav r = ''servers'' \<Longrightarrow> serversView r = ''detail'' \<Longrightarrow> selectedServerId r \<noteq> [] \<and> selectedServerId r \<noteq> ''new''"
    and "primaryNav r = ''organizations'' \<Longrightarrow> organizationsView r = ''edit'' \<Longrightarrow> organizationEditId r \<noteq> [] \<and> organizationEditId r \<noteq> ''new''"
    and "primaryNav r = ''users'' \<Longrightarrow> usersSub r = ''profile'' \<Longrightarrow> selectedUserId r \<noteq> [] \<and> selectedUserId r \<noteq> ''new''"
  shows "list_all (follows rail_nav r) (rail_nav r) \<and> list_all (follows (page_nav False) r) (page_nav dlg r)"
  using rail_follows assms server_bar_follows [of r "serverDetailTab r"] organization_bar_follows [of r "organizationEditTab r"]
    user_bar_follows [of r "userProfileTab r"] logs_bar_follows [of r "logsView r"] settings_bar_follows [of r dlg "settingsSection r" "adminsPage r"]
  unfolding page_nav_def [of dlg r] Let_def by auto

theorem navigation_marks_its_page_witness:
  "list_all (follows rail_nav (base_route\<lparr>serversView := ''detail'', selectedServerId := ''a/b'', serverDetailTab := ''services''\<rparr>))
     (rail_nav (base_route\<lparr>serversView := ''detail'', selectedServerId := ''a/b'', serverDetailTab := ''services''\<rparr>))
   \<and> list_all (follows (page_nav False) (base_route\<lparr>serversView := ''detail'', selectedServerId := ''a/b'', serverDetailTab := ''services''\<rparr>))
     (page_nav True (base_route\<lparr>serversView := ''detail'', selectedServerId := ''a/b'', serverDetailTab := ''services''\<rparr>))"
  by (rule navigation_marks_its_page) (simp_all add: base_route_def)

end
