(* ===== verification/Page_Shell.thy ===== *)
theory Page_Shell
  imports Navigation Time_Format Entities
begin

section \<open>The frame of the pages\<close>

text \<open>
  What surrounds the pages: breadcrumbs, title, main action and filters of a route, the sections and navigation of a server,
  the page numbers of the tables and what resets them, and the searches of the logs. Texts are the literals of the
  interface in English, as everywhere.
\<close>

subsection \<open>Breadcrumbs and titles\<close>

text \<open>What a breadcrumb does: nothing, go to an address, or go to a list and reset its form or filter.\<close>

datatype crumb_link = NoLink | Goto string | GoOrganizations | GoUsers

record shell =
  crumbs :: "(uitext \<times> crumb_link) list"
  pageTitle :: uitext
  primaryAction :: "(uitext \<times> string) option"
  showServerFilter :: bool
  showUserListFilter :: bool

text \<open>What the frame reads besides the route: the server, the selected certificate of its centre, the name of the organization in its form, the
  user and the administrator, \<open>JNull\<close> where there is none.\<close>

record shell_data =
  sdServer :: jsval
  sdCenterCert :: jsval
  sdOrgName :: string
  sdUser :: jsval
  sdAdmin :: jsval

text \<open>\<^verbatim>\<open>v?.k || d\<close> as a text\<close>

definition prop_or :: "jsval \<Rightarrow> string \<Rightarrow> uitext \<Rightarrow> uitext" where
  "prop_or v k d = error_text (jprop v k) d"

definition home_crumb :: "uitext \<times> crumb_link" where
  "home_crumb = (Ui ''OVPN Control'', Goto paths_home)"

definition blank_shell :: shell where
  "blank_shell = \<lparr>crumbs = [home_crumb], pageTitle = NoText, primaryAction = None, showServerFilter = False, showUserListFilter = False\<rparr>"

definition page_shell :: "(uitext \<times> crumb_link) list \<Rightarrow> uitext \<Rightarrow> shell" where
  "page_shell cs t = blank_shell\<lparr>crumbs := home_crumb # cs, pageTitle := t\<rparr>"

definition servers_shell :: "route \<Rightarrow> shell_data \<Rightarrow> shell" where
  "servers_shell r d =
     (let name = prop_or (sdServer d) ''name'' (Ui ''Server''); here = (\<lambda>tab. Goto (paths_serverDetail (selectedServerId r) tab));
          back = (Ui ''Servers'', Goto paths_servers)
      in if serversView r = ''list'' then (page_shell [(Ui ''Servers'', NoLink)] (Ui ''VPN servers''))
           \<lparr>showServerFilter := True, primaryAction := Some (Ui ''New server'', paths_serverNew)\<rparr>
         else if serversView r = ''detail'' then page_shell
           ([back, (name, here ''overview'')]
            @ (if serverDetailTab r = ''ca-center''
               then (Ui ''Certification centre'', here ''ca-center'')
                 # (if sdCenterCert d \<noteq> JNull then [(prop_or (sdCenterCert d) ''commonName'' (Ui ''Certificate''), NoLink)] else [])
               else [])) name
         else if serversView r = ''add'' then page_shell [back, (Ui ''New server'', NoLink)] (Ui ''New server'')
         else blank_shell)"

definition organizations_shell :: "route \<Rightarrow> shell_data \<Rightarrow> shell" where
  "organizations_shell r d =
     (let name = (if js_trim (sdOrgName d) \<noteq> [] then Raw (js_trim (sdOrgName d)) else Ui ''Editing''); back = (Ui ''Organizations'', GoOrganizations)
      in if organizationsView r = ''list'' then (page_shell [(Ui ''Organizations'', NoLink)] (Ui ''Organizations''))
           \<lparr>primaryAction := Some (Ui ''Add an organization'', paths_organizationNew)\<rparr>
         else if organizationsView r = ''add'' then page_shell [back, (Ui ''New organization'', NoLink)] (Ui ''New organization'')
         else if organizationsView r = ''edit'' then page_shell
           [back, (name, Goto (paths_organizationEdit (organizationEditId r) ''overview''))]
           (Cat (Ui (if organizationEditTab r = ''firewall'' then ''Firewall:'' else ''Editing:'')) name)
         else blank_shell)"

definition users_shell :: "route \<Rightarrow> shell_data \<Rightarrow> shell" where
  "users_shell r d =
     (let back = (Ui ''Users'', GoUsers) in
      if usersSub r = ''list'' then (page_shell [back] (Ui ''Users''))
        \<lparr>showUserListFilter := True, primaryAction := Some (Ui ''Add a user'', paths_userNew)\<rparr>
      else if usersSub r = ''add'' then page_shell [back, (Ui ''New user'', NoLink)] (Ui ''New user'')
      else if usersSub r = ''profile'' then page_shell [back, (prop_or (sdUser d) ''fullName'' (Ui ''Profile''), NoLink)]
        (if sdUser d \<noteq> JNull then Cat (Ui ''Profile:'') (Raw (to_str (jprop (sdUser d) ''fullName''))) else Ui ''Profile'')
      else page_shell [back] NoText)"

definition settings_shell :: "route \<Rightarrow> shell_data \<Rightarrow> shell" where
  "settings_shell r d =
     (let back = (Ui ''Settings'', Goto paths_settings); uname = prop_or (sdAdmin d) ''username'' (Ui ''-'') in
      if settingsSection r = ''backup'' then page_shell [back, (Ui ''Backup'', NoLink)] (Ui ''Backup'')
      else if settingsSection r = ''restore'' then page_shell [back, (Ui ''Restoring'', NoLink)] (Ui ''Restoring'')
      else if adminsPage r = ''detail'' \<and> selectedAdminId r \<noteq> []
        then page_shell [back, (Ui ''Administrators'', Goto paths_settings), (uname, NoLink)] (Cat (Ui ''Administrator:'') uname)
      else page_shell [back, (Ui ''Administrators'', NoLink)] (Ui ''Administrators''))"

definition logs_label :: "string \<Rightarrow> uitext" where
  "logs_label v = (if v = ''vpn-ip'' then Ui ''VPN addresses'' else if v = ''source-ip'' then Ui ''Source addresses''
     else if v = ''admin'' then Ui ''Actions of administrators'' else Ui ''Journal'')"

definition shell_of :: "route \<Rightarrow> shell_data \<Rightarrow> shell" where
  "shell_of r d =
     (let nav = primaryNav r in
      if nav = ''servers'' then servers_shell r d
      else if nav = ''organizations'' then organizations_shell r d
      else if nav = ''users'' then users_shell r d
      else if nav = ''myProfile'' then page_shell [(Ui ''My profile'', NoLink)] (Ui ''Profile of the administrator'')
      else if nav = ''settings'' then settings_shell r d
      else if nav = ''logs'' then page_shell [(Ui ''Journal'', Goto (paths_logs ''vpn-ip'')), (logs_label (logsView r), NoLink)] (logs_label (logsView r))
      else if nav = ''tasks'' then page_shell [(Ui ''Tasks'', NoLink)] (Ui ''Tasks'')
      else if nav = ''documentation'' then page_shell [(Ui ''Documentation'', NoLink)] (Ui ''Documentation'')
      else blank_shell)"

text \<open>A breadcrumb is a link when it does something and is not the last one.\<close>

definition shown_links :: "shell \<Rightarrow> (uitext \<times> crumb_link) list" where
  "shown_links s = filter (\<lambda>c. snd c \<noteq> NoLink) (butlast (crumbs s))"

definition hideMainPageChrome :: "route \<Rightarrow> bool" where
  "hideMainPageChrome r =
     (primaryNav r = ''users'' \<and> usersSub r = ''profile'' \<or> primaryNav r = ''organizations'' \<and> organizationsView r = ''edit''
      \<or> primaryNav r = ''servers'' \<and> serversView r = ''detail'' \<or> primaryNav r = ''logs'' \<or> primaryNav r = ''myProfile''
      \<or> primaryNav r = ''settings'' \<or> primaryNav r = ''documentation'')"

definition organizationEditMissing :: "route \<Rightarrow> jsval list \<Rightarrow> bool" where
  "organizationEditMissing r orgs =
     (primaryNav r = ''organizations'' \<and> organizationsView r = ''edit'' \<and> organizationEditId r \<noteq> [] \<and> orgs \<noteq> []
      \<and> \<not> list_ex (\<lambda>x. jprop x ''id'' = JStr (organizationEditId r)) orgs)"

subsection \<open>The page of a server\<close>

text \<open>
  The section of the page for a tab: one \<^verbatim>\<open>serverDetailTab === "..." && ...\<close> after the other, at the lines 7349, 7439, 7450, 7556, 7954, 8318, 8524,
  8752, 9127, 9222 and 9377 of \<^verbatim>\<open>App.tsx\<close>.
\<close>

definition server_section :: "string \<Rightarrow> string option" where
  "server_section tab =
     (if tab = ''keys'' then Some ''certificates''
      else if tab \<in> {''overview'', ''agent'', ''monitoring'', ''sessions'', ''certificates'', ''ca-center'', ''settings'', ''client'', ''firewall'', ''dns'', ''journal''}
      then Some tab else None)"

subsection \<open>Page numbers\<close>

text \<open>The tables that go back to their first page after a change of the named value, and when a list is opened.\<close>

type_synonym table_pages = "string \<Rightarrow> int"

definition resets_of :: "string \<Rightarrow> string list" where
  "resets_of dep =
     (if dep = ''serverSessionsSearch'' then [''serverSessions''] else if dep = ''serverNameFilter'' then [''servers'']
      else if dep = ''userListFilter'' then [''users''] else if dep = ''selectedServerId'' then [''serverSessions'', ''serverCerts'', ''serverCaSigned'']
      else if dep = ''selectedUserId'' then [''userConnections'', ''userCerts''] else if dep = ''selectedRootCaId'' then [''caSigned'']
      else if dep = ''caSignedListFilter'' then [''caSigned''] else if dep = ''serverCaSignedFilter'' then [''serverCaSigned'']
      else if dep = ''certSummaryTargetId'' then [''certSessions'', ''certIp'', ''certSrc'']
      else if dep = ''logsVpnSearch'' then [''logsVpn''] else if dep = ''logsSrcSearch'' then [''logsSrc'']
      else if dep = ''logsAdminSearch'' then [''logsAdmin''] else [])"

definition list_resets :: "route \<Rightarrow> string list" where
  "list_resets r =
     (if primaryNav r = ''servers'' \<and> serversView r = ''list'' then [''servers'']
      else if primaryNav r = ''organizations'' \<and> organizationsView r = ''list'' then [''organizations'']
      else if primaryNav r = ''users'' \<and> usersSub r = ''list'' then [''users'']
      else if primaryNav r = ''settings'' \<and> adminsPage r = ''list'' then [''admins'']
      else if primaryNav r = ''logs'' then [''logsVpn'', ''logsSrc'', ''logsAdmin''] else [])"

definition reset_pages :: "string list \<Rightarrow> table_pages \<Rightarrow> table_pages" where
  "reset_pages ks p = (\<lambda>k. if k \<in> set ks then 1 else p k)"

definition go_page :: "string \<Rightarrow> int \<Rightarrow> table_pages \<Rightarrow> table_pages" where
  "go_page k n p = p(k := n)"

subsection \<open>Searching the logs\<close>

text \<open>
  \<open>local_date\<close> is \<^verbatim>\<open>toLocaleString\<close> of a readable date; \<open>words\<close> are the words of a duration.
\<close>

definition log_match :: "string \<Rightarrow> string list \<Rightarrow> bool" where
  "log_match q parts = list_ex (\<lambda>t. js_includes (js_lower t) q) parts"

definition row_texts :: "string list \<Rightarrow> jsval \<Rightarrow> string list" where
  "row_texts ks item = map (\<lambda>k. str_or (jprop item k)) ks"

definition vpn_parts ::
  "(jsval \<Rightarrow> string option) \<Rightarrow> ((int \<times> time_unit) list option \<Rightarrow> string) \<Rightarrow> (jsval \<Rightarrow> int option) \<Rightarrow> int \<Rightarrow> jsval \<Rightarrow> string list" where
  "vpn_parts local_date words time_of now item =
     row_texts [''commonName'', ''virtualIp''] item @ [remoteAddrHostOnlyDisplay (jprop item ''realIp'')]
     @ row_texts [''connectedAt'', ''vpnUserFullName'', ''vpnUserEmail'', ''vpnUserId''] item @ row_texts [''name''] (jprop item ''agentNode'')
     @ map (\<lambda>k. formatMaybeDate local_date (jprop item k)) [''firstSeenAt'', ''lastSeenAt'']
     @ [words (formatDurationSeconds (clientIpAssignmentDurationSeconds time_of now item))]"

definition src_parts ::
  "(jsval \<Rightarrow> string option) \<Rightarrow> ((int \<times> time_unit) list option \<Rightarrow> string) \<Rightarrow> (jsval \<Rightarrow> int option) \<Rightarrow> int \<Rightarrow> jsval \<Rightarrow> string list" where
  "src_parts local_date words time_of now item =
     row_texts [''commonName''] item @ [remoteAddrHostOnlyDisplay (jprop item ''realIp'')]
     @ row_texts [''connectedAt'', ''vpnUserFullName'', ''vpnUserEmail'', ''vpnUserId''] item @ row_texts [''name''] (jprop item ''agentNode'')
     @ map (\<lambda>k. formatMaybeDate local_date (jprop item k)) [''firstSeenAt'', ''lastSeenAt'', ''endedAt'']
     @ [words (formatDurationSeconds (clientSourceHistoryDurationSeconds time_of now item))]"

definition admin_parts :: "(jsval \<Rightarrow> string option) \<Rightarrow> jsval \<Rightarrow> string list" where
  "admin_parts local_date item =
     row_texts [''adminUsername''] item @ row_texts [''username''] (jprop item ''admin'')
     @ row_texts [''action'', ''method'', ''path'', ''ipAddress'', ''targetType'', ''targetId''] item @ [str_nullish (jprop item ''statusCode'')]
     @ [formatMaybeDate local_date (jprop item ''createdAt'')]"

definition search_rows :: "(jsval \<Rightarrow> string list) \<Rightarrow> string \<Rightarrow> jsval list \<Rightarrow> jsval list" where
  "search_rows parts query xs = (let q = js_lower (js_trim query) in if q = [] then xs else filter (\<lambda>x. log_match q (parts x)) xs)"

definition logsVpnFiltered where
  "logsVpnFiltered local_date words time_of lc now query xs =
     sortRowsByLastSeenDesc time_of lc (search_rows (vpn_parts local_date words time_of now) query xs)"

definition logsSrcFiltered where
  "logsSrcFiltered local_date words time_of lc now query xs =
     sortRowsByLastSeenDesc time_of lc (search_rows (src_parts local_date words time_of now) query xs)"

definition logsAdminFiltered where
  "logsAdminFiltered local_date time_of lc query xs = sortRowsByCreatedDesc time_of lc (search_rows (admin_parts local_date) query xs)"

definition num_ge :: "jsnum \<Rightarrow> int \<Rightarrow> bool" where
  "num_ge x k = (case x of Infinity \<Rightarrow> True | Dec m e \<Rightarrow> (if 0 \<le> e then m * 10 ^ nat e \<ge> k else m \<ge> k * 10 ^ nat (- e)) | _ \<Rightarrow> False)"

definition adminLogStatusClass :: "jsval \<Rightarrow> string" where
  "adminLogStatusClass statusCode =
     (let n = to_num statusCode; cls = (\<lambda>t. ''admin-log-status admin-log-status--'' @ t); between = (\<lambda>a b. num_ge n a \<and> \<not> num_ge n b) in
      if \<not> js_finite n then cls ''other''
      else if between 200 300 then cls ''2xx'' else if between 300 400 then cls ''3xx'' else if between 400 500 then cls ''4xx''
      else if num_ge n 500 then cls ''5xx'' else cls ''other'')"

subsection \<open>Properties\<close>

text \<open>What a breadcrumb of the page of a route must lead to: for a link to an address, a page of the same part of the panel (the first
  breadcrumb leads home), and of the same server or organization where it is the page of one.\<close>

definition crumb_ok :: "route \<Rightarrow> uitext \<times> crumb_link \<Rightarrow> bool" where
  "crumb_ok r c = (case snd c of
       Goto h \<Rightarrow> (case parse_href h of
           Inl e \<Rightarrow> False
         | Inr t \<Rightarrow> (h = paths_home \<or> primaryNav t = primaryNav r)
             \<and> (if serversView t = ''detail'' then selectedServerId t = selectedServerId r else True)
             \<and> (if organizationsView t = ''edit'' then organizationEditId t = organizationEditId r else True))
     | _ \<Rightarrow> True)"

lemma list_pages_parse:
  "parse_href paths_home = Inr (base_route\<lparr>primaryNav := ''servers''\<rparr>)"
  "parse_href paths_servers = Inr (base_route\<lparr>primaryNav := ''servers''\<rparr>)"
  "parse_href paths_settings = Inr (base_route\<lparr>primaryNav := ''settings''\<rparr>)"
  "parse_href (paths_logs ''vpn-ip'') = Inr (base_route\<lparr>primaryNav := ''logs''\<rparr>)"
  by code_simp+

lemma crumb_not_address [simp]: "crumb_ok r (t, NoLink)" "crumb_ok r (t, GoOrganizations)" "crumb_ok r (t, GoUsers)"
  by (simp_all add: crumb_ok_def)

lemma crumb_address: "crumb_ok r (t, Goto paths_home)" "primaryNav r = ''servers'' \<Longrightarrow> crumb_ok r (t, Goto paths_servers)"
  "primaryNav r = ''settings'' \<Longrightarrow> crumb_ok r (t, Goto paths_settings)" "primaryNav r = ''logs'' \<Longrightarrow> crumb_ok r (t, Goto (paths_logs ''vpn-ip''))"
  by (simp_all add: crumb_ok_def list_pages_parse) (simp_all add: base_route_def)

lemma crumb_server:
  assumes "primaryNav r = ''servers''" and "selectedServerId r \<noteq> []" and "selectedServerId r \<noteq> ''new''" and "tab \<in> set SERVER_TABS"
  shows "crumb_ok r (t, Goto (paths_serverDetail (selectedServerId r) tab))"
  using server_detail_parses [OF assms(2-4)] assms(1) by (simp add: crumb_ok_def) (simp add: base_route_def)

lemma crumb_organization:
  assumes "primaryNav r = ''organizations''" and "organizationEditId r \<noteq> []" and "organizationEditId r \<noteq> ''new''"
  shows "crumb_ok r (t, Goto (paths_organizationEdit (organizationEditId r) ''overview''))"
  using organization_edit_parses [OF assms(2,3), of "''overview''"] assms(1) default_tabs by (simp add: crumb_ok_def) (simp add: base_route_def)

lemma centre_tab: "''ca-center'' \<in> set SERVER_TABS"
  by (simp add: SERVER_TABS_def)

text \<open>Every breadcrumb of every page leads where it says: its address parses, to a page of the same part of the panel, and to the same
  server or organization, for any identifier but the reserved word \<^verbatim>\<open>new\<close>.\<close>

theorem breadcrumbs_lead_back:
  assumes "primaryNav r = ''servers'' \<Longrightarrow> serversView r = ''detail'' \<Longrightarrow> selectedServerId r \<noteq> [] \<and> selectedServerId r \<noteq> ''new''"
    and "primaryNav r = ''organizations'' \<Longrightarrow> organizationsView r = ''edit'' \<Longrightarrow> organizationEditId r \<noteq> [] \<and> organizationEditId r \<noteq> ''new''"
  shows "list_all (crumb_ok r) (crumbs (shell_of r d))"
proof -
  have s: "list_all (crumb_ok r) (crumbs (servers_shell r d))" if "primaryNav r = ''servers''"
    using assms(1) [OF that] crumb_server [OF that] default_tabs(1) centre_tab crumb_address(1) crumb_address(2) [OF that]
    by (simp add: servers_shell_def page_shell_def blank_shell_def home_crumb_def Let_def)
  have o: "list_all (crumb_ok r) (crumbs (organizations_shell r d))" if "primaryNav r = ''organizations''"
    using assms(2) [OF that] crumb_organization [OF that] crumb_address(1)
    by (simp add: organizations_shell_def page_shell_def blank_shell_def home_crumb_def Let_def)
  show ?thesis
    using s o crumb_address by (simp add: shell_of_def users_shell_def settings_shell_def page_shell_def blank_shell_def home_crumb_def Let_def)
qed

definition no_shell_data :: shell_data where
  "no_shell_data = \<lparr>sdServer = JNull, sdCenterCert = JNull, sdOrgName = [], sdUser = JNull, sdAdmin = JNull\<rparr>"

theorem breadcrumbs_lead_back_witness:
  "list_all (crumb_ok (base_route\<lparr>serversView := ''detail'', selectedServerId := ''a/b'', serverDetailTab := ''ca-center''\<rparr>))
     (crumbs (shell_of (base_route\<lparr>serversView := ''detail'', selectedServerId := ''a/b'', serverDetailTab := ''ca-center''\<rparr>) no_shell_data))"
  by (rule breadcrumbs_lead_back) (simp_all add: base_route_def)

text \<open>The page a new server opens is blank: after the node was created the panel goes to its tab \<^verbatim>\<open>service\<close>, an address that parses to the
  page of that server, but no section of the page is for this tab and no entry of the navigation is marked.\<close>

theorem new_server_opens_blank_page:
  assumes "srv n (node_call (newNode s)) = Inr v" and "created_id v = Some i" and "i \<noteq> []" and "i \<noteq> ''new''"
  shows "case parse_href (ePage (fst (exec (createNode s) srv env n s))) of
       Inr r \<Rightarrow> primaryNav r = ''servers'' \<and> serversView r = ''detail'' \<and> selectedServerId r = i
         \<and> server_section (serverDetailTab r) = None \<and> filter n_active (server_nav i (serverDetailTab r)) = []
     | Inl e \<Rightarrow> False"
proof -
  have "''service'' \<in> set SERVER_TABS" by (simp add: SERVER_TABS_def)
  from server_detail_parses [OF assms(3,4) this] show ?thesis
    using assms(1,2) by (simp add: createNode_def Let_def server_section_def server_nav_def tab_nav_def entry_of_def)
qed

definition blank_entities :: entity_page where
  "blank_entities = \<lparr>eToken = ''tok'', eError = NoText, ePage = paths_serverNew, newNode = blank_node_form, serverAgentDraft = blank_node_form,
     newOrganization = blank_org_form, editOrganization = blank_card\<rparr>"

theorem new_server_opens_blank_page_witness:
  "case parse_href (ePage (fst (exec (createNode blank_entities) (\<lambda>_ _. Inr (JObj [(''id'', JStr ''n7'')])) (\<lambda>_ t. t) 0 blank_entities))) of
       Inr r \<Rightarrow> primaryNav r = ''servers'' \<and> serversView r = ''detail'' \<and> selectedServerId r = ''n7''
         \<and> server_section (serverDetailTab r) = None \<and> filter n_active (server_nav ''n7'' (serverDetailTab r)) = []
     | Inl e \<Rightarrow> False"
  by (rule new_server_opens_blank_page [OF refl]) (simp_all add: created_id_def jprop_def obj_get_def)

text \<open>The tabs of a server without a section are exactly \<^verbatim>\<open>service\<close> and \<^verbatim>\<open>services\<close>; every other tab an address can have shows its own section,
  and exactly these tabs have an entry in the navigation.\<close>

theorem tabs_with_sections:
  "list_all (\<lambda>tab. (server_section tab = None) = (tab = ''service'' \<or> tab = ''services'') 
     \<and> (filter n_active (server_nav i tab) = []) = (server_section tab = None)) SERVER_TABS"
  by (simp add: SERVER_TABS_def server_section_def server_nav_def tab_nav_def entry_of_def)

text \<open>A new search shows its first results: after the value a table depends on has changed, the table shows the first rows of
  whatever the new search finds, and the pages of all other tables are kept.\<close>

theorem search_shows_first_rows:
  "list_all (\<lambda>k. slice (sliceTablePage xs (reset_pages (resets_of dep) p k)) = take 25 xs) (resets_of dep)
   \<and> reset_pages (resets_of dep) p k = (if k \<in> set (resets_of dep) then 1 else p k)"
  by (simp add: list_all_iff reset_pages_def sliceTablePage_def TABLE_PAGE_SIZE_def Let_def)

text \<open>Searching the logs finds exactly the rows with a text that holds what was typed, without the blanks around it and whatever its
  case; every such row once for every time it is in the log, and all rows for a blank search.\<close>

theorem log_search_complete:
  "mset (logsVpnFiltered local_date words time_of lc now query xs)
     = filter_mset (\<lambda>x. js_trim query = [] \<or> log_match (js_lower (js_trim query)) (vpn_parts local_date words time_of now x)) (mset xs)
   \<and> mset (logsSrcFiltered local_date words time_of lc now query xs)
     = filter_mset (\<lambda>x. js_trim query = [] \<or> log_match (js_lower (js_trim query)) (src_parts local_date words time_of now x)) (mset xs)
   \<and> mset (logsAdminFiltered local_date time_of lc query xs)
     = filter_mset (\<lambda>x. js_trim query = [] \<or> log_match (js_lower (js_trim query)) (admin_parts local_date x)) (mset xs)"
proof -
  have "js_lower t = [] \<longleftrightarrow> t = []" for t by (simp add: js_lower_def)
  then have "mset (search_rows f query xs) = filter_mset (\<lambda>x. js_trim query = [] \<or> log_match (js_lower (js_trim query)) (f x)) (mset xs)" for f
    by (cases "js_trim query = []") (simp_all add: search_rows_def Let_def)
  then show ?thesis
    by (simp add: logsVpnFiltered_def logsSrcFiltered_def logsAdminFiltered_def sortRowsByLastSeenDesc_def sortRowsByCreatedDesc_def)
qed

end
