(* ===== verification/Cert_Materials.thy ===== *)
theory Cert_Materials
  imports Certificates Vpn_Sessions Base64
begin

section \<open>Key material of certificates\<close>

text \<open>
  The selections of the certificate pages, the summaries of roots and certificates that are loaded from the panel, and the handlers
  that show, download and add key material. A downloaded file is its name and its bytes; \<open>lc\<close> stands for \<^verbatim>\<open>localeCompare\<close>.
\<close>

subsection \<open>Selections\<close>

definition find_by_id :: "jsval list \<Rightarrow> string \<Rightarrow> jsval" where
  "find_by_id xs i = (case find (\<lambda>x. jprop x ''id'' = JStr i) xs of Some x \<Rightarrow> x | None \<Rightarrow> JNull)"

definition rootSignedUserCertificates :: "(string \<Rightarrow> string \<Rightarrow> int) \<Rightarrow> string \<Rightarrow> jsval list \<Rightarrow> jsval list" where
  "rootSignedUserCertificates lc rid certs =
     (if rid = [] then []
      else js_sort (\<lambda>a b. lc (str_or (jprop a ''commonName'')) (str_or (jprop b ''commonName''))) (filter (\<lambda>c. jprop c ''rootCaId'' = JStr rid) certs))"

definition filteredRootSignedUserCertificates :: "string \<Rightarrow> jsval list \<Rightarrow> jsval list" where
  "filteredRootSignedUserCertificates query rows =
     (let q = js_lower (js_trim query) in
      if q = [] then rows
      else filter (\<lambda>c. js_includes (js_lower (str_or (jprop c ''commonName''))) q \<or> js_includes (js_lower (str_nullish (jprop c ''serialNumber''))) q) rows)"

text \<open>The rows of a list with the common name of the selected certificate: clients, address history and source history.\<close>

definition rows_of_cert :: "jsval \<Rightarrow> jsval list \<Rightarrow> jsval list" where
  "rows_of_cert cert rows = (if cert = JNull then [] else filter (\<lambda>r. jprop r ''commonName'' = jprop cert ''commonName'') rows)"

definition traffic_total :: "string \<Rightarrow> jsval list \<Rightarrow> jsnum" where
  "traffic_total k cs = foldl (\<lambda>t sample. js_add t (num_or_zero (jprop sample k))) (Dec 0 0)
     (concat (map (\<lambda>cl. as_array (jprop cl ''trafficHistory'')) cs))"

definition selectedTrafficTotals :: "jsval list \<Rightarrow> jsnum \<times> jsnum" where
  "selectedTrafficTotals cs = (traffic_total ''inDeltaBytes'' cs, traffic_total ''outDeltaBytes'' cs)"

subsection \<open>State\<close>

record new_user_cert =
  uc_vpnUserId :: string
  uc_commonName :: string
  uc_rootCaId :: string
  uc_validityDays :: string

record material_view =
  v_open :: bool
  v_title :: uitext
  v_pem :: string
  v_busy :: bool

record material_page =
  xToken :: string
  xError :: uitext
  downloads :: "(string \<times> string) list"
  keyUploadDraft :: "string \<times> string"
  keyUploadBusy :: bool
  keyImportOpen :: bool
  materialUpload :: "(string \<times> string \<times> string) modal"
  materialView :: material_view
  newUserCert :: new_user_cert
  summaryTarget :: "string option"
  summaryLoading :: bool
  summaryData :: jsval

definition closed_view :: material_view where
  "closed_view = \<lparr>v_open = False, v_title = NoText, v_pem = [], v_busy = False\<rparr>"

definition x_error :: "uitext \<Rightarrow> material_page script" where
  "x_error t = Set (\<lambda>s. s\<lparr>xError := t\<rparr>) Stop"

subsection \<open>Downloads\<close>

text \<open>
  \<^verbatim>\<open>unescape\<close> on the texts it is used on, those \<^verbatim>\<open>encodeURIComponent\<close> writes: every \<^verbatim>\<open>%XX\<close> becomes the character with that
  code.
\<close>

fun unescape :: "string \<Rightarrow> string" where
  "unescape [] = []"
| "unescape (c # cs) =
     (if c = CHR ''%'' then (case take_byte (c # cs) of Some (b, r) \<Rightarrow> char_of b # unescape (drop 2 cs) | None \<Rightarrow> c # unescape cs)
      else c # unescape cs)"

text \<open>\<^verbatim>\<open>atob\<close> throws on bad text; the handlers show the message of the browser then.\<close>

definition downloadBase64File :: "string \<Rightarrow> string \<Rightarrow> material_page \<Rightarrow> material_page" where
  "downloadBase64File content fileName s = (case atob content of
       Some b \<Rightarrow> s\<lparr>downloads := downloads s @ [(js_or fileName ''download.bin'', b)]\<rparr>
     | None \<Rightarrow> s\<lparr>xError := Ui ''the content is not base64''\<rparr>)"

definition downloadRootCaArtifact :: "string \<Rightarrow> string \<Rightarrow> material_page \<Rightarrow> material_page script" where
  "downloadRootCaArtifact rid kd s0 =
     (if rid = [] \<or> xToken s0 = [] then Stop
      else Set (\<lambda>s. s\<lparr>xError := NoText\<rparr>)
        (try_ask (''GET'', root_ca_path rid (''/export?kind='' @ encodeURIComponent kd), JUndef)
          (\<lambda>e. x_error (message_or e (Ui ''the root certificate could not be downloaded'')))
          (\<lambda>v. Set (downloadBase64File (str_or (jprop v ''contentBase64'')) (js_or (str_or (jprop v ''fileName'')) ''download.bin'')) Stop)))"

definition view_material_call :: "string \<Rightarrow> bool \<Rightarrow> call" where
  "view_material_call certId is_key = (''POST'', ''/api/certificates/'' @ encodeURIComponent certId @ ''/view-material'',
     JObj [(''kind'', JStr (if is_key then ''private'' else ''public''))])"

text \<open>The file of a text: \<^verbatim>\<open>btoa(unescape(encodeURIComponent(pem)))\<close>.\<close>

definition pem_base64 :: "string \<Rightarrow> string" where
  "pem_base64 pem = btoa (unescape (encodeURIComponent pem))"

definition download_material :: "string \<Rightarrow> bool \<Rightarrow> string \<Rightarrow> uitext \<Rightarrow> material_page script" where
  "download_material certId is_key fileName failed =
     Set (\<lambda>s. s\<lparr>xError := NoText\<rparr>)
       (try_ask (view_material_call certId is_key) (\<lambda>e. x_error (message_or e failed))
         (\<lambda>v. Set (downloadBase64File (pem_base64 (str_or (jprop v ''pem''))) fileName) Stop))"

definition downloadServerCertificateArtifact :: "jsval option \<Rightarrow> string \<Rightarrow> material_page \<Rightarrow> material_page script" where
  "downloadServerCertificateArtifact cert kd s0 =
     (let i = (case cert of Some c \<Rightarrow> jprop c ''id'' | None \<Rightarrow> JUndef) in
      if \<not> truthy i \<or> xToken s0 = [] then Stop
      else download_material (to_str i) (kd = ''server_key'') (if kd = ''server_key'' then ''server.key'' else ''server.crt'')
        (Ui ''the material of the server certificate could not be downloaded''))"

definition downloadSelectedCertificateArtifact :: "string \<Rightarrow> string \<Rightarrow> material_page \<Rightarrow> material_page script" where
  "downloadSelectedCertificateArtifact certSummaryTarget kd s0 =
     (if certSummaryTarget = [] \<or> xToken s0 = [] then Stop
      else download_material certSummaryTarget (kd = ''key'') (if kd = ''key'' then ''certificate.key'' else ''certificate.crt'')
        (Ui ''the material of the certificate could not be downloaded''))"

subsection \<open>Adding and showing key material\<close>

definition patch_call :: "string \<Rightarrow> (string \<times> jsval) list \<Rightarrow> call" where
  "patch_call certId patch = (''PATCH'', ''/api/certificates/'' @ certId, JObj patch)"

text \<open>\<^verbatim>\<open>await patchCertificate(certId, patch)\<close> in a \<^verbatim>\<open>try\<close>; the refresh it asks for is not waited for.\<close>

definition patchCertificate :: "string \<Rightarrow> (string \<times> jsval) list \<Rightarrow> (req_error \<Rightarrow> material_page script) \<Rightarrow> material_page script \<Rightarrow> material_page script" where
  "patchCertificate certId patch handle k = try_ask (patch_call certId patch) handle (\<lambda>_. Kick RefreshCertificates k)"

definition uploadSelectedCertificateKeyMaterial :: "string \<Rightarrow> material_page \<Rightarrow> material_page script" where
  "uploadSelectedCertificateKeyMaterial certId s0 =
     (let certPem = js_trim (fst (keyUploadDraft s0)); keyPem = js_trim (snd (keyUploadDraft s0)) in
      if certId = [] then Stop
      else if certPem = [] \<and> keyPem = [] then x_error (Ui ''add a certificate or a key'')
      else Set (\<lambda>s. s\<lparr>xError := NoText, keyUploadBusy := True\<rparr>)
        (patchCertificate certId ((if certPem \<noteq> [] then [(''certPem'', JStr certPem)] else []) @ (if keyPem \<noteq> [] then [(''keyPem'', JStr keyPem)] else []))
          (\<lambda>e. Set (\<lambda>s. s\<lparr>xError := message_or e (Ui ''the key material could not be added''), keyUploadBusy := False\<rparr>) Stop)
          (Set (\<lambda>s. s\<lparr>keyUploadDraft := ([], []), keyImportOpen := False, keyUploadBusy := False\<rparr>) Stop)))"

definition submitCertMaterialUpload :: "material_page \<Rightarrow> material_page script" where
  "submitCertMaterialUpload s0 =
     (let form = m_form (materialUpload s0); certId = js_trim (fst form); pem = js_trim (snd (snd form));
          upd = (\<lambda>f s. s\<lparr>materialUpload := f (materialUpload s)\<rparr>)
      in if certId = [] then Stop
         else if pem = [] then Set (upd (reject_modal (Ui ''add the PEM text''))) Stop
         else Set (upd begin_modal)
           (patchCertificate certId [(if fst (snd form) = ''key'' then ''keyPem'' else ''certPem'', JStr pem)]
             (\<lambda>e. Set (upd (fail_modal (message_or e (Ui ''the material could not be uploaded'')))) Stop)
             (Set (\<lambda>s. s\<lparr>materialUpload := closed_modal ([], ''cert'', [])\<rparr>) Stop)))"

definition openCertificateMaterialPreview :: "string \<Rightarrow> string \<Rightarrow> material_page script" where
  "openCertificateMaterialPreview certId kd =
     (let title = (if kd = ''private'' then Ui ''Private key'' else Ui ''Public key'') in
      if certId = [] then Stop
      else Set (\<lambda>s. s\<lparr>xError := NoText, materialView := \<lparr>v_open = True, v_title = title, v_pem = [], v_busy = True\<rparr>\<rparr>)
        (try_ask (view_material_call certId (kd = ''private''))
          (\<lambda>e. Set (\<lambda>s. s\<lparr>materialView := closed_view, xError := message_or e (Ui ''the material could not be opened'')\<rparr>) Stop)
          (\<lambda>v. Set (\<lambda>s. s\<lparr>materialView := \<lparr>v_open = True, v_title = error_text (jprop v ''label'') title, v_pem = str_or (jprop v ''pem''), v_busy = False\<rparr>\<rparr>) Stop)))"

text \<open>
  Nothing catches an error of \<^verbatim>\<open>issueUserCertificate\<close>: a refused request, a date out of range and the missing \<^verbatim>\<open>paths.caRoot\<close>
  each end it without a message.
\<close>

definition issued_form :: "new_user_cert \<Rightarrow> new_user_cert" where
  "issued_form f = \<lparr>uc_vpnUserId = [], uc_commonName = [], uc_rootCaId = uc_rootCaId f, uc_validityDays = ''365''\<rparr>"

definition issueUserCertificate :: "(int \<Rightarrow> string) \<Rightarrow> int \<Rightarrow> string \<Rightarrow> jsval list \<Rightarrow> material_page \<Rightarrow> material_page script" where
  "issueUserCertificate show_date now selectedRootCa known s0 =
     (let f = newUserCert s0 in
      if js_trim (uc_vpnUserId f) = [] then x_error (Ui ''choose a user'')
      else if known = [] then x_error (Ui ''create a user first'')
      else if js_trim (uc_rootCaId f) = [] then x_error (Ui ''choose a root certificate'')
      else if js_trim (uc_commonName f) = [] then x_error (Ui ''enter the subject CN'')
      else Set (\<lambda>s. s\<lparr>xError := NoText\<rparr>)
        (case toISOString show_date (now + issue_days (uc_validityDays f) * DAY_MS) of
           None \<Rightarrow> Stop
         | Some expiresAt \<Rightarrow> try_ask (''POST'', ''/api/certificates'', JObj [(''vpnUserId'', JStr (js_trim (uc_vpnUserId f))),
               (''commonName'', JStr (js_trim (uc_commonName f))), (''rootCaId'', JStr (js_trim (uc_rootCaId f))), (''agentNodeId'', JNull),
               (''expiresAt'', JStr expiresAt)]) (\<lambda>e. Stop)
             (\<lambda>_. Set (\<lambda>s. s\<lparr>newUserCert := issued_form (newUserCert s)\<rparr>) (if selectedRootCa \<noteq> [] then Stop else Kick RefreshCertificates Stop))))"

subsection \<open>The summary of the selected certificate\<close>

text \<open>
  Two effects run in this order after a render: one clears what belongs to the certificate left, when another one became the target,
  and one loads the summary, when the target or the token changed. \<open>summaryTarget\<close> is the target the first ran for last.
\<close>

definition cert_target_reset :: "string \<Rightarrow> material_page \<Rightarrow> material_page" where
  "cert_target_reset tid s =
     (if tid = [] then s
      else s\<lparr>keyUploadDraft := ([], []), keyImportOpen := False, materialView := closed_view, summaryLoading := False, summaryData := JNull\<rparr>)"

definition summary_call :: "string \<Rightarrow> call" where
  "summary_call tid = (''GET'', ''/api/certificates/'' @ encodeURIComponent tid @ ''/material-summary'', JUndef)"

definition reset_for :: "string \<Rightarrow> material_page \<Rightarrow> material_page" where
  "reset_for tid s = (if summaryTarget s = Some tid then s else (cert_target_reset tid s)\<lparr>summaryTarget := Some tid\<rparr>)"

definition cert_summary_start :: "string \<times> string \<Rightarrow> material_page \<Rightarrow> material_page \<times> call list \<times> call list" where
  "cert_summary_start e s =
     (if fst e = [] \<or> snd e = [] then (reset_for (snd e) s, [], [])
      else ((reset_for (snd e) s)\<lparr>summaryLoading := True\<rparr>, [summary_call (snd e)], []))"

definition or_js_null :: "jsval \<Rightarrow> jsval" where
  "or_js_null v = (if truthy v then v else JNull)"

definition cert_summary_settle :: "string \<times> string \<Rightarrow> bool \<Rightarrow> answer \<Rightarrow> material_page \<Rightarrow> material_page" where
  "cert_summary_settle e cancelled a s =
     (if cancelled then s
      else case a of Inr v \<Rightarrow> s\<lparr>summaryLoading := False, summaryData := or_js_null v\<rparr> | Inl _ \<Rightarrow> s\<lparr>summaryLoading := False\<rparr>)"

interpretation cert_summary: loading_effect "\<lambda>e :: string \<times> string. e" cert_summary_start cert_summary_settle
    "\<lambda>s. (summaryLoading s, summaryData s)" "\<lambda>e v. (False, or_js_null v)"
  by unfold_locales (simp_all add: cert_summary_settle_def)

subsection \<open>The certificates of a node\<close>

text \<open>The summary of the node's root: loading, and data, which is kept while a new one is loaded when it is of the same root.\<close>

type_synonym summary = "bool \<times> jsval"

definition root_summary_start :: "page_env \<times> string \<Rightarrow> summary \<Rightarrow> summary \<times> call list \<times> call list" where
  "root_summary_start e s =
     (let rid = snd e in
      if \<not> on_server_tab [''certificates''] (fst e) then (s, [], [])
      else if rid = [] then ((False, JNull), [], [])
      else if snd (fst e) = [] then (s, [], [])
      else ((True, if truthy (snd s) \<and> js_trim (str_or (jprop (snd s) ''id'')) = rid then snd s else JNull),
            [(''GET'', root_ca_path rid ''/summary'', JUndef)], []))"

definition root_summary_settle :: "page_env \<times> string \<Rightarrow> bool \<Rightarrow> answer \<Rightarrow> summary \<Rightarrow> summary" where
  "root_summary_settle e cancelled a s =
     (if cancelled then s else case a of Inr v \<Rightarrow> (False, v) | Inl _ \<Rightarrow> (False, snd s))"

definition root_summary_deps :: "page_env \<times> string \<Rightarrow> string \<times> string \<times> string \<times> string \<times> string" where
  "root_summary_deps e = (let r = fst (fst e) in (primaryNav r, serversView r, serverDetailTab r, selectedServerId r, snd e))"

interpretation root_summary: loading_effect root_summary_deps root_summary_start root_summary_settle "\<lambda>s. s" "\<lambda>e v. (False, v)"
  by unfold_locales (simp_all add: root_summary_settle_def)

text \<open>The material of the certificate shown for the node, under its identifier; \<open>JNull\<close> when it could not be loaded.\<close>

type_synonym materials = "(string \<times> jsval) list"

definition cert_materials_start :: "page_env \<times> string \<times> jsval \<Rightarrow> materials \<Rightarrow> materials \<times> call list \<times> call list" where
  "cert_materials_start e s =
     (if \<not> on_server_tab [''certificates''] (fst e) then (s, [], [])
      else if fst (snd e) = [] \<or> \<not> truthy (snd (snd e)) then ([], [], [])
      else if snd (fst e) = [] then (s, [], [])
      else (s, [summary_call (to_str (snd (snd e)))], []))"

definition cert_materials_settle :: "page_env \<times> string \<times> jsval \<Rightarrow> bool \<Rightarrow> answer \<Rightarrow> materials \<Rightarrow> materials" where
  "cert_materials_settle e cancelled a s =
     (if cancelled then s else [(to_str (snd (snd e)), case a of Inr v \<Rightarrow> v | Inl _ \<Rightarrow> JNull)])"

definition cert_materials_deps :: "page_env \<times> string \<times> jsval \<Rightarrow> (string \<times> string \<times> string \<times> string) \<times> string \<times> jsval" where
  "cert_materials_deps e = (let r = fst (fst e) in ((primaryNav r, serversView r, serverDetailTab r, selectedServerId r), snd e))"

interpretation cert_materials: loading_effect cert_materials_deps cert_materials_start cert_materials_settle "\<lambda>s. s"
    "\<lambda>e v. [(to_str (snd (snd e)), v)]"
  by unfold_locales (simp_all add: cert_materials_settle_def)

subsection \<open>Properties\<close>

text \<open>The bytes of a downloaded text are its UTF-8 encoding.\<close>

lemma unescape_pct: "b < 256 \<Longrightarrow> unescape (pct b @ r) = char_of b # unescape r"
  using take_byte_pct [of b r] by (simp add: pct_def)

lemma unescape_bytes: "list_all (\<lambda>b. b < 256) bs \<Longrightarrow> unescape (concat (map pct bs) @ r) = map char_of bs @ unescape r"
  by (induction bs) (simp_all add: unescape_pct)

lemma unescape_escape: "unescape (escape uri_unreserved c @ r) = map char_of (utf8 c) @ unescape r"
proof (cases "uri_unreserved c")
  case True
  then have "code_of c < 128" by (auto simp: uri_unreserved_def is_alnum_def Let_def)
  with True show ?thesis by (simp add: escape_def safe_neq_pct utf8_def)
next
  case False
  have "list_all (\<lambda>b. b < 256) (utf8 c)" using utf8_bytes by (simp add: list_all_iff)
  with False show ?thesis by (simp add: escape_def unescape_bytes)
qed

definition utf8_bytes_of :: "string \<Rightarrow> string" where
  "utf8_bytes_of s = map char_of (concat (map utf8 s))"

lemma unescape_encode: "unescape (encodeURIComponent s) = utf8_bytes_of s"
  unfolding encodeURIComponent_def utf8_bytes_of_def by (induction s) (simp_all add: unescape_escape)

lemma utf8_bytes_of_codes: "map code_of (utf8_bytes_of s) = concat (map utf8 s)"
  unfolding utf8_bytes_of_def using utf8_bytes by (induction s) (auto simp: code_of_char_of intro!: map_idI)

lemma utf8_decodes: "utf8_text (map code_of (utf8_bytes_of s)) = Some s"
  unfolding utf8_bytes_of_codes by (induction s) (simp_all add: utf8_text_utf8)

lemma atob_btoa: "atob (btoa s) = Some s"
proof -
  have "list_all (\<lambda>b. b < 256) (map code_of s)" by (simp add: list_all_iff)
  from atob_groups [OF this] show ?thesis by (simp add: btoa_def comp_def)
qed

lemma download_pem: "downloadBase64File (pem_base64 pem) name s = s\<lparr>downloads := downloads s @ [(js_or name ''download.bin'', utf8_bytes_of pem)]\<rparr>"
  by (simp add: downloadBase64File_def pem_base64_def atob_btoa unescape_encode)

text \<open>The key material that is downloaded for a certificate is exactly the text the panel answered with: one file is added, its bytes are
  the UTF-8 encoding of that text and decode to it, and no error is shown, on the page of the node and on that of a certificate.\<close>

theorem downloaded_material_exact:
  fixes s0 s :: material_page
  assumes "xToken s0 \<noteq> []" and "certId \<noteq> []" and "\<forall>m t. downloads (env m t) = downloads t \<and> xError (env m t) = xError t"
    and "srv n (view_material_call certId (kd = ''server_key'')) = Inr v" and "srv n (view_material_call certId (kd' = ''key'')) = Inr v"
  defines "page \<equiv> fst (exec (downloadServerCertificateArtifact (Some (JObj [(''id'', JStr certId)])) kd s0) srv env n s)"
    and "page' \<equiv> fst (exec (downloadSelectedCertificateArtifact certId kd' s0) srv env n s)"
    and "bytes \<equiv> utf8_bytes_of (str_or (jprop v ''pem''))"
  shows "downloads page = downloads s @ [(if kd = ''server_key'' then ''server.key'' else ''server.crt'', bytes)] \<and> xError page = NoText
    \<and> downloads page' = downloads s @ [(if kd' = ''key'' then ''certificate.key'' else ''certificate.crt'', bytes)] \<and> xError page' = NoText
    \<and> utf8_text (map code_of bytes) = Some (str_or (jprop v ''pem''))"
  using assms(1-5) by (simp add: page_def page'_def bytes_def downloadServerCertificateArtifact_def downloadSelectedCertificateArtifact_def
    download_material_def download_pem utf8_decodes jprop_def obj_get_def Let_def js_or_def)

definition blank_materials :: material_page where
  "blank_materials = \<lparr>xToken = ''tok'', xError = NoText, downloads = [], keyUploadDraft = ([], []), keyUploadBusy = False, keyImportOpen = False,
     materialUpload = closed_modal ([], ''cert'', []), materialView = closed_view,
     newUserCert = \<lparr>uc_vpnUserId = [], uc_commonName = [], uc_rootCaId = [], uc_validityDays = ''365''\<rparr>,
     summaryTarget = None, summaryLoading = False, summaryData = JNull\<rparr>"

theorem downloaded_material_exact_witness:
  "downloads (fst (exec (downloadServerCertificateArtifact (Some (JObj [(''id'', JStr ''c1'')])) ''server_key'' blank_materials)
       (\<lambda>_ _. Inr (JObj [(''pem'', JStr [CHR ''k'', CHR 0xE9])])) (\<lambda>_ t. t) 0 blank_materials))
     = [(''server.key'', [CHR ''k'', CHR 0xC3, CHR 0xA9])]"
proof -
  have "utf8_bytes_of [CHR ''k'', CHR 0xE9] = [CHR ''k'', CHR 0xC3, CHR 0xA9]" by code_simp
  then show ?thesis
    using downloaded_material_exact [of blank_materials "''c1''" "\<lambda>_ t. t" "\<lambda>_ _. Inr (JObj [(''pem'', JStr [CHR ''k'', CHR 0xE9])])" 0 "''server_key''"
        "JObj [(''pem'', JStr [CHR ''k'', CHR 0xE9])]" "''key''" blank_materials]
    by (simp add: blank_materials_def jprop_def obj_get_def)
qed

interpretation material_upload: dialog submitCertMaterialUpload materialUpload
  by unfold_locales (auto simp: submitCertMaterialUpload_def patchCertificate_def Let_def dialog_outcomes split: sum.splits if_splits)

interpretation key_upload: finally_idle "uploadSelectedCertificateKeyMaterial certId" keyUploadBusy for certId
  by unfold_locales (simp add: uploadSelectedCertificateKeyMaterial_def patchCertificate_def x_error_def Let_def split: sum.split)

text \<open>What is shown as the summary of a target: nothing, or the answer to one of the requests for exactly this target.\<close>

definition answered_for :: "(nat \<Rightarrow> answer) \<Rightarrow> call list \<Rightarrow> string \<Rightarrow> jsval \<Rightarrow> bool" where
  "answered_for srv calls tid v =
     (v = JNull \<or> list_ex (\<lambda>n. calls ! n = summary_call tid \<and> (case srv n of Inr w \<Rightarrow> v = or_js_null w | Inl _ \<Rightarrow> False)) [0..<length calls])"

abbreviation summary_step ::
  "(nat \<Rightarrow> answer) \<Rightarrow> (string \<times> string, string \<times> string, material_page) effect_sys \<Rightarrow> (string \<times> string) effect_event
   \<Rightarrow> (string \<times> string, string \<times> string, material_page) effect_sys" where
  "summary_step \<equiv> effect_step (\<lambda>e. e) cert_summary_start cert_summary_settle"

definition summary_ok :: "(nat \<Rightarrow> answer) \<Rightarrow> (string \<times> string, string \<times> string, material_page) effect_sys \<Rightarrow> bool" where
  "summary_ok srv y =
     (length (sent y) = req_count y \<and> timer y = None
      \<and> list_all (\<lambda>(n, g, e). n < req_count y \<and> sent y ! n = summary_call (snd e) \<and> (g = run y \<longrightarrow> last_deps y = Some e) \<and> g \<le> run y) (awaited y)
      \<and> (case last_deps y of
           None \<Rightarrow> awaited y = [] \<and> summaryTarget (view y) = None
         | Some e \<Rightarrow> summaryTarget (view y) = Some (snd e)
             \<and> (snd e \<noteq> [] \<longrightarrow> answered_for srv (sent y) (snd e) (summaryData (view y)))))"

lemma answered_null [simp]: "answered_for srv calls tid JNull"
  by (simp add: answered_for_def)

lemma answered_append: "answered_for srv calls tid v \<Longrightarrow> answered_for srv (calls @ cs) tid v"
  by (auto simp: answered_for_def list_ex_iff nth_append)

lemma answered_new: "n < length calls \<Longrightarrow> calls ! n = summary_call tid \<Longrightarrow> srv n = Inr w \<Longrightarrow> answered_for srv calls tid (or_js_null w)"
  by (auto simp: answered_for_def list_ex_iff)

lemma reset_for_target [simp]: "summaryTarget (reset_for tid s) = Some tid"
  by (simp add: reset_for_def)

lemma summary_ok_render:
  assumes "summary_ok srv y" and "last_deps y \<noteq> Some e"
  shows "summary_ok srv (summary_step srv y (Render e))"
proof -
  have len: "length (sent y) = req_count y" and tm: "timer y = None" using assms(1) by (auto simp: summary_ok_def)
  have old: "list_all (\<lambda>(n, g, e). n < req_count y \<and> sent y ! n = summary_call (snd e) \<and> g \<le> run y) (awaited y)"
    using assms(1) by (auto simp: summary_ok_def list_all_iff)
  have kept: "answered_for srv (sent y) (snd e) (summaryData (reset_for (snd e) (view y)))" if "snd e \<noteq> []"
    using assms(1) that by (cases "last_deps y") (auto simp: summary_ok_def reset_for_def cert_target_reset_def)
  show ?thesis
  proof (cases "fst e = [] \<or> snd e = []")
    case True
    have "list_all (\<lambda>(n, g, e'). n < req_count y \<and> sent y ! n = summary_call (snd e') \<and> (g = Suc (run y) \<longrightarrow> e = e') \<and> g \<le> Suc (run y)) (awaited y)"
      using old by (auto simp: list_all_iff)
    with True show ?thesis using assms(2) len kept by (simp add: summary_ok_def cert_summary_start_def send_def)
  next
    case False
    have "list_all (\<lambda>(n, g, e'). n < Suc (req_count y) \<and> (sent y @ [summary_call (snd e)]) ! n = summary_call (snd e')
        \<and> (g = Suc (run y) \<longrightarrow> e = e') \<and> g \<le> Suc (run y)) (awaited y @ [(req_count y, Suc (run y), e)])"
      using old len by (fastforce simp: list_all_iff nth_append)
    moreover have "answered_for srv (sent y @ [summary_call (snd e)]) (snd e) (summaryData (reset_for (snd e) (view y)))"
      using False kept answered_append by blast
    ultimately show ?thesis using False assms(2) len by (simp add: summary_ok_def cert_summary_start_def send_def)
  qed
qed

lemma summary_ok_arrive:
  assumes "summary_ok srv y" and "i < length (awaited y)"
  shows "summary_ok srv (summary_step srv y (Arrive i))"
proof -
  obtain n g e where p: "awaited y ! i = (n, g, e)" by (cases "awaited y ! i") auto
  have olds: "list_all (\<lambda>(n, g, e). n < req_count y \<and> sent y ! n = summary_call (snd e) \<and> (g = run y \<longrightarrow> last_deps y = Some e) \<and> g \<le> run y) (awaited y)"
    and len: "length (sent y) = req_count y"
    using assms(1) by (auto simp: summary_ok_def)
  then have me: "n < length (sent y)" "sent y ! n = summary_call (snd e)" "g = run y \<longrightarrow> last_deps y = Some e"
    using assms(2) p by (auto simp: list_all_length)
  have rest: "list_all P (take i (awaited y) @ drop (Suc i) (awaited y))" if "list_all P (awaited y)" for P
    using that by (auto simp: list_all_iff dest: in_set_takeD in_set_dropD)
  obtain d where d: "last_deps y = Some d"
    using assms by (cases "last_deps y") (auto simp: summary_ok_def)
  have tg: "summaryTarget (cert_summary_settle e (g \<noteq> run y) (srv n) (view y)) = summaryTarget (view y)"
    by (simp add: cert_summary_settle_def split: sum.split)
  have data: "answered_for srv (sent y) (snd d) (summaryData (cert_summary_settle e (g \<noteq> run y) (srv n) (view y)))" if "snd d \<noteq> []"
  proof (cases "g = run y")
    case True
    then have "e = d" using me(3) d by simp
    with True that assms(1) d me(1,2) answered_new [OF me(1,2), of srv] show ?thesis
      by (cases "srv n") (auto simp: cert_summary_settle_def summary_ok_def)
  next
    case False
    with that assms(1) d show ?thesis by (simp add: cert_summary_settle_def summary_ok_def)
  qed
  show ?thesis using assms p d tg data len rest [OF olds] by (simp add: summary_ok_def)
qed

lemma summary_ok_step: "summary_ok srv y \<Longrightarrow> summary_ok srv (summary_step srv y v)"
proof (cases v)
  case (Render e)
  assume "summary_ok srv y"
  then show ?thesis using summary_ok_render [of srv y e] Render by (cases "last_deps y = Some e") auto
next
  case Timer
  assume "summary_ok srv y"
  then show ?thesis using Timer by (simp add: summary_ok_def)
next
  case (Arrive i)
  assume "summary_ok srv y"
  then show ?thesis using summary_ok_arrive [of srv y i] Arrive by (cases "i < length (awaited y)") auto
qed

lemma summary_ok_steps: "summary_ok srv y \<Longrightarrow> summary_ok srv (foldl (summary_step srv) y evs)"
  by (induction evs arbitrary: y) (simp_all add: summary_ok_step)

text \<open>C15: The summary on the page of a certificate is never that of another one: whichever certificates are selected one after the other and in
  whatever order the panel answers, while one is selected the data shown are none or the answer to a request for this certificate.\<close>

theorem summary_of_selected_certificate:
  fixes srv :: "nat \<Rightarrow> answer" and evs :: "(string \<times> string) effect_event list" and s :: material_page
  assumes "summaryTarget s = None"
  defines "y \<equiv> foldl (summary_step srv) (fresh_effect s) evs"
  shows "case last_deps y of None \<Rightarrow> summaryTarget (view y) = None
    | Some (tok, tid) \<Rightarrow> if tid = [] then summaryTarget (view y) = Some [] else answered_for srv (sent y) tid (summaryData (view y))"
proof -
  have "summary_ok srv (fresh_effect s)" using assms(1) by (simp add: summary_ok_def fresh_effect_def)
  from summary_ok_steps [OF this, of evs] show ?thesis by (auto simp: summary_ok_def y_def split: option.split)
qed

definition summary_events :: "(string \<times> string) effect_event list" where
  "summary_events = [Render (''tok'', ''c1''), Render (''tok'', ''c2''), Arrive 0]"

theorem summary_of_selected_certificate_witness:
  "case last_deps (foldl (summary_step (\<lambda>n. Inr (JNum (Dec (int n + 1) 0)))) (fresh_effect blank_materials) summary_events) of
      None \<Rightarrow> summaryTarget (view (foldl (summary_step (\<lambda>n. Inr (JNum (Dec (int n + 1) 0)))) (fresh_effect blank_materials) summary_events)) = None
    | Some (tok, tid) \<Rightarrow> if tid = []
        then summaryTarget (view (foldl (summary_step (\<lambda>n. Inr (JNum (Dec (int n + 1) 0)))) (fresh_effect blank_materials) summary_events)) = Some []
        else answered_for (\<lambda>n. Inr (JNum (Dec (int n + 1) 0)))
          (sent (foldl (summary_step (\<lambda>n. Inr (JNum (Dec (int n + 1) 0)))) (fresh_effect blank_materials) summary_events)) tid
          (summaryData (view (foldl (summary_step (\<lambda>n. Inr (JNum (Dec (int n + 1) 0)))) (fresh_effect blank_materials) summary_events)))"
  by (rule summary_of_selected_certificate) (simp add: blank_materials_def)

end
