(* ===== verification/Node_Materials.thy ===== *)
theory Node_Materials
  imports Certificates Time_Format
begin

section \<open>The certificates page of a node\<close>

text \<open>
  The tables of the page, the dialog that creates or imports DH parameters and the tls-auth key, and the dialog of a new server
  certificate as the page opens and edits it.
\<close>

subsection \<open>Tables\<close>

text \<open>A table is a list of labels with their texts.\<close>

type_synonym summary_table = "(uitext \<times> uitext) list"

definition key_algorithm :: "jsval \<Rightarrow> uitext" where
  "key_algorithm v = Cat (cell v ''algorithm'') (if truthy (jprop v ''keySize'') then Cat (Raw (to_str (jprop v ''keySize''))) (Ui ''bits'') else NoText)"

definition cert_table :: "(jsval \<Rightarrow> string option) \<Rightarrow> (jsval \<Rightarrow> int option) \<Rightarrow> int \<Rightarrow> uitext \<Rightarrow> jsval \<Rightarrow> jsval \<Rightarrow> summary_table" where
  "cert_table local_date time_of now cn data validTo =
     [(Ui ''Common Name'', cn), panelCertFingerprintRow data, (Ui ''Serial number'', cell data ''serialNumber''),
      (Ui ''Key algorithm'', key_algorithm data), (Ui ''Valid until'', Raw (formatMaybeDate local_date validTo)),
      (Ui ''State'', snd (panelCertValidityPresentation time_of now validTo))]"

text \<open>\<^verbatim>\<open>ServerPanelCertificateSummaryTable\<close>: the end of the loaded summary goes before the one of the list.\<close>

definition ServerPanelCertificateSummaryTable ::
  "(jsval \<Rightarrow> string option) \<Rightarrow> (jsval \<Rightarrow> int option) \<Rightarrow> int \<Rightarrow> jsval \<Rightarrow> jsval \<Rightarrow> summary_table" where
  "ServerPanelCertificateSummaryTable local_date time_of now cert summary =
     (let mat = (if truthy summary then summary else JObj []) in
      cert_table local_date time_of now (cell cert ''commonName'')
        (if truthy summary then summary else JNull) (if truthy (jprop mat ''validTo'') then jprop mat ''validTo'' else jprop cert ''expiresAt''))"

text \<open>What the block of the root certificate shows: the buttons to make one, nothing yet, its table, or that it could not be loaded.\<close>

datatype root_block = NoRoot | RootLoading | RootTable summary_table | RootFailed

definition root_block_of :: "(jsval \<Rightarrow> string option) \<Rightarrow> (jsval \<Rightarrow> int option) \<Rightarrow> int \<Rightarrow> string \<Rightarrow> bool \<times> jsval \<Rightarrow> root_block" where
  "root_block_of local_date time_of now rid summary =
     (if rid = [] then NoRoot
      else if fst summary \<and> \<not> truthy (snd summary) then RootLoading
      else if truthy (snd summary)
        then RootTable (cert_table local_date time_of now (cell (snd summary) ''commonName'') (snd summary) (jprop (snd summary) ''validTo''))
      else RootFailed)"

definition OpenvpnPanelMaterialSummaryTable :: "(jsval \<Rightarrow> string option) \<Rightarrow> jsval \<Rightarrow> summary_table" where
  "OpenvpnPanelMaterialSummaryTable local_date m =
     (let kd = jprop m ''kind'' in
      [(Ui ''Type'', if kd = JStr ''tls_auth'' then Ui ''Static tls-auth key'' else if kd = JStr ''dh'' then Ui ''DH parameters'' else error_text kd dash),
       (Ui ''Created'', Raw (formatMaybeDate local_date (jprop m ''createdAt''))),
       (Ui ''SHA-256 fingerprint'', cell m ''fingerprintSha256''),
       (Ui ''Size in bytes'', case jprop m ''sizeBytes'' of JNum n \<Rightarrow> if js_finite n then Raw (to_str (JNum n)) else dash | _ \<Rightarrow> dash)])"

subsection \<open>The dialog of a new server certificate\<close>

definition cn_char :: "char \<Rightarrow> bool" where
  "cn_char c = (is_alnum c \<or> c \<in> set ''_.-:@'')"

text \<open>\<^verbatim>\<open>`server:${name.replace(/[^\w.\-:@]/g, "_").slice(0, 48) || "node"}`\<close>\<close>

definition default_cn :: "jsval \<Rightarrow> string \<Rightarrow> string" where
  "default_cn server serverId =
     (let name = (if truthy (jprop server ''name'') then to_str (jprop server ''name'') else js_or serverId ''node'') in
      ''server:'' @ js_or (take 48 (map (\<lambda>c. if cn_char c then c else CHR ''_'') name)) ''node'')"

definition open_srv_cert_create :: "jsval \<Rightarrow> string \<Rightarrow> int \<Rightarrow> 'a cert_page_scheme \<Rightarrow> 'a cert_page_scheme" where
  "open_srv_cert_create server serverId maxD s =
     s\<lparr>srvCertCreateModal := \<lparr>m_open = True, m_busy = False, m_error = NoText,
        m_form = \<lparr>f_cn = default_cn server serverId, f_validityDays = JNum (num_of_int (min 825 (max 1 maxD))), f_keySize = ''2048'',
                  f_signatureAlgorithm = ''sha256''\<rparr>\<rparr>\<rparr>"

text \<open>The field of the days takes what was typed into the bounds at once; \<^verbatim>\<open>Infinity\<close> gives the allowance.\<close>

definition typed_days :: "int \<Rightarrow> string \<Rightarrow> int" where
  "typed_days maxD t = (case floor_or_zero (number_of_string t) of None \<Rightarrow> max 1 maxD | Some d \<Rightarrow> min (max 1 maxD) (max 1 d))"

definition edit_validity_days :: "int \<Rightarrow> string \<Rightarrow> 'a cert_page_scheme \<Rightarrow> 'a cert_page_scheme" where
  "edit_validity_days maxD t s = s\<lparr>srvCertCreateModal := (srvCertCreateModal s)
     \<lparr>m_form := (m_form (srvCertCreateModal s))\<lparr>f_validityDays := JNum (num_of_int (typed_days maxD t))\<rparr>\<rparr>\<rparr>"

text \<open>Whether the button that opens the dialog can be pressed.\<close>

definition create_enabled :: "string \<Rightarrow> int \<Rightarrow> bool \<Rightarrow> bool" where
  "create_enabled rid maxD loading = (\<not> (rid = [] \<or> maxD < 1 \<or> loading))"

subsection \<open>DH parameters and the tls-auth key\<close>

text \<open>One dialog in two modes: \<open>m_open\<close> is \<^verbatim>\<open>mode !== null\<close>. A closed one has no kind.\<close>

record key_form =
  k_import :: bool
  k_kind :: string
  k_pem :: string

record key_page = cert_page +
  serverKeyMaterialModal :: "key_form modal"

definition no_key_form :: key_form where
  "no_key_form = \<lparr>k_import = False, k_kind = [], k_pem = []\<rparr>"

definition open_key_material :: "bool \<Rightarrow> string \<Rightarrow> key_page \<Rightarrow> key_page" where
  "open_key_material imported kd s = s\<lparr>serverKeyMaterialModal :=
     \<lparr>m_open = True, m_busy = False, m_error = NoText, m_form = \<lparr>k_import = imported, k_kind = kd, k_pem = []\<rparr>\<rparr>\<rparr>"

text \<open>A click beside the dialog, on its cross or on its cancel button.\<close>

definition close_key_material :: "key_page \<Rightarrow> key_page" where
  "close_key_material s = (if m_busy (serverKeyMaterialModal s) then s else s\<lparr>serverKeyMaterialModal := closed_modal no_key_form\<rparr>)"

definition type_key_pem :: "string \<Rightarrow> key_page \<Rightarrow> key_page" where
  "type_key_pem t s = s\<lparr>serverKeyMaterialModal :=
     (serverKeyMaterialModal s)\<lparr>m_error := NoText, m_form := (m_form (serverKeyMaterialModal s))\<lparr>k_pem := t\<rparr>\<rparr>\<rparr>"

definition read_key_file :: "string \<Rightarrow> key_page \<Rightarrow> key_page" where
  "read_key_file t s = s\<lparr>serverKeyMaterialModal := (serverKeyMaterialModal s)\<lparr>m_form := (m_form (serverKeyMaterialModal s))\<lparr>k_pem := t\<rparr>\<rparr>\<rparr>"

text \<open>The settings that refer to the new material: its identifier, and the path of its file where none is set.\<close>

definition path_or :: "jsobj \<Rightarrow> string \<Rightarrow> string \<Rightarrow> jsval" where
  "path_or s k d = JStr (js_or (js_trim (str_or (obj_get s k))) d)"

definition key_material_partial :: "jsobj \<Rightarrow> string \<Rightarrow> string \<Rightarrow> jsobj" where
  "key_material_partial s kd i =
     (if kd = ''dh'' then [(''panelDhMaterialId'', JStr i), (''dh'', path_or s ''dh'' ''/etc/openvpn/dh.pem'')]
      else [(''panelTlsAuthMaterialId'', JStr i), (''tls-auth'', path_or s ''tls-auth'' ''/etc/openvpn/ta.key 0'')])"

definition key_material_call :: "string \<Rightarrow> key_form \<Rightarrow> call" where
  "key_material_call serverId form = (''POST'', node_path serverId ''/openvpn-materials'',
     JObj ((''kind'', JStr (k_kind form)) # (if k_import form then [(''pem'', JStr (k_pem form))] else [])))"

definition submitKeyMaterial :: "uitext \<Rightarrow> string \<Rightarrow> key_page \<Rightarrow> key_page script" where
  "submitKeyMaterial failed serverId s0 =
     (let form = m_form (serverKeyMaterialModal s0);
          upd = (\<lambda>f s. s\<lparr>serverKeyMaterialModal := f (serverKeyMaterialModal s)\<rparr>);
          handle = (\<lambda>e. Set (upd (fail_modal (message_or e failed))) Stop)
      in if tokenRef s0 = [] \<or> serverId = [] \<or> k_kind form = [] then Stop
         else Set (upd begin_modal)
           (try_ask (key_material_call serverId form) handle
             (\<lambda>created. persist_created serverId (key_material_partial (settings s0) (k_kind form)) created handle
               (refresh_materials serverId
                 (Refresh RefreshCertificates (Set (\<lambda>s. s\<lparr>serverKeyMaterialModal := closed_modal no_key_form\<rparr>) Stop))))))"

text \<open>The buttons of the two modes; the one for imports needs a text.\<close>

definition import_key_material :: "string \<Rightarrow> key_page \<Rightarrow> key_page script" where
  "import_key_material serverId s0 =
     (let m = serverKeyMaterialModal s0 in
      if m_busy m \<or> js_trim (k_pem (m_form m)) = [] then Stop else submitKeyMaterial (Ui ''the import failed'') serverId s0)"

definition create_key_material :: "string \<Rightarrow> key_page \<Rightarrow> key_page script" where
  "create_key_material serverId s0 =
     (if m_busy (serverKeyMaterialModal s0) then Stop else submitKeyMaterial (Ui ''the material could not be created'') serverId s0)"

subsection \<open>Properties\<close>

interpretation import_dialog: dialog "import_key_material serverId" serverKeyMaterialModal for serverId
  by unfold_locales
    (auto simp: import_key_material_def submitKeyMaterial_def persist_created_def persist_partial_def refresh_materials_def Let_def dialog_outcomes
      split: sum.splits if_splits)

interpretation create_dialog: dialog "create_key_material serverId" serverKeyMaterialModal for serverId
  by unfold_locales
    (auto simp: create_key_material_def submitKeyMaterial_def persist_created_def persist_partial_def refresh_materials_def Let_def dialog_outcomes
      split: sum.splits if_splits)

text \<open>The name the dialog of a new server certificate starts with has only characters a common name may have, and is not blank.\<close>

lemma default_cn_ok:
  "list_all cn_char (default_cn server serverId)" "take 7 (default_cn server serverId) = ''server:''"
  "8 \<le> length (default_cn server serverId)" "length (default_cn server serverId) \<le> 55"
proof -
  have c: "cn_char (CHR ''_'')" by (simp add: cn_char_def)
  have n: "list_all cn_char ''node''" "list_all cn_char ''server:''" by code_simp+
  define t where "t = take 48 (map (\<lambda>c. if cn_char c then c else CHR ''_'')
    (if truthy (jprop server ''name'') then to_str (jprop server ''name'') else js_or serverId ''node''))"
  have d: "default_cn server serverId = ''server:'' @ js_or t ''node''" by (simp add: default_cn_def t_def Let_def)
  have "list_all cn_char t" using c by (auto simp: t_def list_all_iff dest!: in_set_takeD)
  moreover have "length t \<le> 48" by (simp add: t_def)
  ultimately show "list_all cn_char (default_cn server serverId)" "take 7 (default_cn server serverId) = ''server:''"
    "8 \<le> length (default_cn server serverId)" "length (default_cn server serverId) \<le> 55"
    using n by (cases t; auto simp: d js_or_def)+
qed

lemma default_cn_trimmed: "js_trim (default_cn server serverId) = default_cn server serverId"
proof -
  have "\<not> is_space c" if "cn_char c" for c
    using that by (auto simp: cn_char_def is_space_def is_alnum_def code_of_def Let_def)
  moreover have "default_cn server serverId \<noteq> []" using default_cn_ok(3) [of server serverId] by auto
  ultimately show ?thesis using default_cn_ok(1) [of server serverId] by (simp add: js_trim_iff list_all_iff)
qed

lemma days_sent: "1 \<le> maxD \<Longrightarrow> maxD \<le> 3650 \<Longrightarrow> 1 \<le> k \<Longrightarrow> k \<le> maxD \<Longrightarrow> srv_cert_days (JNum (num_of_int k)) maxD = k"
  by (simp add: srv_cert_days_def)

text \<open>Whenever the button for a new server certificate can be pressed, the dialog it opens can be confirmed as it is or with any text typed into
  its days: one request is sent first, with a common name of 8 to 55 allowed characters, and with exactly the days the field shows,
  between one and the allowance of the root certificate.\<close>

theorem new_cert_dialog_ready:
  fixes s :: cert_page and server :: jsval and t :: string and srv :: "nat \<Rightarrow> call \<Rightarrow> answer" and env :: "nat \<Rightarrow> cert_page \<Rightarrow> cert_page" and n :: nat
  assumes "create_enabled (panelRootCaIdForServer (settings s)) maxD loading" and "maxD \<le> 3650" and "serverId \<noteq> []" and "tokenRef s \<noteq> []"
  defines "opened \<equiv> open_srv_cert_create server serverId maxD s"
    and "edited \<equiv> edit_validity_days maxD t (open_srv_cert_create server serverId maxD s)"
    and "sent_days \<equiv> (\<lambda>s days. take 1 (calls_of (snd (exec (submitSrvCertCreate serverId maxD s) srv env n s))) =
      [(''POST'', node_path serverId ''/server-certificate'', JObj [(''rootCaId'', JStr (panelRootCaIdForServer (settings s))),
         (''commonName'', JStr (default_cn server serverId)), (''validityDays'', JNum (num_of_int days)), (''keySize'', JNum (num_of_int 2048)),
         (''signatureAlgorithm'', JStr ''sha256'')])])"
  shows "sent_days opened (min 825 maxD) \<and> sent_days edited (typed_days maxD t) \<and> 1 \<le> typed_days maxD t \<and> typed_days maxD t \<le> maxD
    \<and> list_all cn_char (default_cn server serverId) \<and> 8 \<le> length (default_cn server serverId) \<and> length (default_cn server serverId) \<le> 55"
proof -
  have g: "panelRootCaIdForServer (settings s) \<noteq> []" "1 \<le> maxD" using assms(1) by (auto simp: create_enabled_def)
  have d: "1 \<le> typed_days maxD t \<and> typed_days maxD t \<le> maxD" using g(2) by (auto simp: typed_days_def split: option.split)
  have k: "(let k = number_of_string ''2048'' in if truthy (JNum k) then k else num_of_int 2048) = num_of_int 2048" by code_simp
  have cn: "default_cn server serverId \<noteq> []" using default_cn_ok(3) [of server serverId] by auto
  have "sent_days (s\<lparr>srvCertCreateModal := m\<rparr>) days"
    if m: "m_form m = \<lparr>f_cn = default_cn server serverId, f_validityDays = JNum (num_of_int days), f_keySize = ''2048'', f_signatureAlgorithm = ''sha256''\<rparr>"
      and "1 \<le> days" "days \<le> maxD" for m days
    using that g assms(2-4) cn days_sent [OF g(2) assms(2) that(2,3)] k default_cn_trimmed
    by (simp add: sent_days_def submitSrvCertCreate_def srv_cert_call_def Let_def js_or_def)
  from this [of "srvCertCreateModal opened"] this [of "srvCertCreateModal edited"] show ?thesis
    using d g(2) default_cn_ok [of server serverId] unfolding opened_def edited_def open_srv_cert_create_def edit_validity_days_def
    by (simp add: min_def)
qed

theorem new_cert_dialog_ready_witness:
  "take 1 (calls_of (snd (exec (submitSrvCertCreate ''s1'' 30 (open_srv_cert_create (JObj [(''name'', JStr ''a b'')]) ''s1'' 30 blank_certs))
      (\<lambda>_ _. Inr JNull) (\<lambda>_ t. t) 0 (open_srv_cert_create (JObj [(''name'', JStr ''a b'')]) ''s1'' 30 blank_certs)))) =
    [(''POST'', node_path ''s1'' ''/server-certificate'', JObj [(''rootCaId'', JStr ''r1''), (''commonName'', JStr ''server:a_b''),
       (''validityDays'', JNum (num_of_int 30)), (''keySize'', JNum (num_of_int 2048)), (''signatureAlgorithm'', JStr ''sha256'')])]"
proof -
  have f: "panelRootCaIdForServer (settings blank_certs) = ''r1''" "tokenRef blank_certs = ''tok''"
    "default_cn (JObj [(''name'', JStr ''a b'')]) ''s1'' = ''server:a_b''"
    "panelRootCaIdForServer (settings (open_srv_cert_create (JObj [(''name'', JStr ''a b'')]) ''s1'' 30 blank_certs)) = ''r1''"
    by code_simp+
  show ?thesis
    using new_cert_dialog_ready [of blank_certs 30 False "''s1''", where server = "JObj [(''name'', JStr ''a b'')]" and srv = "\<lambda>_ _. Inr JNull"
        and env = "\<lambda>_ t. t" and n = 0]
    by (simp add: f create_enabled_def)
qed

lemma create_starts:
  assumes "tokenRef s \<noteq> []" and "serverId \<noteq> []" and "k_kind (m_form (serverKeyMaterialModal s)) \<noteq> []" and "\<not> m_busy (serverKeyMaterialModal s)"
  shows "take 1 (calls_of (snd (exec (create_key_material serverId s) srv env n s))) = [key_material_call serverId (m_form (serverKeyMaterialModal s))]"
  using assms by (simp add: create_key_material_def submitKeyMaterial_def Let_def)

lemma refresh_keeps:
  fixes s :: key_page
  assumes "serverId \<noteq> []" and "tokenRef s \<noteq> []"
  shows "settings (fst (exec (refresh_materials serverId (Refresh g (Set (\<lambda>s. s\<lparr>serverKeyMaterialModal := m\<rparr>) Stop))) srv (\<lambda>_ t. t) n s)) = settings s"
    and "serverKeyMaterialModal (fst (exec (refresh_materials serverId (Refresh g (Set (\<lambda>s. s\<lparr>serverKeyMaterialModal := m\<rparr>) Stop))) srv (\<lambda>_ t. t) n s)) = m"
    and "Refreshed g \<in> set (snd (exec (refresh_materials serverId (Refresh g (Set (\<lambda>s. s\<lparr>serverKeyMaterialModal := m\<rparr>) Stop))) srv (\<lambda>_ t. t) n s))"
  using assms by (simp_all add: refresh_materials_def Let_def split: sum.split)

lemma create_runs:
  fixes s :: key_page
  assumes "tokenRef s \<noteq> []" and "serverId \<noteq> []" and "k_kind (m_form (serverKeyMaterialModal s)) = kd" and "kd \<noteq> []"
    and "\<not> m_busy (serverKeyMaterialModal s)" and "srv 0 (key_material_call serverId (m_form (serverKeyMaterialModal s))) = Inr created"
    and "jprop created ''id'' = JStr i" and "i \<noteq> []"
  defines "t \<equiv> s\<lparr>serverKeyMaterialModal := begin_modal (serverKeyMaterialModal s)\<rparr>"
    and "save \<equiv> persistOpenVpnPanelPartial_call serverId (key_material_partial (settings s) kd i)"
  shows "exec (create_key_material serverId s) srv (\<lambda>_ t. t) 0 s =
    (let r = exec (case srv 1 save of
          Inl e \<Rightarrow> Set (\<lambda>s. s\<lparr>serverKeyMaterialModal := fail_modal (message_or e (Ui ''the material could not be created'')) (serverKeyMaterialModal s)\<rparr>) Stop
        | Inr v \<Rightarrow> Set (\<lambda>s. s\<lparr>settings := obj_spread (settings s) (key_material_partial (settings s) kd i)\<rparr>)
            (refresh_materials serverId (Refresh RefreshCertificates (Set (\<lambda>s. s\<lparr>serverKeyMaterialModal := closed_modal no_key_form\<rparr>) Stop))))
        srv (\<lambda>_ t. t) 2 t
     in (fst r, Called (key_material_call serverId (m_form (serverKeyMaterialModal s))) (Inr created) # Called save (srv 1 save) # snd r))"
  using assms(1-8)
  by (cases "srv 1 save") (simp_all add: t_def save_def create_key_material_def submitKeyMaterial_def persist_created_def persist_partial_def
    persistOpenVpnPanelPartial_done_def Let_def numeral_2_eq_2)

text \<open>C19: 
  New key material of a node becomes the one it uses: when the requests succeed the settings refer to it, a path that was set is kept,
  the lists are loaded again and the dialog is closed. When only saving the reference fails, the dialog stays open with a message and
  the settings and lists stay as they were, although the material exists; pressing the button again asks for another one.
\<close>

theorem key_material_linked:
  fixes s :: key_page
  assumes "tokenRef s \<noteq> []" and "serverId \<noteq> []" and "k_kind (m_form (serverKeyMaterialModal s)) = kd" and "kd = ''dh'' \<or> kd = ''tls_auth''"
    and "\<not> m_busy (serverKeyMaterialModal s)" and "srv 0 (key_material_call serverId (m_form (serverKeyMaterialModal s))) = Inr created"
    and "jprop created ''id'' = JStr i" and "i \<noteq> []"
  defines "out \<equiv> exec (create_key_material serverId s) srv (\<lambda>_ t. t) 0 s"
    and "save \<equiv> persistOpenVpnPanelPartial_call serverId (key_material_partial (settings s) kd i)"
    and "idk \<equiv> if kd = ''dh'' then ''panelDhMaterialId'' else ''panelTlsAuthMaterialId''" and "pathk \<equiv> if kd = ''dh'' then ''dh'' else ''tls-auth''"
  shows "case srv 1 save of
      Inr v \<Rightarrow> obj_get (settings (fst out)) idk = JStr i \<and> serverKeyMaterialModal (fst out) = closed_modal no_key_form
        \<and> obj_get (settings (fst out)) pathk = path_or (settings s) pathk (if kd = ''dh'' then ''/etc/openvpn/dh.pem'' else ''/etc/openvpn/ta.key 0'')
        \<and> Refreshed RefreshCertificates \<in> set (snd out)
    | Inl e \<Rightarrow> settings (fst out) = settings s \<and> openvpnMaterialsDh (fst out) = openvpnMaterialsDh s \<and> openvpnMaterialsTls (fst out) = openvpnMaterialsTls s
        \<and> m_open (serverKeyMaterialModal (fst out)) = m_open (serverKeyMaterialModal s) \<and> shown (m_error (serverKeyMaterialModal (fst out)))
        \<and> take 1 (calls_of (snd (exec (create_key_material serverId (fst out)) srv (\<lambda>_ t. t) 0 (fst out))))
            = [key_material_call serverId (m_form (serverKeyMaterialModal s))]"
proof -
  let ?ps = "key_material_partial (settings s) kd i"
  have ne: "kd \<noteq> []" using assms(4) by auto
  note run = create_runs [of s serverId kd srv created i, OF assms(1-3) ne assms(5-8), folded save_def out_def]
  have get: "obj_get (obj_spread (settings s) ?ps) idk = JStr i"
    "obj_get (obj_spread (settings s) ?ps) pathk = path_or (settings s) pathk (if kd = ''dh'' then ''/etc/openvpn/dh.pem'' else ''/etc/openvpn/ta.key 0'')"
    using assms(4) by (auto simp: idk_def pathk_def key_material_partial_def obj_spread_def js_obj)
  show ?thesis
  proof (cases "srv 1 save")
    case (Inl e)
    then have out: "fst out = s\<lparr>serverKeyMaterialModal := fail_modal (message_or e (Ui ''the material could not be created'')) (serverKeyMaterialModal s)\<rparr>"
      using run by (simp add: Let_def)
    show ?thesis
      using create_starts [of "fst out" serverId srv "\<lambda>_ t. t" 0] assms(1-3) ne unfolding Inl by (simp add: out)
  next
    case (Inr v)
    then show ?thesis using run get refresh_keeps [OF assms(2)] assms(1) by (simp add: Let_def)
  qed
qed

definition blank_keys :: key_page where
  "blank_keys = open_key_material False ''dh'' (cert_page.extend blank_certs (key_page.fields (closed_modal no_key_form)))"

theorem key_material_linked_witness:
  "obj_get (settings (fst (exec (create_key_material ''s1'' blank_keys) (\<lambda>_ _. Inr (JObj [(''id'', JStr ''m1'')])) (\<lambda>_ t. t) 0 blank_keys)))
     ''panelDhMaterialId'' = JStr ''m1''"
proof -
  have f: "tokenRef blank_keys = ''tok''" "k_kind (m_form (serverKeyMaterialModal blank_keys)) = ''dh''"
    "m_busy (serverKeyMaterialModal blank_keys) = False"
    by (simp_all add: blank_keys_def open_key_material_def cert_page.defs key_page.defs blank_certs_def)
  show ?thesis
    using key_material_linked [of blank_keys "''s1''" "''dh''" "\<lambda>_ _. Inr (JObj [(''id'', JStr ''m1'')])" "JObj [(''id'', JStr ''m1'')]" "''m1''"]
    by (simp add: f jprop_def obj_get_def)
qed

end
