(* ===== verification/Monitoring.thy ===== *)
theory Monitoring
  imports Time_Format
begin

section \<open>Monitoring charts\<close>

text \<open>
  \<^verbatim>\<open>MonitoringCharts.tsx\<close>: the values of the legends, the scales of the axes, the four panels; and the formatters of sizes and
  rates. Numbers are exact decimals: \<^verbatim>\<open>toFixed\<close> and \<^verbatim>\<open>Math.round\<close> round them without the error of binary fractions.
\<close>

subsection \<open>Order and rounding of numbers\<close>

text \<open>A comparison with \<^verbatim>\<open>NaN\<close> is false.\<close>

fun js_le :: "jsnum \<Rightarrow> jsnum \<Rightarrow> bool" where
  "js_le (Dec m e) (Dec n f) = (let g = min e f in m * 10 ^ nat (e - g) \<le> n * 10 ^ nat (f - g))"
| "js_le NaN y = False"
| "js_le x NaN = False"
| "js_le NegInfinity y = True"
| "js_le x Infinity = True"
| "js_le Infinity y = False"
| "js_le x NegInfinity = False"

definition js_less :: "jsnum \<Rightarrow> jsnum \<Rightarrow> bool" where
  "js_less x y = (js_le x y \<and> \<not> js_le y x)"

definition js_max :: "jsnum \<Rightarrow> jsnum \<Rightarrow> jsnum" where
  "js_max x y = (if x = NaN \<or> y = NaN then NaN else if js_le x y then y else x)"

definition js_min :: "jsnum \<Rightarrow> jsnum \<Rightarrow> jsnum" where
  "js_min x y = (if x = NaN \<or> y = NaN then NaN else if js_le y x then y else x)"

definition math_max :: "jsnum list \<Rightarrow> jsnum" where
  "math_max xs = foldl js_max NegInfinity xs"

definition math_min :: "jsnum list \<Rightarrow> jsnum" where
  "math_min xs = foldl js_min Infinity xs"

text \<open>The integer nearest to \<open>m * 10 ^ e\<close>, halves upwards.\<close>

definition nearest :: "int \<Rightarrow> int \<Rightarrow> int" where
  "nearest m e = (if 0 \<le> e then m * 10 ^ nat e else (2 * m + 10 ^ nat (- e)) div (2 * 10 ^ nat (- e)))"

fun js_round :: "jsnum \<Rightarrow> jsnum" where
  "js_round (Dec m e) = num_of_int (nearest m e)"
| "js_round x = x"

text \<open>\<^verbatim>\<open>x.toFixed(f)\<close>: \<open>n\<close> in units of \<open>10 ^ -f\<close>, the sign first; the plain text of numbers from \<^verbatim>\<open>1e21\<close> on.\<close>

definition fixed_text :: "nat \<Rightarrow> int \<Rightarrow> string" where
  "fixed_text f n =
     (let ds = nat_string (nat n); pad = replicate (Suc f - length ds) (CHR ''0'') @ ds
      in if f = 0 then ds else take (length pad - f) pad @ ''.'' @ drop (length pad - f) pad)"

fun to_fixed :: "nat \<Rightarrow> jsnum \<Rightarrow> string" where
  "to_fixed f (Dec m e) =
     (if js_le (Dec 1 21) (Dec \<bar>m\<bar> e) then num_string (Dec m e)
      else (if m < 0 then ''-'' else []) @ fixed_text f (nearest \<bar>m\<bar> (e + int f)))"
| "to_fixed f x = num_string x"

fun shift10 :: "int \<Rightarrow> jsnum \<Rightarrow> jsnum" where
  "shift10 k (Dec m e) = (if m = 0 then Dec 0 0 else Dec m (e + k))"
| "shift10 k x = x"

subsection \<open>Sizes and rates\<close>

text \<open>\<^verbatim>\<open>Number(v || 0)\<close> and \<^verbatim>\<open>Number(v ?? 0)\<close>\<close>

definition num_or0 :: "jsval \<Rightarrow> jsnum" where
  "num_or0 v = (if truthy v then to_num v else Dec 0 0)"

definition number_nullish :: "jsval \<Rightarrow> jsnum" where
  "number_nullish v = (if v = JUndef \<or> v = JNull then Dec 0 0 else to_num v)"

text \<open>The unit of a rate: digits after the point, power of ten and name.\<close>

definition rate_unit :: "jsnum \<Rightarrow> nat \<times> nat \<times> string" where
  "rate_unit n = (if js_less n (Dec 1 3) then (0, 0, '' Bps'') else if js_less n (Dec 1 6) then (0, 3, '' kbps'')
     else if js_less n (Dec 1 9) then (1, 6, '' Mbps'') else (1, 9, '' Gbps''))"

definition rate_text :: "jsnum \<Rightarrow> string" where
  "rate_text n = (case rate_unit n of (f, k, u) \<Rightarrow> to_fixed f (shift10 (- int k) n) @ u)"

definition formatRateForChart :: "jsval \<Rightarrow> string" where
  "formatRateForChart v = rate_text (js_max (num_or0 v) (Dec 0 0))"

text \<open>Powers of 1024 divide a decimal exactly: \<open>n / 1024 = n * 5 ^ 10 / 10 ^ 10\<close>.\<close>

fun div1024 :: "jsnum \<Rightarrow> jsnum" where
  "div1024 (Dec m e) = mk_dec (m * 5 ^ 10) (e - 10)"
| "div1024 x = x"

definition formatBps :: "jsval \<Rightarrow> string" where
  "formatBps v = (let n = num_or0 v in if js_less n (Dec 1024 0) then to_fixed 0 n @ '' B/s'' else to_fixed 1 (div1024 n) @ '' KB/s'')"

definition formatBytes :: "jsval \<Rightarrow> string \<times> string" where
  "formatBytes v = (let n = (if truthy (JNum (to_num v)) then to_num v else Dec 0 0) in
     if js_less n (Dec 1024 0) then (num_string n, ''B'')
     else if js_less n (Dec 1048576 0) then (to_fixed 1 (div1024 n), ''KiB'')
     else (to_fixed 2 (div1024 (div1024 n)), ''MiB''))"

subsection \<open>Legends and scales\<close>

definition safeMin :: "jsnum list \<Rightarrow> jsnum" where
  "safeMin vals = (let arr = filter js_finite vals in if arr = [] then Dec 0 0 else math_min arr)"

definition safeMax :: "jsnum list \<Rightarrow> jsnum" where
  "safeMax vals = (let arr = filter js_finite vals in if arr = [] then Dec 0 0 else math_max arr)"

text \<open>Least, greatest and current value of a load; \<open>num\<close> is how the code reads it.\<close>

definition load_min :: "(jsval \<Rightarrow> jsnum) \<Rightarrow> string \<Rightarrow> jsval list \<Rightarrow> jsnum" where
  "load_min num k samples = js_min (safeMin (map (\<lambda>s. num (jprop s k)) samples)) (Dec 0 0)"

definition load_max :: "(jsval \<Rightarrow> jsnum) \<Rightarrow> string \<Rightarrow> jsval list \<Rightarrow> jsval \<Rightarrow> jsnum" where
  "load_max num k samples current = math_max [safeMax (map (\<lambda>s. num (jprop s k)) samples), num (jprop current k), Dec 0 0]"

text \<open>\<^verbatim>\<open>Math.ceil(x / unit) * unit\<close>\<close>

fun ceil_to :: "int \<Rightarrow> jsnum \<Rightarrow> jsnum" where
  "ceil_to unit (Dec m e) = num_of_int (- ((if 0 \<le> e then (- m) * 10 ^ nat e div unit else (- m) div (unit * 10 ^ nat (- e)))) * unit)"
| "ceil_to unit x = x"

definition rate_values :: "string list \<Rightarrow> jsval list \<Rightarrow> jsval \<Rightarrow> jsnum list" where
  "rate_values ks samples current = concat (map (\<lambda>k. map (\<lambda>s. num_or0 (jprop s k)) samples) ks) @ map (\<lambda>k. num_or0 (jprop current k)) ks"

definition rate_scale :: "int \<Rightarrow> int \<Rightarrow> string list \<Rightarrow> jsval list \<Rightarrow> jsval \<Rightarrow> jsnum" where
  "rate_scale least unit ks samples current =
     js_max (num_of_int least) (ceil_to unit (math_max (rate_values ks samples current @ [Dec 1 0])))"

definition diskScale :: "jsval list \<Rightarrow> jsval \<Rightarrow> jsnum" where
  "diskScale samples current = rate_scale (400 * 1000 * 1000) (100 * 1000 * 1000) [''diskReadBps'', ''diskWriteBps''] samples current"

definition bwScale :: "jsval list \<Rightarrow> jsval \<Rightarrow> jsnum" where
  "bwScale samples current = rate_scale (40 * 1000 * 1000) (10 * 1000 * 1000) [''networkInBps'', ''networkOutBps''] samples current"

subsection \<open>The panels\<close>

text \<open>A panel: title, height of its axis, marks of the axis with their texts, label and key of each curve, and the rows of its legend.\<close>

record chart_panel =
  p_title :: string
  p_yMax :: jsnum
  p_yTicks :: "(int \<times> string) list"
  p_series :: "(string \<times> string) list"
  p_legend :: "(string \<times> string) list list"

definition percent :: "jsnum \<Rightarrow> string" where
  "percent x = num_string (js_round x) @ ''%''"

text \<open>The texts at the axis: \<^verbatim>\<open>`${Math.round(v)}%`\<close>, and millions with a unit.\<close>

definition ticks_percent :: "int list \<Rightarrow> (int \<times> string) list" where
  "ticks_percent vs = map (\<lambda>v. (v, percent (num_of_int v))) vs"

definition ticks_million :: "string \<Rightarrow> string \<Rightarrow> int list \<Rightarrow> (int \<times> string) list" where
  "ticks_million zero unit vs = map (\<lambda>v. (v * 1000 * 1000, if v = 0 then zero else num_string (js_round (num_of_int v)) @ unit)) vs"

definition legend_row :: "string \<Rightarrow> string \<Rightarrow> string \<Rightarrow> string \<Rightarrow> (string \<times> string) list" where
  "legend_row label lo hi cur = [(label, []), (''min'', lo), (''max'', hi), (''current'', cur)]"

definition load_panel :: "(jsval \<Rightarrow> jsnum) \<Rightarrow> string \<Rightarrow> string \<Rightarrow> jsnum \<Rightarrow> (int \<times> string) list \<Rightarrow> jsval list \<Rightarrow> jsval \<Rightarrow> chart_panel" where
  "load_panel num label k yMax ticks samples current =
     \<lparr>p_title = label, p_yMax = yMax, p_yTicks = ticks, p_series = [(label, k)],
      p_legend = [legend_row label (percent (load_min num k samples)) (percent (load_max num k samples current)) (percent (num (jprop current k)))]\<rparr>"

definition rate_panel :: "string \<Rightarrow> jsnum \<Rightarrow> (int \<times> string) list \<Rightarrow> (string \<times> string) list \<Rightarrow> jsval list \<Rightarrow> jsval \<Rightarrow> chart_panel" where
  "rate_panel title yMax ticks ser samples current =
     \<lparr>p_title = title, p_yMax = yMax, p_yTicks = ticks, p_series = ser,
      p_legend = map (\<lambda>(label, k). let vals = map (\<lambda>s. num_or0 (jprop s k)) samples; fmt = (\<lambda>x. formatRateForChart (JNum x)) in
        legend_row label (fmt (safeMin vals)) (fmt (safeMax vals)) (formatRateForChart (jprop current k))) ser\<rparr>"

definition MonitoringCharts :: "jsval \<Rightarrow> jsval \<Rightarrow> chart_panel list" where
  "MonitoringCharts samples current =
     (let safe = (case samples of JArr xs \<Rightarrow> xs | _ \<Rightarrow> []) in
      [load_panel number_nullish ''CPU'' ''cpuPercent'' (Dec 250 0) (ticks_percent [0, 50, 100, 150, 200, 250]) safe current,
       load_panel num_or0 ''RAM'' ''memoryPercent'' (Dec 100 0) (ticks_percent [0, 20, 40, 60, 80, 100]) safe current,
       rate_panel ''Disk'' (diskScale safe current) (ticks_million ''0 Bps'' '' MBps'' [0, 100, 200, 300, 400])
         [(''Disk read'', ''diskReadBps''), (''Disk write'', ''diskWriteBps'')] safe current,
       rate_panel ''Bandwidth'' (bwScale safe current) (ticks_million ''0 Mbps'' '' Mbps'' [0, 10, 20, 30, 40])
         [(''Bandwidth in'', ''networkInBps''), (''Bandwidth out'', ''networkOutBps'')] safe current])"

subsection \<open>Times of the charts\<close>

text \<open>\<open>clock ms\<close> are year, month, day, hour, minute and second of an instant in the zone of the browser.\<close>

definition fmtTime :: "(int \<Rightarrow> int \<times> int \<times> int \<times> int \<times> int \<times> int) \<Rightarrow> int \<Rightarrow> string" where
  "fmtTime clock ms = (case clock ms of (y, mo, d, h, mi, s) \<Rightarrow> pad2 h @ '':'' @ pad2 mi)"

definition fmtTimeFull :: "(int \<Rightarrow> int \<times> int \<times> int \<times> int \<times> int \<times> int) \<Rightarrow> int \<Rightarrow> string" where
  "fmtTimeFull clock ms = (case clock ms of (y, mo, d, h, mi, s) \<Rightarrow>
     int_string y @ ''-'' @ pad2 mo @ ''-'' @ pad2 d @ '' '' @ pad2 h @ '':'' @ pad2 mi @ '':'' @ pad2 s)"

text \<open>What the box at the cursor shows: nothing outside the plot, else the time and the value of each curve at the index.\<close>

definition hover_of :: "(string \<times> (jsnum \<Rightarrow> string)) list \<Rightarrow> int list \<times> jsnum list list \<Rightarrow> nat option \<Rightarrow> (int \<times> (string \<times> string) list) option" where
  "hover_of ser data idx = map_option (\<lambda>i. (fst data ! i, map (\<lambda>((label, fmt), ys). (label, fmt (ys ! i))) (zip ser (snd data)))) idx"

subsection \<open>Properties\<close>

text \<open>The numbers as rationals.\<close>

definition rat_dec :: "int \<Rightarrow> int \<Rightarrow> rat" where
  "rat_dec m e = of_int m * 10 powi e"

lemma rat_dec_shift: "g \<le> e \<Longrightarrow> rat_dec m e = of_int (m * 10 ^ nat (e - g)) * 10 powi g"
proof -
  assume "g \<le> e"
  then have "e = int (nat (e - g)) + g" by simp
  then have "(10 :: rat) powi e = 10 ^ nat (e - g) * 10 powi g"
    by (metis power_int_add power_int_of_nat zero_neq_numeral)
  then show ?thesis by (simp add: rat_dec_def)
qed

lemma js_le_Dec: "js_le (Dec m e) (Dec n f) \<longleftrightarrow> rat_dec m e \<le> rat_dec n f"
proof -
  let ?g = "min e f"
  have "rat_dec m e \<le> rat_dec n f \<longleftrightarrow> of_int (m * 10 ^ nat (e - ?g)) * (10 :: rat) powi ?g \<le> of_int (n * 10 ^ nat (f - ?g)) * 10 powi ?g"
    by (simp only: rat_dec_shift [of ?g e m] rat_dec_shift [of ?g f n] min.cobounded1 min.cobounded2)
  also have "\<dots> \<longleftrightarrow> m * 10 ^ nat (e - ?g) \<le> n * 10 ^ nat (f - ?g)"
    by (simp only: mult_le_cancel_right_pos zero_less_power_int zero_less_numeral of_int_le_iff)
  finally show ?thesis by (simp add: Let_def)
qed

lemma rat_num_of_int: "\<exists>a b. num_of_int k = Dec a b \<and> rat_dec a b = of_int k"
proof (cases "k = 0")
  case False
  from mk_dec_value [OF this, of 0] obtain a b where "num_of_int k = Dec a b" "0 \<le> b" "a * 10 ^ nat b = k" by auto
  then show ?thesis using rat_dec_shift [of 0 b a] by (intro exI [of _ a] exI [of _ b]) simp
qed (simp add: mk_dec.simps rat_dec_def)

lemma js_le_refl: "x \<noteq> NaN \<Longrightarrow> js_le x x"
  by (cases x) (simp_all add: js_le_Dec del: js_le.simps(1))

lemma js_le_trans: "js_le x y \<Longrightarrow> js_le y z \<Longrightarrow> js_le x z"
  by (cases x; cases y; cases z) (auto simp: js_le_Dec simp del: js_le.simps(1))

lemma js_le_total: "x \<noteq> NaN \<Longrightarrow> y \<noteq> NaN \<Longrightarrow> js_le x y \<or> js_le y x"
  by (cases x; cases y) (auto simp: js_le_Dec simp del: js_le.simps(1))

lemma js_le_NaN [simp]: "js_le x NaN = False"
  by (cases x) simp_all

lemma js_max_upper: "x \<noteq> NaN \<Longrightarrow> y \<noteq> NaN \<Longrightarrow> js_le x (js_max x y) \<and> js_le y (js_max x y) \<and> js_max x y \<noteq> NaN"
  using js_le_total js_le_refl by (auto simp: js_max_def)

lemma math_max_upper:
  assumes "a \<noteq> NaN" and "NaN \<notin> set xs"
  shows "foldl js_max a xs \<noteq> NaN \<and> js_le a (foldl js_max a xs) \<and> list_all (\<lambda>x. js_le x (foldl js_max a xs)) xs"
  using assms
proof (induction xs arbitrary: a)
  case (Cons x xs)
  have m: "js_le a (js_max a x)" "js_le x (js_max a x)" "js_max a x \<noteq> NaN" using js_max_upper [of a x] Cons.prems by auto
  with Cons.IH [of "js_max a x"] Cons.prems show ?case using js_le_trans by (auto simp: list_all_iff)
qed (simp add: js_le_refl)

lemma math_max_NaN: "a = NaN \<or> NaN \<in> set xs \<Longrightarrow> foldl js_max a xs = NaN"
proof (induction xs arbitrary: a)
  case (Cons x xs)
  show ?case
  proof (cases "a = NaN \<or> x = NaN")
    case True
    then have "js_max a x = NaN" by (auto simp: js_max_def)
    then show ?thesis using Cons.IH [of NaN] by simp
  next
    case False
    then show ?thesis using Cons by auto
  qed
qed simp

lemma ceil_to_upper:
  assumes "x \<noteq> NaN" and "0 < unit"
  shows "js_le x (ceil_to unit x) \<and> ceil_to unit x \<noteq> NaN"
proof (cases x)
  case (Dec m e)
  define q where "q = - ((if 0 \<le> e then (- m) * 10 ^ nat e div unit else (- m) div (unit * 10 ^ nat (- e)))) * unit"
  obtain a b where ab: "num_of_int q = Dec a b" "rat_dec a b = of_int q" using rat_num_of_int by blast
  have "rat_dec m e \<le> of_int q"
  proof (cases "0 \<le> e")
    case True
    have "(- m) * 10 ^ nat e div unit * unit \<le> (- m) * 10 ^ nat e"
      using assms(2) by (metis div_mult_mod_eq le_add_same_cancel1 pos_mod_sign)
    then have "m * 10 ^ nat e \<le> q" using True by (simp add: q_def)
    then have "(of_int (m * 10 ^ nat e) :: rat) \<le> of_int q" by (simp only: of_int_le_iff)
    then show ?thesis using rat_dec_shift [of 0 e m] True by simp
  next
    case False
    let ?d = "unit * 10 ^ nat (- e)"
    have "0 < ?d" using assms(2) by simp
    then have "(- m) div ?d * ?d \<le> - m" by (metis div_mult_mod_eq le_add_same_cancel1 pos_mod_sign)
    then have "m \<le> q * 10 ^ nat (- e)" using False by (simp add: q_def algebra_simps)
    moreover have "rat_dec q 0 = of_int (q * 10 ^ nat (- e)) * 10 powi e" using rat_dec_shift [of e 0 q] False by simp
    ultimately have "rat_dec m e \<le> rat_dec q 0"
      by (simp only: rat_dec_def mult_le_cancel_right_pos zero_less_power_int zero_less_numeral of_int_le_iff)
    then show ?thesis by (simp add: rat_dec_def)
  qed
  moreover have "ceil_to unit x = num_of_int q" by (simp add: Dec q_def)
  ultimately show ?thesis using Dec ab by (simp add: js_le_Dec del: js_le.simps(1))
qed (use assms in auto)

text \<open>The axes of the disk and network panels reach as high as every curve and every current value, and at least as high as in an idle system;
  one value that is no number makes the scale none.\<close>

theorem scales_cover_data:
  "(if NaN \<in> set (rate_values [''diskReadBps'', ''diskWriteBps''] samples current) then diskScale samples current = NaN
    else list_all (\<lambda>v. js_le v (diskScale samples current)) (Dec 4 8 # rate_values [''diskReadBps'', ''diskWriteBps''] samples current))
   \<and> (if NaN \<in> set (rate_values [''networkInBps'', ''networkOutBps''] samples current) then bwScale samples current = NaN
    else list_all (\<lambda>v. js_le v (bwScale samples current)) (Dec 4 7 # rate_values [''networkInBps'', ''networkOutBps''] samples current))"
proof -
  have nan: "NaN \<in> set (rate_values ks samples current) \<Longrightarrow> rate_scale least unit ks samples current = NaN" for least unit ks
    using math_max_NaN [of NegInfinity "rate_values ks samples current @ [Dec 1 0]"] by (simp add: rate_scale_def math_max_def js_max_def)
  have ok: "list_all (\<lambda>v. js_le v (rate_scale least unit ks samples current)) (num_of_int least # rate_values ks samples current)"
    if n: "NaN \<notin> set (rate_values ks samples current)" and u: "0 < unit" for least unit ks
  proof -
    let ?v = "rate_values ks samples current @ [Dec 1 0]"
    have m: "math_max ?v \<noteq> NaN" "list_all (\<lambda>x. js_le x (math_max ?v)) ?v"
      using math_max_upper [of NegInfinity ?v] n by (simp_all add: math_max_def)
    have l: "num_of_int least \<noteq> NaN" using rat_num_of_int [of least] by auto
    have "js_le (num_of_int least) (rate_scale least unit ks samples current)
        \<and> js_le (ceil_to unit (math_max ?v)) (rate_scale least unit ks samples current)"
      using js_max_upper [OF l, of "ceil_to unit (math_max ?v)"] ceil_to_upper [OF m(1) u] by (simp add: rate_scale_def)
    then have c: "js_le (num_of_int least) (rate_scale least unit ks samples current)" "js_le (math_max ?v) (rate_scale least unit ks samples current)"
      using js_le_trans ceil_to_upper [OF m(1) u] by blast+
    show ?thesis using m(2) c(1) js_le_trans [OF _ c(2)] by (simp add: list_all_iff)
  qed
  have "num_of_int (400 * 1000 * 1000) = Dec 4 8" "num_of_int (40 * 1000 * 1000) = Dec 4 7" by (simp_all add: mk_dec.simps)
  with nan ok [of "[''diskReadBps'', ''diskWriteBps'']" "100 * 1000 * 1000" "400 * 1000 * 1000"]
    ok [of "[''networkInBps'', ''networkOutBps'']" "10 * 1000 * 1000" "40 * 1000 * 1000"]
  show ?thesis unfolding diskScale_def bwScale_def by auto
qed

text \<open>The least value in the legends of the processor and of the memory is no least value: it is never above zero, and zero whenever all
  samples are loads, however high they are. The greatest value is that of a sample or the current one.\<close>

lemma math_min_keeps: "js_le c a \<Longrightarrow> list_all (js_le c) xs \<Longrightarrow> js_le c (foldl js_min a xs)"
  by (induction xs arbitrary: a) (auto simp: js_min_def)

theorem load_minimum_is_zero:
  "js_le (load_min num k samples) (Dec 0 0)
   \<and> (if list_all (\<lambda>s. js_le (Dec 0 0) (num (jprop s k))) samples then load_min num k samples = Dec 0 0 else True)"
proof -
  let ?arr = "filter js_finite (map (\<lambda>s. num (jprop s k)) samples)"
  have fin: "\<exists>m e. safeMin (map (\<lambda>s. num (jprop s k)) samples) = Dec m e"
  proof (cases ?arr)
    case Nil
    then show ?thesis by (simp add: safeMin_def Let_def)
  next
    case (Cons x xs)
    have f: "\<exists>m e. foldl js_min a ys = Dec m e" if "js_finite a" "list_all js_finite ys" for a ys
      using that
    proof (induction ys arbitrary: a)
      case Nil
      then show ?case by (cases a) auto
    next
      case (Cons y ys)
      then have "js_finite (js_min a y)" by (cases a; cases y) (auto simp: js_min_def)
      with Cons show ?case by simp
    qed
    have "js_finite x" "list_all js_finite xs"
      using arg_cong [OF Cons, of set] by (auto simp: list_all_iff)
    moreover then have "js_min Infinity x = x" by (cases x) (simp_all add: js_min_def)
    ultimately show ?thesis using f [of x xs] Cons by (simp add: safeMin_def math_min_def Let_def)
  qed
  then obtain m e where me: "safeMin (map (\<lambda>s. num (jprop s k)) samples) = Dec m e" by blast
  have le: "js_le (load_min num k samples) (Dec 0 0)"
    using js_le_total [of "Dec m e" "Dec 0 0"] js_le_refl [of "Dec 0 0"] by (auto simp: load_min_def js_min_def me simp del: js_le.simps(1))
  have "js_le (Dec 0 0) (Dec m e)" if a: "list_all (\<lambda>s. js_le (Dec 0 0) (num (jprop s k))) samples"
  proof -
    have "list_all (js_le (Dec 0 0)) ?arr" using a by (auto simp: list_all_iff)
    then have "js_le (Dec 0 0) (safeMin (map (\<lambda>s. num (jprop s k)) samples))"
      using math_min_keeps [of "Dec 0 0" Infinity ?arr] js_le_refl [of "Dec 0 0"] by (simp add: safeMin_def math_min_def Let_def)
    then show ?thesis by (simp add: me)
  qed
  then have "load_min num k samples = Dec 0 0" if "list_all (\<lambda>s. js_le (Dec 0 0) (num (jprop s k))) samples"
    using that by (simp add: load_min_def js_min_def me)
  with le show ?thesis by simp
qed

text \<open>Rounding is off by at most half a unit.\<close>

lemma nearest_close: "\<bar>2 * (of_int (nearest m e) - rat_dec m e)\<bar> \<le> 1"
proof (cases "0 \<le> e")
  case True
  then show ?thesis using rat_dec_shift [of 0 e m] by (simp add: nearest_def)
next
  case False
  let ?d = "10 ^ nat (- e) :: int"
  define q where "q = nearest m e"
  have q: "q = (2 * m + ?d) div (2 * ?d)" using False by (simp add: q_def nearest_def)
  have d: "0 < 2 * ?d" by simp
  have "q * (2 * ?d) \<le> 2 * m + ?d" "2 * m + ?d < q * (2 * ?d) + 2 * ?d"
    using div_mult_mod_eq [of "2 * m + ?d" "2 * ?d"] pos_mod_bound [OF d, of "2 * m + ?d"] pos_mod_sign [OF d, of "2 * m + ?d"]
    unfolding q by linarith+
  then have "\<bar>2 * (q * ?d - m)\<bar> \<le> ?d" by (simp add: algebra_simps abs_le_iff)
  then have "of_int \<bar>2 * (q * ?d - m)\<bar> \<le> (of_int ?d :: rat)" by (simp only: of_int_le_iff)
  then have "\<bar>2 * (of_int q * of_int ?d - of_int m)\<bar> \<le> (of_int ?d :: rat)"
    by (simp only: of_int_mult of_int_diff of_int_abs of_int_numeral)
  moreover define t :: rat where "t = 10 powi e"
  moreover have t: "0 < t" "of_int ?d * t = 1" using rat_dec_shift [of e 0 1] False by (simp_all add: rat_dec_def t_def)
  ultimately have "\<bar>2 * (of_int q * of_int ?d - of_int m)\<bar> * t \<le> 1"
    using mult_right_mono [of "\<bar>2 * (of_int q * of_int ?d - of_int m)\<bar>" "of_int ?d :: rat" t] by simp
  moreover have scale_out: "2 * (x * (y * t) - z * t) = 2 * (x * y - z) * t" for x y z :: rat by (simp add: algebra_simps)
  moreover have "\<bar>2 * (of_int q * of_int ?d - of_int m)\<bar> * t = \<bar>2 * (of_int q * (of_int ?d * t) - of_int m * t)\<bar>"
    by (simp only: scale_out abs_mult [of _ t] abs_of_pos [OF t(1)])
  ultimately have "\<bar>2 * (of_int q * (of_int ?d * t) - of_int m * t)\<bar> \<le> 1" by simp
  then have "\<bar>2 * (of_int q - of_int m * t)\<bar> \<le> 1" by (simp only: t(2) mult_1_right)
  then show ?thesis by (simp only: rat_dec_def q_def t_def)
qed

lemma rat_dec_add: "rat_dec m (e + j) = rat_dec m e * 10 powi j"
  by (simp add: rat_dec_def power_int_add)

lemma nearest_bounds:
  assumes "of_int lo \<le> rat_dec m e"
  shows "lo \<le> nearest m e" and "rat_dec m e \<le> of_int hi \<Longrightarrow> nearest m e \<le> hi"
proof -
  note c = nearest_close [of m e]
  have "2 * (of_int (nearest m e) :: rat) \<ge> 2 * of_int lo - 1" using c assms by (simp add: abs_le_iff algebra_simps)
  then have "(of_int (2 * lo - 1) :: rat) \<le> of_int (2 * nearest m e)" by simp
  then show "lo \<le> nearest m e" unfolding of_int_le_iff by presburger
  assume "rat_dec m e \<le> of_int hi"
  then have "2 * (of_int (nearest m e) :: rat) \<le> 2 * of_int hi + 1" using c by (simp add: abs_le_iff algebra_simps)
  then have "(of_int (2 * nearest m e) :: rat) \<le> of_int (2 * hi + 1)" by simp
  then show "nearest m e \<le> hi" unfolding of_int_le_iff by presburger
qed

lemma js_less_Dec: "js_less (Dec m e) (Dec n f) \<longleftrightarrow> rat_dec m e < rat_dec n f"
  by (auto simp: js_less_def js_le_Dec simp del: js_le.simps(1))

lemma rat_dec_power: "rat_dec n (int j) = of_int (n * 10 ^ j)"
  by (simp add: rat_dec_def power_int_of_nat)

lemma fixed_positive:
  assumes "0 < m" and "\<not> js_le (Dec 1 21) (Dec m e)"
  shows "to_fixed f (shift10 (- int k) (Dec m e)) = fixed_text f (nearest m (e - int k + int f))"
proof -
  have "rat_dec m (e - int k) \<le> rat_dec m e"
    using assms(1) unfolding rat_dec_def by (intro mult_left_mono power_int_increasing) simp_all
  then have "\<not> js_le (Dec 1 21) (Dec \<bar>m\<bar> (e - int k))" using assms by (simp add: js_le_Dec del: js_le.simps(1))
  then show ?thesis using assms(1) by (simp del: js_le.simps(1))
qed

text \<open>
  A rate in the legends is shown in the unit that fits it and rounded to half of what its last digit stands for: with \<open>q\<close> the digits that
  are printed, \<open>q\<close> units of the last place. From kbps on at least one unit is shown; at most a thousand, but in Gbps: just below the
  next unit the rounding prints 1000 of the smaller one.
\<close>

theorem rate_shown_rounded:
  assumes "num_or0 v = Dec m e" and "0 < m" and "\<not> js_le (Dec 1 21) (Dec m e)"
  shows "case rate_unit (Dec m e) of (f, k, u) \<Rightarrow>
     formatRateForChart v = fixed_text f (nearest m (e - int k + int f)) @ u
     \<and> \<bar>2 * (of_int (nearest m (e - int k + int f)) - rat_dec m (e - int k + int f))\<bar> \<le> 1
     \<and> (if k = 0 then 0 else 10 ^ f) \<le> nearest m (e - int k + int f)
     \<and> (if k = 9 then True else nearest m (e - int k + int f) \<le> 1000 * 10 ^ f)"
proof -
  let ?x = "rat_dec m e"
  have pos: "0 < ?x" using assms(2) by (simp add: rat_dec_def)
  have "js_max (num_or0 v) (Dec 0 0) = Dec m e"
    using pos by (simp add: assms(1) js_max_def js_le_Dec rat_dec_def del: js_le.simps(1))
  then have shown_text: "formatRateForChart v = (case rate_unit (Dec m e) of (f, k, u) \<Rightarrow> fixed_text f (nearest m (e - int k + int f)) @ u)"
    using fixed_positive [OF assms(2,3)] by (simp add: formatRateForChart_def rate_text_def del: shift10.simps split: prod.split)
  have less: "js_less (Dec m e) (Dec 1 (int j)) \<longleftrightarrow> ?x < of_int (10 ^ j)" for j
    using rat_dec_power [of 1 j] by (simp add: js_less_Dec)
  have scaled: "rat_dec m (e - int k + int f) = ?x * 10 ^ f / 10 ^ k" for k f
    using rat_dec_add [of m "e - int k" "int f"] rat_dec_add [of m e "- int k"]
    by (simp add: power_int_minus divide_inverse)
  have ru: "rate_unit (Dec m e) = (if ?x < 1000 then (0, 0, '' Bps'') else if ?x < 1000000 then (0, 3, '' kbps'')
      else if ?x < 1000000000 then (1, 6, '' Mbps'') else (1, 9, '' Gbps''))"
    using less [of 3] less [of 6] less [of 9] by (simp add: rate_unit_def)
  obtain f k u where fk: "rate_unit (Dec m e) = (f, k, u)" by (cases "rate_unit (Dec m e)") auto
  let ?q = "nearest m (e - int k + int f)"
  have "(if k = 0 then 0 else 10 ^ f) \<le> ?q \<and> (k = 9 \<or> ?q \<le> 1000 * 10 ^ f)"
    using ru fk pos nearest_bounds [of "if k = 0 then 0 else 10 ^ f" m "e - int k + int f"] unfolding scaled by (auto simp: field_simps split: if_splits)
  then show ?thesis using shown_text nearest_close [of m "e - int k + int f"] by (auto simp: fk)
qed

definition rate_sample :: jsval where
  "rate_sample = JNum (Dec 99996 1)"

theorem rate_shown_rounded_witness:
  "formatRateForChart rate_sample = ''1000 kbps''"
proof -
  have u: "rate_unit (Dec 99996 1) = (0, 3, '' kbps'')" by code_simp
  have t: "fixed_text 0 (nearest 99996 (- 2)) = ''1000''" by code_simp
  have n: "num_or0 rate_sample = Dec 99996 1" by code_simp
  have b: "\<not> js_le (Dec 1 21) (Dec 99996 1)" by code_simp
  from rate_shown_rounded [OF n _ b] show ?thesis by (simp add: u t)
qed

end
