(* ===== verification/Pages.thy ===== *)
theory Pages
  imports Scripts
begin

section \<open>Pages: what can be pressed, and handlers that run side by side\<close>

text \<open>
  The markup of \<^verbatim>\<open>App.tsx\<close> decides which buttons and fields there are, which of them are disabled, and what they do. A part of a
  page is modelled by a function from the state to the list of its \<open>widget\<close>s. A widget that is enabled offers presses: functional
  updates that happen at once (\<open>Local\<close>), and handlers that are started (\<open>Launch\<close>, with the name of the function in the source).

  A started handler runs up to its first wait and is parked there; any number of handlers can be parked at the same time, and their
  answers arrive in any order. \<open>page_step\<close> is one step of such a page: a press, something the page does by itself, or an answer.
\<close>

subsection \<open>Widgets\<close>

datatype 's press = Local "'s \<Rightarrow> 's" | Launch string "'s script"

datatype 's widget =
    Label uitext
  | Alert uitext
  | Field string bool "string \<Rightarrow> 's \<Rightarrow> 's"
  | Tick bool bool "bool \<Rightarrow> 's \<Rightarrow> 's"
  | Choice string "(string \<times> uitext) list" bool "string \<Rightarrow> 's \<Rightarrow> 's"
  | Picker bool "string option \<Rightarrow> 's press"
  | Button uitext bool "'s press"

text \<open>\<open>presses w\<close> are the presses a widget offers; a field offers one for every text that can be typed, a picker one for every file.\<close>

fun presses :: "'s widget \<Rightarrow> 's press set" where
  "presses (Label t) = {}"
| "presses (Alert t) = {}"
| "presses (Field v en f) = (if en then {Local (f t) | t. True} else {})"
| "presses (Tick b en f) = (if en then {Local (f (\<not> b))} else {})"
| "presses (Choice v opts en f) = (if en then {Local (f t) | t. t \<in> fst ` set opts} else {})"
| "presses (Picker en f) = (if en then {f x | x. True} else {})"
| "presses (Button t en p) = (if en then {p} else {})"

fun enabled :: "'s widget \<Rightarrow> bool" where
  "enabled (Field v en f) = en"
| "enabled (Tick b en f) = en"
| "enabled (Choice v opts en f) = en"
| "enabled (Picker en f) = en"
| "enabled (Button t en p) = en"
| "enabled _ = False"

definition offered :: "'s widget list \<Rightarrow> 's press set" where
  "offered ws = (\<Union>w \<in> set ws. presses w)"

lemma offered_simps [simp]:
  "offered [] = {}" "offered (w # ws) = presses w \<union> offered ws" "offered (ws @ ws') = offered ws \<union> offered ws'"
  by (auto simp: offered_def)

lemma presses_disabled: "\<not> enabled w \<Longrightarrow> presses w = {}"
  by (cases w) simp_all

lemma nothing_offered: "list_all (\<lambda>w. \<not> enabled w) ws \<Longrightarrow> offered ws = {}"
  by (induction ws) (simp_all add: presses_disabled)

text \<open>\<open>offers_only Q w\<close>: everything the widget offers satisfies \<open>Q\<close>.\<close>

fun offers_only :: "('s press \<Rightarrow> bool) \<Rightarrow> 's widget \<Rightarrow> bool" where
  "offers_only Q (Field v en f) = (en \<longrightarrow> (\<forall>t. Q (Local (f t))))"
| "offers_only Q (Tick b en f) = (en \<longrightarrow> Q (Local (f (\<not> b))))"
| "offers_only Q (Choice v opts en f) = (en \<longrightarrow> (\<forall>t. Q (Local (f t))))"
| "offers_only Q (Picker en f) = (en \<longrightarrow> (\<forall>x. Q (f x)))"
| "offers_only Q (Button t en p) = (en \<longrightarrow> Q p)"
| "offers_only Q _ = True"

lemma offers_onlyD: "list_all (offers_only Q) ws \<Longrightarrow> p \<in> offered ws \<Longrightarrow> Q p"
proof (induction ws)
  case (Cons w ws)
  then show ?case by (cases w) (auto split: if_splits)
qed simp

text \<open>A value as a child of an element: nothing for \<^verbatim>\<open>undefined\<close>, \<^verbatim>\<open>null\<close> and booleans.\<close>

definition child :: "jsval \<Rightarrow> uitext" where
  "child v = (case v of JUndef \<Rightarrow> NoText | JNull \<Rightarrow> NoText | JBool b \<Rightarrow> NoText | _ \<Rightarrow> Raw (to_str v))"

text \<open>\<^verbatim>\<open>{text ? <Alert>{text}</Alert> : null}\<close>, the click beside a dialog, its closing button.\<close>

definition alert_if :: "uitext \<Rightarrow> 's widget list" where
  "alert_if t = (if shown t then [Alert t] else [])"

definition dialog_frame :: "bool \<Rightarrow> ('s \<Rightarrow> 's) \<Rightarrow> uitext \<Rightarrow> 's widget list" where
  "dialog_frame busy close title =
     [Button (Ui ''beside the dialog'') (\<not> busy) (Local close), Label title, Button (Ui ''close'') (\<not> busy) (Local close)]"

lemma presses_alert_if [simp]: "offered (alert_if t) = {}"
  by (simp add: alert_if_def)

lemma enabled_alert_if [simp]: "list_all P (alert_if t) = (if shown t then P (Alert t) else True)"
  by (simp add: alert_if_def)

subsection \<open>Fields with a type\<close>

text \<open>
  What the HTML standard prescribes for \<^verbatim>\<open><input type="number">\<close> and \<^verbatim>\<open><input type="email">\<close>. The value of such a field is sanitized:
  a text that is no number counts as empty, an address is stripped of blanks. A form is submitted only when every field it has is
  valid: a number between \<^verbatim>\<open>min\<close> and \<^verbatim>\<open>max\<close> and, with the step of one from a whole \<^verbatim>\<open>min\<close>, itself whole; a text that is an address;
  an empty field unless it is required.
\<close>

definition html_number :: "string \<Rightarrow> jsnum option" where
  "html_number t =
     (let u = (if t \<noteq> [] \<and> hd t = CHR ''-'' then tl t else t); r = dropWhile is_digit u in
      if r \<noteq> [] \<and> hd r = CHR ''.'' \<and> (tl r = [] \<or> \<not> is_digit (hd (tl r))) then None
      else map_option (\<lambda>_. number_of_string t) (unsigned_decimal u))"

definition number_text :: "string \<Rightarrow> string" where
  "number_text t = (if html_number t = None then [] else t)"

definition whole_between :: "int \<Rightarrow> int option \<Rightarrow> jsnum \<Rightarrow> bool" where
  "whole_between lo hi x = (case x of
       Dec m e \<Rightarrow> 0 \<le> e \<and> lo \<le> m * 10 ^ nat e \<and> (case hi of Some h \<Rightarrow> m * 10 ^ nat e \<le> h | None \<Rightarrow> True)
     | _ \<Rightarrow> False)"

definition number_valid :: "int \<Rightarrow> int option \<Rightarrow> string \<Rightarrow> bool" where
  "number_valid lo hi t = (case html_number t of None \<Rightarrow> True | Some x \<Rightarrow> whole_between lo hi x)"

definition number_required :: "int \<Rightarrow> int option \<Rightarrow> string \<Rightarrow> bool" where
  "number_required lo hi t = (number_text t \<noteq> [] \<and> number_valid lo hi t)"

definition html_blank :: "char \<Rightarrow> bool" where
  "html_blank c = (code_of c \<in> {9, 10, 12, 13, 32})"

definition email_text :: "string \<Rightarrow> string" where
  "email_text t = rev (dropWhile html_blank (rev (dropWhile html_blank (filter (\<lambda>c. code_of c \<noteq> 10 \<and> code_of c \<noteq> 13) t))))"

definition domain_label :: "string \<Rightarrow> bool" where
  "domain_label l = (l \<noteq> [] \<and> length l \<le> 63 \<and> is_alnum (hd l) \<and> is_alnum (last l) \<and> list_all (\<lambda>c. is_alnum c \<or> c = CHR ''-'') l)"

definition email_address :: "string \<Rightarrow> bool" where
  "email_address t = (case js_split (CHR ''@'') t of
       [local, domain] \<Rightarrow> local \<noteq> [] \<and> list_all (\<lambda>c. is_alnum c \<or> c \<in> set ''.!#$%&*+/=?^_`{|}~-'' \<or> code_of c = 39) local
         \<and> list_all domain_label (js_split (CHR ''.'') domain)
     | _ \<Rightarrow> False)"

definition email_valid :: "string \<Rightarrow> bool" where
  "email_valid t = (email_text t = [] \<or> email_address (email_text t))"

definition email_required :: "string \<Rightarrow> bool" where
  "email_required t = email_address (email_text t)"

subsection \<open>Handlers side by side\<close>

text \<open>\<open>advance\<close> runs a script up to its next wait; \<open>resume\<close> lets a parked one go on with an answer.\<close>

primrec advance :: "'s script \<Rightarrow> 's \<Rightarrow> 's \<times> 's script" where
  "advance Stop s = (s, Stop)"
| "advance (Set f k) s = advance k (f s)"
| "advance (Get k) s = advance (k s) s"
| "advance (Ask c k) s = (s, Ask c k)"
| "advance (Attempt c k) s = (s, Attempt c k)"
| "advance (Refresh g k) s = (s, Refresh g k)"
| "advance (Kick g k) s = advance k s"

fun resume :: "'s script \<Rightarrow> answer \<Rightarrow> 's \<Rightarrow> 's \<times> 's script" where
  "resume (Ask c k) a s = advance (k a) s"
| "resume (Attempt c k) a s = advance (k a) s"
| "resume (Refresh g k) a s = advance k s"
| "resume k a s = (s, Stop)"

fun waits :: "'s script \<Rightarrow> bool" where
  "waits (Ask c k) = True"
| "waits (Attempt c k) = True"
| "waits (Refresh g k) = True"
| "waits _ = False"

lemma advance_waits: "snd (advance k s) = Stop \<or> waits (snd (advance k s))"
  by (induction k arbitrary: s) auto

lemma resume_waits: "snd (resume k a s) = Stop \<or> waits (snd (resume k a s))"
  by (cases k) (simp_all add: advance_waits)

type_synonym 's pool = "nat \<Rightarrow> (string \<times> 's script) option"

definition park :: "nat \<Rightarrow> string \<Rightarrow> 's script \<Rightarrow> 's pool \<Rightarrow> 's pool" where
  "park j h r P = P(j := if waits r then Some (h, r) else None)"

lemma park_apply: "park j h r P i = (if i = j then if waits r then Some (h, r) else None else P i)"
  by (simp add: park_def)

text \<open>\<open>offers s\<close> are the presses of the page in the state \<open>s\<close>, with what the page does by itself.\<close>

inductive page_step :: "('s \<Rightarrow> 's press set) \<Rightarrow> 's \<times> 's pool \<Rightarrow> 's \<times> 's pool \<Rightarrow> bool" for offers where
  press: "Local f \<in> offers s \<Longrightarrow> page_step offers (s, P) (f s, P)"
| launch: "Launch h k \<in> offers s \<Longrightarrow> P j = None \<Longrightarrow> advance k s = (s', r) \<Longrightarrow> page_step offers (s, P) (s', park j h r P)"
| answered: "P j = Some (h, r) \<Longrightarrow> resume r a s = (s', r') \<Longrightarrow> page_step offers (s, P) (s', park j h r' P)"

inductive_cases page_stepE: "page_step offers c c'"

inductive reachable :: "('s \<Rightarrow> 's press set) \<Rightarrow> 's \<Rightarrow> 's \<times> 's pool \<Rightarrow> bool" for offers s0 where
  start: "reachable offers s0 (s0, Map.empty)"
| step: "reachable offers s0 c \<Longrightarrow> page_step offers c c' \<Longrightarrow> reachable offers s0 c'"

subsection \<open>The environment of \<open>exec\<close> stands for the other handlers\<close>

lemma exec_cong:
  assumes "\<And>m. n \<le> m \<Longrightarrow> srv m = srv' m" and "\<And>m. n \<le> m \<Longrightarrow> env m = env' m"
  shows "exec k srv env n s = exec k srv' env' n s"
  using assms
proof (induction k arbitrary: n s)
  case (Ask c k)
  then have "exec (k a) srv env (Suc n) t = exec (k a) srv' env' (Suc n) t" for a t by (intro Ask.IH) auto
  with Ask.prems show ?case by (simp add: Let_def)
next
  case (Attempt c k)
  then have "exec (k a) srv env (Suc n) t = exec (k a) srv' env' (Suc n) t" for a t by (intro Attempt.IH) auto
  with Attempt.prems show ?case by (simp add: Let_def)
next
  case (Refresh g k)
  then have "exec k srv env (Suc n) t = exec k srv' env' (Suc n) t" for t by (intro Refresh.IH) auto
  with Refresh.prems show ?case by (simp add: Let_def)
next
  case (Kick g k)
  then show ?case by (simp add: Let_def)
qed auto

lemma exec_advance: "fst (exec k srv env n s) = fst (exec (snd (advance k s)) srv env n (fst (advance k s)))"
  by (induction k arbitrary: s) (simp_all add: Let_def)

lemma exec_resume:
  assumes "waits r"
  shows "fst (exec r (\<lambda>m c. if m = n then a else srv m c) (\<lambda>m. if m = n then (\<lambda>_. t) else env m) n s)
    = fst (exec (snd (resume r a t)) srv env (Suc n) (fst (resume r a t)))"
proof -
  have "exec k (\<lambda>m c. if m = n then a else srv m c) (\<lambda>m. if m = n then (\<lambda>_. t) else env m) (Suc n) u = exec k srv env (Suc n) u" for k u
    by (rule exec_cong) auto
  then show ?thesis using assms exec_advance by (cases r) (auto simp: Let_def)
qed

text \<open>\<open>ended offers j c s'\<close>: from \<open>c\<close>, where the handler with the number \<open>j\<close> is parked, the page goes on in any way until it ends, in \<open>s'\<close>.\<close>

inductive ended :: "('s \<Rightarrow> 's press set) \<Rightarrow> nat \<Rightarrow> 's \<times> 's pool \<Rightarrow> 's \<Rightarrow> bool" for offers j where
  last: "P j = Some (h, r) \<Longrightarrow> resume r a s = (s', Stop) \<Longrightarrow> ended offers j (s, P) s'"
| own: "P j = Some (h, r) \<Longrightarrow> resume r a s = (t, r') \<Longrightarrow> waits r' \<Longrightarrow> ended offers j (t, park j h r' P) s' \<Longrightarrow> ended offers j (s, P) s'"
| other: "page_step offers (s, P) (t, Q) \<Longrightarrow> Q j = P j \<Longrightarrow> ended offers j (t, Q) s' \<Longrightarrow> ended offers j (s, P) s'"

text \<open>Every way a parked handler can end among the others is a run of \<open>exec\<close> for some answers and some environment: what holds of
  \<open>exec\<close> for all environments holds of the handler on the page.\<close>

lemma ended_is_exec:
  assumes "ended offers j (s, P) s'" and "P j = Some (h, r)" and "waits r"
  shows "\<exists>srv env. s' = fst (exec r srv env n s)"
  using assms
proof (induction "(s, P)" s' arbitrary: s P r n h rule: ended.induct)
  case (last P h' r' a s s')
  have "fst (exec r (\<lambda>m c. if m = n then a else undefined) (\<lambda>m. if m = n then (\<lambda>_. s) else id) n s) = s'"
    using exec_resume [OF last.prems(2), where n = n and a = a and t = s and s = s and srv = "\<lambda>_ _. undefined" and env = "\<lambda>_. id"] last by simp
  then show ?case by blast
next
  case (own P h' r1 a s t r' s')
  from own have r1: "r1 = r" by simp
  from own.hyps(5) [of h' r' "Suc n"] own.hyps(3) obtain srv env where e: "s' = fst (exec r' srv env (Suc n) t)"
    by (auto simp: park_def)
  have "s' = fst (exec r (\<lambda>m c. if m = n then a else srv m c) (\<lambda>m. if m = n then (\<lambda>_. s) else env m) n s)"
    using exec_resume [OF own.prems(2), of n a srv s env s] own.hyps(2) e r1 by simp
  then show ?case by blast
next
  case (other s P t Q s')
  from other.hyps(4) [of h r n] other.prems other.hyps(2) obtain srv env where e: "s' = fst (exec r srv env n t)" by auto
  have "fst (exec r srv (\<lambda>m. if m = n then (\<lambda>_. env n t) else env m) n s) = fst (exec r srv env n t)"
  proof -
    have c: "exec k srv (\<lambda>m. if m = n then (\<lambda>_. env n t) else env m) (Suc n) u = exec k srv env (Suc n) u" for k u
      by (rule exec_cong) auto
    show ?thesis using other.prems(2) by (cases r) (simp_all add: c Let_def)
  qed
  with e show ?case by metis
qed

lemma launched_is_exec:
  assumes "advance k s = (t, r)" and "ended offers j (t, park j h r P) s'" and "waits r"
  shows "\<exists>srv env. s' = fst (exec k srv env 0 s)"
proof -
  obtain srv env where "s' = fst (exec r srv env 0 t)"
    using ended_is_exec [OF assms(2) _ assms(3), where n = 0 and h = h] assms(3) by (auto simp: park_def)
  then have "s' = fst (exec k srv env 0 s)" using exec_advance [of k srv env 0 s] assms(1) by simp
  then show ?thesis by blast
qed

text \<open>So a handler with a \<^verbatim>\<open>finally\<close> ends idle on every page, whatever else is pressed, started or answered meanwhile.\<close>

context finally_idle
begin

lemma exec_sends: "waits (snd (advance k s)) \<Longrightarrow> snd (exec k srv env n s) \<noteq> []"
proof (induction k arbitrary: s)
  case (Kick g k)
  then show ?case by (simp add: Let_def)
qed (simp_all add: Let_def)

lemma ends_idle:
  assumes "advance (handler s0) s = (t, r)" and "waits r" and "ended offers j (t, park j h r P) s'"
  shows "\<not> busy s'"
proof -
  obtain srv env where e: "s' = fst (exec (handler s0) srv env 0 s)" using launched_is_exec [OF assms(1,3,2)] by auto
  have "snd (exec (handler s0) srv env 0 s) \<noteq> []" by (rule exec_sends) (simp add: assms)
  then show ?thesis using run [of s0 srv env 0 s] e by simp
qed

end

subsection \<open>Invariants and locks of a page\<close>

text \<open>\<open>keeps I k\<close>: every update of the script keeps \<open>I\<close>; \<open>leaves obs k\<close>: none of them changes \<open>obs\<close>.\<close>

primrec keeps :: "('s \<Rightarrow> bool) \<Rightarrow> 's script \<Rightarrow> bool" where
  "keeps I Stop = True"
| "keeps I (Set f k) = ((\<forall>s. I s \<longrightarrow> I (f s)) \<and> keeps I k)"
| "keeps I (Get k) = (\<forall>s. keeps I (k s))"
| "keeps I (Ask c k) = (\<forall>a. keeps I (k a))"
| "keeps I (Attempt c k) = (\<forall>a. keeps I (k a))"
| "keeps I (Refresh g k) = keeps I k"
| "keeps I (Kick g k) = keeps I k"

definition leaves :: "('s \<Rightarrow> 'x) \<Rightarrow> 's script \<Rightarrow> bool" where
  "leaves obs k = (\<forall>x. keeps (\<lambda>s. obs s = x) k)"

lemma leaves_simps [simp]:
  "leaves obs Stop = True" "leaves obs (Set f k) = ((\<forall>s. obs (f s) = obs s) \<and> leaves obs k)" "leaves obs (Get g) = (\<forall>s. leaves obs (g s))"
  "leaves obs (Ask c h) = (\<forall>a. leaves obs (h a))" "leaves obs (Attempt c h) = (\<forall>a. leaves obs (h a))" "leaves obs (Refresh rg k) = leaves obs k"
  "leaves obs (Kick rg k) = leaves obs k"
  by (auto simp: leaves_def)

lemma leaves_of: "leaves obs k \<Longrightarrow> leaves (\<lambda>s. g (obs s)) k"
  by (induction k) auto

lemma keeps_try_ask [simp]: "keeps I (try_ask c handle k) = ((\<forall>e. keeps I (handle e)) \<and> (\<forall>v. keeps I (k v)))"
  by (auto simp: try_ask_def split: sum.split)

lemma leaves_try_ask [simp]: "leaves obs (try_ask c handle k) = ((\<forall>e. leaves obs (handle e)) \<and> (\<forall>v. leaves obs (k v)))"
  by (auto simp: leaves_def)

lemma leaves_keeps: "leaves obs k \<Longrightarrow> keeps (\<lambda>s. I (obs s)) k"
  by (induction k) auto

lemma keeps_advance: "keeps I k \<Longrightarrow> I s \<Longrightarrow> I (fst (advance k s)) \<and> keeps I (snd (advance k s))"
  by (induction k arbitrary: s) auto

lemma keeps_resume: "keeps I k \<Longrightarrow> I s \<Longrightarrow> I (fst (resume k a s)) \<and> keeps I (snd (resume k a s))"
  by (cases k) (simp_all add: keeps_advance)

lemma keeps_parked: "keeps I k \<Longrightarrow> keeps I (snd (advance k s))"
  by (induction k arbitrary: s) auto

lemma leaves_resume:
  assumes "leaves obs k"
  shows "obs (fst (resume k a s)) = obs s" "leaves obs (snd (resume k a s))"
proof -
  have k: "keeps (\<lambda>s. obs s = x) k" for x using assms by (simp add: leaves_def)
  show "obs (fst (resume k a s)) = obs s" using keeps_resume [OF k [of "obs s"]] by blast
  have "keeps (\<lambda>s. obs s = x) (snd (resume k a s))" for x
  proof (cases "obs s = x")
    case True
    then show ?thesis using keeps_resume [OF k] by blast
  next
    case False
    show ?thesis using k [of x] by (cases k) (simp_all add: keeps_parked)
  qed
  then show "leaves obs (snd (resume k a s))" by (simp add: leaves_def)
qed

text \<open>
  A property of the state that every press, every start of a handler and every later update of its script keeps holds at every moment.
\<close>

lemma page_invariant_starts:
  assumes "reachable offers s0 c" and "I s0"
    and press: "\<And>s f. I s \<Longrightarrow> Local f \<in> offers s \<Longrightarrow> I (f s)"
    and launch: "\<And>s h k. I s \<Longrightarrow> Launch h k \<in> offers s \<Longrightarrow> I (fst (advance k s)) \<and> keeps I (snd (advance k s))"
  shows "I (fst c)"
proof -
  have "I (fst c) \<and> (\<forall>j h r. snd c j = Some (h, r) \<longrightarrow> keeps I r)"
    using assms(1)
  proof induction
    case (step c c')
    from step.hyps(2) show ?case
    proof cases
      case (launch h k s P j s' r)
      then show ?thesis using step.IH assms(4) [of s h k] by (auto simp: park_def split: if_splits)
    next
      case (answered P j h r a s s' r')
      then have "keeps I r" using step.IH by auto
      then show ?thesis using step.IH answered keeps_resume [of I r s a] by (auto simp: park_def split: if_splits)
    qed (use step.IH press in auto)
  qed (use assms(2) in simp)
  then show ?thesis by blast
qed

lemma page_invariant:
  assumes "reachable offers s0 c" and "I s0"
    and "\<And>s f. I s \<Longrightarrow> Local f \<in> offers s \<Longrightarrow> I (f s)" and "\<And>s h k. Launch h k \<in> offers s \<Longrightarrow> keeps I k"
  shows "I (fst c)"
proof (rule page_invariant_starts [where I = I, OF assms(1,2)])
  show "I s \<Longrightarrow> Local f \<in> offers s \<Longrightarrow> I (f s)" for s f by (rule assms(3))
next
  fix s h k assume "I s" and "Launch h k \<in> offers s"
  then show "I (fst (advance k s)) \<and> keeps I (snd (advance k s))" by (intro keeps_advance assms(4) [of h k s])
qed

text \<open>\<open>frees busy r\<close>: the parked script \<open>r\<close> keeps \<open>busy\<close> set at each of its waits and clears it when it ends.\<close>

inductive frees :: "('s \<Rightarrow> bool) \<Rightarrow> 's script \<Rightarrow> bool" for busy where
  "(\<And>a s s' r'. busy s \<Longrightarrow> resume r a s = (s', r') \<Longrightarrow> (waits r' \<and> busy s' \<and> frees busy r') \<or> (\<not> waits r' \<and> \<not> busy s')) \<Longrightarrow> frees busy r"

definition released :: "('s \<Rightarrow> bool) \<Rightarrow> 's \<times> 's script \<Rightarrow> bool" where
  "released busy x = (if waits (snd x) then busy (fst x) \<and> frees busy (snd x) else \<not> busy (fst x))"

lemma frees_iff: "frees busy r = (\<forall>a s. busy s \<longrightarrow> released busy (resume r a s))"
proof
  show "\<forall>a s. busy s \<longrightarrow> released busy (resume r a s)" if "frees busy r"
    using that by cases (simp add: released_def, metis prod.collapse)
  show "frees busy r" if "\<forall>a s. busy s \<longrightarrow> released busy (resume r a s)"
  proof
    fix a s s' r' assume "busy s" and "resume r a s = (s', r')"
    then have "released busy (s', r')" using that by metis
    then show "(waits r' \<and> busy s' \<and> frees busy r') \<or> (\<not> waits r' \<and> \<not> busy s')" by (auto simp: released_def split: if_splits)
  qed
qed

lemma frees_simps [simp]:
  "frees busy (Ask c h) = (\<forall>a s. busy s \<longrightarrow> released busy (advance (h a) s))"
  "frees busy (Attempt c h) = (\<forall>a s. busy s \<longrightarrow> released busy (advance (h a) s))"
  "frees busy (Refresh g k) = (\<forall>s. busy s \<longrightarrow> released busy (advance k s))"
  by (simp_all add: frees_iff [of _ "Ask c h"] frees_iff [of _ "Attempt c h"] frees_iff [of _ "Refresh g k"])

lemma try_ask_simps [simp]:
  "advance (try_ask c handle k) s = (s, try_ask c handle k)" "waits (try_ask c handle k) = True"
  "frees busy (try_ask c handle k) = ((\<forall>e s. busy s \<longrightarrow> released busy (advance (handle e) s)) \<and> (\<forall>v s. busy s \<longrightarrow> released busy (advance (k v) s)))"
  by (auto simp: try_ask_def split: sum.split_asm sum.split)

text \<open>
  A busy mark as a lock: the handler \<open>name\<close> starts only when the mark is clear, sets it, and clears it when it ends; nothing else
  the page offers touches it. Then at most one such handler is under way at any time, exactly while the mark is set.
\<close>

definition one_at_a_time :: "'s pool \<Rightarrow> string \<Rightarrow> bool \<Rightarrow> bool" where
  "one_at_a_time P name b = (b = (\<exists>j r. P j = Some (name, r)) \<and> (\<forall>i j q r. P i = Some (name, q) \<longrightarrow> P j = Some (name, r) \<longrightarrow> i = j))"

locale busy_lock =
  fixes offers :: "'s \<Rightarrow> 's press set" and busy :: "'s \<Rightarrow> bool" and name :: string
  assumes untouched: "Local f \<in> offers s \<Longrightarrow> busy (f s) = busy s"
    and own: "Launch name k \<in> offers s \<Longrightarrow> advance k s = (s', r) \<Longrightarrow> (if waits r then \<not> busy s \<and> busy s' \<and> frees busy r else busy s' = busy s)"
    and foreign: "Launch h k \<in> offers s \<Longrightarrow> h \<noteq> name \<Longrightarrow> leaves busy k"
begin

definition held :: "'s pool \<Rightarrow> nat set" where
  "held P = {j. \<exists>r. P j = Some (name, r)}"

definition lock_ok :: "'s \<times> 's pool \<Rightarrow> bool" where
  "lock_ok c = ((\<forall>j h r. snd c j = Some (h, r) \<longrightarrow> waits r \<and> (if h = name then frees busy r else leaves busy r))
     \<and> (if busy (fst c) then \<exists>j. held (snd c) = {j} else held (snd c) = {}))"

lemma held_park: "held (park j h r P) = (if waits r \<and> h = name then insert j (held P) else held P - {j})"
  by (auto simp: held_def park_def split: if_splits)

lemma held_None: "P j = None \<Longrightarrow> j \<notin> held P"
  by (simp add: held_def)

lemma lock_step:
  assumes "page_step offers c c'" and "lock_ok c"
  shows "lock_ok c'"
  using assms
proof cases
  case (press f s P)
  then show ?thesis using assms(2) untouched [of f s] by (cases "busy s") (simp_all add: lock_ok_def)
next
  case (launch h k s P j s' r)
  show ?thesis
  proof (cases "h = name")
    case True
    then show ?thesis
      using launch assms(2) own [of k s s' r] held_None [of P j] by (auto simp: lock_ok_def held_park park_apply split: if_splits)
  next
    case False
    then have l: "leaves busy k" using launch foreign by blast
    have "busy s' = busy s \<and> leaves busy r"
      using leaves_resume [of busy "Refresh undefined k" undefined s] l launch(5) by simp
    then show ?thesis using False launch assms(2) held_None [of P j] by (auto simp: lock_ok_def held_park park_apply split: if_splits)
  qed
next
  case (answered P j h r a s s' r')
  show ?thesis
  proof (cases "h = name")
    case True
    then have m: "j \<in> held P" using answered(3) by (simp add: held_def)
    then have b: "busy s" and j: "held P = {j}" using answered(1) assms(2) by (auto simp: lock_ok_def split: if_splits)
    have f: "frees busy r" using True answered(1,3) assms(2) by (auto simp: lock_ok_def)
    from f have "(waits r' \<and> busy s' \<and> frees busy r') \<or> (\<not> waits r' \<and> \<not> busy s')"
      by cases (use b answered(4) in blast)
    then show ?thesis using True answered assms(2) j by (auto simp: lock_ok_def held_park park_apply split: if_splits)
  next
    case False
    then have l: "leaves busy r" using answered assms(2) by (auto simp: lock_ok_def)
    have "busy s' = busy s \<and> leaves busy r'" using leaves_resume [OF l, of a s] answered(4) by simp
    moreover have "j \<notin> held P" using False answered(3) by (simp add: held_def)
    ultimately show ?thesis using False answered assms(2) by (auto simp: lock_ok_def held_park park_apply split: if_splits)
  qed
qed

lemma lock_reachable: "reachable offers s0 c \<Longrightarrow> \<not> busy s0 \<Longrightarrow> lock_ok c"
proof (induction rule: reachable.induct)
  case start
  then show ?case by (simp add: lock_ok_def held_def)
qed (blast intro: lock_step)

lemma exclusive:
  assumes "reachable offers s0 (s, P)" and "\<not> busy s0"
  shows "P i = Some (name, q) \<Longrightarrow> P j = Some (name, r) \<Longrightarrow> i = j" and "busy s = (\<exists>j r. P j = Some (name, r))"
proof -
  have one: "if busy s then \<exists>j. held P = {j} else held P = {}" using lock_reachable [OF assms] by (cases "busy s") (simp_all add: lock_ok_def)
  show "i = j" if "P i = Some (name, q)" "P j = Some (name, r)"
  proof -
    have "i \<in> held P" "j \<in> held P" using that by (auto simp: held_def)
    then show ?thesis using one by (auto split: if_splits)
  qed
  show "busy s = (\<exists>j r. P j = Some (name, r))"
    using one by (cases "busy s") (auto simp: held_def set_eq_iff)
qed

lemma one_at_a_time_reachable:
  "reachable offers s0 (s, P) \<Longrightarrow> \<not> busy s0 \<Longrightarrow> one_at_a_time P name (busy s)"
  using exclusive [of s0 s P] by (auto simp: one_at_a_time_def)

end

text \<open>A handler with one request, as a script.\<close>

definition one_request :: "('s \<Rightarrow> ('s \<times> call list) option) \<Rightarrow> (answer \<Rightarrow> 's \<Rightarrow> 's) \<Rightarrow> 's \<Rightarrow> 's script" where
  "one_request start settle s0 =
     (case start s0 of
        Some (s1, [c]) \<Rightarrow> Set (\<lambda>s. case start s of Some (s', cs) \<Rightarrow> s' | None \<Rightarrow> s) (Ask c (\<lambda>a. Set (settle a) Stop))
      | _ \<Rightarrow> Stop)"

text \<open>A dialog that offers nothing while its request is under way: all that can happen on it then is that an answer arrives.\<close>

locale frozen_dialog =
  fixes view :: "'s \<Rightarrow> 's widget list" and busy :: "'s \<Rightarrow> bool"
  assumes frozen: "busy s \<Longrightarrow> offered (view s) = {}"
begin

lemma only_answers:
  assumes "page_step (\<lambda>s. offered (view s)) (s, P) c" and "busy s"
  shows "\<exists>j h r a. P j = Some (h, r) \<and> c = (fst (resume r a s), park j h (snd (resume r a s)) P)"
  using assms(1)
proof cases
  case (answered j h r a s' r')
  then have "c = (fst (resume r a s), park j h (snd (resume r a s)) P)" by simp
  with answered(2) show ?thesis by blast
qed (use frozen [OF assms(2)] in auto)

end

end
