(* ===== verification/Form_Fields.thy ===== *)
theory Form_Fields
  imports Settings Node_Config Pages
begin

section \<open>The controls of the settings form\<close>

text \<open>
  The two settings forms draw one control per field of the catalogue: a list of two for a checkbox, an input for a number or a text, a list
  for a select, a text area for a list of lines. \<open>control_text\<close> is what the control shows, \<open>edit_control\<close> what a change
  makes of the settings.
\<close>

subsection \<open>Controls\<close>

definition text_or_blank :: "jsval \<Rightarrow> string" where
  "text_or_blank v = (if v = JUndef \<or> v = JNull then [] else to_str v)"

definition control_text :: "settings_field \<Rightarrow> jsobj \<Rightarrow> string" where
  "control_text f ob =
     (let v = obj_get ob (fkey f) in
      case ftype f of
        FCheckbox \<Rightarrow> if truthy v then ''true'' else ''false''
      | FTextarea \<Rightarrow> (case v of JArr xs \<Rightarrow> js_join [LF] (map text_or_blank xs) | _ \<Rightarrow> [])
      | _ \<Rightarrow> text_or_blank v)"

definition edit_control :: "settings_field \<Rightarrow> string \<Rightarrow> jsobj \<Rightarrow> jsobj" where
  "edit_control f t ob = obj_put ob (fkey f)
     (case ftype f of
        FCheckbox \<Rightarrow> JBool (t = ''true'')
      | FTextarea \<Rightarrow> JArr (map JStr (non_empty (map js_trim (js_split LF t))))
      | _ \<Rightarrow> JStr t)"

text \<open>The texts a control can be set to: the entries of its list, anything else for an input.\<close>

definition typable :: "settings_field \<Rightarrow> string \<Rightarrow> bool" where
  "typable f t = (case ftype f of FCheckbox \<Rightarrow> t = ''true'' \<or> t = ''false'' | FSelect \<Rightarrow> t \<in> set (foptions f) | _ \<Rightarrow> True)"

definition field_widget :: "((jsobj \<Rightarrow> jsobj) \<Rightarrow> 's \<Rightarrow> 's) \<Rightarrow> jsobj \<Rightarrow> settings_field \<Rightarrow> 's widget" where
  "field_widget upd ob f =
     (case ftype f of
        FCheckbox \<Rightarrow> Choice (control_text f ob) [(''true'', Ui ''yes''), (''false'', Ui ''no'')] True (\<lambda>t. upd (edit_control f t))
      | FSelect \<Rightarrow> Choice (control_text f ob) (map (\<lambda>v. (v, Raw v)) (foptions f)) True (\<lambda>t. upd (edit_control f t))
      | FNumber \<Rightarrow> Field (control_text f ob) True (\<lambda>t. upd (edit_control f (number_text t)))
      | _ \<Rightarrow> Field (control_text f ob) True (\<lambda>t. upd (edit_control f t)))"

text \<open>The badge of a field: whether its directive is for both sides, for clients or for the server.\<close>

definition directive_badge :: "settings_field \<Rightarrow> string" where
  "directive_badge f =
     (if fkey f \<in> set OPENVPN_SERVER_FORM_SHARED_DIRECTIVES then ''server/client''
      else if fkey f \<in> set OPENVPN_SERVER_FORM_CLIENT_DIRECTIVES then ''client'' else ''server'')"

subsection \<open>What a change does\<close>

lemma js_split_snoc:
  "js_split d (t @ [c]) = (if c = d then js_split d t @ [[]] else butlast (js_split d t) @ [last (js_split d t) @ [c]])"
proof (induction t)
  case (Cons x xs)
  have "js_split d xs \<noteq> []" by (simp add: js_split_not_Nil)
  then show ?case using Cons.IH by (cases "js_split d xs") (auto split: list.splits)
qed simp

lemma trim_snoc: "is_space c \<Longrightarrow> js_trim (t @ [c]) = js_trim t"
  by (cases "list_all is_space t") (auto simp: js_trim_def list_all_iff dropWhile_append dest: set_dropWhileD)

lemma LF_space [simp]: "is_space LF"
  by (simp add: is_space_def code_of_def)

text \<open>The lines of a text area.\<close>

definition as_lines :: "string \<Rightarrow> string list" where
  "as_lines t = non_empty (map js_trim (js_split LF t))"

lemma as_lines_space: "is_space c \<Longrightarrow> as_lines (t @ [c]) = as_lines t"
proof -
  assume c: "is_space c"
  obtain p ps where sp: "js_split LF t = ps @ [p]" by (metis js_split_not_Nil rev_exhaust)
  show ?thesis using c by (simp add: as_lines_def js_split_snoc sp trim_snoc js_trim_def [of "[]"])
qed

lemma as_lines_word: "list_all (\<lambda>c. \<not> is_space c) t \<Longrightarrow> as_lines t = (if t = [] then [] else [t])"
proof -
  assume t: "list_all (\<lambda>c. \<not> is_space c) t"
  then have "LF \<notin> set t" using LF_space by (auto simp: list_all_iff simp del: LF_space)
  moreover have "js_trim t = t" using t by (cases "t = []") (simp_all add: js_trim_iff list_all_iff)
  ultimately show ?thesis by (simp add: as_lines_def js_split_no_sep)
qed

lemma control_after_edit:
  "control_text f (edit_control f t ob) =
     (case ftype f of FCheckbox \<Rightarrow> if t = ''true'' then ''true'' else ''false'' | FTextarea \<Rightarrow> js_join [LF] (as_lines t) | _ \<Rightarrow> t)"
proof -
  have "map (text_or_blank \<circ> JStr) ls = ls" for ls by (simp add: text_or_blank_def map_idI)
  then show ?thesis
    by (simp add: control_text_def edit_control_def as_lines_def text_or_blank_def alist.get_put Let_def split: field_type.split)
qed

text \<open>One key typed at the end of what a control shows.\<close>

definition type_key :: "settings_field \<Rightarrow> char \<Rightarrow> jsobj \<Rightarrow> jsobj" where
  "type_key f c ob = edit_control f (control_text f ob @ [c]) ob"

lemma type_keys:
  assumes "ftype f = FTextarea" and "list_all (\<lambda>c. \<not> is_space c) (control_text f ob)"
  shows "control_text f (fold (type_key f) t ob) = control_text f ob @ filter (\<lambda>c. \<not> is_space c) t"
  using assms(2)
proof (induction t arbitrary: ob)
  case (Cons c t)
  have one: "control_text f (type_key f c ob) = control_text f ob @ filter (\<lambda>c. \<not> is_space c) [c]"
    using assms(1) Cons.prems as_lines_space [of c "control_text f ob"] as_lines_word [of "control_text f ob @ [c]"]
      as_lines_word [of "control_text f ob"]
    by (auto simp: type_key_def control_after_edit)
  then have "list_all (\<lambda>c. \<not> is_space c) (control_text f (type_key f c ob))" using Cons.prems by auto
  from Cons.IH [OF this] one show ?case by simp
qed simp

subsection \<open>Properties\<close>

lemma agent_gets_lines:
  assumes "ftype f = FTextarea"
  shows "obj_get (field_for_agent f (edit_control f t ob)) (fkey f) = JArr (map JStr (as_lines t))"
proof -
  have "list_all (\<lambda>l. l \<noteq> [] \<and> js_trim l = l) (as_lines t)" by (auto simp: as_lines_def list_all_iff)
  then have again: "textarea_lines (JArr (map JStr (as_lines t))) = as_lines t" by (rule textarea_lines_again)
  have "obj_get (edit_control f t ob) (fkey f) = JArr (map JStr (as_lines t))"
    using assms by (simp add: edit_control_def as_lines_def alist.get_put)
  then show ?thesis using assms by (simp add: field_for_agent_def Let_def alist.get_put again)
qed

text \<open>A control shows what it was set to, with a text area in the form it keeps, its trimmed lines without the blank ones, and setting it changes
  no other value of the settings; what the agent is sent for a text area are the lines it shows.\<close>

theorem controls_show_what_is_set:
  assumes "typable f t" and "f \<in> set OPENVPN_SERVER_SETTINGS_FIELDS" and "fkey f \<notin> set PANEL_ONLY_OPENVPN_KEYS"
  shows "control_text f (edit_control f t ob) = (if ftype f = FTextarea then js_join [LF] (as_lines t) else t)
    \<and> obj_get (edit_control f t ob) k = (if k = fkey f then obj_get (edit_control f t []) k else obj_get ob k)
    \<and> (if ftype f = FTextarea then obj_get (buildOpenVpnPayloadForAgent (edit_control f t ob)) (fkey f) = JArr (map JStr (as_lines t)) else True)"
proof -
  have "control_text f (edit_control f t ob) = (if ftype f = FTextarea then js_join [LF] (as_lines t) else t)"
    using assms(1) by (auto simp: control_after_edit typable_def split: field_type.splits)
  moreover have "obj_get (edit_control f t ob) k = (if k = fkey f then obj_get (edit_control f t []) k else obj_get ob k)"
    by (simp add: edit_control_def alist.get_put)
  moreover have "obj_get (buildOpenVpnPayloadForAgent (edit_control f t ob)) (fkey f) = JArr (map JStr (as_lines t))" if "ftype f = FTextarea"
    using payload_field [OF assms(2,3), of "edit_control f t ob"] agent_gets_lines [OF that] by (simp add: same_at_def)
  ultimately show ?thesis by simp
qed

text \<open>C28: Blanks cannot be typed into a text area: a text typed key by key into an empty one arrives without any of its blanks and line ends.\<close>

theorem text_area_swallows_blanks:
  assumes "ftype f = FTextarea" and "control_text f ob = []"
  shows "control_text f (fold (type_key f) t ob) = filter (\<lambda>c. \<not> is_space c) t"
  using type_keys [OF assms(1), of ob t] assms(2) by simp

text \<open>The field for pushed options, with the start of the example it shows when it is empty.\<close>

definition push_field :: settings_field where
  "push_field = field ''push'' FTextarea (Some (''redirect-gateway def1'' @ [LF] @ ''route 192.168.1.0 255.255.255.0'')) []"

lemma push_field_listed: "push_field \<in> set OPENVPN_SERVER_SETTINGS_FIELDS" "fkey push_field \<notin> set PANEL_ONLY_OPENVPN_KEYS"
  by code_simp+

theorem controls_show_what_is_set_witness:
  "obj_get (buildOpenVpnPayloadForAgent (edit_control push_field (''a b '' @ [LF]) [])) ''push'' = JArr (map JStr (as_lines (''a b '' @ [LF])))"
  using controls_show_what_is_set [OF _ push_field_listed, of "''a b '' @ [LF]" "[]"] by (simp add: typable_def push_field_def)

theorem text_area_swallows_blanks_witness:
  "control_text push_field (fold (type_key push_field) ''route 10.1'' []) = ''route10.1''"
proof -
  have "filter (\<lambda>c. \<not> is_space c) ''route 10.1'' = ''route10.1''" by code_simp
  then show ?thesis
    using text_area_swallows_blanks [of push_field "[]" "''route 10.1''"] by (simp add: push_field_def control_text_def)
qed

end
