(* ===== verification/Admin_Views.thy ===== *)
theory Admin_Views
  imports Admins Pages Time_Format
begin

section \<open>What administrators see and can press\<close>

text \<open>
  The widgets of the own profile and of the administrators in the settings, with their conditions, and the updates their buttons
  make; then the profile as a page, where everything that is offered can be pressed at any time.
\<close>

subsection \<open>The own profile\<close>

definition totp_on :: "admin_page \<Rightarrow> bool" where
  "totp_on s = truthy (jprop (myProfile s) ''totpEnabled'')"

definition profile_card :: "admin_page \<Rightarrow> admin_page widget list" where
  "profile_card s =
     (if myProfileLoading s then [Label (Ui ''loading the profile'')]
      else if \<not> truthy (myProfile s) then [Label (Ui ''the profile could not be loaded'')]
      else [Label (cell (myProfile s) ''username''), Label (cell (myProfile s) ''fullName''), Label (cell (myProfile s) ''email''),
            Button (Ui ''Change the password'') True (Local (\<lambda>s. s\<lparr>passwordError := NoText, passwordModalOpen := True\<rparr>)),
            Label (if totp_on s then Ui ''on'' else Ui ''off'')]
        @ (if totp_on s then [Label (Raw (to_str (JNum (let v = jprop (myProfile s) ''totpRecoveryCodesRemaining'' in
             if v = JUndef \<or> v = JNull then Dec 0 0 else to_num v))))] else [])
        @ (if \<not> totp_on s
           then [Button (Ui ''Set up TOTP'') True (Local (\<lambda>s. s\<lparr>totpSetup := (totpSetup s)\<lparr>t_error := NoText\<rparr>, totpSetupModalOpen := True\<rparr>))]
           else [Button (Ui ''New recovery codes'') True
                   (Local (\<lambda>s. s\<lparr>regenerateError := NoText, regenerateCode := [], recoveryModalOpen := True\<rparr>)),
                 Button (Ui ''Switch TOTP off'') True
                   (Local (\<lambda>s. s\<lparr>totpDisableError := NoText, totpDisableCode := [], totpDisableModalOpen := True\<rparr>))]))"

definition close_password_dialog :: "admin_page \<Rightarrow> admin_page" where
  "close_password_dialog s = s\<lparr>passwordModalOpen := False, passwordDraft := blank_password, passwordError := NoText\<rparr>"

definition password_dialog :: "admin_page \<Rightarrow> admin_page widget list" where
  "password_dialog s =
     (let idle = \<not> passwordBusy s; d = passwordDraft s in
      if adminNav s = ''myProfile'' \<and> passwordModalOpen s then
        dialog_frame (passwordBusy s) close_password_dialog (Ui ''Change of the password'')
        @ [Field (currentPassword d) idle (\<lambda>t s. s\<lparr>passwordDraft := (passwordDraft s)\<lparr>currentPassword := t\<rparr>\<rparr>),
           Field (newPassword d) idle (\<lambda>t s. s\<lparr>passwordDraft := (passwordDraft s)\<lparr>newPassword := t\<rparr>\<rparr>),
           Field (confirmPassword d) idle (\<lambda>t s. s\<lparr>passwordDraft := (passwordDraft s)\<lparr>confirmPassword := t\<rparr>\<rparr>)]
        @ alert_if (passwordError s)
        @ [Button (Ui ''Cancel'') idle (Local close_password_dialog),
           Button (if idle then Ui ''Change the password'' else Ui ''Saving'') idle
             (Launch ''submitMyAdminPasswordChange'' (submitMyAdminPasswordChange s))]
      else [])"

text \<open>The dialog for the second factor shows the codes for the case of loss once it is set up.\<close>

definition codes_of :: "admin_page \<Rightarrow> admin_page widget list" where
  "codes_of s = (case recoveryCodes s of None \<Rightarrow> [] | Some cs \<Rightarrow> map (\<lambda>c. Label (Raw (to_str c))) cs)"

definition close_totp_dialog :: "admin_page \<Rightarrow> admin_page" where
  "close_totp_dialog s = s\<lparr>totpSetupModalOpen := False, totpSetup := blank_totp, recoveryCodes := None\<rparr>"

definition totp_dialog :: "(jsval \<Rightarrow> string option) \<Rightarrow> admin_page \<Rightarrow> admin_page widget list" where
  "totp_dialog local_date s =
     (let u = totpSetup s; idle = \<not> t_busy u in
      if adminNav s = ''myProfile'' \<and> totpSetupModalOpen s then
        dialog_frame (t_busy u) close_totp_dialog (Ui ''Setting up the second factor'')
        @ (if t_loading u then [Label (Ui ''preparing the code'')] else [])
        @ (if \<not> t_loading u \<and> t_qrDataUrl u = [] then alert_if (t_error u) else [])
        @ (if t_qrDataUrl u = [] then []
           else [Label (Raw (t_qrDataUrl u)), Label (Raw (t_manualSecret u)), Label (Raw (formatMaybeDate local_date (JStr (t_expiresAt u)))),
                 Field (t_code u) idle (\<lambda>t s. s\<lparr>totpSetup := (totpSetup s)\<lparr>t_code := t\<rparr>\<rparr>),
                 Button (if idle then Ui ''Confirm and switch on'' else Ui ''Checking'') idle
                   (Launch ''confirmMyAdminTotpSetup'' (confirmMyAdminTotpSetup s))] @ alert_if (t_error u))
        @ codes_of s
        @ (if codes_of s = [] then [] else [Button (Ui ''Done'') True (Local close_totp_dialog)])
      else [])"

definition close_totp_off_dialog :: "admin_page \<Rightarrow> admin_page" where
  "close_totp_off_dialog s = s\<lparr>totpDisableModalOpen := False, totpDisableCode := [], totpDisableError := NoText\<rparr>"

definition totp_off_dialog :: "admin_page \<Rightarrow> admin_page widget list" where
  "totp_off_dialog s =
     (let idle = \<not> totpDisableBusy s in
      if adminNav s = ''myProfile'' \<and> totpDisableModalOpen s then
        dialog_frame (totpDisableBusy s) close_totp_off_dialog (Ui ''Switch TOTP off'')
        @ [Field (totpDisableCode s) idle (\<lambda>t s. s\<lparr>totpDisableCode := t\<rparr>)]
        @ alert_if (totpDisableError s)
        @ [Button (Ui ''Cancel'') idle (Local close_totp_off_dialog),
           Button (if idle then Ui ''Switch TOTP off'' else Ui ''Switching off'') idle (Launch ''disableMyAdminTotp'' (disableMyAdminTotp s))]
      else [])"

definition close_recovery_dialog :: "admin_page \<Rightarrow> admin_page" where
  "close_recovery_dialog s = s\<lparr>recoveryModalOpen := False, regenerateCode := [], regenerateError := NoText, recoveryCodes := None\<rparr>"

definition recovery_dialog :: "admin_page \<Rightarrow> admin_page widget list" where
  "recovery_dialog s =
     (let idle = \<not> regenerateBusy s in
      if adminNav s = ''myProfile'' \<and> recoveryModalOpen s then
        dialog_frame (regenerateBusy s) close_recovery_dialog (Ui ''New recovery codes'')
        @ (if codes_of s = [] then
             [Field (regenerateCode s) idle (\<lambda>t s. s\<lparr>regenerateCode := t\<rparr>)]
             @ alert_if (regenerateError s)
             @ [Button (Ui ''Cancel'') idle (Local (\<lambda>s. s\<lparr>recoveryModalOpen := False, regenerateCode := [], regenerateError := NoText\<rparr>)),
                Button (if idle then Ui ''Make new codes'' else Ui ''Making'') idle
                  (Launch ''regenerateMyAdminRecoveryCodes'' (regenerateMyAdminRecoveryCodes s))]
           else codes_of s @ [Button (Ui ''Done'') True (Local close_recovery_dialog)])
      else [])"

text \<open>
  Leaving the profile closes its dialogs and clears what was typed and shown there; coming to it loads it again. The effect that
  starts the setup runs when the dialog opens or the profile changes while TOTP is off.
\<close>

definition leave_profile :: "admin_page \<Rightarrow> admin_page" where
  "leave_profile s = s\<lparr>passwordDraft := blank_password, passwordError := NoText, totpSetup := blank_totp, totpDisableCode := [],
     totpDisableError := NoText, recoveryCodes := None, regenerateCode := [], regenerateError := NoText, passwordModalOpen := False,
     totpSetupModalOpen := False, totpDisableModalOpen := False, recoveryModalOpen := False\<rparr>"

definition totp_effect :: "admin_page \<Rightarrow> admin_page script" where
  "totp_effect s = (if \<not> totpSetupModalOpen s \<or> totp_on s then Stop else startMyAdminTotpSetup s)"

definition go_to :: "string \<Rightarrow> admin_page \<Rightarrow> admin_page script" where
  "go_to nav s =
     (if nav = adminNav s then Stop
      else if nav \<noteq> ''myProfile'' then Set (\<lambda>s. leave_profile (s\<lparr>adminNav := nav\<rparr>)) Stop
      else Set (\<lambda>s. s\<lparr>adminNav := nav\<rparr>) (loadMyAdminProfile Stop))"

text \<open>Everything the profile offers at a moment: its widgets, the way to any part of the panel, and the effect of the setup, which may
  run at any moment here.\<close>

definition profile_offers :: "(jsval \<Rightarrow> string option) \<Rightarrow> admin_page \<Rightarrow> admin_page press set" where
  "profile_offers local_date s =
     offered ((if adminNav s = ''myProfile'' then profile_card s else []) @ password_dialog s @ totp_dialog local_date s @ totp_off_dialog s
       @ recovery_dialog s)
     \<union> {Launch ''navigate'' (go_to nav s) | nav. True} \<union> {Launch ''startMyAdminTotpSetup'' (totp_effect s)}"

subsection \<open>The profile as a page\<close>

lemmas profile_closers = close_password_dialog_def close_totp_dialog_def close_totp_off_dialog_def close_recovery_dialog_def leave_profile_def

text \<open>What the profile keeps, and what every press of it does: it leaves the busy marks alone, and starts known handlers only.\<close>

definition profile_flags :: "admin_page \<Rightarrow> bool \<times> bool \<times> bool" where
  "profile_flags s = (passwordBusy s, totpDisableBusy s, regenerateBusy s)"

text \<open>What was typed is there only while its dialog is open, and dialogs are open on the profile only.\<close>

definition typed_only_in_dialogs :: "admin_page \<Rightarrow> bool" where
  "typed_only_in_dialogs s = ((passwordModalOpen s \<or> passwordDraft s = blank_password) \<and> (totpDisableModalOpen s \<or> totpDisableCode s = [])
     \<and> (recoveryModalOpen s \<or> regenerateCode s = [])
     \<and> (adminNav s = ''myProfile'' \<or> \<not> (passwordModalOpen s \<or> totpSetupModalOpen s \<or> totpDisableModalOpen s \<or> recoveryModalOpen s)))"

fun profile_press :: "admin_page \<Rightarrow> admin_page press \<Rightarrow> bool" where
  "profile_press s (Local f) = (profile_flags (f s) = profile_flags s \<and> (typed_only_in_dialogs s \<longrightarrow> typed_only_in_dialogs (f s)))"
| "profile_press s (Launch h k) = ((h, k) \<in> {(''submitMyAdminPasswordChange'', submitMyAdminPasswordChange s),
     (''confirmMyAdminTotpSetup'', confirmMyAdminTotpSetup s), (''disableMyAdminTotp'', disableMyAdminTotp s),
     (''regenerateMyAdminRecoveryCodes'', regenerateMyAdminRecoveryCodes s), (''startMyAdminTotpSetup'', totp_effect s)}
     \<or> (\<exists>nav. (h, k) = (''navigate'', go_to nav s)))"

lemmas press_simps = profile_flags_def typed_only_in_dialogs_def dialog_frame_def Let_def

lemma codes_only_shown [simp]: "list_all (offers_only Q) (codes_of s)"
  by (auto simp: codes_of_def list_all_iff split: option.split)

lemma profile_dialog_presses:
  "list_all (offers_only (profile_press s)) (if adminNav s = ''myProfile'' then profile_card s else [])"
  "list_all (offers_only (profile_press s)) (password_dialog s)"
  "list_all (offers_only (profile_press s)) (totp_dialog local_date s)" "list_all (offers_only (profile_press s)) (totp_off_dialog s)"
  "list_all (offers_only (profile_press s)) (recovery_dialog s)"
  by (simp_all add: profile_card_def password_dialog_def totp_dialog_def totp_off_dialog_def recovery_dialog_def profile_closers press_simps)

lemma profile_presses: "p \<in> profile_offers local_date s \<Longrightarrow> profile_press s p"
proof -
  have "list_all (offers_only (profile_press s)) ((if adminNav s = ''myProfile'' then profile_card s else []) @ password_dialog s
      @ totp_dialog local_date s @ totp_off_dialog s @ recovery_dialog s)"
    using profile_dialog_presses [of s] by (simp only: list_all_append simp_thms)
  then show "p \<in> profile_offers local_date s \<Longrightarrow> profile_press s p"
    unfolding profile_offers_def by (auto dest: offers_onlyD)
qed

lemma loads_quietly: "keeps I k \<Longrightarrow> (\<And>s b. I s \<Longrightarrow> I (s\<lparr>myProfileLoading := b\<rparr>)) \<Longrightarrow> (\<And>s a. I s \<Longrightarrow> I (case a of
      Inr v \<Rightarrow> s\<lparr>myProfile := (if truthy v then v else JNull), passwordError := NoText, totpDisableError := NoText,
                regenerateError := NoText, myProfileLoading := False\<rparr>
    | Inl e \<Rightarrow> s\<lparr>myProfile := JNull, passwordError := any_message e, myProfileLoading := False\<rparr>)) \<Longrightarrow> keeps I (loadMyAdminProfile k)"
  by (simp add: loadMyAdminProfile_def)

lemmas profile_scripts = submitMyAdminPasswordChange_def confirmMyAdminTotpSetup_def disableMyAdminTotp_def regenerateMyAdminRecoveryCodes_def
  startMyAdminTotpSetup_def totp_effect_def go_to_def loadMyAdminProfile_def leave_profile_def Let_def

lemma profile_keeps_typed: "profile_press s (Launch h k) \<Longrightarrow> keeps typed_only_in_dialogs k"
  by (auto simp: profile_scripts typed_only_in_dialogs_def split: sum.split)

lemma loading_leaves [simp]:
  "leaves passwordBusy (loadMyAdminProfile k) = leaves passwordBusy k"
  "leaves totpDisableBusy (loadMyAdminProfile k) = leaves totpDisableBusy k"
  "leaves regenerateBusy (loadMyAdminProfile k) = leaves regenerateBusy k"
  by (simp_all add: loadMyAdminProfile_def split: sum.split)

lemma scripts_leave [simp]:
  "leaves totpDisableBusy (submitMyAdminPasswordChange s)" "leaves regenerateBusy (submitMyAdminPasswordChange s)"
  "leaves passwordBusy (confirmMyAdminTotpSetup s)" "leaves totpDisableBusy (confirmMyAdminTotpSetup s)" "leaves regenerateBusy (confirmMyAdminTotpSetup s)"
  "leaves passwordBusy (disableMyAdminTotp s)" "leaves regenerateBusy (disableMyAdminTotp s)"
  "leaves passwordBusy (regenerateMyAdminRecoveryCodes s)" "leaves totpDisableBusy (regenerateMyAdminRecoveryCodes s)"
  "leaves passwordBusy (totp_effect s)" "leaves totpDisableBusy (totp_effect s)" "leaves regenerateBusy (totp_effect s)"
  "leaves passwordBusy (go_to nav s)" "leaves totpDisableBusy (go_to nav s)" "leaves regenerateBusy (go_to nav s)"
  by (simp_all add: submitMyAdminPasswordChange_def confirmMyAdminTotpSetup_def disableMyAdminTotp_def regenerateMyAdminRecoveryCodes_def
      totp_effect_def startMyAdminTotpSetup_def go_to_def leave_profile_def Let_def)

lemma loading_releases [simp]:
  "busy \<in> {totpDisableBusy, regenerateBusy} \<Longrightarrow> busy s \<Longrightarrow> (\<And>s. busy s \<Longrightarrow> released busy (advance k s)) \<Longrightarrow> released busy (advance (loadMyAdminProfile k) s)"
  by (auto simp: loadMyAdminProfile_def released_def [where x = "(u, v)" for u v] split: sum.split)

lemma password_lock_starts:
  "advance (submitMyAdminPasswordChange s) s = (s', r) \<Longrightarrow>
     if waits r then \<not> passwordBusy s \<and> passwordBusy s' \<and> frees passwordBusy r else passwordBusy s' = passwordBusy s"
  by (auto simp: submitMyAdminPasswordChange_def Let_def released_def split: if_splits)

lemma totp_off_lock_starts:
  "advance (disableMyAdminTotp s) s = (s', r) \<Longrightarrow>
     if waits r then \<not> totpDisableBusy s \<and> totpDisableBusy s' \<and> frees totpDisableBusy r else totpDisableBusy s' = totpDisableBusy s"
  by (auto simp: disableMyAdminTotp_def Let_def released_def [where x = "(u, v)" for u v] split: if_splits)

lemma codes_lock_starts:
  "advance (regenerateMyAdminRecoveryCodes s) s = (s', r) \<Longrightarrow>
     if waits r then \<not> regenerateBusy s \<and> regenerateBusy s' \<and> frees regenerateBusy r else regenerateBusy s' = regenerateBusy s"
  by (auto simp: regenerateMyAdminRecoveryCodes_def Let_def released_def [where x = "(u, v)" for u v] split: if_splits)

lemma launched_handlers:
  "profile_press s (Launch h k) \<Longrightarrow> h = ''submitMyAdminPasswordChange'' \<and> k = submitMyAdminPasswordChange s
     \<or> h = ''confirmMyAdminTotpSetup'' \<and> k = confirmMyAdminTotpSetup s \<or> h = ''disableMyAdminTotp'' \<and> k = disableMyAdminTotp s
     \<or> h = ''regenerateMyAdminRecoveryCodes'' \<and> k = regenerateMyAdminRecoveryCodes s \<or> h = ''startMyAdminTotpSetup'' \<and> k = totp_effect s
     \<or> (\<exists>nav. h = ''navigate'' \<and> k = go_to nav s)"
  by simp

interpretation password_lock: busy_lock "profile_offers local_date" passwordBusy "''submitMyAdminPasswordChange''" for local_date
proof
  fix f s show "Local f \<in> profile_offers local_date s \<Longrightarrow> passwordBusy (f s) = passwordBusy s"
    by (drule profile_presses) (simp add: profile_flags_def)
  fix k s' r g
  show "Launch ''submitMyAdminPasswordChange'' k \<in> profile_offers local_date s \<Longrightarrow> advance k s = (s', r) \<Longrightarrow>
      if waits r then \<not> passwordBusy s \<and> passwordBusy s' \<and> frees passwordBusy r else passwordBusy s' = passwordBusy s"
    by (drule profile_presses) (rule password_lock_starts, simp)
  show "Launch g k \<in> profile_offers local_date s \<Longrightarrow> g \<noteq> ''submitMyAdminPasswordChange'' \<Longrightarrow> leaves passwordBusy k"
    by (drule profile_presses, drule launched_handlers) (elim disjE exE conjE, simp_all)
qed

interpretation totp_off_lock: busy_lock "profile_offers local_date" totpDisableBusy "''disableMyAdminTotp''" for local_date
proof
  fix f s show "Local f \<in> profile_offers local_date s \<Longrightarrow> totpDisableBusy (f s) = totpDisableBusy s"
    by (drule profile_presses) (simp add: profile_flags_def)
  fix k s' r g
  show "Launch ''disableMyAdminTotp'' k \<in> profile_offers local_date s \<Longrightarrow> advance k s = (s', r) \<Longrightarrow>
      if waits r then \<not> totpDisableBusy s \<and> totpDisableBusy s' \<and> frees totpDisableBusy r else totpDisableBusy s' = totpDisableBusy s"
    by (drule profile_presses) (rule totp_off_lock_starts, simp)
  show "Launch g k \<in> profile_offers local_date s \<Longrightarrow> g \<noteq> ''disableMyAdminTotp'' \<Longrightarrow> leaves totpDisableBusy k"
    by (drule profile_presses, drule launched_handlers) (elim disjE exE conjE, simp_all)
qed

interpretation codes_lock: busy_lock "profile_offers local_date" regenerateBusy "''regenerateMyAdminRecoveryCodes''" for local_date
proof
  fix f s show "Local f \<in> profile_offers local_date s \<Longrightarrow> regenerateBusy (f s) = regenerateBusy s"
    by (drule profile_presses) (simp add: profile_flags_def)
  fix k s' r g
  show "Launch ''regenerateMyAdminRecoveryCodes'' k \<in> profile_offers local_date s \<Longrightarrow> advance k s = (s', r) \<Longrightarrow>
      if waits r then \<not> regenerateBusy s \<and> regenerateBusy s' \<and> frees regenerateBusy r else regenerateBusy s' = regenerateBusy s"
    by (drule profile_presses) (rule codes_lock_starts, simp)
  show "Launch g k \<in> profile_offers local_date s \<Longrightarrow> g \<noteq> ''regenerateMyAdminRecoveryCodes'' \<Longrightarrow> leaves regenerateBusy k"
    by (drule profile_presses, drule launched_handlers) (elim disjE exE conjE, simp_all)
qed

subsection \<open>Properties\<close>

text \<open>C33: The own profile, whatever is pressed, typed, left and come back to, and in whatever order the answers arrive: at most one change of
  the password, one switching off of the second factor and one making of recovery codes are under way, each exactly while its busy mark
  is set; what was typed into a dialog is there only while this dialog is open; and away from the profile no dialog is open.\<close>

theorem profile_locks_and_secrets:
  assumes "reachable (profile_offers local_date) s0 (s, P)" and "profile_flags s0 = (False, False, False)" and "typed_only_in_dialogs s0"
  shows "one_at_a_time P ''submitMyAdminPasswordChange'' (passwordBusy s) \<and> one_at_a_time P ''disableMyAdminTotp'' (totpDisableBusy s)
    \<and> one_at_a_time P ''regenerateMyAdminRecoveryCodes'' (regenerateBusy s) \<and> typed_only_in_dialogs s"
proof -
  have "typed_only_in_dialogs (fst (s, P))"
    using assms(1,3) by (rule page_invariant) (drule profile_presses, simp, drule profile_presses, rule profile_keeps_typed)
  then show ?thesis
    using assms(1,2) password_lock.one_at_a_time_reachable totp_off_lock.one_at_a_time_reachable codes_lock.one_at_a_time_reachable
    by (simp add: profile_flags_def)
qed

text \<open>Recovery codes come back: when the profile is left while new codes are being made, the answer stores them although their dialog is
  gone, and the next time the dialog is opened it shows them instead of asking for a code.\<close>

theorem left_profile_shows_codes:
  assumes "js_trim (regenerateCode s) \<noteq> []" and "\<not> regenerateBusy s" and "shown_codes v = Some codes"
    and "advance (regenerateMyAdminRecoveryCodes s) s = (s1, r)" and "resume r (Inr v) (leave_profile (s1\<lparr>adminNav := ''servers''\<rparr>)) = (s2, r2)"
  shows "recoveryCodes s2 = Some codes \<and> \<not> recoveryModalOpen s2
    \<and> codes_of (s2\<lparr>adminNav := ''myProfile'', regenerateError := NoText, regenerateCode := [], recoveryModalOpen := True\<rparr>)
        = map (\<lambda>c. Label (Raw (to_str c))) codes"
  using assms
  by (auto simp: regenerateMyAdminRecoveryCodes_def try_ask_def loadMyAdminProfile_def leave_profile_def codes_of_def Let_def split: if_splits)

text \<open>Setting up the second factor ends in another setup when the profile cannot be loaded again: the factor is on, the profile is empty,
  and the effect, seeing no enabled factor, asks for a new secret.\<close>

theorem setup_starts_again:
  assumes "totpSetupModalOpen s" and "aToken s \<noteq> []" and "t_code (totpSetup s) \<noteq> []" and "\<not> t_busy (totpSetup s)"
    and "srv 0 (''POST'', ''/api/admins/me/totp/setup/confirm'', JObj [(''totpCode'', JStr (t_code (totpSetup s)))]) = Inr v"
    and "srv 1 (''GET'', ''/api/admins/me'', JUndef) = Inl e"
  defines "s' \<equiv> fst (exec (confirmMyAdminTotpSetup s) srv (\<lambda>_ t. t) 0 s)"
  shows "calls_of (snd (exec (totp_effect s') srv (\<lambda>_ t. t) 2 s')) = [(''POST'', ''/api/admins/me/totp/setup/start'', JObj [])]"
  using assms(1-6)
  by (simp add: s'_def confirmMyAdminTotpSetup_def loadMyAdminProfile_def totp_effect_def totp_on_def startMyAdminTotpSetup_def
      jprop_def Let_def split: sum.split)

text \<open>The dialog for the password with new passwords typed in, and its button pressed.\<close>

definition sample_profile :: admin_page where
  "sample_profile = \<lparr>aToken = ''tok'', adminDetailStatusBusy = False, adminDetailStatusError = NoText, adminBlockModal = closed_block,
     adminProfileDraft = blank_admin_form, adminProfileSaving = False, adminProfileFieldError = NoText, resetOpen = False, resetUrl = [],
     resetBusy = False, resetError = NoText, myProfile = JObj [(''totpEnabled'', JBool True)], myProfileLoading = False,
     passwordDraft = \<lparr>currentPassword = ''old'', newPassword = ''new'', confirmPassword = ''new''\<rparr>, passwordBusy = False, passwordError = NoText,
     passwordModalOpen = True, totpSetup = blank_totp, totpDisableCode = [], totpDisableBusy = False, totpDisableError = NoText,
     totpDisableModalOpen = False, recoveryCodes = None, regenerateCode = [], regenerateBusy = False, regenerateError = NoText,
     newAdmin = blank_admin_form, addAdminBusy = False, addAdminError = NoText, inviteUrl = None, adminNav = ''myProfile'',
     adminError = NoText, totpSetupModalOpen = False, recoveryModalOpen = False, addAdminModalOpen = False\<rparr>"

definition sample_pool :: "admin_page pool" where
  "sample_pool = park 0 ''submitMyAdminPasswordChange'' (snd (advance (submitMyAdminPasswordChange sample_profile) sample_profile)) Map.empty"

lemma sample_reachable:
  "reachable (profile_offers local_date) sample_profile (fst (advance (submitMyAdminPasswordChange sample_profile) sample_profile), sample_pool)"
proof (rule reachable.step [OF reachable.start])
  have "Launch ''submitMyAdminPasswordChange'' (submitMyAdminPasswordChange sample_profile) \<in> profile_offers local_date sample_profile"
    by (simp add: profile_offers_def password_dialog_def dialog_frame_def Let_def) (simp add: sample_profile_def)
  then show "page_step (profile_offers local_date) (sample_profile, Map.empty)
      (fst (advance (submitMyAdminPasswordChange sample_profile) sample_profile), sample_pool)"
    unfolding sample_pool_def by (rule page_step.launch) simp_all
qed

theorem profile_locks_and_secrets_witness:
  "one_at_a_time sample_pool ''submitMyAdminPasswordChange'' True
   \<and> typed_only_in_dialogs (fst (advance (submitMyAdminPasswordChange sample_profile) sample_profile))"
proof -
  have "profile_flags sample_profile = (False, False, False)" "typed_only_in_dialogs sample_profile"
    "passwordBusy (fst (advance (submitMyAdminPasswordChange sample_profile) sample_profile))"
    by (simp_all add: profile_flags_def typed_only_in_dialogs_def submitMyAdminPasswordChange_def Let_def sample_profile_def)
  then show ?thesis using profile_locks_and_secrets [OF sample_reachable [of "\<lambda>_. None"]] by (simp only: simp_thms)
qed

definition sample_codes :: admin_page where
  "sample_codes = sample_profile\<lparr>regenerateCode := ''123456''\<rparr>"

definition sample_answer :: jsval where
  "sample_answer = JObj [(''recoveryCodes'', JArr [JStr ''abcd''])]"

theorem left_profile_shows_codes_witness:
  "recoveryCodes (fst (resume (snd (advance (regenerateMyAdminRecoveryCodes sample_codes) sample_codes)) (Inr sample_answer)
     (leave_profile ((fst (advance (regenerateMyAdminRecoveryCodes sample_codes) sample_codes))\<lparr>adminNav := ''servers''\<rparr>)))) = Some [JStr ''abcd'']"
proof -
  have codes: "shown_codes sample_answer = Some [JStr ''abcd'']"
    by (simp add: sample_answer_def shown_codes_def array_or_empty_def jprop_def obj_get_def)
  have "js_trim ''123456'' \<noteq> []" by code_simp
  then have typed: "js_trim (regenerateCode sample_codes) \<noteq> []" by (simp add: sample_codes_def)
  have idle: "\<not> regenerateBusy sample_codes" by (simp add: sample_codes_def sample_profile_def)
  show ?thesis
    by (rule left_profile_shows_codes [OF typed idle codes surjective_pairing surjective_pairing, THEN conjunct1])
qed

end
