(* ===== verification/Settings_Views.thy ===== *)
theory Settings_Views
  imports Admin_Views Backups Routes Monitoring
begin

section \<open>The settings of the panel: administrators and backups\<close>

text \<open>
  What the three sections of the settings show and offer: the list and the card of administrators with their dialogs, the schedule and
  the list of backups, and restoring one.
\<close>

subsection \<open>Adding an administrator\<close>

definition clear_new_admin :: "admin_page \<Rightarrow> admin_page" where
  "clear_new_admin s = s\<lparr>newAdmin := blank_admin_form, addAdminError := NoText, adminError := NoText, inviteUrl := None\<rparr>"

definition open_add_admin :: "admin_page \<Rightarrow> admin_page" where
  "open_add_admin s = (clear_new_admin s)\<lparr>addAdminModalOpen := True\<rparr>"

definition close_add_admin :: "admin_page \<Rightarrow> admin_page" where
  "close_add_admin s = (clear_new_admin s)\<lparr>addAdminModalOpen := False, addAdminBusy := False\<rparr>"

text \<open>The address \<^verbatim>\<open>/settings/admins/new\<close> is replaced by the list with the dialog open; leaving the settings closes it.\<close>

definition new_admin_address_effect :: "string \<Rightarrow> admin_page \<Rightarrow> admin_page \<times> string option" where
  "new_admin_address_effect pathname s =
     (let norm = js_or (strip_slashes pathname) ''/'' in
      if norm \<noteq> ''/settings/admins/new'' then (s, None) else (open_add_admin s, Some paths_settings))"

definition leave_settings_effect :: "admin_page \<Rightarrow> admin_page" where
  "leave_settings_effect s =
     (if adminNav s \<noteq> ''settings''
      then s\<lparr>addAdminModalOpen := False, addAdminBusy := False, addAdminError := NoText, inviteUrl := None, newAdmin := blank_admin_form\<rparr>
      else s)"

definition settings_entries :: "(uitext \<times> (admin_page \<Rightarrow> admin_page) \<times> string) list" where
  "settings_entries =
     [(Ui ''Administrators'', close_add_admin, paths_settings),
      (Ui ''Backups'', (\<lambda>s. s\<lparr>addAdminModalOpen := False, adminError := NoText\<rparr>), paths_settingsBackup),
      (Ui ''Restoring'', (\<lambda>s. s\<lparr>addAdminModalOpen := False, adminError := NoText\<rparr>), paths_settingsRestore)]"

definition add_admin_dialog :: "string \<Rightarrow> string \<Rightarrow> admin_page \<Rightarrow> admin_page widget list" where
  "add_admin_dialog origin sec s =
     (let idle = \<not> addAdminBusy s; d = newAdmin s in
      if addAdminModalOpen s \<and> adminNav s = ''settings'' \<and> sec = ''admins'' then
        dialog_frame (addAdminBusy s) close_add_admin (if inviteUrl s \<noteq> None then Ui ''The invitation was made'' else Ui ''New administrator'')
        @ (case inviteUrl s of
            Some url \<Rightarrow> [Label (Raw url), Button (Ui ''Done'') True
              (Local (\<lambda>s. s\<lparr>addAdminModalOpen := False, inviteUrl := None, newAdmin := blank_admin_form, adminError := NoText\<rparr>))]
          | None \<Rightarrow>
              [Field (a_fullName d) idle (\<lambda>t s. s\<lparr>newAdmin := (newAdmin s)\<lparr>a_fullName := t\<rparr>\<rparr>),
               Field (a_username d) idle (\<lambda>t s. s\<lparr>newAdmin := (newAdmin s)\<lparr>a_username := t\<rparr>\<rparr>),
               Field (a_email d) idle (\<lambda>t s. s\<lparr>newAdmin := (newAdmin s)\<lparr>a_email := email_text t\<rparr>\<rparr>)]
              @ alert_if (addAdminError s)
              @ [Button (Ui ''Cancel'') idle (Local close_add_admin),
                 Button (if idle then Ui ''Create and get the link'' else Ui ''Creating'') (idle \<and> email_valid (a_email d))
                   (Launch ''createAdmin'' (createAdmin origin s))])
      else [])"

subsection \<open>The list and the card of administrators\<close>

definition admin_status :: "uitext \<Rightarrow> jsval \<Rightarrow> uitext" where
  "admin_status waiting a =
     (if truthy (jprop a ''invitePending'') then waiting else if truthy (jprop a ''isActive'') then Ui ''active'' else Ui ''blocked'')"

text \<open>A row of a table: its cells and the address a click on it opens.\<close>

definition admin_row :: "jsval \<Rightarrow> uitext list \<times> string" where
  "admin_row a = ([cell a ''fullName'', child (jprop a ''username''), cell a ''email'', admin_status (Ui ''waits for the invitation'') a],
     paths_settingsAdmin (to_str (jprop a ''id'')))"

definition admin_card :: "string \<Rightarrow> jsval \<Rightarrow> string \<Rightarrow> admin_page \<Rightarrow> admin_page widget list" where
  "admin_card origin sel sessionAdminId s =
     (let idle = \<not> adminProfileSaving s; d = adminProfileDraft s in
      if sel = JNull then [Label (Ui ''there is no such administrator'')]
      else [Label (admin_status (Ui ''waits for the invitation to be followed'') sel),
            Field (a_fullName d) idle (\<lambda>t s. s\<lparr>adminProfileDraft := (adminProfileDraft s)\<lparr>a_fullName := t\<rparr>\<rparr>),
            Field (a_username d) idle (\<lambda>t s. s\<lparr>adminProfileDraft := (adminProfileDraft s)\<lparr>a_username := t\<rparr>\<rparr>),
            Field (a_email d) idle (\<lambda>t s. s\<lparr>adminProfileDraft := (adminProfileDraft s)\<lparr>a_email := email_text t\<rparr>\<rparr>)]
        @ alert_if (adminProfileFieldError s)
        @ [Button (if idle then Ui ''Save'' else Ui ''Saving'') (idle \<and> a_fullName d \<noteq> [] \<and> a_username d \<noteq> [] \<and> email_required (a_email d))
             (Launch ''saveAdminProfile'' (saveAdminProfile sel s))]
        @ (if truthy (jprop sel ''invitePending'') then []
           else [Button (Ui ''Change the password'') (idle \<and> \<not> resetBusy s)
                   (Launch ''openAdminPasswordResetModal'' (openAdminPasswordResetModal origin sel s))])
        @ (if sessionAdminId \<noteq> [] \<and> to_str (jprop sel ''id'') = sessionAdminId then [Label (Ui ''you cannot block yourself'')]
           else if truthy (jprop sel ''isActive'')
           then [Button (Ui ''Block'') (\<not> adminDetailStatusBusy s \<and> \<not> b_busy (adminBlockModal s) \<and> idle)
                   (Local (open_block_modal (to_str (jprop sel ''id''))))]
           else [Button (if adminDetailStatusBusy s then Ui ''Saving'' else Ui ''Unblock'') (\<not> adminDetailStatusBusy s \<and> idle)
                   (Launch ''patchAdminIsActive'' (patchAdminIsActive (to_str (jprop sel ''id'')) True s))])
        @ alert_if (adminDetailStatusError s))"

definition block_dialog :: "admin_page \<Rightarrow> admin_page widget list" where
  "block_dialog s =
     (let m = adminBlockModal s; idle = \<not> b_busy m in
      if b_open m then
        dialog_frame (b_busy m) closeAdminBlockModal (Ui ''Blocking of the administrator'')
        @ [Label (if b_byFullName m then Ui ''type the full name'' else Ui ''type the login''), Field (b_input m) idle type_block_input]
        @ alert_if (b_validationError m) @ alert_if (b_error m)
        @ [Button (Ui ''Cancel'') idle (Local closeAdminBlockModal),
           Button (if idle then Ui ''Block'' else Ui ''Blocking'') (idle \<and> normalizeAdminBlockConfirmInput (b_input m) \<noteq> [])
             (Launch ''submitAdminBlock'' (submitAdminBlock s))]
      else [])"

definition reset_dialog :: "admin_page \<Rightarrow> admin_page widget list" where
  "reset_dialog s =
     (let idle = \<not> resetBusy s in
      if resetOpen s then
        dialog_frame (resetBusy s) closeAdminPasswordResetModal (Ui ''Link to set the password'')
        @ (if resetBusy s then [Label (Ui ''making the link'')] else if shown (resetError s) then [Alert (resetError s)] else [Label (Raw (resetUrl s))])
        @ [Button (Ui ''Close'') idle (Local closeAdminPasswordResetModal)]
      else [])"

subsection \<open>Backups\<close>

text \<open>A number in a field is written as text; what is typed goes through \<^verbatim>\<open>Number\<close>.\<close>

definition backup_schedule :: "(jsval \<Rightarrow> string option) \<Rightarrow> string \<Rightarrow> backup_page \<Rightarrow> backup_page widget list" where
  "backup_schedule local_date auth s =
     (let idle = \<not> backupsSaving s in
      [Field (num_string (formInterval s)) idle (\<lambda>t s. s\<lparr>formInterval := number_of_string (number_text t)\<rparr>),
       Field (num_string (formRetain s)) idle (\<lambda>t s. s\<lparr>formRetain := number_of_string (number_text t)\<rparr>),
       Button (if idle then Ui ''Save the settings'' else Ui ''Saving'') idle (Launch ''saveBackupSettings'' (saveBackupSettingsHandler auth s)),
       Button (if backupsRunBusy s then Ui ''Making'' else Ui ''Make a copy now'') (\<not> backupsRunBusy s \<and> \<not> backupsLoading s)
         (Launch ''runBackupNow'' (runBackupNowHandler auth s))]
      @ (let at_time = jprop (backupSettings s) ''lastScheduledAt'' in
         if truthy at_time then [Label (Cat (Ui ''last automatic copy: '') (Raw (formatMaybeDate local_date at_time)))] else []))"

text \<open>A row of the list: its cells, the download it offers, and the dialog its second button opens.\<close>

definition ask_delete :: "jsval \<Rightarrow> backup_page \<Rightarrow> backup_page" where
  "ask_delete b s = s\<lparr>deleteModal := \<lparr>m_open = True, m_busy = False, m_error = NoText,
     m_form = (str_or (jprop b ''id''), str_or (jprop b ''fileName''))\<rparr>\<rparr>"

definition backup_row :: "(jsval \<Rightarrow> string option) \<Rightarrow> jsval \<Rightarrow> uitext list \<times> (string \<times> string) \<times> (backup_page \<Rightarrow> backup_page)" where
  "backup_row local_date b =
     ([Raw (formatMaybeDate local_date (jprop b ''createdAt'')), child (jprop b ''fileName''), case formatBytes (jprop b ''sizeBytes'') of (n, u) \<Rightarrow> Cat (Raw n) (Ui u),
       if jprop b ''trigger'' = JStr ''scheduled'' then Ui ''by schedule'' else Ui ''by hand''],
      (to_str (jprop b ''id''), to_str (jprop b ''fileName'')), ask_delete b)"

definition close_delete :: "backup_page \<Rightarrow> backup_page" where
  "close_delete s = s\<lparr>deleteModal := closed_modal ([], [])\<rparr>"

definition delete_dialog :: "string \<Rightarrow> string \<Rightarrow> string \<Rightarrow> backup_page \<Rightarrow> backup_page widget list" where
  "delete_dialog nav sec auth s =
     (let m = deleteModal s; idle = \<not> m_busy m in
      if m_open m \<and> nav = ''settings'' \<and> sec = ''backup'' then
        dialog_frame (m_busy m) close_delete (Ui ''Delete the backup'')
        @ [Label (Raw (js_or (snd (m_form m)) (fst (m_form m))))] @ alert_if (m_error m)
        @ [Button (Ui ''Cancel'') idle (Local close_delete),
           Button (if idle then Ui ''Delete'' else Ui ''Deleting'') idle (Launch ''deletePanelBackup'' (deletePanelBackupHandler auth s))]
      else [])"

text \<open>Restoring: the file, the box and the button; a picker gives nothing when the choice is cancelled.\<close>

definition restore_form :: "backup_page \<Rightarrow> backup_page widget list" where
  "restore_form s =
     (let idle = \<not> restoreBusy s in
      [Picker idle (\<lambda>f. Local (\<lambda>s. s\<lparr>restoreFile := f, restoreMessage := NoText\<rparr>)),
       Tick (restoreConfirm s) idle (\<lambda>b s. s\<lparr>restoreConfirm := b\<rparr>)])"

definition restore_enabled :: "backup_page \<Rightarrow> bool" where
  "restore_enabled s = (\<not> (restoreBusy s \<or> restoreFile s = None \<or> \<not> restoreConfirm s))"

subsection \<open>Properties\<close>

text \<open>While the request of a dialog is under way nothing in it can be pressed or typed; the invitation dialog offers only to be left.\<close>

lemma settings_dialogs_frozen:
  "b_busy (adminBlockModal s) \<Longrightarrow> offered (block_dialog s) = {}"
  "resetBusy s \<Longrightarrow> offered (reset_dialog s) = {}"
  "m_busy (deleteModal b) \<Longrightarrow> offered (delete_dialog nav sec auth b) = {}"
  "addAdminBusy s \<Longrightarrow> inviteUrl s = None \<Longrightarrow> offered (add_admin_dialog origin sec s) = {}"
  by (simp_all add: block_dialog_def reset_dialog_def delete_dialog_def add_admin_dialog_def dialog_frame_def Let_def)

text \<open>Restoring can be started exactly when a file was chosen and the box is ticked, and then the request is sent.\<close>

lemma restore_button: "auth \<noteq> [] \<Longrightarrow> \<not> restoreBusy s \<Longrightarrow> restore_enabled s = (restoreFromArchiveHandler_start auth s \<noteq> None)"
  by (simp add: restore_enabled_def restoreFromArchiveHandler_start_def)

text \<open>
  The invitation of one administrator shows up in the dialog for another: when the settings are left while an administrator is created,
  and the dialog is opened and filled in again before the answer, the answer puts its link there, wipes what was typed, and ends
  the busy mark. Meanwhile the dialog that was opened again can send a second request.
\<close>

theorem invitation_of_another:
  fixes typed :: admin_form
  assumes "advance (createAdmin origin s0) s0 = (s1, r)" and "str_prop v ''invitePath'' \<noteq> []" and "s1' = open_add_admin (leave_settings_effect (s1\<lparr>adminNav := ''users''\<rparr>))"
    and "email_valid (a_email typed)"
  defines "s2 \<equiv> s1'\<lparr>adminNav := ''settings'', newAdmin := typed\<rparr>"
  shows "\<not> addAdminBusy s2 \<and> Launch ''createAdmin'' (createAdmin origin s2) \<in> offered (add_admin_dialog origin ''admins'' s2)
    \<and> inviteUrl (fst (resume r (Inr v) s2)) = Some (origin @ str_prop v ''invitePath'') \<and> newAdmin (fst (resume r (Inr v) s2)) = blank_admin_form"
  using assms(1-4)
  by (auto simp: s2_def createAdmin_def try_ask_def leave_settings_effect_def open_add_admin_def clear_new_admin_def add_admin_dialog_def Let_def
      dialog_frame_def)

theorem invitation_of_another_witness:
  "inviteUrl (fst (resume (snd (advance (createAdmin ''https://p'' sample_profile) sample_profile))
     (Inr (JObj [(''invitePath'', JStr ''/invite/a'')])) (open_add_admin (leave_settings_effect
       ((fst (advance (createAdmin ''https://p'' sample_profile) sample_profile))\<lparr>adminNav := ''users''\<rparr>)) \<lparr>adminNav := ''settings'', newAdmin := blank_admin_form\<rparr>)))
   = Some ''https://p/invite/a''"
proof -
  have "str_prop (JObj [(''invitePath'', JStr ''/invite/a'')]) ''invitePath'' = ''/invite/a''"
    by (simp add: str_prop_def jprop_def obj_get_def)
  moreover have "email_valid (a_email blank_admin_form)" by code_simp
  ultimately show ?thesis
    using invitation_of_another [OF surjective_pairing _ refl, where v = "JObj [(''invitePath'', JStr ''/invite/a'')]"
        and origin = "''https://p''" and ?s0.0 = sample_profile and typed = blank_admin_form]
    by simp
qed

end
