(* ===== verification/Service_Views.thy ===== *)
theory Service_Views
  imports Services Vpn_Sessions Monitoring Routes Pages
begin

section \<open>The dialogs of services, tasks, the agent and sessions\<close>

text \<open>What these dialogs show and offer, and that none of them offers anything while its request is under way.\<close>

subsection \<open>Services, tasks and units\<close>

definition confirm_text :: "bool \<Rightarrow> uitext" where
  "confirm_text busy = (if busy then Ui ''Running'' else Ui ''Confirm'')"

definition confirm_dialog :: "bool \<Rightarrow> ('s \<Rightarrow> 's) \<Rightarrow> uitext \<Rightarrow> uitext \<Rightarrow> uitext \<Rightarrow> string \<Rightarrow> 's script \<Rightarrow> 's widget list" where
  "confirm_dialog busy close title question err name k =
     dialog_frame busy close title @ [Label question] @ alert_if err
     @ [Button (Ui ''Cancel'') (\<not> busy) (Local close), Button (confirm_text busy) (\<not> busy) (Launch name k)]"

definition service_action_dialog :: "string \<Rightarrow> service_page \<Rightarrow> service_page widget list" where
  "service_action_dialog nodeId s =
     (let m = serviceActionModal s in
      if m_open m then confirm_dialog (m_busy m) (\<lambda>s. s\<lparr>serviceActionModal := closed_modal []\<rparr>) (Ui ''Confirm the action'')
        (Raw (js_upper (m_form m))) (m_error m) ''submitServiceAction'' (submitServiceAction nodeId s)
      else [])"

definition task_retry_dialog :: "service_page \<Rightarrow> service_page widget list" where
  "task_retry_dialog s =
     (let m = taskRetryModal s in
      if m_open m then confirm_dialog (m_busy m) (\<lambda>s. s\<lparr>taskRetryModal := closed_modal ([], [])\<rparr>) (Ui ''Run the task again'')
        (Cat (Ui ''queue the task again?'') (Raw (snd (m_form m)))) (m_error m) ''submitTaskRetryFromModal'' (submitTaskRetryFromModal s)
      else [])"

definition unit_verb :: "string \<Rightarrow> uitext" where
  "unit_verb action = (if action = ''start'' then Ui ''start'' else if action = ''stop'' then Ui ''stop'' else Ui ''restart'')"

definition unit_action_dialog :: "string \<Rightarrow> service_page \<Rightarrow> service_page widget list" where
  "unit_action_dialog nodeId s =
     (let m = unitModal s in
      if m_open m then confirm_dialog (m_busy m) (\<lambda>s. s\<lparr>unitModal := closed_modal ([], [])\<rparr>) (Ui ''Service'')
        (Cat (unit_verb (snd (m_form m))) (text_or (Raw (fst (m_form m))) dash)) (m_error m)
        ''submitSystemUnitActionFromModal'' (submitSystemUnitActionFromModal nodeId s)
      else [])"

subsection \<open>The agent\<close>

text \<open>
  The dialog for the agent without its file input, which \<open>choose_file_start\<close> and \<open>choose_file_settle\<close> stand for; reading a file waits
  for no request.
\<close>

definition agent_dialog :: "string \<Rightarrow> service_page \<Rightarrow> service_page widget list" where
  "agent_dialog nodeId s =
     (let a = agent s; idle = \<not> au_busy a in
      if au_open a then
        dialog_frame (au_busy a) (au_upd close_agent_update) (Ui ''Update of the agent'')
        @ (if au_fileName a = [] then [] else [Label (Raw (au_fileName a)), Label (Raw (au_sha256 a))])
        @ [Label (Raw (int_string (au_pct a)))] @ alert_if (au_error a)
        @ (if shown (au_result a) then [Label (au_result a)] else [])
        @ (if au_journal a = [] then [] else [Label (Raw (au_journal a))])
        @ [Button (Ui ''Close'') idle (Local (au_upd close_agent_update)),
           Button (if idle then Ui ''Send to the node'' else Ui ''Sending'') (idle \<and> au_binary a \<noteq> [] \<and> nodeId \<noteq> [])
             (Launch ''submitAgentUpdate'' (submitAgentUpdate nodeId s))]
      else [])"

definition agent_file_enabled :: "service_page \<Rightarrow> bool" where
  "agent_file_enabled s = (\<not> au_busy (agent s))"

subsection \<open>The report of a check and the journal\<close>

text \<open>One hint of the agent is never shown.\<close>

definition check_dialog :: "string \<Rightarrow> service_page \<Rightarrow> service_page widget list" where
  "check_dialog hidden s =
     (let m = checkModal s; close = (\<lambda>s. s\<lparr>checkModal := (checkModal s)\<lparr>c_open := False\<rparr>\<rparr>) in
      if c_open m then
        dialog_frame False close (Ui ''Check of the configuration'')
        @ [if c_success m then Label (c_message m) else Alert (c_message m)]
        @ map Label (if c_details m = [] then [text_or (c_message m) (Ui ''no output'')] else c_details m)
        @ map (\<lambda>h. Label (child h)) (filter (\<lambda>h. js_trim (str_or h) \<noteq> hidden) (c_hints m))
        @ [Button (Ui ''Close'') True (Local close)]
      else [])"

definition journal_row :: "(jsval \<Rightarrow> string option) \<Rightarrow> jsval \<Rightarrow> uitext list" where
  "journal_row local_date r =
     [if truthy (jprop r ''occurredRaw'') then child (jprop r ''occurredRaw'') else Raw (formatMaybeDate local_date (jprop r ''occurredAt'')),
      child (jprop r ''event''), cell r ''username'', cell r ''ipAddress'']"

text \<open>The section: a note when the node keeps no log; nothing while loading; a text for an empty page.\<close>

definition journal_section :: "(jsval \<Rightarrow> string option) \<Rightarrow> jsval \<Rightarrow> service_page \<Rightarrow> uitext list list" where
  "journal_section local_date server s =
     (if \<not> truthy (jprop server ''openvpnLogsEnabled'') then [[error_text (jprop server ''openvpnLogsNote'') (Ui ''logs are not switched on'')]]
      else if jLoading s then [] else if jRows s = [] then [[Ui ''no entries for this filter'']] else map (journal_row local_date) (jRows s))"

subsection \<open>The list of tasks\<close>

text \<open>\<open>json\<close> is \<^verbatim>\<open>JSON.stringify\<close>. A task that waits or runs cannot be queued again.\<close>

definition payload_text :: "(jsval \<Rightarrow> string) \<Rightarrow> jsval \<Rightarrow> string" where
  "payload_text json v = (case v of JObj kvs \<Rightarrow> json v | JArr xs \<Rightarrow> json v | _ \<Rightarrow> str_nullish v)"

definition retry_locked :: "jsval \<Rightarrow> bool" where
  "retry_locked t = (let st = js_lower (str_or (jprop t ''status'')) in st = ''processing'' \<or> st = ''pending'')"

definition ask_retry :: "jsval \<Rightarrow> service_page \<Rightarrow> service_page" where
  "ask_retry t s = s\<lparr>taskRetryModal := \<lparr>m_open = True, m_busy = False, m_error = NoText, m_form = (to_str (jprop t ''id''), str_or (jprop t ''type''))\<rparr>\<rparr>"

definition task_row :: "(jsval \<Rightarrow> string) \<Rightarrow> (jsval \<Rightarrow> string option) \<Rightarrow> jsval \<Rightarrow> uitext list \<times> (service_page \<Rightarrow> service_page) option" where
  "task_row json local_date t =
     (let node = jprop (jprop t ''agentNode'') ''name'' in
      ([Raw (formatMaybeDate local_date (jprop t ''createdAt'')), child (jprop t ''type''), Ui (snd (formatTaskStatus (jprop t ''status''))),
        if node = JUndef \<or> node = JNull then dash else child node, Raw (payload_text json (jprop t ''payload'')), cell t ''lastError'',
        Raw (formatMaybeDate local_date (jprop t ''completedAt''))],
       if retry_locked t then None else Some (ask_retry t)))"

subsection \<open>Ending a session\<close>

definition close_disconnect :: "session_page \<Rightarrow> session_page" where
  "close_disconnect s = s\<lparr>target := ([], []), disconnectModal := closed_modal ([], [], [])\<rparr>"

definition disconnect_dialog :: "(session_page script \<Rightarrow> session_page script) \<Rightarrow> session_page \<Rightarrow> session_page widget list" where
  "disconnect_dialog reload s =
     (let m = disconnectModal s in case m_form m of (nodeName, number, profile) \<Rightarrow>
      if m_open m then confirm_dialog (m_busy m) close_disconnect (Ui ''End the session'')
        (Cat (text_or (Raw number) dash) (Cat (text_or (Raw profile) dash) (text_or (Raw nodeName) dash))) (m_error m)
        ''submitUserSessionDisconnect'' (submitUserSessionDisconnect reload s)
      else [])"

text \<open>
  The rows of a server's sessions and of a user's: the cells, the address its link opens, and what its button does; \<open>words\<close> writes a
  duration, a dash in a name is \<open>-\<close>, \<open>parse_date\<close> is \<^verbatim>\<open>Date.parse\<close>.
\<close>

definition duration_cell :: "((int \<times> time_unit) list \<Rightarrow> string) \<Rightarrow> (int \<times> time_unit) list option \<Rightarrow> uitext" where
  "duration_cell words d = (case d of None \<Rightarrow> dash | Some us \<Rightarrow> Raw (words us))"

definition traffic_cell :: "jsval \<Rightarrow> uitext" where
  "traffic_cell c = Raw (formatBps (jprop c ''inBps'') @ '' / '' @ formatBps (jprop c ''outBps''))"

definition end_button :: "string \<Rightarrow> string \<Rightarrow> string \<Rightarrow> string \<Rightarrow> session_page \<Rightarrow> (session_page \<Rightarrow> session_page) option" where
  "end_button nodeId nodeName sessionId profile s =
     (if marker nodeId sessionId \<in> set (disconnecting s) then None else Some (openUserSessionDisconnect nodeId nodeName sessionId profile))"

definition node_session_row ::
  "((int \<times> time_unit) list \<Rightarrow> string) \<Rightarrow> (string \<Rightarrow> int option) \<Rightarrow> int \<Rightarrow> jsval list \<Rightarrow> jsval list \<Rightarrow> string \<Rightarrow> session_page \<Rightarrow> jsval
     \<Rightarrow> uitext list \<times> string option \<times> (session_page \<Rightarrow> session_page) option" where
  "node_session_row words parse_date now certs users serverName s c =
     (let cn = truthy_or (jprop c ''commonName'') (JStr []); p = cnProfileMap certs users cn;
          inSys = (truthy cn \<and> cn \<in> set (registeredCnSet certs));
          nodeId = to_str (jprop c ''nodeId'');
          profile = (case p of Some (i, n) \<Rightarrow> n | None \<Rightarrow> [])
      in ([if inSys then text_or (Raw profile) dash else Ui ''not in the system'', error_text cn dash,
           text_or (Raw (remoteAddrHostOnlyDisplay (jprop c ''remoteIp''))) dash, cell c ''virtualIp'',
           duration_cell words (formatSessionConnectedLabel parse_date (truthy_or (jprop c ''connectedSince'') (jprop c ''connectedAt'')) now),
           traffic_cell c],
          (if inSys then case p of Some (i, n) \<Rightarrow> if truthy i then Some (paths_userProfile (to_str i) ''overview'') else None | None \<Rightarrow> None else None),
          end_button nodeId (js_or (str_or (jprop c ''nodeName'')) (js_or serverName nodeId)) (to_str (jprop c ''id''))
            (js_or profile (js_or (str_or cn) ''-'')) s))"

definition user_session_row ::
  "((int \<times> time_unit) list \<Rightarrow> string) \<Rightarrow> (string \<Rightarrow> int option) \<Rightarrow> (jsval \<Rightarrow> int option) \<Rightarrow> int \<Rightarrow> string \<Rightarrow> session_page \<Rightarrow> jsval
     \<Rightarrow> uitext list \<times> (session_page \<Rightarrow> session_page) option" where
  "user_session_row words parse_date time_of now fullName s r =
     (let sid = openvpnSessionIdParts (str_nullish (jprop r ''sessionId'')); active = truthy (jprop r ''isActive'') in
      ([error_text (jprop r ''nodeName'') (child (jprop r ''nodeId'')), Raw (js_or (js_trim (str_or (jprop r ''commonName''))) (fst sid)), Raw (snd sid),
        text_or (Raw (remoteAddrHostOnlyDisplay (jprop r ''remoteIp''))) dash, cell r ''virtualIp'',
        duration_cell words (if active then formatSessionConnectedLabel parse_date (jprop r ''connectedAt'') now
          else formatUserSessionEndedLabel parse_date time_of r),
        traffic_cell r],
       if active then end_button (to_str (jprop r ''nodeId'')) (to_str (jprop r ''nodeName'')) (to_str (jprop r ''sessionId'')) fullName s else None))"

subsection \<open>Dialogs at work\<close>

lemma confirm_frozen: "offered (confirm_dialog True close title question err name k) = {}"
  by (simp add: confirm_dialog_def dialog_frame_def)

lemmas service_views = service_action_dialog_def task_retry_dialog_def unit_action_dialog_def agent_dialog_def disconnect_dialog_def Let_def

interpretation service_action: frozen_dialog "service_action_dialog nodeId" "\<lambda>s. m_busy (serviceActionModal s)" for nodeId
  by unfold_locales (simp add: service_views confirm_frozen)

interpretation task_retry: frozen_dialog task_retry_dialog "\<lambda>s. m_busy (taskRetryModal s)"
  by unfold_locales (simp add: service_views confirm_frozen)

interpretation unit_action: frozen_dialog "unit_action_dialog nodeId" "\<lambda>s. m_busy (unitModal s)" for nodeId
  by unfold_locales (simp add: service_views confirm_frozen)

interpretation agent_sending: frozen_dialog "agent_dialog nodeId" "\<lambda>s. au_busy (agent s)" for nodeId
  by unfold_locales (simp add: service_views dialog_frame_def)

interpretation session_ending: frozen_dialog "disconnect_dialog reload" "\<lambda>s. m_busy (disconnectModal s)" for reload
  by unfold_locales (simp add: service_views confirm_frozen split: prod.split)

subsection \<open>Properties\<close>

text \<open>Polls while the request is under way: each may drop markers.\<close>

definition polled :: "(jsval list \<times> jsval list) list \<Rightarrow> session_page \<Rightarrow> session_page" where
  "polled ps s = fold (\<lambda>(nodeRows, userRows). prune_markers nodeRows userRows) ps s"

lemma polled_markers:
  "set (disconnecting (polled ps s)) = {k \<in> set (disconnecting s). list_all (\<lambda>(nodeRows, userRows). k \<in> active_markers nodeRows userRows) ps}"
  "disconnectModal (polled ps s) = disconnectModal s"
proof -
  have "set (disconnecting (prune_markers a b t)) = {k \<in> set (disconnecting t). k \<in> active_markers a b}"
    "disconnectModal (prune_markers a b t) = disconnectModal t" for a b t
    by (auto simp: prune_markers_def set_markers_def Let_def filter_id_conv)
  then show "set (disconnecting (polled ps s)) = {k \<in> set (disconnecting s). list_all (\<lambda>(nodeRows, userRows). k \<in> active_markers nodeRows userRows) ps}"
    "disconnectModal (polled ps s) = disconnectModal s"
    unfolding polled_def by (induction ps arbitrary: s) auto
qed

lemma session_calls:
  fixes time_of :: "jsval \<Rightarrow> int option" and seenAt userId :: string and certs live :: "jsval list" and s0 s :: session_page
    and srv :: "nat \<Rightarrow> call \<Rightarrow> answer" and env :: "nat \<Rightarrow> session_page \<Rightarrow> session_page" and n :: nat
  assumes "fst (target s) \<noteq> []" and "snd (target s) \<noteq> []" and "vToken s \<noteq> []"
  shows "filter (\<lambda>c. fst c \<noteq> ''GET'') (calls_of (snd (exec (end_session time_of seenAt userId certs live s0) srv env n s)))
      = [(''POST'', ''/api/clients/'' @ encodeURIComponent (fst (target s)) @ ''/'' @ encodeURIComponent (snd (target s)) @ ''/disconnect'', JUndef)]"
  using assms by (auto simp: submitUserSessionDisconnect_def loadUserProfileSessions_def Let_def split: sum.split)

text \<open>C20: The button of a session's row ends this session and no other: confirmed, the one request that is not a read is the one for the node
  and the identifier of the row, whatever is answered and whatever happens meanwhile. From then on and until the answer arrives the
  dialog offers nothing, whatever the polls bring; and the row has no button as long as every poll still lists the session. If one
  misses it, its marker is dropped, and when the row comes back it has its button again.\<close>

theorem session_row_ends_its_session:
  fixes s :: session_page and srv :: "nat \<Rightarrow> call \<Rightarrow> answer" and env :: "nat \<Rightarrow> session_page \<Rightarrow> session_page" and n :: nat
    and time_of :: "jsval \<Rightarrow> int option" and seenAt userId :: string and live userCerts :: "jsval list"
    and polls :: "(jsval list \<times> jsval list) list"
  assumes "snd (snd (node_session_row words parse_date now certs users serverName s c)) = Some f"
    and "to_str (jprop c ''nodeId'') \<noteq> []" and "to_str (jprop c ''id'') \<noteq> []" and "vToken s \<noteq> []"
  defines "submit \<equiv> submitUserSessionDisconnect (loadUserProfileSessions time_of seenAt userId userCerts live) (f s)"
  defines "s2 \<equiv> polled polls (fst (advance submit (f s)))"
  shows "filter (\<lambda>c. fst c \<noteq> ''GET'') (calls_of (snd (exec submit srv env n (f s))))
      = [(''POST'', ''/api/clients/'' @ encodeURIComponent (to_str (jprop c ''nodeId'')) @ ''/'' @ encodeURIComponent (to_str (jprop c ''id''))
           @ ''/disconnect'', JUndef)]
    \<and> m_busy (disconnectModal s2) \<and> offered (disconnect_dialog reload s2) = {}
    \<and> (snd (snd (node_session_row words parse_date now certs users serverName s2 c)) = None)
      = list_all (\<lambda>(nodeRows, userRows). to_str (jprop c ''nodeId'') @ ''-'' @ to_str (jprop c ''id'') \<in> active_markers nodeRows userRows) polls"
proof -
  have f: "f = openUserSessionDisconnect (to_str (jprop c ''nodeId'')) (js_or (str_or (jprop c ''nodeName'')) (js_or serverName (to_str (jprop c ''nodeId''))))
      (to_str (jprop c ''id'')) (js_or (case cnProfileMap certs users (truthy_or (jprop c ''commonName'') (JStr [])) of Some (i, n) \<Rightarrow> n | None \<Rightarrow> [])
        (js_or (str_or (truthy_or (jprop c ''commonName'') (JStr []))) ''-''))"
    using assms(1) by (simp add: node_session_row_def end_button_def Let_def split: if_splits)
  have busy: "m_busy (disconnectModal s2)"
    using assms(2-4) by (simp add: s2_def polled_markers submit_def submitUserSessionDisconnect_def f openUserSessionDisconnect_def Let_def set_markers_def)
  moreover have "marker (to_str (jprop c ''nodeId'')) (to_str (jprop c ''id'')) \<in> set (disconnecting (fst (advance submit (f s))))"
    using assms(2-4) by (simp add: submit_def submitUserSessionDisconnect_def f openUserSessionDisconnect_def Let_def set_markers_def)
  moreover have "filter (\<lambda>c. fst c \<noteq> ''GET'') (calls_of (snd (exec submit srv env n (f s))))
      = [(''POST'', ''/api/clients/'' @ encodeURIComponent (to_str (jprop c ''nodeId'')) @ ''/'' @ encodeURIComponent (to_str (jprop c ''id''))
           @ ''/disconnect'', JUndef)]"
    using session_calls [of "f s"] assms(2-4) by (simp add: submit_def f openUserSessionDisconnect_def)
  ultimately show ?thesis
    using session_ending.frozen [OF busy, of reload]
    by (simp add: node_session_row_def end_button_def s2_def polled_markers marker_def Let_def)
qed

definition live_session :: jsval where
  "live_session = JObj [(''nodeId'', JStr ''n1''), (''id'', JStr ''s1'')]"

theorem session_row_ends_its_session_witness:
  "snd (snd (node_session_row (\<lambda>_. []) (\<lambda>_. None) 0 [] [] ''srv'' (polled [([live_session], [])]
     (fst (advance (submitUserSessionDisconnect (loadUserProfileSessions (\<lambda>_. None) [] [] [] []) (openUserSessionDisconnect ''n1'' ''srv'' ''s1'' ''-'' ending_page))
       (openUserSessionDisconnect ''n1'' ''srv'' ''s1'' ''-'' ending_page)))) live_session)) = None"
proof -
  have row: "snd (snd (node_session_row (\<lambda>_. []) (\<lambda>_. None) 0 [] [] ''srv'' ending_page live_session))
      = Some (openUserSessionDisconnect ''n1'' ''srv'' ''s1'' ''-'')"
    by (simp add: node_session_row_def end_button_def live_session_def jprop_def obj_get_def truthy_or_def str_or_def cnProfileMap_def
        marker_def ending_page_def js_or_def Let_def)
  have "to_str (jprop live_session ''nodeId'') = ''n1''" "to_str (jprop live_session ''id'') = ''s1''" "vToken ending_page \<noteq> []"
    by (simp_all add: live_session_def jprop_def obj_get_def ending_page_def)
  then show ?thesis
    using session_row_ends_its_session [OF row, where time_of = "\<lambda>_. None" and seenAt = "[]" and userId = "[]" and userCerts = "[]" and live = "[]"
        and polls = "[([live_session], [])]"]
    by (simp add: active_markers_def)
qed

end
