(* ===== verification/Cert_Views.thy ===== *)
theory Cert_Views
  imports Node_Materials Cert_Materials Users Routes Pages
begin

section \<open>The certificate pages and their dialogs\<close>

text \<open>
  What the certificate tab of a server, its certification centre and the certificate tab of a user show and offer. Reading a chosen file
  is taken to be done at once. The deletions lock their dialogs and the buttons that open them; the dialogs that create a certificate
  under a form of their own have no busy mark at all.
\<close>

subsection \<open>Dialogs\<close>

definition opened_modal :: "'f \<Rightarrow> 'f modal" where
  "opened_modal f = \<lparr>m_open = True, m_busy = False, m_error = NoText, m_form = f\<rparr>"

text \<open>The common shape: frame, contents, error, a button that closes the dialog and one that sends.\<close>

definition modal_dialog ::
  "'f modal \<Rightarrow> ('s \<Rightarrow> 's) \<Rightarrow> uitext \<Rightarrow> 's widget list \<Rightarrow> uitext \<times> uitext \<Rightarrow> bool \<Rightarrow> string \<Rightarrow> 's script \<Rightarrow> 's widget list" where
  "modal_dialog m close title contents texts ready name k =
     dialog_frame (m_busy m) close title @ contents @ alert_if (m_error m)
     @ [Button (Ui ''Cancel'') (\<not> m_busy m) (Local close),
        Button (if m_busy m then snd texts else fst texts) (\<not> m_busy m \<and> ready) (Launch name k)]"

lemma modal_dialog_frozen: "m_busy m \<Longrightarrow> offered contents = {} \<Longrightarrow> offered (modal_dialog m close title contents texts ready name k) = {}"
  by (simp add: modal_dialog_def dialog_frame_def)

definition root_name :: "jsval \<Rightarrow> uitext" where
  "root_name ca = error_text (jprop ca ''name'') (error_text (jprop ca ''commonName'') dash)"

definition key_sizes :: "(string \<times> uitext) list" where
  "key_sizes = map (\<lambda>t. (t, Raw t)) [''2048'', ''3072'', ''4096'']"

definition signature_algorithms :: "(string \<times> uitext) list" where
  "signature_algorithms = [(''sha256'', Raw ''SHA-256''), (''sha384'', Raw ''SHA-384''), (''sha512'', Raw ''SHA-512'')]"

subsection \<open>Server certificates\<close>

definition srv_cert_edit :: "(srv_cert_form \<Rightarrow> srv_cert_form) \<Rightarrow> cert_page \<Rightarrow> cert_page" where
  "srv_cert_edit f s = s\<lparr>srvCertCreateModal := (srvCertCreateModal s)\<lparr>m_form := f (m_form (srvCertCreateModal s))\<rparr>\<rparr>"

definition srv_cert_create_dialog :: "string \<Rightarrow> jsval \<Rightarrow> int \<Rightarrow> cert_page \<Rightarrow> cert_page widget list" where
  "srv_cert_create_dialog serverId ca maxD s =
     (let m = srvCertCreateModal s; idle = \<not> m_busy m in
      if m_open m \<and> serverId \<noteq> [] then
        modal_dialog m (\<lambda>s. s\<lparr>srvCertCreateModal := closed_modal blank_srv_cert_form\<rparr>) (Ui ''New server certificate'')
          [Label (Cat (root_name ca) (Raw (int_string maxD))),
           Field (f_cn (m_form m)) idle (\<lambda>t. srv_cert_edit (\<lambda>f. f\<lparr>f_cn := t\<rparr>)),
           Choice (f_keySize (m_form m)) key_sizes idle (\<lambda>t. srv_cert_edit (\<lambda>f. f\<lparr>f_keySize := t\<rparr>)),
           Choice (f_signatureAlgorithm (m_form m)) signature_algorithms idle (\<lambda>t. srv_cert_edit (\<lambda>f. f\<lparr>f_signatureAlgorithm := t\<rparr>)),
           Field (to_str (f_validityDays (m_form m))) (idle \<and> 1 \<le> maxD) (\<lambda>t. edit_validity_days maxD (number_text t))]
          (Ui ''Issue'', Ui ''Issuing'') True ''submitSrvCertCreate'' (submitSrvCertCreate serverId maxD s)
      else [])"

definition srv_import_edit :: "(pem_form \<Rightarrow> pem_form) \<Rightarrow> cert_page \<Rightarrow> cert_page" where
  "srv_import_edit f s = s\<lparr>srvCertImportModal := (srvCertImportModal s)\<lparr>m_form := f (m_form (srvCertImportModal s))\<rparr>\<rparr>"

definition file_text :: "(string \<Rightarrow> 's \<Rightarrow> 's) \<Rightarrow> string option \<Rightarrow> 's press" where
  "file_text f c = Local (case c of None \<Rightarrow> \<lambda>s. s | Some t \<Rightarrow> f t)"

definition srv_cert_import_dialog :: "string \<Rightarrow> cert_page \<Rightarrow> cert_page widget list" where
  "srv_cert_import_dialog serverId s =
     (let m = srvCertImportModal s; idle = \<not> m_busy m;
          cert = (\<lambda>t. srv_import_edit (\<lambda>f. f\<lparr>f_certPem := t\<rparr>)); key = (\<lambda>t. srv_import_edit (\<lambda>f. f\<lparr>f_keyPem := t\<rparr>)) in
      if m_open m \<and> serverId \<noteq> [] then
        modal_dialog m (\<lambda>s. s\<lparr>srvCertImportModal := closed_modal blank_pem_form\<rparr>) (Ui ''Import of a server certificate and its key'')
          [Picker idle (file_text cert), Picker idle (file_text key),
           Field (f_certPem (m_form m)) idle cert, Field (f_keyPem (m_form m)) idle key]
          (Ui ''Import'', Ui ''Importing'') True ''submitSrvCertImport'' (submitSrvCertImport serverId s)
      else [])"

definition server_cert_delete_dialog :: "string \<Rightarrow> cert_page \<Rightarrow> cert_page widget list" where
  "server_cert_delete_dialog serverId s =
     (let m = serverServerCertDeleteModal s in
      if m_open m \<and> serverId \<noteq> [] then
        modal_dialog m (\<lambda>s. s\<lparr>serverServerCertDeleteModal := closed_modal ()\<rparr>) (Ui ''Deleting the server certificate'')
          [Label (Ui ''the certificate and its key are deleted for good'')]
          (Ui ''Delete'', Ui ''Deleting'') True ''submitDeleteServerServerCert'' (submitDeleteServerServerCert serverId s)
      else [])"

subsection \<open>The certification centre\<close>

definition server_ca_issue_dialog :: "(int \<Rightarrow> string) \<Rightarrow> int \<Rightarrow> string \<Rightarrow> jsval \<Rightarrow> cert_page \<Rightarrow> cert_page widget list" where
  "server_ca_issue_dialog show_date now serverId ca s =
     (let m = serverCaIssueModal s; idle = \<not> m_busy m;
          edit = (\<lambda>f s. s\<lparr>serverCaIssueModal := (serverCaIssueModal s)\<lparr>m_form := f (m_form (serverCaIssueModal s))\<rparr>\<rparr>) in
      if m_open m \<and> serverId \<noteq> [] then
        modal_dialog m (\<lambda>s. s\<lparr>serverCaIssueModal := closed_modal ([], ''365'')\<rparr>) (Ui ''Issue a certificate'')
          [Label (root_name ca), Field (fst (m_form m)) idle (\<lambda>t. edit (\<lambda>f. (t, snd f))),
           Field (snd (m_form m)) idle (\<lambda>t. edit (\<lambda>f. (fst f, number_text t)))]
          (Ui ''Issue'', Ui ''Issuing'') True ''submitServerCaIssueCertificate'' (submitServerCaIssueCertificate show_date now serverId s)
      else [])"

definition server_ca_import_dialog :: "string \<Rightarrow> jsval \<Rightarrow> cert_page \<Rightarrow> cert_page widget list" where
  "server_ca_import_dialog serverId ca s =
     (let m = serverCaImportModal s; idle = \<not> m_busy m;
          edit = (\<lambda>f s. s\<lparr>serverCaImportModal := (serverCaImportModal s)\<lparr>m_form := f (m_form (serverCaImportModal s)), m_error := NoText\<rparr>\<rparr>) in
      if m_open m \<and> serverId \<noteq> [] then
        modal_dialog m (\<lambda>s. s\<lparr>serverCaImportModal := closed_modal blank_pem_form\<rparr>) (Ui ''Import a certificate'')
          [Label (root_name ca), Field (f_certPem (m_form m)) idle (\<lambda>t. edit (\<lambda>f. f\<lparr>f_certPem := t\<rparr>)),
           Field (f_keyPem (m_form m)) idle (\<lambda>t. edit (\<lambda>f. f\<lparr>f_keyPem := t\<rparr>))]
          (Ui ''Import'', Ui ''Importing'') True ''submitServerCaImportCertificate'' (submitServerCaImportCertificate serverId s)
      else [])"

definition index_import_dialog :: "string \<Rightarrow> cert_page \<Rightarrow> cert_page widget list" where
  "index_import_dialog serverId s =
     (let m = serverCaIndexImportModal s; idle = \<not> m_busy m;
          put = (\<lambda>t s. s\<lparr>serverCaIndexImportModal := (serverCaIndexImportModal s)\<lparr>m_form := t, m_error := NoText\<rparr>\<rparr>) in
      if m_open m \<and> serverId \<noteq> [] then
        modal_dialog m (\<lambda>s. s\<lparr>serverCaIndexImportModal := closed_modal []\<rparr>) (Ui ''Load the index of certificates'')
          [Picker idle (\<lambda>c. Local (onServerCaIndexFileChange c)), Button (Ui ''Clear'') idle (Local (put [])), Field (m_form m) idle put]
          (Ui ''Load'', Ui ''Loading'') True ''submitServerCaImportIndex'' (submitServerCaImportIndex serverId s)
      else [])"

subsection \<open>The root certificate\<close>

text \<open>The two forms below have no busy mark; the required fields stop the browser from submitting an empty one.\<close>

definition root_edit :: "string \<Rightarrow> string \<Rightarrow> cert_page \<Rightarrow> cert_page" where
  "root_edit k t s = s\<lparr>newRootCA := obj_put (newRootCA s) k (JStr t)\<rparr>"

definition root_create_dialog :: "string \<Rightarrow> cert_page \<Rightarrow> cert_page widget list" where
  "root_create_dialog serverId s =
     (let f = newRootCA s; typed = (\<lambda>k. to_str (obj_get f k)); close = (\<lambda>s. s\<lparr>rootCaCreateOpen := False\<rparr>) in
      if rootCaCreateOpen s then
        dialog_frame False close (Ui ''Creating a root certificate'')
        @ [Field (typed ''commonName'') True (root_edit ''commonName''), Choice (typed ''keySize'') key_sizes True (root_edit ''keySize''),
           Choice (typed ''signatureAlgorithm'') signature_algorithms True (root_edit ''signatureAlgorithm''),
           Field (typed ''days'') True (\<lambda>t. root_edit ''days'' (number_text t)), Button (Ui ''Cancel'') True (Local close),
           Button (Ui ''Create'') (typed ''commonName'' \<noteq> [] \<and> number_required 1 (Some 3650) (typed ''days'')) (Launch ''createRootCAForServer'' (createRootCAForServer serverId s))]
      else [])"

definition root_import_dialog :: "string \<Rightarrow> cert_page \<Rightarrow> cert_page widget list" where
  "root_import_dialog serverId s =
     (let f = serverPanelRootCaImport s; close = (\<lambda>s. s\<lparr>serverPanelRootCaImport := blank_pem_form, rootCaImportOpen := False\<rparr>);
          edit = (\<lambda>g s. s\<lparr>serverPanelRootCaImport := g (serverPanelRootCaImport s)\<rparr>) in
      if rootCaImportOpen s then
        dialog_frame False close (Ui ''Import of a root certificate'')
        @ [Field (f_certPem f) True (\<lambda>t. edit (\<lambda>f. f\<lparr>f_certPem := t\<rparr>)), Field (f_keyPem f) True (\<lambda>t. edit (\<lambda>f. f\<lparr>f_keyPem := t\<rparr>)),
           Button (Ui ''Cancel'') True (Local close),
           Button (Ui ''Import'') (f_certPem f \<noteq> [] \<and> f_keyPem f \<noteq> []) (Launch ''importRootCaForServer'' (importRootCaForServer serverId s))]
      else [])"

text \<open>Two steps; the first can be left at any time, the second only when no request is under way.\<close>

definition root_delete_dialog :: "string \<Rightarrow> jsval option \<Rightarrow> cert_page \<Rightarrow> cert_page widget list" where
  "root_delete_dialog serverId rootCa s =
     (let m = serverRootCaDeleteModal s; idle = \<not> m_busy m;
          put = (\<lambda>f s. s\<lparr>serverRootCaDeleteModal := (serverRootCaDeleteModal s)\<lparr>m_form := f (m_form (serverRootCaDeleteModal s)), m_error := NoText\<rparr>\<rparr>);
          close = (\<lambda>s. s\<lparr>serverRootCaDeleteModal := closed_modal (1, [])\<rparr>) in
      if m_open m \<and> serverId \<noteq> [] then
        dialog_frame (m_busy m) close (Ui ''Deleting the root certificate'')
        @ (if fst (m_form m) = 1 then
             [Label (Ui ''all certificates issued under it are deleted as well''), Button (Ui ''Cancel'') True (Local close),
              Button (Ui ''Continue'') True (Local (put (\<lambda>_. (2, []))))]
           else
             [Label (Ui ''enter the exact common name''), Field (snd (m_form m)) idle (\<lambda>t. put (\<lambda>f. (fst f, t)))] @ alert_if (m_error m)
             @ [Button (Ui ''Back'') idle (Local (put (\<lambda>_. (1, [])))),
                Button (if idle then Ui ''Delete'' else Ui ''Deleting'') idle
                  (Launch ''submitRemoveServerPanelRootCa'' (submitRemoveServerPanelRootCa serverId rootCa s))])
      else [])"

subsection \<open>The certificate tab of a server\<close>

text \<open>
  The buttons of its three parts; \<open>loading\<close> is \<^verbatim>\<open>serverOpenVpnLoading\<close>, \<open>rid\<close> the root certificate of the server. The downloads
  work on the state of the materials, the rest on the state of the dialogs.
\<close>

definition new_root_buttons :: "bool \<Rightarrow> cert_page widget list" where
  "new_root_buttons loading =
     [Button (Ui ''Create a root certificate'') (\<not> loading) (Local (\<lambda>s. s\<lparr>rootCaCreateOpen := True\<rparr>)),
      Button (Ui ''Import'') (\<not> loading) (Local (\<lambda>s. s\<lparr>rootCaImportOpen := True\<rparr>))]"

definition delete_root_button :: "bool \<Rightarrow> cert_page \<Rightarrow> cert_page widget" where
  "delete_root_button loading s =
     Button (Ui ''Delete the root certificate'') (\<not> (loading \<or> m_busy (serverRootCaDeleteModal s)))
       (Local (\<lambda>s. s\<lparr>serverRootCaDeleteModal := opened_modal (1, [])\<rparr>))"

definition root_tools :: "string \<Rightarrow> bool \<Rightarrow> cert_page \<Rightarrow> cert_page widget list" where
  "root_tools rid loading s = (if rid = [] then new_root_buttons loading else [delete_root_button loading s])"

definition root_files :: "string \<Rightarrow> bool \<Rightarrow> bool \<Rightarrow> material_page \<Rightarrow> material_page widget list" where
  "root_files rid loading deleting x =
     (if rid = [] then []
      else map (\<lambda>(label, kd). Button (Raw label) (\<not> (loading \<or> deleting)) (Launch ''downloadRootCaArtifact'' (downloadRootCaArtifact rid kd x)))
        [(''root.crt'', ''root_crt''), (''root.key'', ''root_key''), (''index.txt'', ''index''), (''crl.pem'', ''crl'')])"

definition delete_cert_button :: "bool \<Rightarrow> cert_page \<Rightarrow> cert_page widget" where
  "delete_cert_button loading s =
     Button (Ui ''Delete the server certificate'')
       (\<not> (loading \<or> m_busy (serverServerCertDeleteModal s) \<or> m_busy (serverRootCaDeleteModal s)))
       (Local (\<lambda>s. s\<lparr>serverServerCertDeleteModal := opened_modal ()\<rparr>))"

definition server_cert_tools :: "jsval \<Rightarrow> string \<Rightarrow> string \<Rightarrow> int \<Rightarrow> jsval list \<Rightarrow> bool \<Rightarrow> cert_page \<Rightarrow> cert_page widget list" where
  "server_cert_tools server serverId rid maxD certs loading s =
     (if rid = [] then [Label (Ui ''first create or import a root certificate'')]
      else if certs = [] then
        [Label (Ui ''no server certificate yet''),
         Button (Ui ''Create'') (create_enabled rid maxD loading) (Local (open_srv_cert_create server serverId maxD)),
         Button (Ui ''Import'') (\<not> (rid = [] \<or> loading)) (Local (\<lambda>s. s\<lparr>srvCertImportModal := opened_modal blank_pem_form\<rparr>))]
      else [delete_cert_button loading s])"

definition server_cert_files :: "jsval option \<Rightarrow> bool \<Rightarrow> cert_page \<Rightarrow> material_page \<Rightarrow> material_page widget list" where
  "server_cert_files cert loading s x =
     map (\<lambda>(label, kd). Button (Raw label) (\<not> (loading \<or> m_busy (serverServerCertDeleteModal s) \<or> m_busy (serverRootCaDeleteModal s)))
         (Launch ''downloadServerCertificateArtifact'' (downloadServerCertificateArtifact cert kd x)))
       [(''server.crt'', ''server_crt''), (''server.key'', ''server_key'')]"

text \<open>Key material of one kind: its tables with a button each, or two buttons that open the dialog for a new one.\<close>

definition ask_material_delete :: "jsval \<Rightarrow> uitext \<Rightarrow> 'a cert_page_scheme \<Rightarrow> 'a cert_page_scheme" where
  "ask_material_delete material kd s = s\<lparr>openvpnMaterialDeleteModal := opened_modal (to_str (jprop material ''id''), kd)\<rparr>"

definition delete_material_button :: "'a cert_page_scheme \<Rightarrow> uitext \<Rightarrow> jsval \<Rightarrow> 'a cert_page_scheme widget" where
  "delete_material_button s kd material =
     Button (Ui ''Delete'') (\<not> m_busy (openvpnMaterialDeleteModal s)) (Local (ask_material_delete material kd))"

definition dh_tools :: "(jsval \<Rightarrow> string option) \<Rightarrow> key_page \<Rightarrow> (summary_table option \<times> key_page widget list) list" where
  "dh_tools local_date s =
     (if openvpnMaterialsDh s = [] then
        [(None, [Label (Ui ''no DH parameters yet''), Button (Ui ''Import'') True (Local (open_key_material True ''dh'')),
           Button (Ui ''Create'') True (Local (open_key_material False ''dh''))])]
      else map (\<lambda>m. (Some (OpenvpnPanelMaterialSummaryTable local_date m),
          [delete_material_button s (Raw ''DH'') m])) (openvpnMaterialsDh s))"

definition tls_tools :: "(jsval \<Rightarrow> string option) \<Rightarrow> key_page \<Rightarrow> (summary_table option \<times> key_page widget list) list" where
  "tls_tools local_date s =
     (if openvpnMaterialsTls s = [] then
        [(None, [Label (Ui ''no tls-auth key yet''), Button (Ui ''Import'') True (Local (open_key_material True ''tls_auth'')),
           Button (Ui ''Create'') True (Local (open_key_material False ''tls_auth''))])]
      else map (\<lambda>m. (Some (OpenvpnPanelMaterialSummaryTable local_date m),
          [delete_material_button s (Raw ''TLS-auth'') m])) (openvpnMaterialsTls s))"

text \<open>Its dialogs. The text of an import can be edited while it is being sent.\<close>

definition key_import_dialog :: "string \<Rightarrow> key_page \<Rightarrow> key_page widget list" where
  "key_import_dialog serverId s =
     (let m = serverKeyMaterialModal s; f = m_form m; close = (\<lambda>s. s\<lparr>serverKeyMaterialModal := closed_modal no_key_form\<rparr>) in
      if m_open m \<and> k_import f \<and> k_kind f \<noteq> [] \<and> serverId \<noteq> [] then
        dialog_frame (m_busy m) close (if k_kind f = ''dh'' then Ui ''Import of DH parameters'' else Ui ''Import of a tls-auth key'')
        @ [Picker (\<not> m_busy m) (file_text read_key_file), Field (k_pem f) True type_key_pem] @ alert_if (m_error m)
        @ [Button (Ui ''Cancel'') (\<not> m_busy m) (Local close),
           Button (if m_busy m then Ui ''Importing'' else Ui ''Import'') (\<not> m_busy m \<and> js_trim (k_pem f) \<noteq> [])
             (Launch ''submitKeyMaterial'' (submitKeyMaterial (Ui ''the import failed'') serverId s))]
      else [])"

definition key_create_dialog :: "string \<Rightarrow> key_page \<Rightarrow> key_page widget list" where
  "key_create_dialog serverId s =
     (let m = serverKeyMaterialModal s; f = m_form m in
      if m_open m \<and> \<not> k_import f \<and> k_kind f \<noteq> [] \<and> serverId \<noteq> [] then
        modal_dialog m (\<lambda>s. s\<lparr>serverKeyMaterialModal := closed_modal no_key_form\<rparr>)
          (if k_kind f = ''dh'' then Ui ''Creating DH parameters'' else Ui ''Creating a tls-auth key'')
          [Label (if k_kind f = ''dh'' then Ui ''new DH parameters are generated'' else Ui ''a new static key is generated'')]
          (Ui ''Create'', Ui ''Creating'') True ''submitKeyMaterial'' (submitKeyMaterial (Ui ''the material could not be created'') serverId s)
      else [])"

definition material_delete_dialog :: "string \<Rightarrow> cert_page \<Rightarrow> cert_page widget list" where
  "material_delete_dialog serverId s =
     (let m = openvpnMaterialDeleteModal s in
      if m_open m \<and> fst (m_form m) \<noteq> [] \<and> serverId \<noteq> [] then
        modal_dialog m (\<lambda>s. s\<lparr>openvpnMaterialDeleteModal := closed_modal ([], NoText)\<rparr>)
          (Cat (Ui ''Deleting '') (text_or (snd (m_form m)) (Ui ''material''))) [Label (if snd (m_form m) = Raw ''DH'' then Ui ''the DH parameters are deleted for good''
             else if snd (m_form m) = Raw ''TLS-auth'' then Ui ''the tls-auth key is deleted for good'' else Ui ''the material is deleted for good'')]
          (Ui ''Delete'', Ui ''Deleting'') True ''submitDeleteOpenvpnMaterial'' (submitDeleteOpenvpnMaterial serverId s)
      else [])"

subsection \<open>Revoking and unlinking\<close>

text \<open>The dialog for revoking stands in the markup twice: in the profile of a user, and behind all other pages.\<close>

definition revoke_dialog :: "cert_page \<Rightarrow> cert_page widget list" where
  "revoke_dialog s =
     (let m = userCertRevokeModal s in
      if m_open m then
        modal_dialog m (\<lambda>s. s\<lparr>userCertRevokeModal := closed_modal ([], [])\<rparr>) (Ui ''Revoking a certificate'')
          [Label (text_or (Raw (snd (m_form m))) dash)] (Ui ''Revoke'', Ui ''Revoking'') True ''confirmUserCertRevoke'' (confirmUserCertRevoke s)
      else [])"

definition global_revoke_dialog :: "string \<Rightarrow> string \<Rightarrow> cert_page \<Rightarrow> cert_page widget list" where
  "global_revoke_dialog nav sub s = (if nav = ''users'' \<and> sub = ''profile'' then [] else revoke_dialog s)"

definition ask_revoke :: "jsval \<Rightarrow> cert_page \<Rightarrow> cert_page" where
  "ask_revoke cert s = s\<lparr>userCertRevokeModal := opened_modal (to_str (jprop cert ''id''), str_or (jprop cert ''commonName''))\<rparr>"

definition unlink_dialog :: "bool \<Rightarrow> cert_page \<Rightarrow> cert_page widget list" where
  "unlink_dialog has_user s =
     (let m = userCertUnlinkModal s in
      if m_open m \<and> has_user then
        modal_dialog m (\<lambda>s. s\<lparr>userCertUnlinkModal := closed_modal ([], [])\<rparr>) (Ui ''Unlinking a certificate'')
          [Label (text_or (Raw (snd (m_form m))) dash)] (Ui ''Unlink'', Ui ''Unlinking'') True ''confirmUserCertUnlink'' (confirmUserCertUnlink s)
      else [])"

subsection \<open>The certification centre of a server\<close>

definition ca_tools :: "string \<Rightarrow> cert_page widget list" where
  "ca_tools rid =
     [Button (Ui ''Issue a certificate'') (rid \<noteq> []) (Local (\<lambda>s. s\<lparr>serverCaIssueModal := opened_modal ([], ''365'')\<rparr>)),
      Button (Ui ''Import a certificate'') (rid \<noteq> []) (Local (\<lambda>s. s\<lparr>serverCaImportModal := opened_modal blank_pem_form\<rparr>)),
      Button (Ui ''Load the index of certificates'') (rid \<noteq> []) (Local (\<lambda>s. s\<lparr>serverCaIndexImportModal := opened_modal []\<rparr>))]"

text \<open>Binding one of the known root certificates; what is sent is the choice, whether or not it is still in the list.\<close>

definition bind_pick :: "string \<Rightarrow> jsval list \<Rightarrow> string" where
  "bind_pick pick cas = js_or pick (case cas of [] \<Rightarrow> [] | r # _ \<Rightarrow> str_or (jprop r ''id''))"

definition bind_choice :: "jsval list \<Rightarrow> bool \<Rightarrow> string \<Rightarrow> string widget" where
  "bind_choice cas idle pick =
     Choice (bind_pick pick cas) (map (\<lambda>r. (to_str (jprop r ''id''), error_text (jprop r ''name'') (error_text (jprop r ''commonName'') (child (jprop r ''id''))))) cas)
       idle (\<lambda>t _. t)"

definition bind_button :: "string \<Rightarrow> string \<Rightarrow> jsval list \<Rightarrow> bool \<Rightarrow> cert_page \<Rightarrow> cert_page widget list" where
  "bind_button serverId pick cas loading s =
     (if panelRootCaIdForServer (settings s) \<noteq> [] \<or> cas = [] then []
      else [Button (if serverBindRootCaBusy s then Ui ''Binding'' else Ui ''Bind to the server'') (\<not> (serverBindRootCaBusy s \<or> loading))
              (Launch ''bindServerPanelRootCa'' (bindServerPanelRootCa serverId (bind_pick pick cas) s))])"

text \<open>The details of one certificate; \<open>data\<close> is the summary of its material. Drawing it throws where \<open>formatEkuValue\<close> does.\<close>

definition yes_no :: "uitext \<Rightarrow> uitext \<Rightarrow> uitext \<Rightarrow> jsval \<Rightarrow> uitext" where
  "yes_no unknown yes no v = (if v = JUndef \<or> v = JNull then unknown else if truthy v then yes else no)"

definition eku_text :: "jsval \<Rightarrow> uitext option" where
  "eku_text v = (case v of JArr (x # xs) \<Rightarrow> map_option (\<lambda>ts. Raw (js_join '', '' ts)) (those (map formatEkuValue (x # xs))) | _ \<Rightarrow> Some dash)"

definition cert_details ::
  "(jsval \<Rightarrow> string option) \<Rightarrow> (jsval \<Rightarrow> int option) \<Rightarrow> int \<Rightarrow> jsval \<Rightarrow> jsval \<Rightarrow> summary_table option" where
  "cert_details local_date time_of now cert data = map_option (\<lambda>eku.
     [(Ui ''status'', fst (userCertRowStatusPresentation time_of now cert)),
      (Ui ''pair cert/key'', yes_no (Ui ''not determined'') (Ui ''matches'') (Ui ''does not match'') (jprop data ''pairMatches'')),
      (Ui ''fingerprint SHA-256'', error_text (jprop data ''fingerprintSha256'') dash),
      (Ui ''serial'', error_text (jprop data ''serialNumber'') (error_text (jprop cert ''serialNumber'') dash)),
      (Ui ''algorithm'', if truthy (jprop data ''algorithm'') then Raw (js_upper (to_str (jprop data ''algorithm''))) else dash),
      (Ui ''key size'', if truthy (jprop data ''keySize'') then Raw (to_str (jprop data ''keySize'') @ '' bit'') else dash),
      (Ui ''valid to'', text_or (Raw (formatMaybeDate local_date
         (if truthy (jprop data ''validTo'') then jprop data ''validTo'' else jprop cert ''expiresAt''))) dash),
      (Ui ''EKU'', eku),
      (Ui ''encrypted key'', yes_no dash (Ui ''yes'') (Ui ''no'') (jprop data ''encryptedPrivateKey''))]) (eku_text (jprop data ''eku''))"

definition ask_upload :: "jsval \<Rightarrow> string \<Rightarrow> material_page \<Rightarrow> material_page" where
  "ask_upload cert kd x = x\<lparr>materialUpload := opened_modal (to_str (jprop cert ''id''), kd, [])\<rparr>"

definition part_button :: "jsval \<Rightarrow> string \<Rightarrow> string \<Rightarrow> string \<Rightarrow> material_page \<Rightarrow> material_page widget" where
  "part_button cert has kd certSummaryTarget x =
     (if truthy (jprop cert has) \<or> truthy (jprop cert ''hasKeyMaterial'') then
        Button (Cat (Ui ''Download '') (Raw kd)) True
          (Launch ''downloadSelectedCertificateArtifact'' (downloadSelectedCertificateArtifact certSummaryTarget kd x))
      else Button (Cat (Ui ''Add '') (Raw kd)) True (Local (ask_upload cert kd)))"

definition cert_material_buttons :: "jsval \<Rightarrow> string \<Rightarrow> material_page \<Rightarrow> material_page widget list" where
  "cert_material_buttons cert certSummaryTarget x =
     [part_button cert ''hasCertPem'' ''cert'' certSummaryTarget x, part_button cert ''hasKeyPem'' ''key'' certSummaryTarget x]"

definition revoke_button :: "jsval \<Rightarrow> cert_page widget list" where
  "revoke_button cert = (if truthy (jprop cert ''revokedAt'') then [] else [Button (Ui ''Revoke'') True (Local (ask_revoke cert))])"

definition material_upload_dialog :: "material_page \<Rightarrow> material_page widget list" where
  "material_upload_dialog x =
     (let m = materialUpload x; kd = fst (snd (m_form m)) in
      if m_open m then
        modal_dialog m (\<lambda>x. x\<lparr>materialUpload := closed_modal ([], ''cert'', [])\<rparr>)
          (if kd = ''key'' then Ui ''Add the private key'' else Ui ''Add the certificate'')
          [Field (snd (snd (m_form m))) (\<not> m_busy m) (\<lambda>t x. x\<lparr>materialUpload := (materialUpload x)
             \<lparr>m_form := (fst (m_form (materialUpload x)), fst (snd (m_form (materialUpload x))), t), m_error := NoText\<rparr>\<rparr>)]
          (Ui ''Upload'', Ui ''Uploading'') True ''submitCertMaterialUpload'' (submitCertMaterialUpload x)
      else [])"

text \<open>A row of the issued certificates: its cells, the profile it links to, a mark for missing material, the page it opens, its button.\<close>

definition has_pair :: "jsval \<Rightarrow> bool" where
  "has_pair cert = (let k = jprop cert ''hasKeyMaterial'' in
     if k = JUndef \<or> k = JNull then truthy (jprop cert ''hasCertPem'') \<and> truthy (jprop cert ''hasKeyPem'') else truthy k)"

definition issued_cert_row ::
  "(jsval \<Rightarrow> string option) \<Rightarrow> (jsval \<Rightarrow> int option) \<Rightarrow> int \<Rightarrow> string \<Rightarrow> jsval
     \<Rightarrow> uitext list \<times> string option \<times> bool \<times> string \<times> cert_page widget list" where
  "issued_cert_row local_date time_of now serverId cert =
     (let owner = jprop cert ''vpnUserId'' in
      ([cell cert ''serialNumber'', cell cert ''commonName'',
        if truthy owner then error_text (jprop (jprop cert ''vpnUser'') ''fullName'') (Ui ''open the profile'') else dash,
        Raw (formatMaybeDate local_date (jprop cert ''expiresAt'')), fst (userCertRowStatusPresentation time_of now cert)],
       if truthy owner then Some (paths_userProfile (to_str owner) ''certs'') else None,
       \<not> has_pair cert, paths_serverCaCenterCert serverId (to_str (jprop cert ''id'')), revoke_button cert))"

subsection \<open>The page of a server's certificates\<close>

text \<open>Everything the tab and the centre offer on the state of the dialogs, with the row buttons of the given certificates.\<close>

definition certificate_widgets ::
  "(int \<Rightarrow> string) \<Rightarrow> int \<Rightarrow> string \<Rightarrow> jsval \<Rightarrow> jsval option \<Rightarrow> int \<Rightarrow> jsval list \<Rightarrow> jsval list \<Rightarrow> bool \<Rightarrow> cert_page \<Rightarrow> cert_page widget list list" where
  "certificate_widgets show_date now serverId server rootCa maxD certs rows loading s =
     (let rid = panelRootCaIdForServer (settings s); ca = (case rootCa of Some r \<Rightarrow> r | None \<Rightarrow> JUndef) in
      [root_tools rid loading s, server_cert_tools server serverId rid maxD certs loading s,
       map (delete_material_button s (Raw ''DH'')) (openvpnMaterialsDh s), map (delete_material_button s (Raw ''TLS-auth'')) (openvpnMaterialsTls s),
       ca_tools rid, concat (map revoke_button rows),
       srv_cert_create_dialog serverId ca maxD s, srv_cert_import_dialog serverId s, server_cert_delete_dialog serverId s,
       server_ca_issue_dialog show_date now serverId ca s, server_ca_import_dialog serverId ca s, index_import_dialog serverId s,
       root_create_dialog serverId s, root_import_dialog serverId s, root_delete_dialog serverId rootCa s,
       material_delete_dialog serverId s, revoke_dialog s])"

definition certificate_offers ::
  "(int \<Rightarrow> string) \<Rightarrow> int \<Rightarrow> string \<Rightarrow> jsval \<Rightarrow> jsval option \<Rightarrow> int \<Rightarrow> jsval list \<Rightarrow> jsval list \<Rightarrow> bool \<Rightarrow> cert_page \<Rightarrow> cert_page press set" where
  "certificate_offers show_date now serverId server rootCa maxD certs rows loading s =
     offered (concat (certificate_widgets show_date now serverId server rootCa maxD certs rows loading s))"

text \<open>What the deletions see of the page; the request that removes a root certificate is under way in the second step only.\<close>

definition deletions :: "cert_page \<Rightarrow> (nat \<times> string) modal \<times> unit modal \<times> (string \<times> uitext) modal" where
  "deletions s = (serverRootCaDeleteModal s, serverServerCertDeleteModal s, openvpnMaterialDeleteModal s)"

definition deleting :: "cert_page \<Rightarrow> bool \<times> bool" where
  "deleting s = (m_busy (serverServerCertDeleteModal s), m_busy (openvpnMaterialDeleteModal s))"

definition second_step :: "cert_page \<Rightarrow> bool" where
  "second_step s = (m_busy (serverRootCaDeleteModal s) \<longrightarrow> fst (m_form (serverRootCaDeleteModal s)) \<noteq> 1)"

text \<open>The handlers a press can start: one of the three deletions while none of its kind is under way, or one that leaves them all alone.\<close>

fun cert_press :: "string \<Rightarrow> jsval option \<Rightarrow> cert_page \<Rightarrow> cert_page press \<Rightarrow> bool" where
  "cert_press serverId rootCa s (Local f) = (deleting (f s) = deleting s \<and> (second_step s \<longrightarrow> second_step (f s)))"
| "cert_press serverId rootCa s (Launch h k) =
     (if h = ''submitRemoveServerPanelRootCa'' then k = submitRemoveServerPanelRootCa serverId rootCa s
      else if h = ''submitDeleteServerServerCert'' then k = submitDeleteServerServerCert serverId s \<and> \<not> m_busy (serverServerCertDeleteModal s)
      else if h = ''submitDeleteOpenvpnMaterial'' then k = submitDeleteOpenvpnMaterial serverId s \<and> \<not> m_busy (openvpnMaterialDeleteModal s)
      else leaves deletions k)"

lemma persist_leaves:
  assumes "leaves deletions k" and "\<And>e. leaves deletions (handle e)"
  shows "leaves deletions (persist_partial serverId partial handle k)" "leaves deletions (persist_created serverId g created handle k)"
  using assms by (auto simp: persist_partial_def persist_created_def deletions_def)

lemma root_scripts_leave [simp]:
  "leaves deletions (createRootCAForServer serverId s)" "leaves deletions (importRootCaForServer serverId s)"
  by (auto simp: createRootCAForServer_def importRootCaForServer_def bind_new_root_def Let_def deletions_def intro!: persist_leaves)

lemma cert_scripts_leave [simp]:
  "leaves deletions (submitSrvCertCreate serverId maxD s)" "leaves deletions (submitSrvCertImport serverId s)"
  "leaves deletions (submitServerCaIssueCertificate show_date now serverId s)" "leaves deletions (submitServerCaImportCertificate serverId s)"
  "leaves deletions (submitServerCaImportIndex serverId s)" "leaves deletions (confirmUserCertRevoke s)"
  by (auto simp: submitSrvCertCreate_def submitSrvCertImport_def submitServerCaIssueCertificate_def submitServerCaImportCertificate_def
      submitServerCaImportIndex_def confirmUserCertRevoke_def Let_def deletions_def intro!: persist_leaves split: option.split)

lemmas cert_frames = modal_dialog_def dialog_frame_def deletions_def deleting_def second_step_def Let_def

lemma tools_press:
  "list_all (offers_only (cert_press serverId rootCa s)) (root_tools rid loading s)"
  "list_all (offers_only (cert_press serverId rootCa s)) (server_cert_tools server serverId rid maxD certs loading s)"
  "list_all (offers_only (cert_press serverId rootCa s)) (ca_tools rid)"
  "offers_only (cert_press serverId rootCa s) (delete_material_button s kd material)"
  "list_all (offers_only (cert_press serverId rootCa s)) (revoke_button cert)"
  by (simp_all add: root_tools_def new_root_buttons_def delete_root_button_def server_cert_tools_def delete_cert_button_def ca_tools_def delete_material_button_def revoke_button_def cert_frames
      opened_modal_def open_srv_cert_create_def ask_material_delete_def ask_revoke_def)

lemma dialogs_press:
  "list_all (offers_only (cert_press serverId rootCa s)) (srv_cert_create_dialog serverId ca maxD s)"
  "list_all (offers_only (cert_press serverId rootCa s)) (srv_cert_import_dialog serverId s)"
  "list_all (offers_only (cert_press serverId rootCa s)) (server_ca_issue_dialog show_date now serverId ca s)"
  "list_all (offers_only (cert_press serverId rootCa s)) (server_ca_import_dialog serverId ca s)"
  "list_all (offers_only (cert_press serverId rootCa s)) (index_import_dialog serverId s)"
  "list_all (offers_only (cert_press serverId rootCa s)) (root_create_dialog serverId s)"
  "list_all (offers_only (cert_press serverId rootCa s)) (root_import_dialog serverId s)"
  "list_all (offers_only (cert_press serverId rootCa s)) (revoke_dialog s)"
  by (simp_all add: srv_cert_create_dialog_def srv_cert_import_dialog_def server_ca_issue_dialog_def server_ca_import_dialog_def
      index_import_dialog_def root_create_dialog_def root_import_dialog_def revoke_dialog_def cert_frames srv_cert_edit_def srv_import_edit_def
      edit_validity_days_def file_text_def onServerCaIndexFileChange_def root_edit_def split: option.split)

lemma deletion_dialogs_press:
  "list_all (offers_only (cert_press serverId rootCa s)) (server_cert_delete_dialog serverId s)"
  "list_all (offers_only (cert_press serverId rootCa s)) (root_delete_dialog serverId rootCa s)"
  "list_all (offers_only (cert_press serverId rootCa s)) (material_delete_dialog serverId s)"
  by (simp_all add: server_cert_delete_dialog_def root_delete_dialog_def material_delete_dialog_def cert_frames)

lemma certificate_presses:
  "p \<in> certificate_offers show_date now serverId server rootCa maxD certs rows loading s \<Longrightarrow> cert_press serverId rootCa s p"
proof -
  have "list_all (list_all (offers_only (cert_press serverId rootCa s)))
      (certificate_widgets show_date now serverId server rootCa maxD certs rows loading s)"
    unfolding certificate_widgets_def Let_def
    by (simp only: list.pred_inject tools_press dialogs_press deletion_dialogs_press simp_thms)
      (auto simp: list_all_iff tools_press [unfolded list_all_iff] simp del: cert_press.simps)
  then have "list_all (offers_only (cert_press serverId rootCa s))
      (concat (certificate_widgets show_date now serverId server rootCa maxD certs rows loading s))"
    by (simp add: list_all_iff)
  then show "p \<in> certificate_offers show_date now serverId server rootCa maxD certs rows loading s \<Longrightarrow> cert_press serverId rootCa s p"
    unfolding certificate_offers_def by (rule offers_onlyD)
qed

text \<open>What the deletions do to each other's marks.\<close>

lemma deletions_keep_marks [simp]:
  "leaves (\<lambda>s. m_busy (serverRootCaDeleteModal s)) (submitDeleteServerServerCert serverId s)"
  "leaves (\<lambda>s. m_busy (serverRootCaDeleteModal s)) (submitDeleteOpenvpnMaterial serverId s)"
  "leaves (\<lambda>s. m_busy (serverServerCertDeleteModal s)) (submitRemoveServerPanelRootCa serverId rootCa s)"
  "leaves (\<lambda>s. m_busy (serverServerCertDeleteModal s)) (submitDeleteOpenvpnMaterial serverId s)"
  "leaves (\<lambda>s. m_busy (openvpnMaterialDeleteModal s)) (submitRemoveServerPanelRootCa serverId rootCa s)"
  "leaves (\<lambda>s. m_busy (openvpnMaterialDeleteModal s)) (submitDeleteServerServerCert serverId s)"
  by (auto simp: submitDeleteServerServerCert_def submitDeleteOpenvpnMaterial_def submitRemoveServerPanelRootCa_def script_parts
      split: sum.split)

lemma other_keeps_marks:
  assumes "leaves deletions k"
  shows "leaves (\<lambda>s. m_busy (serverRootCaDeleteModal s)) k" "leaves (\<lambda>s. m_busy (serverServerCertDeleteModal s)) k"
    "leaves (\<lambda>s. m_busy (openvpnMaterialDeleteModal s)) k" "keeps second_step k"
  using leaves_of [OF assms, of "\<lambda>d. m_busy (fst d)"] leaves_of [OF assms, of "\<lambda>d. m_busy (fst (snd d))"]
    leaves_of [OF assms, of "\<lambda>d. m_busy (snd (snd d))"] leaves_keeps [OF assms, of "\<lambda>d. m_busy (fst d) \<longrightarrow> fst (m_form (fst d)) \<noteq> 1"]
  by (simp_all add: deletions_def second_step_def [abs_def])

lemma deletions_keep_step [simp]:
  "keeps second_step (submitDeleteServerServerCert serverId s)" "keeps second_step (submitDeleteOpenvpnMaterial serverId s)"
  by (auto simp: submitDeleteServerServerCert_def submitDeleteOpenvpnMaterial_def script_parts second_step_def split: sum.split)

lemma removal_in_second_step:
  "second_step s \<Longrightarrow> second_step (fst (advance (submitRemoveServerPanelRootCa serverId rootCa s) s))
     \<and> keeps second_step (snd (advance (submitRemoveServerPanelRootCa serverId rootCa s) s))"
  by (auto simp: submitRemoveServerPanelRootCa_def second_step_def Let_def split: sum.split)

lemma always_second_step:
  assumes "reachable (certificate_offers show_date now serverId server rootCa maxD certs rows loading) s0 c" and "second_step s0"
  shows "second_step (fst c)"
  using assms
proof (rule page_invariant_starts)
  fix s f show "second_step s \<Longrightarrow> Local f \<in> certificate_offers show_date now serverId server rootCa maxD certs rows loading s \<Longrightarrow> second_step (f s)"
    by (drule certificate_presses) simp
next
  fix s h k assume start: "second_step s" "Launch h k \<in> certificate_offers show_date now serverId server rootCa maxD certs rows loading s"
  show "second_step (fst (advance k s)) \<and> keeps second_step (snd (advance k s))"
  proof (cases "h = ''submitRemoveServerPanelRootCa''")
    case True
    then have "k = submitRemoveServerPanelRootCa serverId rootCa s" using certificate_presses [OF start(2)] by simp
    then show ?thesis using removal_in_second_step [OF start(1)] by simp
  next
    case False
    then have "keeps second_step k" using certificate_presses [OF start(2)] by (auto simp: other_keeps_marks(4) split: if_splits)
    then show ?thesis using start(1) by (rule keeps_advance)
  qed
qed

text \<open>The two deletions whose marks are cleared when their handlers end; the removal of the root clears its mark before it loads the lists again.\<close>

lemma deletion_locks_start:
  "advance (submitDeleteServerServerCert serverId s) s = (s', r) \<Longrightarrow> \<not> m_busy (serverServerCertDeleteModal s) \<Longrightarrow>
     if waits r then m_busy (serverServerCertDeleteModal s') \<and> frees (\<lambda>s. m_busy (serverServerCertDeleteModal s)) r
     else \<not> m_busy (serverServerCertDeleteModal s')"
  "advance (submitDeleteOpenvpnMaterial serverId s) s = (s', r) \<Longrightarrow> \<not> m_busy (openvpnMaterialDeleteModal s) \<Longrightarrow>
     if waits r then m_busy (openvpnMaterialDeleteModal s') \<and> frees (\<lambda>s. m_busy (openvpnMaterialDeleteModal s)) r
     else \<not> m_busy (openvpnMaterialDeleteModal s')"
  by (auto simp: submitDeleteServerServerCert_def submitDeleteOpenvpnMaterial_def script_parts released_def [where x = "(u, v)" for u v] split: if_splits sum.splits)

interpretation certificate_lock: busy_lock "certificate_offers show_date now serverId server rootCa maxD certs rows loading"
    "\<lambda>s. m_busy (serverServerCertDeleteModal s)" "''submitDeleteServerServerCert''"
  for show_date now serverId server rootCa maxD certs rows loading
proof
  let ?o = "certificate_offers show_date now serverId server rootCa maxD certs rows loading"
  fix f s show "Local f \<in> ?o s \<Longrightarrow> m_busy (serverServerCertDeleteModal (f s)) = m_busy (serverServerCertDeleteModal s)"
    by (drule certificate_presses) (simp add: deleting_def)
  fix k s' r g
  show "Launch ''submitDeleteServerServerCert'' k \<in> ?o s \<Longrightarrow> advance k s = (s', r) \<Longrightarrow>
      if waits r then \<not> m_busy (serverServerCertDeleteModal s) \<and> m_busy (serverServerCertDeleteModal s') \<and> frees (\<lambda>s. m_busy (serverServerCertDeleteModal s)) r
      else m_busy (serverServerCertDeleteModal s') = m_busy (serverServerCertDeleteModal s)"
    by (drule certificate_presses) (use deletion_locks_start(1) [of serverId s s' r] in auto)
  show "Launch g k \<in> ?o s \<Longrightarrow> g \<noteq> ''submitDeleteServerServerCert'' \<Longrightarrow> leaves (\<lambda>s. m_busy (serverServerCertDeleteModal s)) k"
    by (drule certificate_presses) (auto simp: other_keeps_marks split: if_splits)
qed

interpretation material_lock: busy_lock "certificate_offers show_date now serverId server rootCa maxD certs rows loading"
    "\<lambda>s. m_busy (openvpnMaterialDeleteModal s)" "''submitDeleteOpenvpnMaterial''"
  for show_date now serverId server rootCa maxD certs rows loading
proof
  let ?o = "certificate_offers show_date now serverId server rootCa maxD certs rows loading"
  fix f s show "Local f \<in> ?o s \<Longrightarrow> m_busy (openvpnMaterialDeleteModal (f s)) = m_busy (openvpnMaterialDeleteModal s)"
    by (drule certificate_presses) (simp add: deleting_def)
  fix k s' r g
  show "Launch ''submitDeleteOpenvpnMaterial'' k \<in> ?o s \<Longrightarrow> advance k s = (s', r) \<Longrightarrow>
      if waits r then \<not> m_busy (openvpnMaterialDeleteModal s) \<and> m_busy (openvpnMaterialDeleteModal s') \<and> frees (\<lambda>s. m_busy (openvpnMaterialDeleteModal s)) r
      else m_busy (openvpnMaterialDeleteModal s') = m_busy (openvpnMaterialDeleteModal s)"
    by (drule certificate_presses) (use deletion_locks_start(2) [of serverId s s' r] in auto)
  show "Launch g k \<in> ?o s \<Longrightarrow> g \<noteq> ''submitDeleteOpenvpnMaterial'' \<Longrightarrow> leaves (\<lambda>s. m_busy (openvpnMaterialDeleteModal s)) k"
    by (drule certificate_presses) (auto simp: other_keeps_marks split: if_splits)
qed

subsection \<open>Properties\<close>

lemma root_delete_frozen: "second_step s \<Longrightarrow> m_busy (serverRootCaDeleteModal s) \<Longrightarrow> offered (root_delete_dialog serverId rootCa s) = {}"
  by (simp add: root_delete_dialog_def second_step_def dialog_frame_def Let_def)

text \<open>C36: On the certificate pages of a server, whatever is pressed and typed and in whatever order the answers arrive: at most one deletion of
  the server certificate and one of key material is under way, each exactly while its busy mark is set; and while the request that removes
  the root certificate is under way, its dialog offers nothing.\<close>

theorem deletions_locked:
  assumes "reachable (certificate_offers show_date now serverId server rootCa maxD certs rows loading) s0 (s, P)"
    and "deleting s0 = (False, False)" and "\<not> m_busy (serverRootCaDeleteModal s0)"
  shows "one_at_a_time P ''submitDeleteServerServerCert'' (m_busy (serverServerCertDeleteModal s))
    \<and> one_at_a_time P ''submitDeleteOpenvpnMaterial'' (m_busy (openvpnMaterialDeleteModal s))
    \<and> offered (if m_busy (serverRootCaDeleteModal s) then root_delete_dialog serverId rootCa s else []) = {}"
proof -
  have "second_step s0" using assms(3) by (simp add: second_step_def)
  then have "second_step s" using always_second_step [OF assms(1)] by simp
  then show ?thesis
    using assms certificate_lock.one_at_a_time_reachable [OF assms(1)] material_lock.one_at_a_time_reachable [OF assms(1)] root_delete_frozen
    by (simp add: deleting_def)
qed

text \<open>
  \<open>binds_answer serverId k\<close>: the handler that waits for a new root certificate with the continuation \<open>k\<close> binds the one it is answered. In
  whatever state it finds the page, it saves settings that name this certificate, and puts them into the page when they were saved.
\<close>

definition binds_answer :: "string \<Rightarrow> (answer \<Rightarrow> cert_page script) \<Rightarrow> bool" where
  "binds_answer serverId k = (\<forall>created u saved u'. truthy (jprop created ''id'') \<and> tokenRef u \<noteq> [] \<longrightarrow>
     (\<exists>partial k'. snd (advance (k (Inr created)) u) = Ask (persistOpenVpnPanelPartial_call serverId partial) k'
        \<and> obj_get partial ''panelRootCaId'' = JStr (to_str (jprop created ''id''))
        \<and> obj_get (settings (fst (advance (k' (Inr saved)) u'))) ''panelRootCaId'' = JStr (to_str (jprop created ''id''))))"

lemma create_root_waits:
  assumes "serverId \<noteq> []" and "tokenRef u \<noteq> []" and "panelRootCaIdForServer (settings u) = []"
  shows "\<exists>k. advance (createRootCAForServer serverId u) u
      = (u\<lparr>cpError := NoText\<rparr>, Ask (''POST'', ''/api/certificates/root-ca/generate'', generate_body (newRootCA u)) k) \<and> binds_answer serverId k"
proof -
  let ?p = "\<lambda>created. openvpnCertPathsPartial (settings u) (Some (to_str (jprop created ''id''))) (Some [])"
  have g: "obj_get (?p c) ''panelRootCaId'' = JStr (to_str (jprop c ''id'')) \<and> obj_has (?p c) ''panelRootCaId''" for c
    by (simp add: openvpnCertPathsPartial_def put_if_blank_laws js_obj Let_def)
  show ?thesis
    using assms g
    by (simp add: createRootCAForServer_def try_ask_def binds_answer_def bind_new_root_def persist_created_def persist_partial_def
        persistOpenVpnPanelPartial_done_def get_spread [OF paths_partial_distinct])
      (use g in blast)
qed

text \<open>C18: Creating a root certificate has no busy mark: pressed twice before the first answer, the button of the dialog sends the request twice.
  Both handlers bind what they are answered, as long as the administrator is signed in: each saves settings that name its own new
  certificate, which are then those of the page, so the one saved last stays. The days are those the browser lets through, a whole
  number from 1 to 3650.\<close>

theorem root_created_twice:
  assumes "rootCaCreateOpen s" and "serverId \<noteq> []" and "tokenRef s \<noteq> []" and "panelRootCaIdForServer (settings s) = []"
    and "to_str (obj_get (newRootCA s) ''commonName'') \<noteq> []" and "number_required 1 (Some 3650) (to_str (obj_get (newRootCA s) ''days''))"
  shows "\<exists>t P k1 k2. reachable (certificate_offers show_date now serverId server rootCa maxD certs rows loading) s (t, P)
    \<and> P 0 = Some (''createRootCAForServer'', Ask (''POST'', ''/api/certificates/root-ca/generate'', generate_body (newRootCA s)) k1)
    \<and> P 1 = Some (''createRootCAForServer'', Ask (''POST'', ''/api/certificates/root-ca/generate'', generate_body (newRootCA s)) k2)
    \<and> binds_answer serverId k1 \<and> binds_answer serverId k2"
proof -
  let ?o = "certificate_offers show_date now serverId server rootCa maxD certs rows loading"
  let ?h = "''createRootCAForServer''" let ?k = "createRootCAForServer serverId"
  let ?t = "s\<lparr>cpError := NoText\<rparr>"
  let ?ask = "Ask (''POST'', ''/api/certificates/root-ca/generate'', generate_body (newRootCA s))"
  have offer: "Launch ?h (?k u) \<in> ?o u" if "rootCaCreateOpen u" "newRootCA u = newRootCA s" for u
    using that assms(5,6) by (simp add: certificate_offers_def certificate_widgets_def root_create_dialog_def Let_def)
  obtain k1 where k1: "advance (?k s) s = (?t, ?ask k1)" "binds_answer serverId k1"
    using create_root_waits [of serverId s] assms(2-4) by auto
  obtain k2 where k2: "advance (?k ?t) ?t = (?t, ?ask k2)" "binds_answer serverId k2"
    using create_root_waits [of serverId ?t] assms(2-4) by auto
  have "page_step ?o (s, Map.empty) (?t, park 0 ?h (snd (advance (?k s) s)) Map.empty)"
    using k1 by (intro page_step.launch [where k = "?k s"] offer) (simp_all add: assms(1))
  moreover have "page_step ?o (?t, park 0 ?h (snd (advance (?k s) s)) Map.empty)
      (?t, park 1 ?h (snd (advance (?k ?t) ?t)) (park 0 ?h (snd (advance (?k s) s)) Map.empty))"
    using k2 by (intro page_step.launch [where k = "?k ?t"] offer) (simp_all add: assms(1) park_apply)
  ultimately have r: "reachable ?o s (?t, park 1 ?h (snd (advance (?k ?t) ?t)) (park 0 ?h (snd (advance (?k s) s)) Map.empty))"
    by (blast intro: reachable.intros)
  show ?thesis
    by (rule exI, rule exI, rule exI [of _ k1], rule exI [of _ k2], intro conjI, rule r) (simp_all add: park_apply k1 k2)
qed

text \<open>The dialog for deleting the server certificate with its button pressed, and the form for a new root certificate filled in.\<close>

definition asked_page :: cert_page where
  "asked_page = blank_certs\<lparr>serverServerCertDeleteModal := opened_modal ()\<rparr>"

definition new_root_page :: cert_page where
  "new_root_page = blank_certs\<lparr>settings := [], rootCaCreateOpen := True, newRootCA := obj_put blank_root_ca ''commonName'' (JStr ''ca'')\<rparr>"

definition asked_pool :: "cert_page pool" where
  "asked_pool = park 0 ''submitDeleteServerServerCert'' (snd (advance (submitDeleteServerServerCert ''s1'' asked_page) asked_page)) Map.empty"

lemma asked_reachable:
  "reachable (certificate_offers show_date now ''s1'' server rootCa maxD certs rows loading) asked_page
     (fst (advance (submitDeleteServerServerCert ''s1'' asked_page) asked_page), asked_pool)"
proof (rule reachable.step [OF reachable.start])
  let ?o = "certificate_offers show_date now ''s1'' server rootCa maxD certs rows loading"
  have "Launch ''submitDeleteServerServerCert'' (submitDeleteServerServerCert ''s1'' asked_page) \<in> ?o asked_page"
    by (simp add: certificate_offers_def certificate_widgets_def server_cert_delete_dialog_def modal_dialog_def Let_def)
      (simp add: asked_page_def opened_modal_def)
  then show "page_step ?o (asked_page, Map.empty) (fst (advance (submitDeleteServerServerCert ''s1'' asked_page) asked_page), asked_pool)"
    unfolding asked_pool_def by (rule page_step.launch) simp_all
qed

theorem deletions_locked_witness: "one_at_a_time asked_pool ''submitDeleteServerServerCert'' True"
proof -
  have "m_busy (serverServerCertDeleteModal (fst (advance (submitDeleteServerServerCert ''s1'' asked_page) asked_page)))"
    "deleting asked_page = (False, False)" "\<not> m_busy (serverRootCaDeleteModal asked_page)"
    by (simp_all add: submitDeleteServerServerCert_def deleting_def asked_page_def opened_modal_def blank_certs_def Let_def)
  then show ?thesis
    using deletions_locked [OF asked_reachable [of "\<lambda>_. []" 0 JUndef None 0 "[]" "[]" False]] by simp
qed

theorem root_created_twice_witness:
  "\<exists>t P k1 k2. reachable (certificate_offers (\<lambda>_. []) 0 ''s1'' JUndef None 0 [] [] False) new_root_page (t, P)
    \<and> P 0 = Some (''createRootCAForServer'', Ask (''POST'', ''/api/certificates/root-ca/generate'', generate_body (newRootCA new_root_page)) k1)
    \<and> P 1 = Some (''createRootCAForServer'', Ask (''POST'', ''/api/certificates/root-ca/generate'', generate_body (newRootCA new_root_page)) k2)
    \<and> binds_answer ''s1'' k1 \<and> binds_answer ''s1'' k2"
proof -
  have "panelRootCaIdForServer (settings new_root_page) = []"
    "number_required 1 (Some 3650) (to_str (obj_get (newRootCA new_root_page) ''days''))" by code_simp+
  then show ?thesis
    by (intro root_created_twice) (simp_all add: new_root_page_def blank_certs_def blank_root_ca_def obj_put_def obj_get_def)
qed

end
