(* ===== verification/Node_Views.thy ===== *)
theory Node_Views
  imports Form_Fields Time_Format
begin

section \<open>The configuration pages of a node\<close>

text \<open>
  What the settings page of a server and the page of its client configuration show and offer: the forms, the bar with its buttons, the
  lines of the diff, the choice of a version and the dialogs.
\<close>

subsection \<open>The settings of the server\<close>

text \<open>The form and the bar are drawn only while there is no error and nothing is loading.\<close>

definition form_drawn :: "node_sys \<Rightarrow> bool" where
  "form_drawn s = (\<not> ovpnLoading s \<and> \<not> shown (ovpnError s))"

definition settings_error :: "node_sys \<Rightarrow> node_sys widget list" where
  "settings_error s =
     (if shown (ovpnError s) then
        Alert (ovpnError s) # (if ovpnHints s = [] then [] else Label (Ui ''what can be done'') # map (\<lambda>h. Label (child h)) (ovpnHints s))
      else [])"

definition server_form :: "node_sys \<Rightarrow> node_sys widget list" where
  "server_form s =
     (if form_drawn s then map (field_widget (\<lambda>g s. s\<lparr>ovpnSettings := g (ovpnSettings s)\<rparr>) (ovpnSettings s)) OPENVPN_SERVER_SETTINGS_FIELDS
      else [])"

definition open_apply :: "node_sys \<Rightarrow> node_sys" where
  "open_apply s = s\<lparr>applyLogVisible := False, applyLog := NoText, applyStatus := ''idle'', applyMessage := NoText, applyConfirmOpen := True,
     applyConfirmDone := False\<rparr>"

text \<open>\<open>check\<close> is the press of the button for a check, \<open>checking\<close> its busy mark; both belong to the services.\<close>

definition apply_bar :: "bool \<Rightarrow> node_sys press \<Rightarrow> node_sys \<Rightarrow> node_sys widget list" where
  "apply_bar checking check s =
     (if form_drawn s then
        [Button (if applying s then Ui ''Applying'' else Ui ''Apply'') (\<not> applying s) (Local open_apply),
         Button (if checking then Ui ''Checking'' else Ui ''Check the configuration'') (\<not> (checking \<or> applying s)) check]
      else [])"

fun diff_row :: "diff_line \<Rightarrow> string \<times> string" where
  "diff_row (Add l) = (''+'', l)"
| "diff_row (Del l) = (''-'', l)"
| "diff_row (Same l) = ('' '', l)"

definition diff_rows :: "(string \<Rightarrow> string \<Rightarrow> int) \<Rightarrow> node_sys \<Rightarrow> (string \<times> string) list" where
  "diff_rows lc s = (if form_drawn s \<and> \<not> rawLoading s then map diff_row (serverOpenVpnConfigDiff lc s) else [])"

text \<open>
  Confirming calls \<^verbatim>\<open>applyServerOpenVpnSettings\<close>, which throws its error again: the dialog is done after a success and when nothing was
  sent at all.
\<close>

definition confirm_apply :: "(string \<Rightarrow> string \<Rightarrow> int) \<Rightarrow> string \<Rightarrow> string \<Rightarrow> node_sys \<Rightarrow> node_sys script" where
  "confirm_apply lc auth nodeId s0 =
     (let finish = Set (\<lambda>s. s\<lparr>applyConfirmDone := True\<rparr>) Stop;
          begin = Set (\<lambda>s. case applyServerOpenVpnSettings_start lc auth nodeId s of Some (s', c) \<Rightarrow> s' | None \<Rightarrow> s)
      in case applyServerOpenVpnSettings_start lc auth nodeId s0 of
           None \<Rightarrow> finish
         | Some (s', None) \<Rightarrow> begin finish
         | Some (s', Some c) \<Rightarrow> begin (Ask c (\<lambda>a. Set (applyServerOpenVpnSettings_settle (raw_config lc s0) a) (if isl a then Stop else finish))))"

definition close_apply :: "node_sys \<Rightarrow> node_sys" where
  "close_apply s = s\<lparr>applyConfirmOpen := False, applyConfirmDone := False\<rparr>"

definition apply_dialog :: "(string \<Rightarrow> string \<Rightarrow> int) \<Rightarrow> string \<Rightarrow> string \<Rightarrow> node_sys \<Rightarrow> node_sys widget list" where
  "apply_dialog lc auth nodeId s =
     (if applyConfirmOpen s then
        dialog_frame (applying s) close_apply (Ui ''Confirm the application'')
        @ [Label (Ui ''applying restarts OpenVPN'')]
        @ (if applyStatus s = ''success'' then [Label (applyMessage s)] else [])
        @ (if applyStatus s = ''error'' then [Alert (applyMessage s)] else [])
        @ (if applyLogVisible s then [Label (text_or (applyLog s) (Ui ''no output''))] else [])
        @ (if applyConfirmDone s then [Button (Ui ''Close'') True (Local close_apply)]
           else [Button (Ui ''Cancel'') (\<not> applying s) (Local close_apply),
                 Button (if applying s then Ui ''Applying'' else Ui ''Confirm'') (\<not> applying s)
                   (Launch ''applyServerOpenVpnSettings'' (confirm_apply lc auth nodeId s))])
      else [])"

definition save_dialog :: "node_sys \<Rightarrow> node_sys widget list" where
  "save_dialog s =
     (let close = (\<lambda>s. s\<lparr>saveModalOpen := False\<rparr>) in
      if saveModalOpen s then dialog_frame False close (Ui ''Saving the settings'')
        @ [Label (Ui ''the settings are saved on the panel''), Button (Raw ''OK'') True (Local close)]
      else [])"

subsection \<open>The client configuration\<close>

definition version_of :: "jsval list \<Rightarrow> string \<Rightarrow> jsval option" where
  "version_of versions i = find (\<lambda>v. jprop v ''id'' = JStr i) versions"

definition version_settings :: "jsval list \<Rightarrow> string \<Rightarrow> jsobj" where
  "version_settings versions i =
     (case version_of versions i of None \<Rightarrow> [] | Some v \<Rightarrow> (case jprop v ''settings'' of JObj ob \<Rightarrow> ob | _ \<Rightarrow> []))"

definition client_text :: "node_sys \<Rightarrow> jsobj \<Rightarrow> string" where
  "client_text s ob = fallbackRawFromClientSettings ob (JObj (ovpnSettings s))"

definition serverOpenVpnClientConfigDiff :: "node_sys \<Rightarrow> diff_line list" where
  "serverOpenVpnClientConfigDiff s =
     lineDiffLcs (client_text s (version_settings (clientVersions s) (clientActiveId s))) (client_text s (clientSettings s))"

definition serverOpenVpnClientHasUnsavedSelectedChanges :: "node_sys \<Rightarrow> bool" where
  "serverOpenVpnClientHasUnsavedSelectedChanges s =
     list_ex (\<lambda>d. \<not> is_same d) (lineDiffLcs (client_text s (version_settings (clientVersions s) (clientSelectedId s))) (client_text s (clientSettings s)))"

definition server_title :: "jsval \<Rightarrow> uitext" where
  "server_title server = error_text (jprop server ''name'') (Ui ''server'')"

definition version_label :: "(jsval \<Rightarrow> string option) \<Rightarrow> jsval \<Rightarrow> jsval \<Rightarrow> uitext" where
  "version_label local_date server v =
     Cat (server_title server) (Cat (Raw ('' v'' @ to_str (jprop v ''version'') @ '' '')) (Raw (formatMaybeDate local_date (jprop v ''createdAt''))))"

definition version_options :: "(jsval \<Rightarrow> string option) \<Rightarrow> jsval \<Rightarrow> node_sys \<Rightarrow> (string \<times> uitext) list" where
  "version_options local_date server s =
     (if clientVersions s = [] then [([], Ui ''no versions yet'')]
      else map (\<lambda>v. (to_str (jprop v ''id''),
          if jprop v ''id'' = JStr (clientActiveId s) then Cat (version_label local_date server v) (Ui ''active'') else version_label local_date server v))
        (clientVersions s))"

definition pick_version :: "string \<Rightarrow> node_sys \<Rightarrow> node_sys" where
  "pick_version i s =
     (let s1 = s\<lparr>clientSelectedId := i\<rparr> in
      case version_of (clientVersions s) i of None \<Rightarrow> s1
        | Some v \<Rightarrow> (case jprop v ''settings'' of JObj ob \<Rightarrow> s1\<lparr>clientSettings := ob\<rparr> | _ \<Rightarrow> s1))"

definition ask_delete_version :: "(jsval \<Rightarrow> string option) \<Rightarrow> jsval \<Rightarrow> node_sys \<Rightarrow> node_sys" where
  "ask_delete_version local_date server s =
     (case version_of (clientVersions s) (clientSelectedId s) of None \<Rightarrow> s
        | Some v \<Rightarrow> s\<lparr>deleteOpen := True, deleteVersionId := to_str (jprop v ''id''), deleteLabel := version_label local_date server v,
                      deleteBusy := False, deleteError := NoText\<rparr>)"

definition version_bar :: "(jsval \<Rightarrow> string option) \<Rightarrow> jsval \<Rightarrow> node_sys \<Rightarrow> node_sys widget list" where
  "version_bar local_date server s =
     [Choice (clientSelectedId s) (version_options local_date server s) (clientVersions s \<noteq> []) pick_version,
      Button (Ui ''Delete the version'') (clientSelectedId s \<noteq> [] \<and> clientVersions s \<noteq> []) (Local (ask_delete_version local_date server)),
      Label (case version_of (clientVersions s) (clientActiveId s) of
          None \<Rightarrow> dash
        | Some v \<Rightarrow> Cat (Raw (''v'' @ to_str (jprop v ''version''))) (Raw (formatMaybeDate local_date (jprop v ''createdAt''))))]"

definition save_client :: "string \<Rightarrow> string \<Rightarrow> node_sys \<Rightarrow> node_sys script" where
  "save_client auth nodeId s =
     one_request (saveServerOpenVpnClientSettings_start auth nodeId)
       (saveServerOpenVpnClientSettings_settle (client_partial (clientSettings s))) s"

definition client_form :: "string \<Rightarrow> string \<Rightarrow> node_sys \<Rightarrow> node_sys widget list" where
  "client_form auth nodeId s =
     alert_if (clientError s)
     @ (if clientLoading s \<or> shown (clientError s) then []
        else map (field_widget (\<lambda>g s. s\<lparr>clientSettings := g (clientSettings s)\<rparr>) (clientSettings s)) OPENVPN_CLIENT_SETTINGS_FIELDS)"

definition client_bar :: "string \<Rightarrow> string \<Rightarrow> node_sys \<Rightarrow> node_sys widget list" where
  "client_bar auth nodeId s =
     (if clientLoading s \<or> shown (clientError s) then []
      else
        [Button (if clientSaving s then Ui ''Saving'' else Ui ''Save'') (\<not> clientSaving s) (Launch ''saveServerOpenVpnClientSettings'' (save_client auth nodeId s)),
         Button (Ui ''Apply'') (\<not> (clientSaving s \<or> clientSelectedId s = [] \<or> clientSelectedId s = clientActiveId s
             \<or> serverOpenVpnClientHasUnsavedSelectedChanges s))
           (Local (\<lambda>s. s\<lparr>applyClientOpen := True, applyClientBusy := False, applyClientError := NoText\<rparr>))]
        @ (if serverOpenVpnClientHasUnsavedSelectedChanges s then [Label (Ui ''first save the changes as a new version'')] else []))"

definition client_dialog :: "bool \<Rightarrow> ('s \<Rightarrow> 's) \<Rightarrow> uitext \<Rightarrow> uitext \<Rightarrow> uitext \<Rightarrow> uitext \<times> uitext \<Rightarrow> string \<Rightarrow> 's script \<Rightarrow> 's widget list" where
  "client_dialog busy close title question err texts name k =
     dialog_frame busy close title @ [Label question] @ alert_if err
     @ [Button (Ui ''Cancel'') (\<not> busy) (Local close), Button (if busy then snd texts else fst texts) (\<not> busy) (Launch name k)]"

definition close_version_delete :: "node_sys \<Rightarrow> node_sys" where
  "close_version_delete s = s\<lparr>deleteOpen := False, deleteVersionId := [], deleteLabel := NoText, deleteBusy := False, deleteError := NoText\<rparr>"

definition version_delete_dialog :: "string \<Rightarrow> string \<Rightarrow> node_sys \<Rightarrow> node_sys widget list" where
  "version_delete_dialog auth nodeId s =
     (if deleteOpen s then
        client_dialog (deleteBusy s) close_version_delete (Ui ''Delete the client configuration'') (deleteLabel s) (deleteError s)
          (Ui ''Delete'', Ui ''Deleting'') ''deleteServerOpenVpnClientVersion''
          (one_request (deleteServerOpenVpnClientVersion_start auth nodeId) deleteServerOpenVpnClientVersion_settle s)
      else [])"

definition client_apply_dialog :: "string \<Rightarrow> string \<Rightarrow> node_sys \<Rightarrow> node_sys widget list" where
  "client_apply_dialog auth nodeId s =
     (if applyClientOpen s then
        client_dialog (applyClientBusy s) (\<lambda>s. s\<lparr>applyClientOpen := False, applyClientBusy := False, applyClientError := NoText\<rparr>)
          (Ui ''Apply the client configuration'') (Ui ''the change is for new clients and newly generated files'') (applyClientError s)
          (Ui ''Apply'', Ui ''Applying'') ''applyServerOpenVpnClientSettings''
          (one_request (applyServerOpenVpnClientSettings_start auth nodeId) applyServerOpenVpnClientSettings_settle s)
      else [])"

subsection \<open>Dialogs at work\<close>

lemmas node_dialogs = apply_dialog_def version_delete_dialog_def client_apply_dialog_def client_dialog_def dialog_frame_def

interpretation applying_config: frozen_dialog "apply_dialog lc auth nodeId" "\<lambda>s. applying s \<and> \<not> applyConfirmDone s" for lc auth nodeId
  by unfold_locales (simp add: node_dialogs)

interpretation deleting_version: frozen_dialog "version_delete_dialog auth nodeId" deleteBusy for auth nodeId
  by unfold_locales (simp add: node_dialogs)

interpretation applying_version: frozen_dialog "client_apply_dialog auth nodeId" applyClientBusy for auth nodeId
  by unfold_locales (simp add: node_dialogs)

subsection \<open>Properties\<close>

text \<open>C40: Applying a configuration that the node refuses takes the form away: the edited settings stay in the state, but the error the handler
  leaves hides the form, the diff and the bar with the button to apply, so that outside the dialog nothing shows or changes them until they are
  loaded again.\<close>

theorem failed_apply_hides_form:
  fixes raw :: string and e :: req_error and s :: node_sys
  defines "s' \<equiv> applyServerOpenVpnSettings_settle raw (Inl e) s"
  shows "ovpnSettings s' = ovpnSettings s \<and> server_form s' = [] \<and> apply_bar checking check s' = [] \<and> diff_rows lc s' = []
    \<and> offered (settings_error s') = {} \<and> shown (ovpnError s')"
proof -
  have "shown (ovpnError s')" by (simp add: s'_def applyServerOpenVpnSettings_settle_def Let_def)
  moreover have "ovpnSettings s' = ovpnSettings s" by (simp add: s'_def applyServerOpenVpnSettings_settle_def Let_def)
  moreover have "offered (settings_error s') = {}" by (auto simp: settings_error_def offered_def)
  ultimately show ?thesis by (simp add: server_form_def apply_bar_def diff_rows_def form_drawn_def)
qed

text \<open>A version of the client configuration can be applied only when it is what the form shows: the profile text written from the chosen
  version has the same lines as the one written from the form, and confirming sends the number of this version, once.\<close>

theorem applied_version_is_the_form:
  fixes srv :: "nat \<Rightarrow> call \<Rightarrow> answer" and env :: "nat \<Rightarrow> node_sys \<Rightarrow> node_sys" and n :: nat
  assumes "Local f \<in> offered (client_bar auth nodeId s)" and "auth \<noteq> []" and "nodeId \<noteq> []"
  shows "to_lines (client_text s (version_settings (clientVersions s) (clientSelectedId s))) = to_lines (client_text s (clientSettings s))
    \<and> calls_of (snd (exec (one_request (applyServerOpenVpnClientSettings_start auth nodeId) applyServerOpenVpnClientSettings_settle (f s))
          srv env n (f s)))
        = [(''POST'', node_path nodeId ''/openvpn-client-config-apply'', JObj [(''versionId'', JStr (clientSelectedId s))])]"
proof -
  have f: "f = (\<lambda>s. s\<lparr>applyClientOpen := True, applyClientBusy := False, applyClientError := NoText\<rparr>)"
    and sel: "clientSelectedId s \<noteq> []" and same: "\<not> serverOpenVpnClientHasUnsavedSelectedChanges s"
    using assms(1) by (auto simp: client_bar_def split: if_splits)
  have "to_lines (client_text s (version_settings (clientVersions s) (clientSelectedId s))) = to_lines (client_text s (clientSettings s))"
    using same lineDiffLcs_detects_change by (auto simp: serverOpenVpnClientHasUnsavedSelectedChanges_def list_ex_iff)
  moreover have "applyServerOpenVpnClientSettings_start auth nodeId (f s) = Some ((f s)\<lparr>applyClientBusy := True, applyClientError := NoText\<rparr>,
      [(''POST'', node_path nodeId ''/openvpn-client-config-apply'', JObj [(''versionId'', JStr (clientSelectedId s))])])"
    using assms(2,3) sel by (simp add: applyServerOpenVpnClientSettings_start_def f)
  ultimately show ?thesis by (simp add: one_request_def Let_def)
qed

text \<open>Two versions of the client configuration, the older one active and the newer one chosen, as it is in the form.\<close>

definition two_versions :: node_sys where
  "two_versions = blank_node\<lparr>clientVersions := [JObj [(''id'', JStr ''v2'')], JObj [(''id'', JStr ''v1'')]], clientActiveId := ''v1'',
     clientSelectedId := ''v2''\<rparr>"

theorem applied_version_is_the_form_witness:
  "calls_of (snd (exec (one_request (applyServerOpenVpnClientSettings_start ''tok'' ''n1'') applyServerOpenVpnClientSettings_settle
       (two_versions\<lparr>applyClientOpen := True, applyClientBusy := False, applyClientError := NoText\<rparr>)) (\<lambda>_ _. Inr JNull) (\<lambda>_ s. s) 0
       (two_versions\<lparr>applyClientOpen := True, applyClientBusy := False, applyClientError := NoText\<rparr>)))
     = [(''POST'', node_path ''n1'' ''/openvpn-client-config-apply'', JObj [(''versionId'', JStr ''v2'')])]"
proof -
  have same: "version_settings (clientVersions two_versions) (clientSelectedId two_versions) = clientSettings two_versions"
    by (simp add: version_settings_def version_of_def two_versions_def blank_node_def jprop_def obj_get_def)
  have "\<not> serverOpenVpnClientHasUnsavedSelectedChanges two_versions"
    unfolding serverOpenVpnClientHasUnsavedSelectedChanges_def same using lineDiffLcs_detects_change by (auto simp: list_ex_iff)
  then have "Local (\<lambda>s. s\<lparr>applyClientOpen := True, applyClientBusy := False, applyClientError := NoText\<rparr>) \<in> offered (client_bar ''tok'' ''n1'' two_versions)"
    by (simp add: client_bar_def) (simp add: two_versions_def blank_node_def)
  from applied_version_is_the_form [OF this, THEN conjunct2] show ?thesis by (simp add: two_versions_def)
qed

end
