(* ===== verification/User_Views.thy ===== *)
theory User_Views
  imports Cert_Views Vpn_Sessions Monitoring
begin

section \<open>The pages of users\<close>

text \<open>The list of users, the form of a new one, and the profile with its certificates, their dialogs and the client settings.\<close>

subsection \<open>The list and the two forms\<close>

text \<open>A row opens the profile by a click, Enter or space.\<close>

definition user_list_row :: "(jsval \<Rightarrow> uitext) \<Rightarrow> jsval \<Rightarrow> uitext list \<times> string" where
  "user_list_row last_activity u =
     ([child (jprop u ''fullName''), cell u ''email'', cell u ''position'', error_text (jprop (jprop u ''organization'') ''name'') dash,
       Raw (formatBps (jprop u ''totalInBps'') @ '' / '' @ formatBps (jprop u ''totalOutBps'')), last_activity u],
      paths_userProfile (to_str (jprop u ''id'')) ''overview'')"

definition opens_row :: "string \<Rightarrow> bool" where
  "opens_row key = (key = ''Enter'' \<or> key = '' '')"

definition organization_options :: "jsval list \<Rightarrow> (string \<times> uitext) list" where
  "organization_options orgs = ([], Ui ''not given'') # map (\<lambda>o'. (to_str (jprop o' ''id''), child (jprop o' ''name''))) orgs"

definition new_user_edit :: "(profile_draft \<Rightarrow> profile_draft) \<Rightarrow> users_page \<Rightarrow> users_page" where
  "new_user_edit f s = s\<lparr>newVpnUser := f (newVpnUser s)\<rparr>"

definition profile_edit :: "(profile_draft \<Rightarrow> profile_draft) \<Rightarrow> users_page \<Rightarrow> users_page" where
  "profile_edit f s = s\<lparr>userProfileDraft := f (userProfileDraft s)\<rparr>"

text \<open>The fields both forms share; \<open>orgs\<close> are the choices of the organization and whether they can be made.\<close>

definition profile_fields :: "((profile_draft \<Rightarrow> profile_draft) \<Rightarrow> 's \<Rightarrow> 's) \<Rightarrow> (string \<times> uitext) list \<times> bool \<Rightarrow> profile_draft \<Rightarrow> 's widget list" where
  "profile_fields edit orgs p =
     [Field (fullName p) True (\<lambda>t. edit (\<lambda>p. p\<lparr>fullName := t\<rparr>)), Field (email p) True (\<lambda>t. edit (\<lambda>p. p\<lparr>email := email_text t\<rparr>)),
      Field (position p) True (\<lambda>t. edit (\<lambda>p. p\<lparr>position := t\<rparr>)),
      Choice (organizationId p) (fst orgs) (snd orgs) (\<lambda>t. edit (\<lambda>p. p\<lparr>organizationId := t\<rparr>)),
      Field (phone p) True (\<lambda>t. edit (\<lambda>p. p\<lparr>phone := t\<rparr>)), Field (pnotes p) True (\<lambda>t. edit (\<lambda>p. p\<lparr>pnotes := t\<rparr>))]"

text \<open>The servers a new certificate can be for are those with a root certificate, by name.\<close>

definition has_root :: "jsval \<Rightarrow> bool" where
  "has_root server = (js_trim (str_or (jprop server ''panelRootCaId'')) \<noteq> [])"

definition issue_server_options :: "(string \<Rightarrow> string \<Rightarrow> int) \<Rightarrow> jsval list \<Rightarrow> jsval list \<Rightarrow> (string \<times> uitext) list" where
  "issue_server_options lc cas servers = ([], Ui ''without a certificate'') #
     map (\<lambda>v. let ca = root_ca_of cas (js_trim (str_or (jprop v ''panelRootCaId''))) in
         (to_str (jprop v ''id''), Cat (Raw (to_str (jprop v ''name'') @ '' '' @ [CHR 0x5C] @ '' ''))
           (error_text (jprop ca ''name'') (error_text (jprop ca ''commonName'') (Raw (to_str (jprop v ''panelRootCaId'')))))))
       (js_sort (\<lambda>a b. lc (str_or (jprop a ''name'')) (str_or (jprop b ''name''))) (filter has_root servers))"

definition new_cert_options :: "jsval list \<Rightarrow> (string \<times> uitext) list" where
  "new_cert_options certs = ([], Ui ''no certificate'') # (CREATE_CHOICE, Ui ''create a new certificate'')
     # map (\<lambda>c. (to_str (jprop c ''id''), Raw (to_str (jprop c ''commonName'') @ '' '' @ take 12 (str_or (jprop c ''serialNumber''))))) certs"

text \<open>\<^verbatim>\<open>max={limit.cap > 0 ? limit.cap : undefined}\<close>\<close>

definition days_max :: "int \<times> uitext \<times> bool \<Rightarrow> int option" where
  "days_max limit = (if fst limit > 0 then Some (fst limit) else None)"

definition new_user_form ::
  "(int \<Rightarrow> string) \<Rightarrow> int \<Rightarrow> (string \<Rightarrow> string \<Rightarrow> int) \<Rightarrow> jsval list \<Rightarrow> jsval list \<Rightarrow> jsval list \<Rightarrow> string \<Rightarrow> int \<Rightarrow> uitext \<Rightarrow> users_page \<Rightarrow> users_page widget list" where
  "new_user_form show_date now lc orgs cas certs rootId maxD expiresLabel s =
     (let p = newVpnUser s; limit = certValidityDaysLimitPresentation maxD expiresLabel in
      profile_fields new_user_edit
        (if orgs = [] then [([], Ui ''no organizations'')] else organization_options orgs, orgs \<noteq> []) p
      @ [Choice (newUserCertServerId s) (issue_server_options lc cas (newUserIssueServers s)) (filter has_root (newUserIssueServers s) \<noteq> [])
           (\<lambda>t s. s\<lparr>newUserCertServerId := t\<rparr>),
         Choice (newUserCertChoice s) (new_cert_options certs) (js_trim rootId \<noteq> []) (\<lambda>t s. s\<lparr>newUserCertChoice := t\<rparr>)]
      @ (if newUserCertChoice s = CREATE_CHOICE then
           [Field (newUserCertNewCn s) True (\<lambda>t s. s\<lparr>newUserCertNewCn := t\<rparr>),
            Field (newUserCertValidityDays s) (\<not> snd (snd limit)) (\<lambda>t s. s\<lparr>newUserCertValidityDays := number_text t\<rparr>), Label (fst (snd limit))]
         else [])
      @ [Button (Ui ''Create the profile'')
           (fullName p \<noteq> [] \<and> email_required (email p)
             \<and> (newUserCertChoice s \<noteq> CREATE_CHOICE \<or> snd (snd limit) \<or> number_valid 1 (days_max limit) (newUserCertValidityDays s)))
           (Launch ''createVpnUser'' (createVpnUser show_date now certs rootId maxD s))])"

definition profile_form :: "jsval list \<Rightarrow> string \<Rightarrow> users_page \<Rightarrow> users_page widget list" where
  "profile_form orgs userId s =
     (let p = userProfileDraft s in
      profile_fields profile_edit (organization_options orgs, True) p
      @ [Button (Ui ''Save the profile'') (fullName p \<noteq> [] \<and> email_required (email p)) (Launch ''saveUserProfile'' (saveUserProfile userId s))])"

subsection \<open>The certificates of a user\<close>

definition choose_first_server :: "jsval list \<Rightarrow> users_page \<Rightarrow> users_page" where
  "choose_first_server servers s =
     (case servers of [] \<Rightarrow> s
        | v # vs \<Rightarrow> if userCertBindServerId s = [] \<and> truthy (jprop v ''id'') then s\<lparr>userCertBindServerId := to_str (jprop v ''id'')\<rparr> else s)"

definition cert_tab_buttons :: "jsval list \<Rightarrow> users_page widget list" where
  "cert_tab_buttons servers =
     [Button (Ui ''Bind'') True (Local (\<lambda>s. (choose_first_server servers s)\<lparr>userCertBindSelectedCertId := [], userCertBindModalOpen := True\<rparr>)),
      Button (Ui ''Issue a new one'') True (Local (\<lambda>s. (choose_first_server servers s)\<lparr>userCertIssueModalOpen := True\<rparr>))]"

text \<open>A certificate without a node is shown with the server of its root, if there is exactly one.\<close>

definition resolved_server :: "jsval list \<Rightarrow> jsval \<Rightarrow> jsval \<times> jsval" where
  "resolved_server servers cert =
     (let rid = cert_root cert; same = (if rid = [] then [] else filter (\<lambda>v. js_trim (str_or (jprop v ''panelRootCaId'')) = rid) servers);
          only = (case same of [v] \<Rightarrow> v | _ \<Rightarrow> JNull);
          node = jprop (jprop cert ''agentNode'') ''name''
      in (if truthy (jprop cert ''agentNodeId'') then jprop cert ''agentNodeId'' else truthy_or (jprop only ''id'') (JStr []),
          if truthy node then node else truthy_or (jprop only ''name'') (JStr [])))"

definition ask_unlink :: "jsval \<Rightarrow> cert_page \<Rightarrow> cert_page" where
  "ask_unlink cert s = s\<lparr>userCertUnlinkModal := opened_modal (to_str (jprop cert ''id''), str_or (jprop cert ''commonName''))\<rparr>"

definition user_cert_row ::
  "(jsval \<Rightarrow> string option) \<Rightarrow> (jsval \<Rightarrow> int option) \<Rightarrow> int \<Rightarrow> string \<Rightarrow> jsval list \<Rightarrow> users_page \<Rightarrow> jsval
     \<Rightarrow> uitext list \<times> string option \<times> string option \<times> users_page widget list \<times> cert_page widget list" where
  "user_cert_row local_date time_of now userId servers s cert =
     (let (sid, sname) = resolved_server servers cert; node = jprop cert ''agentNodeId'' in
      ([if truthy sid then error_text sname (Ui ''open the server'') else dash, child (jprop cert ''commonName''), cell cert ''serialNumber'',
        fst (userCertRowStatusPresentation time_of now cert), Raw (formatMaybeDate local_date (jprop cert ''expiresAt'')),
        error_text (jprop (jprop cert ''rootCa'') ''name'') (cell cert ''issuedBy'')],
       if truthy sid then Some (paths_serverDetail (to_str sid) ''overview'') else None,
       if truthy node then Some (paths_serverCaCenterCert (to_str node) (to_str (jprop cert ''id''))) else None,
       if userCertCanShowConfigDownload time_of now cert then
         [Button (Ui ''Download'') (\<not> connBusy s)
            (Launch ''downloadUserCertConfig'' (downloadUserCertConfig userId (str_or (jprop cert ''id'')) (str_or node) s))]
       else [],
       if truthy (jprop cert ''revokedAt'') then []
       else [Button (Ui ''Revoke'') True (Local (ask_revoke cert)), Button (Ui ''Unlink'') True (Local (ask_unlink cert))]))"

subsection \<open>Binding and issuing\<close>

definition modal_servers :: "jsval list \<Rightarrow> (string \<times> uitext) list" where
  "modal_servers servers =
     ([], if servers = [] then Ui ''no servers'' else Ui ''choose a server'')
     # map (\<lambda>v. (to_str (jprop v ''id''), Raw (to_str (jprop v ''name'') @ '' '' @ to_str (jprop v ''host'') @ '':''
         @ to_str (jprop v ''openvpnPort'') @ '' '' @ to_str (jprop v ''openvpnProto'')))) servers"

definition bindable_options :: "(jsval \<Rightarrow> string option) \<Rightarrow> jsval list \<Rightarrow> (string \<times> uitext) list" where
  "bindable_options local_date certs = ([], Ui ''choose a certificate'') # map (\<lambda>c. (to_str (jprop c ''id''),
     Cat (child (jprop c ''commonName'')) (Raw ('' '' @ take 14 (to_str (jprop c ''serialNumber'')) @ '' '' @ formatMaybeDate local_date (jprop c ''expiresAt''))))) certs"

definition close_bind :: "users_page \<Rightarrow> users_page" where
  "close_bind s = s\<lparr>userCertBindModalOpen := False, userCertBindSelectedCertId := []\<rparr>"

definition bind_dialog :: "(jsval \<Rightarrow> string option) \<Rightarrow> string \<Rightarrow> jsval list \<Rightarrow> jsval list \<Rightarrow> users_page \<Rightarrow> users_page widget list" where
  "bind_dialog local_date userId servers certs s =
     (let idle = \<not> userCertBindBusy s in
      if userCertBindModalOpen s then
        dialog_frame (userCertBindBusy s) close_bind (Ui ''Bind a certificate'')
        @ [Choice (userCertBindServerId s) (modal_servers servers) (servers \<noteq> [] \<and> idle)
             (\<lambda>t s. s\<lparr>userCertBindServerId := t, userCertBindSelectedCertId := []\<rparr>)]
        @ (if certs = [] then []
           else [Choice (userCertBindSelectedCertId s) (bindable_options local_date certs) (userCertBindServerId s \<noteq> [] \<and> idle)
                   (\<lambda>t s. s\<lparr>userCertBindSelectedCertId := t\<rparr>)])
        @ [Button (Ui ''Cancel'') idle (Local close_bind),
           Button (if idle then Ui ''Bind'' else Ui ''Binding'') (idle \<and> userCertBindSelectedCertId s \<noteq> [] \<and> userCertBindServerId s \<noteq> [] \<and> certs \<noteq> [])
             (Launch ''confirmUserCertBind'' (confirmUserCertBind userId s))]
      else [])"

text \<open>No busy mark here: the dialog can be closed and its form sent again while a request is under way.\<close>

definition issue_dialog ::
  "(int \<Rightarrow> string) \<Rightarrow> int \<Rightarrow> jsval list \<Rightarrow> int \<Rightarrow> uitext \<Rightarrow> string \<Rightarrow> users_page \<Rightarrow> users_page widget list" where
  "issue_dialog show_date now servers maxD expiresLabel userId s =
     (let close = (\<lambda>s. s\<lparr>userCertIssueModalOpen := False\<rparr>); limit = certValidityDaysLimitPresentation maxD expiresLabel;
          form = profileIssueCert s in
      if userCertIssueModalOpen s then
        dialog_frame False close (Ui ''Issue a new certificate'')
        @ [Choice (userCertBindServerId s) (modal_servers servers) (servers \<noteq> []) (\<lambda>t s. s\<lparr>userCertBindServerId := t\<rparr>),
           Field (i_commonName form) True (\<lambda>t s. s\<lparr>profileIssueCert := (profileIssueCert s)\<lparr>i_commonName := t\<rparr>\<rparr>),
           Field (i_validityDays form) (\<not> snd (snd limit)) (\<lambda>t s. s\<lparr>profileIssueCert := (profileIssueCert s)\<lparr>i_validityDays := number_text t\<rparr>\<rparr>),
           Label (fst (snd limit)), Button (Ui ''Cancel'') True (Local close),
           Button (Ui ''Issue'') (i_commonName form \<noteq> [] \<and> (snd (snd limit) \<or> number_valid 1 (days_max limit) (i_validityDays form))) (Launch ''issueProfileCertificate'' (issueProfileCertificate show_date now servers maxD userId s))]
      else [])"

interpretation binding: frozen_dialog "bind_dialog local_date userId servers certs" userCertBindBusy for local_date userId servers certs
  by unfold_locales (simp add: bind_dialog_def dialog_frame_def Let_def)

subsection \<open>The client settings of a user\<close>

definition ccd_fields :: "ccd_draft \<Rightarrow> ccd_draft widget list" where
  "ccd_fields d =
     [Field (ifconfigPushLocal d) True (\<lambda>t d. d\<lparr>ifconfigPushLocal := t\<rparr>), Field (ifconfigPushRemote d) True (\<lambda>t d. d\<lparr>ifconfigPushRemote := t\<rparr>),
      Field (pushRoutes d) True (\<lambda>t d. d\<lparr>pushRoutes := t\<rparr>), Field (iroutes d) True (\<lambda>t d. d\<lparr>iroutes := t\<rparr>),
      Field (dnsServers d) True (\<lambda>t d. d\<lparr>dnsServers := t\<rparr>), Field (customDirectives d) True (\<lambda>t d. d\<lparr>customDirectives := t\<rparr>)]"

definition ccd_button :: "string \<Rightarrow> ccd_draft \<Rightarrow> users_page \<Rightarrow> users_page widget list" where
  "ccd_button userId d s =
     Button (if uCcdBusy s then Ui ''Saving'' else Ui ''Save'') (\<not> uCcdBusy s) (Launch ''applyUserCcd'' (applyUserCcd userId d s))
     # (if shown (uCcdResult s) then [Label (uCcdResult s)] else [])"

subsection \<open>Properties\<close>

text \<open>C24: The dialog binds what was chosen, offered or not. Its button is there exactly as long as the list of free certificates is not empty,
  whatever has become of the chosen one; and what it sends is the chosen one, also when it was bound to somebody else or revoked
  meanwhile and the list no longer has it. Only when no free certificate is left at all, the button is disabled.\<close>

theorem stale_choice_is_bound:
  fixes srv :: "nat \<Rightarrow> call \<Rightarrow> answer" and env :: "nat \<Rightarrow> users_page \<Rightarrow> users_page" and n :: nat
  assumes "userCertBindModalOpen s" and "\<not> userCertBindBusy s" and "userCertBindServerId s \<noteq> []" and "uToken s \<noteq> []"
    and "js_trim (userCertBindSelectedCertId s) = userCertBindSelectedCertId s" and "userCertBindSelectedCertId s \<noteq> []" and "userId \<noteq> []"
  shows "(Launch ''confirmUserCertBind'' (confirmUserCertBind userId s) \<in> offered (bind_dialog local_date userId servers certs s)) = (certs \<noteq> [])
    \<and> take 1 (calls_of (snd (exec (confirmUserCertBind userId s) srv env n s)))
      = [(''PATCH'', ''/api/certificates/'' @ encodeURIComponent (userCertBindSelectedCertId s),
          JObj [(''vpnUserId'', JStr userId), (''agentNodeId'', JStr (userCertBindServerId s))])]"
  using assms by (auto simp: bind_dialog_def dialog_frame_def confirmUserCertBind_def Let_def)

text \<open>The chosen certificate \<open>c1\<close> is no longer in the list, which holds only \<open>c2\<close>.\<close>

definition stale_page :: users_page where
  "stale_page = blank_users\<lparr>userCertBindModalOpen := True, userCertBindSelectedCertId := ''c1'', userCertBindServerId := ''n1''\<rparr>"

theorem stale_choice_is_bound_witness:
  "Launch ''confirmUserCertBind'' (confirmUserCertBind ''u1'' stale_page)
     \<in> offered (bind_dialog (\<lambda>_. None) ''u1'' [] [JObj [(''id'', JStr ''c2'')]] stale_page)
   \<and> ''c1'' \<notin> fst ` set (bindable_options (\<lambda>_. None) [JObj [(''id'', JStr ''c2'')]])"
proof -
  have "js_trim ''c1'' = ''c1''" by code_simp
  then show ?thesis
    using stale_choice_is_bound [of stale_page "''u1''" "\<lambda>_. None" "[]" "[JObj [(''id'', JStr ''c2'')]]"]
    by (simp add: stale_page_def blank_users_def bindable_options_def jprop_def obj_get_def)
qed

end
