(* ===== verification/Network_Views.thy ===== *)
theory Network_Views
  imports Firewall Entities Pages Monitoring
begin

section \<open>The firewall pages and their dialog\<close>

text \<open>
  The six rule tables with the buttons of their rows, the bars of the three pages, the dialog of a rule with its two inputs that can be
  chosen from a list or typed, and the dialogs of the effective policy.
\<close>

subsection \<open>Rule tables\<close>

definition filter_cells :: "jsval \<Rightarrow> uitext list" where
  "filter_cells rule =
     [child (jprop rule ''action''), child (jprop rule ''proto''), cell rule ''destination'', error_text (jprop rule ''ports'') (Raw ''*''), cell rule ''note'']"

definition nat_cells :: "jsval \<Rightarrow> uitext list" where
  "nat_cells rule =
     [child (jprop rule ''type''), Raw (if jprop rule ''type'' = JStr ''dnat'' then ''PREROUTING'' else ''POSTROUTING''),
      cell rule ''src'', cell rule ''dst'', cell rule ''outInterface'', cell rule ''toAddress'', cell rule ''note'']"

definition without_rule :: "jsval \<Rightarrow> jsval list \<Rightarrow> jsval list" where
  "without_rule rule xs = filter (\<lambda>x. jprop x ''id'' \<noteq> jprop rule ''id'') xs"

text \<open>A row: its cells, whether it can be dragged, its two buttons.\<close>

type_synonym rule_row = "uitext list \<times> bool \<times> fw_sys widget list"

definition rule_row :: "uitext list \<Rightarrow> bool \<Rightarrow> (fw_sys \<Rightarrow> fw_sys) \<Rightarrow> (fw_sys \<Rightarrow> fw_sys) \<Rightarrow> rule_row" where
  "rule_row cells draggable edit delete =
     (cells, draggable, [Button (Ui ''Edit'') True (Local edit), Button (Ui ''Delete'') True (Local delete)])"

definition server_filter_rows :: "fw_sys \<Rightarrow> rule_row list" where
  "server_filter_rows s = map (\<lambda>r. rule_row (filter_cells r) (\<not> fwLoading s) (openFirewallRuleModal ''server'' r ''tunnel'' ''filter'')
     (\<lambda>s. s\<lparr>tunnelRules := without_rule r (tunnelRules s)\<rparr>)) (tunnelRules s)"

definition server_nat_rows :: "fw_sys \<Rightarrow> rule_row list" where
  "server_nat_rows s = map (\<lambda>r. rule_row (nat_cells r) (\<not> fwLoading s) (openFirewallRuleModal ''server'' r ''tunnel'' ''nat'')
     (\<lambda>s. s\<lparr>tunnelNatRules := without_rule r (tunnelNatRules s)\<rparr>)) (tunnelNatRules s)"

definition org_filter_rows :: "fw_sys \<Rightarrow> rule_row list" where
  "org_filter_rows s = map (\<lambda>r. rule_row (filter_cells r) (\<not> orgFwBusy s) (openFirewallRuleModal ''organization'' r ''tunnel'' ''filter'')
     (\<lambda>s. s\<lparr>org := (org s)\<lparr>rules := without_rule r (rules (org s))\<rparr>\<rparr>)) (rules (org s))"

definition org_nat_rows :: "fw_sys \<Rightarrow> rule_row list" where
  "org_nat_rows s = map (\<lambda>r. rule_row (nat_cells r) (\<not> orgFwBusy s) (openFirewallRuleModal ''organization'' r ''tunnel'' ''nat'')
     (\<lambda>s. s\<lparr>org := (org s)\<lparr>natRules := without_rule r (natRules (org s))\<rparr>\<rparr>)) (natRules (org s))"

definition user_filter_rows :: "fw_sys \<Rightarrow> rule_row list" where
  "user_filter_rows s = map (\<lambda>r. rule_row (filter_cells r) (\<not> userFwBusy s) (openFirewallRuleModal ''user'' r ''tunnel'' ''filter'')
     (\<lambda>s. s\<lparr>user := (user s)\<lparr>rules := without_rule r (rules (user s))\<rparr>\<rparr>)) (rules (user s))"

definition user_nat_rows :: "fw_sys \<Rightarrow> rule_row list" where
  "user_nat_rows s = map (\<lambda>r. rule_row (nat_cells r) (\<not> userFwBusy s) (openFirewallRuleModal ''user'' r ''tunnel'' ''nat'')
     (\<lambda>s. s\<lparr>user := (user s)\<lparr>natRules := without_rule r (natRules (user s))\<rparr>\<rparr>)) (natRules (user s))"

subsection \<open>The bars\<close>

definition new_rule_buttons :: "string \<Rightarrow> fw_sys widget list" where
  "new_rule_buttons sc =
     [Button (Ui ''new rule'') True (Local (openFirewallRuleModal sc JNull ''tunnel'' ''filter'')),
      Button (Ui ''new NAT rule'') True (Local (openFirewallRuleModal sc JNull ''tunnel'' ''nat''))]"

definition apply_text :: "bool \<Rightarrow> uitext" where
  "apply_text busy = (if busy then Ui ''Applying'' else Ui ''Apply'')"

text \<open>Above the tables and below them; \<open>policy\<close> is the press that opens the effective policy.\<close>

definition server_fw_bar :: "fw_sys \<Rightarrow> fw_sys widget list" where
  "server_fw_bar s =
     [Choice (defaultPolicy s) [(''deny'', Ui ''deny all''), (''allow'', Ui ''allow all'')] True (\<lambda>t s. s\<lparr>defaultPolicy := js_or t ''deny''\<rparr>)]
     @ new_rule_buttons ''server''"

definition server_fw_apply :: "string \<Rightarrow> string \<Rightarrow> fw_sys press \<Rightarrow> fw_sys \<Rightarrow> fw_sys widget list" where
  "server_fw_apply auth nodeId policy s =
     [Button (apply_text (fwBusy s)) (\<not> fwBusy s)
          (Launch ''applyServerFirewall'' (one_request (applyServerFirewall_start auth nodeId) (applyServerFirewall_settle s) s)),
        Button (Ui ''effective policy'') True policy]"

definition merge_modes :: "(string \<times> uitext) list" where
  "merge_modes = [(''merge'', Ui ''added to the rules of the tunnel''), (''replace'', Ui ''instead of the rules of the tunnel'')]"

definition org_fw_bar :: "fw_sys \<Rightarrow> fw_sys widget list" where
  "org_fw_bar s =
     [Choice (mode (org s)) merge_modes True (\<lambda>t s. s\<lparr>org := (org s)\<lparr>mode := if t = ''replace'' then ''replace'' else ''merge''\<rparr>\<rparr>)]
     @ new_rule_buttons ''organization''"

definition org_fw_apply :: "string \<Rightarrow> string \<Rightarrow> fw_sys press \<Rightarrow> fw_sys \<Rightarrow> fw_sys widget list" where
  "org_fw_apply auth orgId policy s =
     [Button (apply_text (orgFwBusy s)) (\<not> orgFwBusy s)
          (Launch ''applyOrganizationFirewall'' (one_request (applyOrganizationFirewall_start auth orgId) applyOrganizationFirewall_settle s)),
        Button (Ui ''effective policy'') True policy]"

definition user_fw_bar :: "fw_sys \<Rightarrow> fw_sys widget list" where
  "user_fw_bar s =
     [Choice (mode (user s)) merge_modes True (\<lambda>t s. s\<lparr>user := (user s)\<lparr>mode := if t = ''replace'' then ''replace'' else ''merge''\<rparr>\<rparr>)]
     @ new_rule_buttons ''user''"

definition user_fw_apply :: "string \<Rightarrow> string \<Rightarrow> fw_sys press \<Rightarrow> fw_sys \<Rightarrow> fw_sys widget list" where
  "user_fw_apply auth userId policy s =
     [Button (apply_text (userFwBusy s)) (\<not> userFwBusy s)
          (Launch ''applyUserFirewall'' (one_request (applyUserFirewall_start auth userId) applyUserFirewall_settle s)),
        Button (Ui ''effective policy'') True policy]"

text \<open>The dialog of the effective policy, with a title and a text while it is open.\<close>

definition policy_dialog :: "(uitext \<times> uitext) option \<Rightarrow> (uitext \<times> uitext) option widget list" where
  "policy_dialog m = (case m of None \<Rightarrow> [] | Some (title, content) \<Rightarrow> dialog_frame False (\<lambda>_. None) title @ [Label content])"

subsection \<open>The dialog of a rule\<close>

definition edit_draft :: "(rule_draft \<Rightarrow> rule_draft) \<Rightarrow> fw_sys \<Rightarrow> fw_sys" where
  "edit_draft f s = s\<lparr>ruleModal := (ruleModal s)\<lparr>mrule := f (mrule (ruleModal s))\<rparr>\<rparr>"

definition close_rule :: "fw_sys \<Rightarrow> fw_sys" where
  "close_rule s = s\<lparr>ruleModal := (ruleModal s)\<lparr>mopen := False, merr := NoText\<rparr>\<rparr>"

definition raw_options :: "string list \<Rightarrow> (string \<times> uitext) list" where
  "raw_options ts = map (\<lambda>t. (t, Raw t)) ts"

definition filter_fields :: "rule_draft \<Rightarrow> fw_sys widget list" where
  "filter_fields d =
     [Choice (raction d) (raw_options [''allow'', ''deny'']) True (\<lambda>t. edit_draft (\<lambda>d. d\<lparr>raction := t\<rparr>)),
      Choice (rproto d) (raw_options [''tcp'', ''udp'', ''icmp'', ''any'']) True (\<lambda>t. edit_draft (\<lambda>d. d\<lparr>rproto := t\<rparr>)),
      Field (rdestination d) True (\<lambda>t. edit_draft (\<lambda>d. d\<lparr>rdestination := t\<rparr>)),
      Field (rports d) True (\<lambda>t. edit_draft (\<lambda>d. d\<lparr>rports := t\<rparr>))]"

text \<open>Choosing from the list leaves the field beside it disabled; choosing to type empties and enables it.\<close>

definition MANUAL :: string where
  "MANUAL = ''__manual__''"

definition pick_interface :: "string \<Rightarrow> fw_sys \<Rightarrow> fw_sys" where
  "pick_interface t s =
     (if t = MANUAL then edit_draft (\<lambda>d. d\<lparr>routInterface := []\<rparr>) (s\<lparr>natOutMode := ''manual''\<rparr>)
      else edit_draft (\<lambda>d. d\<lparr>routInterface := t\<rparr>) (s\<lparr>natOutMode := ''preset''\<rparr>))"

definition pick_address :: "string \<Rightarrow> fw_sys \<Rightarrow> fw_sys" where
  "pick_address t s =
     (if t = MANUAL then edit_draft (\<lambda>d. d\<lparr>rtoAddress := []\<rparr>) (s\<lparr>natToMode := ''manual''\<rparr>)
      else edit_draft (\<lambda>d. d\<lparr>rtoAddress := t\<rparr>) (s\<lparr>natToMode := ''preset''\<rparr>))"

definition type_interface :: "string \<Rightarrow> fw_sys \<Rightarrow> fw_sys" where
  "type_interface t = edit_draft (\<lambda>d. d\<lparr>routInterface := t\<rparr>)"

definition type_address :: "string \<Rightarrow> fw_sys \<Rightarrow> fw_sys" where
  "type_address t = edit_draft (\<lambda>d. d\<lparr>rtoAddress := t\<rparr>)"

definition list_or_manual :: "string list \<Rightarrow> (string \<times> uitext) list" where
  "list_or_manual opts = (MANUAL, Ui ''by hand'') # raw_options opts"

definition nat_fields :: "string list \<Rightarrow> string list \<Rightarrow> fw_sys \<Rightarrow> fw_sys widget list" where
  "nat_fields outOptions toOptions s =
     (let d = mrule (ruleModal s) in
      [Choice (rtype d) (raw_options [''masquerade'', ''snat'', ''dnat'']) True (\<lambda>t. edit_draft (\<lambda>d. d\<lparr>rtype := t\<rparr>)),
       Field (rsrc d) True (\<lambda>t. edit_draft (\<lambda>d. d\<lparr>rsrc := t\<rparr>)), Field (rdst d) True (\<lambda>t. edit_draft (\<lambda>d. d\<lparr>rdst := t\<rparr>)),
       Choice (if natOutMode s = ''manual'' then MANUAL else routInterface d) (list_or_manual outOptions) True pick_interface,
       Field (routInterface d) (natOutMode s = ''manual'') type_interface,
       Choice (if natToMode s = ''manual'' then MANUAL else rtoAddress d) (list_or_manual toOptions) True pick_address,
       Field (rtoAddress d) (natToMode s = ''manual'') type_address])"

definition rule_dialog :: "string list \<Rightarrow> string list \<Rightarrow> int \<Rightarrow> fw_sys \<Rightarrow> fw_sys widget list" where
  "rule_dialog outOptions toOptions now s =
     (let m = ruleModal s in
      if mopen m then
        dialog_frame False close_rule (if truthy (meditId m) then Ui ''Editing a rule'' else Ui ''New rule'')
        @ (if mkind m \<noteq> ''nat'' then filter_fields (mrule m) else nat_fields outOptions toOptions s)
        @ [Field (rnote (mrule m)) True (\<lambda>t. edit_draft (\<lambda>d. d\<lparr>rnote := t\<rparr>))] @ alert_if (merr m)
        @ [Button (Ui ''Cancel'') True (Local close_rule), Button (Ui ''Save'') True (Local (submitFirewallRuleModal now))]
      else [])"

text \<open>The dialog stands in the markup twice, for the firewall page of a server and for all other pages.\<close>

definition on_server_firewall :: "string \<Rightarrow> string \<Rightarrow> string \<Rightarrow> bool" where
  "on_server_firewall nav pv tab = (nav = ''servers'' \<and> pv = ''detail'' \<and> tab = ''firewall'')"

definition server_rule_dialog :: "string list \<Rightarrow> string list \<Rightarrow> int \<Rightarrow> string \<Rightarrow> string \<Rightarrow> string \<Rightarrow> fw_sys \<Rightarrow> fw_sys widget list" where
  "server_rule_dialog outOptions toOptions now nav pv tab s =
     (if on_server_firewall nav pv tab then rule_dialog outOptions toOptions now s else [])"

definition other_rule_dialog :: "string list \<Rightarrow> string list \<Rightarrow> int \<Rightarrow> string \<Rightarrow> string \<Rightarrow> string \<Rightarrow> fw_sys \<Rightarrow> fw_sys widget list" where
  "other_rule_dialog outOptions toOptions now nav pv tab s =
     (if on_server_firewall nav pv tab then [] else rule_dialog outOptions toOptions now s)"

subsection \<open>Typing an address\<close>

text \<open>One key typed into the field for the address: while the field is enabled the key is added, then the effect runs.\<close>

definition key_address :: "string list \<Rightarrow> string list \<Rightarrow> char \<Rightarrow> fw_sys \<Rightarrow> fw_sys" where
  "key_address outOptions toOptions c s =
     (if natToMode s = ''manual'' then nat_preset_effect outOptions toOptions (type_address (rtoAddress (mrule (ruleModal s)) @ [c]) s) else s)"

definition typed_state :: "string \<Rightarrow> fw_sys \<Rightarrow> bool" where
  "typed_state t s = (mopen (ruleModal s) \<and> mkind (ruleModal s) = ''nat'' \<and> rtoAddress (mrule (ruleModal s)) = t)"

lemma no_space_trim: "list_all (\<lambda>c. \<not> is_space c) t \<Longrightarrow> js_trim t = t"
  by (cases "t = []") (simp_all add: js_trim_iff list_all_iff)

lemma key_typed:
  assumes "typed_state t s" and "natToMode s = ''manual''" and "list_all (\<lambda>c. \<not> is_space c) (t @ [c])"
  shows "typed_state (t @ [c]) (key_address outOptions toOptions c s)
    \<and> natToMode (key_address outOptions toOptions c s) = (if t @ [c] \<in> set toOptions then ''preset'' else ''manual'')"
  using assms no_space_trim [of "t @ [c]"]
  by (simp add: typed_state_def key_address_def type_address_def edit_draft_def nat_preset_effect_def Let_def)

lemma keys_typed:
  assumes "typed_state [] s" and "natToMode s = ''manual''" and "list_all (\<lambda>c. \<not> is_space c) t"
    and "\<And>i. 0 < i \<Longrightarrow> i \<le> length t \<Longrightarrow> take i t \<notin> set toOptions"
  shows "typed_state t (fold (key_address outOptions toOptions) t s) \<and> natToMode (fold (key_address outOptions toOptions) t s) = ''manual''"
  using assms(3,4)
proof (induction t rule: rev_induct)
  case Nil
  then show ?case using assms(1,2) by simp
next
  case (snoc c t)
  have "take i t \<notin> set toOptions" if "0 < i" "i \<le> length t" for i
    using snoc.prems(2) [of i] that by simp
  then have "typed_state t (fold (key_address outOptions toOptions) t s) \<and> natToMode (fold (key_address outOptions toOptions) t s) = ''manual''"
    using snoc.IH snoc.prems(1) by simp
  moreover have "t @ [c] \<notin> set toOptions" using snoc.prems(2) [of "Suc (length t)"] by simp
  ultimately show ?case using key_typed [of t _ c outOptions toOptions] snoc.prems(1) by simp
qed

lemma preset_ignores_keys: "natToMode s \<noteq> ''manual'' \<Longrightarrow> fold (key_address outOptions toOptions) q s = s"
  by (induction q) (simp_all add: key_address_def)

subsection \<open>Properties\<close>

text \<open>C23: An address that begins with a known one cannot be typed: as soon as the keys typed so far are an entry of the list, the effect takes the
  field for a choice from the list and disables it, and the rest of the keys is lost.\<close>

theorem known_prefix_stops_typing:
  fixes p q :: string and outOptions toOptions :: "string list" and s :: fw_sys
  assumes "typed_state [] s" and "natToMode s = ''manual''" and "p \<in> set toOptions" and "list_all (\<lambda>c. \<not> is_space c) p" and "p \<noteq> []"
    and "list_all (\<lambda>i. take i p \<notin> set toOptions) [1..<length p]"
  defines "s' \<equiv> fold (key_address outOptions toOptions) (p @ q) s"
  shows "rtoAddress (mrule (ruleModal s')) = p \<and> natToMode s' = ''preset''
    \<and> last (nat_fields outOptions toOptions s') = Field p False type_address"
proof -
  obtain t c where p: "p = t @ [c]" using assms(5) by (cases p rule: rev_cases) auto
  have "take i t \<notin> set toOptions" if "0 < i" "i \<le> length t" for i
    using assms(6) that by (auto simp: p list_all_iff)
  then have "typed_state t (fold (key_address outOptions toOptions) t s) \<and> natToMode (fold (key_address outOptions toOptions) t s) = ''manual''"
    using keys_typed [OF assms(1,2), of t toOptions outOptions] assms(4) by (simp add: p)
  then have "typed_state p (fold (key_address outOptions toOptions) p s) \<and> natToMode (fold (key_address outOptions toOptions) p s) = ''preset''"
    using key_typed [of t _ c outOptions toOptions] assms(3,4) by (simp add: p)
  then show ?thesis by (simp add: s'_def preset_ignores_keys typed_state_def nat_fields_def Let_def)
qed

text \<open>A new NAT rule of a server whose address \<open>10.8.0.1\<close> is known, and the address \<open>10.8.0.10\<close> typed in.\<close>

definition new_nat_rule :: fw_sys where
  "new_nat_rule = openFirewallRuleModal ''server'' JNull ''tunnel'' ''nat'' blank_fw"

theorem known_prefix_stops_typing_witness:
  "rtoAddress (mrule (ruleModal (fold (key_address [] [''10.8.0.1'']) ''10.8.0.10'' new_nat_rule))) = ''10.8.0.1''"
proof -
  have "list_all (\<lambda>c. \<not> is_space c) ''10.8.0.1''" "list_all (\<lambda>i. take i ''10.8.0.1'' \<notin> set [''10.8.0.1'']) [1..<length ''10.8.0.1'']"
    "typed_state [] new_nat_rule" "natToMode new_nat_rule = ''manual''"
    by code_simp+
  then show ?thesis
    using known_prefix_stops_typing [of new_nat_rule "''10.8.0.1''" "[''10.8.0.1'']" "[]" "''0''"] by simp
qed

end
