(* ===== verification/Entity_Views.thy ===== *)
theory Entity_Views
  imports Entities Dnsmasq Session Page_Shell Monitoring Pages
begin

section \<open>Sign-in, servers, organizations, the DNS page and the logs\<close>

text \<open>What these pages show and offer: the two steps of the sign-in, rows and forms, the DNS editor, the rows of the three logs.\<close>

subsection \<open>Signing in\<close>

text \<open>The form of the name and the password, which are fields of their own, and the dialog for the second factor.\<close>

definition login_form :: "string \<Rightarrow> string \<Rightarrow> session_sys press \<Rightarrow> session_sys \<Rightarrow> (string \<times> string) widget list \<times> session_sys widget list" where
  "login_form name pass login s =
     ([Field name (\<not> mfaOpen s) (\<lambda>t p. (t, snd p)), Field pass (\<not> mfaOpen s) (\<lambda>t p. (fst p, t))],
      alert_if (signError s) @ [Button (Ui ''Sign in'') (\<not> mfaOpen s) login])"

definition submit_mfa :: "int \<Rightarrow> session_sys \<Rightarrow> session_sys script" where
  "submit_mfa now s = one_request submitMfaLogin_start (submitMfaLogin_settle now) s"

text \<open>The click beside the dialog and its cross close it also while a code is being checked; only its cancel button waits.\<close>

definition mfa_dialog :: "int \<Rightarrow> session_sys \<Rightarrow> session_sys widget list" where
  "mfa_dialog now s =
     (let idle = \<not> mfaBusy s in
      if mfaOpen s then
        dialog_frame False closeMfaModal (Ui ''Second factor'')
        @ [Field (mfaTotpCode s) idle (\<lambda>t s. s\<lparr>mfaTotpCode := t\<rparr>), Field (mfaRecoveryCode s) idle (\<lambda>t s. s\<lparr>mfaRecoveryCode := t\<rparr>)]
        @ alert_if (mfaError s)
        @ [Button (if idle then Ui ''Confirm and sign in'' else Ui ''Checking'') idle (Launch ''submitMfaLogin'' (submit_mfa now s)),
           Button (Ui ''Cancel'') idle (Local closeMfaModal)]
      else [])"

subsection \<open>Servers\<close>

definition rounded_percent :: "jsval \<Rightarrow> string" where
  "rounded_percent v = to_str (JNum (js_round (to_num (if truthy v then v else JNum (Dec 0 0))))) @ ''%''"

text \<open>A row of the list: its cells, whether the server is marked as running, the page it opens.\<close>

definition server_row :: "jsval \<Rightarrow> uitext list \<times> bool \<times> string" where
  "server_row v =
     (let online = js_upper (str_or (jprop v ''status'')) = ''ONLINE'';
          addr = (if jprop v ''host'' \<noteq> JUndef \<and> jprop v ''host'' \<noteq> JNull
            then Raw ((if truthy (jprop v ''protocol'') then to_str (jprop v ''protocol'') else ''http'') @ ''://'' @ to_str (jprop v ''host'') @ '':''
              @ str_nullish (jprop v ''port'')) else dash);
          active = jprop v ''activeClients''
      in ([child (jprop v ''name''), if online then Ui ''Running'' else error_text (jprop v ''status'') (Ui ''Unknown''), addr,
           Raw (rounded_percent (jprop v ''cpuPercent'')), Raw (rounded_percent (jprop v ''memoryPercent'')),
           Raw (formatBps (jprop v ''networkOutBps'') @ '' '' @ formatBps (jprop v ''networkInBps'')),
           if active = JUndef \<or> active = JNull then Raw ''0'' else child active],
          online, paths_serverDetail (to_str (jprop v ''id'')) ''overview''))"

definition server_overview :: "(jsval \<Rightarrow> string option) \<Rightarrow> (jsval \<Rightarrow> uitext) \<Rightarrow> jsval \<Rightarrow> (uitext \<times> uitext) list" where
  "server_overview local_date status_label v =
     [(Ui ''address of the agent'', Raw (fst (serverAgentSummary v))), (Ui ''version of the agent'', cell v ''agentVersion''),
      (Ui ''connection'', error_text (jprop v ''status'') (Ui ''Unknown'')),
      (Ui ''last metrics'', Raw (formatMaybeDate local_date (jprop v ''lastSeenAt''))), (Ui ''OpenVPN'', status_label v),
      (Ui ''service'', Cat (cell v ''openvpnServiceActiveState'') (Cat (Raw '' / '') (Cat (cell v ''openvpnServiceSubState'')
         (if num_positive (to_num (jprop v ''openvpnServiceMainPid'')) then Raw ('' PID '' @ to_str (jprop v ''openvpnServiceMainPid'')) else NoText)))),
      (Ui ''version'', cell v ''openvpnVersion''), (Ui ''build'', cell v ''openvpnBuild''), (Ui ''binary'', cell v ''openvpnBinaryPath''),
      (Ui ''configuration'', cell v ''openvpnConfigPath''), (Ui ''log file'', cell v ''openvpnServerLogPath''),
      (Ui ''unit'', cell v ''openvpnServiceUnit''), (Ui ''active since'', cell v ''openvpnServiceActiveSince''),
      (Ui ''last poll'', Raw (formatMaybeDate local_date (jprop v ''openvpnInfoSeenAt''))), (Ui ''management'', cell v ''openvpnManagementAddr'')]
     @ (if truthy (jprop v ''openvpnInfoError'') then [(Ui ''error'', child (jprop v ''openvpnInfoError''))] else [])"

definition edit_node :: "(node_form \<Rightarrow> node_form) \<Rightarrow> entity_page \<Rightarrow> entity_page" where
  "edit_node f s = s\<lparr>newNode := f (newNode s)\<rparr>"

definition new_server_form :: "entity_page \<Rightarrow> entity_page widget list" where
  "new_server_form s =
     (let f = newNode s in
      [Field (nName f) True (\<lambda>t. edit_node (\<lambda>f. f\<lparr>nName := t\<rparr>)),
       Choice (nProtocol f) [(''http'', Raw ''http''), (''https'', Raw ''https'')] True (\<lambda>t. edit_node (\<lambda>f. f\<lparr>nProtocol := t\<rparr>)),
       Field (nHost f) True (\<lambda>t. edit_node (\<lambda>f. f\<lparr>nHost := t\<rparr>)), Field (nPort f) True (\<lambda>t. edit_node (\<lambda>f. f\<lparr>nPort := number_text t\<rparr>)),
       Field (nAuthToken f) True (\<lambda>t. edit_node (\<lambda>f. f\<lparr>nAuthToken := t\<rparr>)),
       Button (Ui ''Add the agent'') (nName f \<noteq> [] \<and> nHost f \<noteq> [] \<and> number_required 1 (Some 65535) (nPort f) \<and> nAuthToken f \<noteq> []) (Launch ''createNode'' (createNode s))])"

subsection \<open>Organizations\<close>

definition organization_row :: "jsval \<Rightarrow> uitext list \<times> entity_page press" where
  "organization_row v =
     (child (jprop v ''name'') # map (cell v) [''inn'', ''legalAddress'', ''generalDirector'', ''phone'', ''email''],
      Local (openOrganizationEdit (to_str (jprop v ''id''))))"

definition edit_new_org :: "(org_form \<Rightarrow> org_form) \<Rightarrow> entity_page \<Rightarrow> entity_page" where
  "edit_new_org f s = s\<lparr>newOrganization := f (newOrganization s)\<rparr>"

definition new_organization_form :: "entity_page \<Rightarrow> entity_page widget list" where
  "new_organization_form s =
     (let f = newOrganization s in
      [Field (fName f) True (\<lambda>t. edit_new_org (\<lambda>f. f\<lparr>fName := t\<rparr>)), Field (fInn f) True (\<lambda>t. edit_new_org (\<lambda>f. f\<lparr>fInn := t\<rparr>)),
       Field (fLegalAddress f) True (\<lambda>t. edit_new_org (\<lambda>f. f\<lparr>fLegalAddress := t\<rparr>)),
       Field (fGeneralDirector f) True (\<lambda>t. edit_new_org (\<lambda>f. f\<lparr>fGeneralDirector := t\<rparr>)),
       Field (fPhone f) True (\<lambda>t. edit_new_org (\<lambda>f. f\<lparr>fPhone := t\<rparr>)), Field (fEmail f) True (\<lambda>t. edit_new_org (\<lambda>f. f\<lparr>fEmail := email_text t\<rparr>)),
       Button (Ui ''Save the organization'') (fName f \<noteq> [] \<and> email_valid (fEmail f)) (Launch ''createOrganization'' (createOrganization s))])"

definition edit_org_card :: "(org_card \<Rightarrow> org_card) \<Rightarrow> entity_page \<Rightarrow> entity_page" where
  "edit_org_card f s = s\<lparr>entity_page.editOrganization := f (entity_page.editOrganization s)\<rparr>"

definition organization_form :: "entity_page \<Rightarrow> entity_page widget list" where
  "organization_form s =
     (let f = entity_page.editOrganization s in
      [Field (ocName f) True (\<lambda>t. edit_org_card (\<lambda>f. f\<lparr>ocName := t\<rparr>)), Field (ocInn f) True (\<lambda>t. edit_org_card (\<lambda>f. f\<lparr>ocInn := t\<rparr>)),
       Field (ocLegalAddress f) True (\<lambda>t. edit_org_card (\<lambda>f. f\<lparr>ocLegalAddress := t\<rparr>)),
       Field (ocGeneralDirector f) True (\<lambda>t. edit_org_card (\<lambda>f. f\<lparr>ocGeneralDirector := t\<rparr>)),
       Field (ocPhone f) True (\<lambda>t. edit_org_card (\<lambda>f. f\<lparr>ocPhone := t\<rparr>)), Field (ocEmail f) True (\<lambda>t. edit_org_card (\<lambda>f. f\<lparr>ocEmail := email_text t\<rparr>)),
       Button (Ui ''Save the changes'') (ocName f \<noteq> [] \<and> email_valid (ocEmail f)) (Launch ''updateOrganization'' (updateOrganization s))])"

subsection \<open>The DNS page\<close>

definition dns_summary :: "jsval \<Rightarrow> uitext" where
  "dns_summary r =
     (let t = jprop r ''type''; part = (\<lambda>l k. Cat (Raw l) (cell r k)) in
      if t = JStr ''domain-resolver'' then Cat (part ''domain='' ''domain'') (part '', dns='' ''targetDns'')
      else if t = JStr ''cache'' then part ''cache-size='' ''cacheSize''
      else if t = JStr ''ip-override'' then Cat (part ''domain='' ''domain'') (part '', ip='' ''ip'')
      else if t = JStr ''arbitrary-address'' then part ''ip='' ''ip''
      else if t = JStr ''forward'' then part ''dns='' ''targetDns''
      else if t = JStr ''hosts-file'' then part ''path='' ''path''
      else if t = JStr ''listen-interface'' then part ''interface='' ''iface''
      else NoText)"

definition dns_table_row :: "jsval \<Rightarrow> uitext list \<times> dns_page widget list" where
  "dns_table_row r =
     ([dnsTypeLabel (jprop r ''type''), dns_summary r],
      [Button (Ui ''Edit'') True (Local (\<lambda>s. s\<lparr>modal := openDnsRuleModal (Some r)\<rparr>)),
       Button (Ui ''Delete'') True (Local (\<lambda>s. s\<lparr>rows := filter (\<lambda>x. jprop x ''id'' \<noteq> jprop r ''id'') (rows s)\<rparr>))])"

definition dns_types :: "(string \<times> uitext) list" where
  "dns_types = [(''domain-resolver'', Ui ''another DNS server for a domain''), (''cache'', Ui ''caching''), (''ip-override'', Ui ''other IP addresses''),
     (''arbitrary-address'', Ui ''any address''), (''forward'', Ui ''forward to another server''), (''hosts-file'', Ui ''hosts file''),
     (''listen-interface'', Ui ''interfaces to listen on'')]"

definition change_dns_type :: "string \<Rightarrow> dns_page \<Rightarrow> dns_page" where
  "change_dns_type v s =
     (let t = js_or v ''domain-resolver'' in s\<lparr>modal := (modal s)\<lparr>mtype := t, mdraft := newDnsRuleDraftByType t, merror := NoText\<rparr>\<rparr>)"

definition dns_inputs :: "string \<Rightarrow> string list" where
  "dns_inputs t =
     (if t = ''domain-resolver'' then [''domain'', ''targetDns''] else if t = ''cache'' then [''cacheSize'']
      else if t = ''ip-override'' then [''domain'', ''ip''] else if t = ''arbitrary-address'' then [''ip'']
      else if t = ''forward'' then [''targetDns''] else if t = ''hosts-file'' then [''path'']
      else if t = ''listen-interface'' then [''iface''] else [])"

definition type_dns_field :: "string \<Rightarrow> string \<Rightarrow> dns_page \<Rightarrow> dns_page" where
  "type_dns_field k t s = s\<lparr>modal := (modal s)\<lparr>mdraft := obj_put (mdraft (modal s)) k (JStr t)\<rparr>\<rparr>"

definition dns_dialog :: "int \<Rightarrow> dns_page \<Rightarrow> dns_page widget list" where
  "dns_dialog now s =
     (let m = modal s; close = (\<lambda>s. s\<lparr>modal := closed_dns_modal\<rparr>) in
      if dopen m then
        dialog_frame False close (if editId m \<noteq> [] then Ui ''Editing a DNS rule'' else Ui ''New DNS rule'')
        @ [Choice (mtype m) dns_types (editId m = []) change_dns_type]
        @ map (\<lambda>k. Field (str_or (obj_get (mdraft m) k)) True (type_dns_field k)) (dns_inputs (mtype m))
        @ alert_if (merror m)
        @ [Button (Ui ''Cancel'') True (Local close), Button (Ui ''Save'') True (Local (submitDnsRuleModal now))]
      else [])"

definition dns_bar :: "string \<Rightarrow> string \<Rightarrow> dns_sys \<Rightarrow> dns_sys widget list" where
  "dns_bar auth nodeId s =
     [Button (if dnsApplyBusy s then Ui ''Queueing'' else Ui ''Apply'') (\<not> dnsApplyBusy s)
        (Launch ''submitEnqueueDnsmasqApply'' (one_request (submitEnqueueDnsmasqApply_start auth nodeId) submitEnqueueDnsmasqApply_settle s))]
     @ (if shown (queueMessage s) then [Label (queueMessage s)] else []) @ alert_if (dnsError s)"

subsection \<open>The logs\<close>

text \<open>The user of a row of a connection log, with the page its button opens; rows; the text of an empty table; \<open>words\<close> writes a duration.\<close>

definition log_user :: "jsval \<Rightarrow> uitext \<times> string option" where
  "log_user item =
     (let u = jprop item ''vpnUserId'' in
      if truthy u then (error_text (jprop item ''vpnUserFullName'') (error_text (jprop item ''vpnUserEmail'') (Ui ''profile'')),
          Some (paths_userProfile (to_str u) ''overview''))
      else (dash, None))"

definition log_node :: "jsval \<Rightarrow> uitext" where
  "log_node item = (let v = jprop (jprop item ''agentNode'') ''name'' in if v = JUndef \<or> v = JNull then dash else child v)"

definition log_vpn_row ::
  "((int \<times> time_unit) list option \<Rightarrow> string) \<Rightarrow> (jsval \<Rightarrow> int option) \<Rightarrow> int \<Rightarrow> jsval \<Rightarrow> uitext list \<times> string option" where
  "log_vpn_row words time_of now item =
     ([fst (log_user item), log_node item, child (jprop item ''commonName''), child (jprop item ''virtualIp''), child (jprop item ''connectedAt''),
       Raw (words (formatDurationSeconds (clientIpAssignmentDurationSeconds time_of now item)))], snd (log_user item))"

definition log_src_row ::
  "((int \<times> time_unit) list option \<Rightarrow> string) \<Rightarrow> (jsval \<Rightarrow> int option) \<Rightarrow> int \<Rightarrow> jsval \<Rightarrow> uitext list \<times> string option" where
  "log_src_row words time_of now item =
     ([fst (log_user item), log_node item, child (jprop item ''commonName''), Raw (remoteAddrHostOnlyDisplay (jprop item ''realIp'')),
       cell item ''connectedAt'', Raw (words (formatDurationSeconds (clientSourceHistoryDurationSeconds time_of now item)))], snd (log_user item))"

definition log_admin_row :: "(jsval \<Rightarrow> string option) \<Rightarrow> jsval \<Rightarrow> (uitext \<times> string) list" where
  "log_admin_row local_date item =
     map (\<lambda>t. (t, [])) [Raw (formatMaybeDate local_date (jprop item ''createdAt'')),
        error_text (jprop item ''adminUsername'') (cell (jprop item ''admin'') ''username'')]
     @ [(if truthy (jprop item ''method'') then Raw (js_upper (to_str (jprop item ''method''))) else dash, adminLogMethodClass (jprop item ''method''))]
     @ map (\<lambda>t. (t, [])) [cell item ''action'', child (jprop item ''path''), cell item ''ipAddress'']
     @ [(child (jprop item ''statusCode''), adminLogStatusClass (jprop item ''statusCode''))]"

definition no_log_rows :: "string \<Rightarrow> uitext" where
  "no_log_rows query = (if js_trim query \<noteq> [] then Ui ''no entries for this query'' else Ui ''no entries'')"

subsection \<open>Properties\<close>

text \<open>C37: Closing the dialog for the second factor does not cancel the sign-in: while the code is being checked its cross still closes it, and
  when the answer comes the administrator is signed in all the same.\<close>

theorem closed_mfa_signs_in:
  assumes "mfaOpen s" and "mfaPendingToken s \<noteq> []" and "\<not> mfaBusy s" and "token_of r \<noteq> []"
    and "advance (submit_mfa now s) s = (s1, k)" and "resume k (Inr r) (closeMfaModal s1) = (s2, k2)"
  shows "Launch ''submitMfaLogin'' (submit_mfa now s) \<in> offered (mfa_dialog now s) \<and> mfaBusy s1
    \<and> Local closeMfaModal \<in> offered (mfa_dialog now s1) \<and> offered (mfa_dialog now (closeMfaModal s1)) = {} \<and> token s2 = token_of r"
  using assms
  by (auto simp: submit_mfa_def one_request_def submitMfaLogin_start_def submitMfaLogin_settle_def mfa_dialog_def closeMfaModal_def dialog_frame_def
      Let_def)

text \<open>The dialog of a DNS rule asks for what its type needs: a rule of a listed type is accepted exactly when each of the fields the
  dialog shows for this type has a text that is not blank.\<close>

theorem dns_dialog_asks_for_required:
  assumes "mtype (modal s) \<in> fst ` set dns_types"
  shows "(modal (submitDnsRuleModal now s) = closed_dns_modal)
    = list_all (\<lambda>k. js_trim (str_or (obj_get (mdraft (modal s)) k)) \<noteq> []) (dns_inputs (mtype (modal s)))"
proof -
  have "requiredOk (mtype (modal s)) (mdraft (modal s))
      = list_all (\<lambda>k. js_trim (str_or (obj_get (mdraft (modal s)) k)) \<noteq> []) (dns_inputs (mtype (modal s)))"
    using assms by (auto simp: dns_types_def requiredOk_def dns_inputs_def draft_text_def)
  moreover have "m\<lparr>merror := Ui t\<rparr> \<noteq> closed_dns_modal" for m t
  proof
    assume "m\<lparr>merror := Ui t\<rparr> = closed_dns_modal"
    then have "merror (m\<lparr>merror := Ui t\<rparr>) = merror closed_dns_modal" by simp
    then show False by (simp add: closed_dns_modal_def)
  qed
  ultimately show ?thesis by (simp add: submitDnsRuleModal_def Let_def)
qed

definition mfa_page :: session_sys where
  "mfa_page = signed_out\<lparr>mfaOpen := True, mfaPendingToken := ''p''\<rparr>"

theorem closed_mfa_signs_in_witness:
  "token (fst (resume (snd (advance (submit_mfa 5 mfa_page) mfa_page)) (Inr (JObj [(''token'', JStr ''t'')]))
     (closeMfaModal (fst (advance (submit_mfa 5 mfa_page) mfa_page))))) = ''t''"
proof -
  have t: "token_of (JObj [(''token'', JStr ''t'')]) = ''t''" by (simp add: token_of_def str_prop_def jprop_def obj_get_def)
  then have "token_of (JObj [(''token'', JStr ''t'')]) \<noteq> []" by simp
  from closed_mfa_signs_in [OF _ _ _ this surjective_pairing surjective_pairing, where s = mfa_page and now = 5] t
  show ?thesis by (simp add: mfa_page_def signed_out_def)
qed

theorem dns_dialog_asks_for_required_witness:
  "modal (submitDnsRuleModal 7 (empty_dns_page\<lparr>modal := openDnsRuleModal None\<rparr>)) \<noteq> closed_dns_modal"
  using dns_dialog_asks_for_required [of "empty_dns_page\<lparr>modal := openDnsRuleModal None\<rparr>" 7]
  by (simp add: openDnsRuleModal_def dns_types_def dns_inputs_def newDnsRuleDraftByType_def obj_get_def str_or_def)

end
