(* ===== verification/Spec2Isabelle.thy ===== *)
theory Spec2Isabelle
  imports Routes Panel_Data Http Line_Diff Settings Tables Dnsmasq Drafts Firewall Session Node_Config Certificates Users Admins Backups
    Time_Format Vpn_Sessions Services Entities Navigation Page_Shell Cert_Materials Node_Materials Monitoring
    Pages Form_Fields Admin_Views Settings_Views Service_Views Cert_Views Node_Views User_Views
    Network_Views Entity_Views
begin

text \<open>
  Verification of the openvpn-control panel, the single-page application under \<^verbatim>\<open>src/frontend/src\<close>. Unqualified file names
  below are relative to that directory, and functions without a file are of \<^verbatim>\<open>App.tsx\<close>.

  \<^bold>\<open>The program.\<close> An administrator signs in and gets a token. The address bar selects a page; the entities the page needs are
  polled from the backend and kept in lists; effects load what only one page needs; drafts are filled from those lists and edited;
  handlers send what was edited and reload. A node is an OpenVPN server with an agent, which the panel reaches through the backend.
  The backend is not part of this development: it is the function that answers each request, or the answer handed to a definition.

  \<^bold>\<open>Foundations.\<close>
  \<^item> \<open>Js_Prelude\<close>: JavaScript values, objects as ordered property lists, numbers as decimals, coercions, \<^verbatim>\<open>trim\<close>, \<^verbatim>\<open>split\<close>,
    array functions; the locale \<open>js_object\<close> states the laws of property access. \<open>Uri\<close>: URI encoding, query strings. \<open>Base64\<close>:
    \<^verbatim>\<open>btoa\<close>, \<^verbatim>\<open>atob\<close>, UTF-8, \<^verbatim>\<open>uint8ArrayToBase64\<close>.
  \<^item> \<open>Actions\<close>: the shape of a handler with one request: guards, the part before it, the part after the answer; the
    locale \<open>async_action\<close> gives idleness once for all of them. \<open>Scripts\<close>: handlers with several requests, as programs run by \<open>exec\<close>
    against a server and an environment that changes the state at every wait; the locales \<open>dialog\<close> and \<open>finally_idle\<close>.
  \<^item> \<open>Effects\<close>: the effect with a \<^verbatim>\<open>cancelled\<close> flag as a step system over renders, timers and late answers; the locale
    \<open>loading_effect\<close> proves that the page shows the answer to its own request. Every loader of the panel that has the flag interprets it.

  \<^bold>\<open>Components.\<close>
  \<^item> \<open>Routes\<close> (\<^verbatim>\<open>appRoutes.ts\<close>): \<^verbatim>\<open>paths\<close> and \<^verbatim>\<open>parseAppRoute\<close>; round trips of links, known tabs, the throw on a malformed escape.
    \<open>Navigation\<close>: the side rail and the tab bars; each entry leads to the page it is marked on. \<open>Page_Shell\<close>: titles, breadcrumbs,
    the sections of a server, paging resets, log searches.
  \<^item> \<open>Http\<close> (\<^verbatim>\<open>apiConfig.ts\<close>, \<^verbatim>\<open>request\<close>, \<^verbatim>\<open>postJsonWithUploadProgress\<close>): the outcome of every answer, progress, settlement.
  \<^item> \<open>Panel_Data\<close> (\<^verbatim>\<open>panelData.ts\<close>, \<^verbatim>\<open>refreshPanelData\<close>, \<^verbatim>\<open>loadData\<close>): what is polled when, one fetch in flight, all or nothing.
    \<open>Drafts\<close>: hydration of forms by polls, the locale \<open>hydrate_once\<close>. \<open>Tables\<close>: paging, drag and drop, sorting, the locale \<open>keyed_rows\<close>.
  \<^item> \<open>Session\<close>: sign-in with second factor, refresh, expiry, logout. \<open>Admins\<close>: administrators and the own profile. \<open>Backups\<close>.
  \<^item> \<open>Settings_Meta\<close> (\<^verbatim>\<open>openvpnServerSettingsMeta.ts\<close>, \<^verbatim>\<open>openvpnClientSettingsMeta.ts\<close>), \<open>Settings\<close>: the catalogue, the payloads,
    \<^verbatim>\<open>server.conf\<close> and the client profile. \<open>Line_Diff\<close>: \<^verbatim>\<open>lineDiffLcs\<close> with its table, projections, optimality, termination.
    \<open>Node_Config\<close>: the settings page of a node, versions, the diff that is applied. \<open>Dnsmasq\<close>: the DNS editor. \<open>Services\<close>:
    services, journal, tasks, the configuration check and the agent update. \<open>Entities\<close>: servers, organizations, the NAT dialog's choices.
  \<^item> \<open>Cert_Selection\<close>, \<open>Certificates\<close>, \<open>Cert_Materials\<close>, \<open>Node_Materials\<close>: which certificate is shown and offered, day limits, every
    certificate dialog, summaries, downloads, DH and tls-auth material.
  \<^item> \<open>Users\<close>: creation, profile, binding and issuing certificates, connection profiles. \<open>Firewall\<close>: rule tables and their dialog.
    \<open>Vpn_Sessions\<close>: live and stored sessions, ending one. \<open>Time_Format\<close>: durations, instants, addresses.
    \<open>Monitoring\<close> (\<^verbatim>\<open>MonitoringCharts.tsx\<close>, \<^verbatim>\<open>monitoringTime.ts\<close>): samples, scales, legends, number formats.

  \<^bold>\<open>Pages.\<close> \<open>Pages\<close> gives the markup a meaning: a part of a page is a function from the state to a list of widgets, an enabled widget
  offers presses, and handlers started by presses are parked at their waits and go on, side by side and in any order, as answers arrive.
  Every end of a parked handler is a run of \<open>exec\<close> against some environment, so what \<open>Scripts\<close> shows holds on the page. The locales
  \<open>busy_lock\<close> (a mark that lets one handler of a kind run at a time) and \<open>frozen_dialog\<close> (a dialog that offers nothing while it is busy)
  are interpreted on the dialogs of the program. What a browser makes of fields for numbers and addresses, and when it lets a form through, is
  taken from the HTML standard.
  \<^item> \<open>Form_Fields\<close>: the controls of the settings forms. \<open>Admin_Views\<close>, \<open>Settings_Views\<close>: the own profile, administrators and
    backups. \<open>Service_Views\<close>: services, tasks, units, the agent, the journal and the rows of sessions. \<open>Cert_Views\<close>: the certificate tab
    of a server, its certification centre and their dialogs. \<open>Node_Views\<close>: the configuration pages of a server. \<open>User_Views\<close>: the list,
    the forms and the certificates of users. \<open>Network_Views\<close>: the rule tables of the three firewall pages, their bars and the dialog of a rule.
    \<open>Entity_Views\<close>: the sign-in with its second step, servers, organizations, the DNS page and the logs.

  \<^bold>\<open>State and operations.\<close> A page's state is a record with the names of the \<^verbatim>\<open>useState\<close> hooks it reads and sets; a handler \<open>f\<close> with
  one request is a pair \<open>f_start\<close>, \<open>f_settle\<close>, one with several a script, and takes the state of the render it was made in beside the
  one it changes, so that stale closures are stale in the model. Setters that take a function read the current state. A thrown error is
  the left side of a sum, its text a value of type \<open>ui_text\<close>.

  \<^bold>\<open>Loops and bounds.\<close> There is no fuel. Loops are structural recursion or \<open>function\<close> with a termination proof; the two
  \<^verbatim>\<open>while\<close> loops of the diff are also given as \<open>while_option\<close> and shown to end. Numbers are decimals of any size, where the program has
  binary fractions: no rounding is modelled except the one \<^verbatim>\<open>toFixed\<close>, \<^verbatim>\<open>Math.ceil\<close> and \<^verbatim>\<open>Math.round\<close> make.

  \<^bold>\<open>Parameters.\<close> \<open>time_of\<close> is \<^verbatim>\<open>Date.parse\<close>, \<open>lc\<close> is \<^verbatim>\<open>localeCompare\<close>, \<open>show_date\<close> and \<open>local_date\<close> are \<^verbatim>\<open>toLocaleString\<close>,
  \<open>hostname_of\<close> is the host of \<^verbatim>\<open>new URL\<close>, \<open>digest\<close> is \<^verbatim>\<open>crypto.subtle.digest\<close>; the clock is an argument. Properties hold for every
  choice of them unless they name a hypothesis. Values that a
  \<^verbatim>\<open>useMemo\<close> computes from the clock are those of the moment, and writing to \<^verbatim>\<open>localStorage\<close> succeeds (the program
  ignores it when it does not). Strings are Latin-1 characters. Literals of the interface are given in English.

  \<^bold>\<open>Not modelled.\<close> The layout of elements, styles, icons, the canvas of uPlot, the preview of a dragged row, and
  \<^verbatim>\<open>DocumentationPage.tsx\<close>, which is fixed text; of the pages that have no view here, where markup decides something (a disabled
  button, a list of entries, an opener or closer of a dialog) the decision is modelled with its handler. \<^verbatim>\<open>main.tsx\<close> and \<^verbatim>\<open>vite.config.ts\<close> only name
  libraries. The backend is another program.
\<close>

end
